(* ===== verification/Prelude.thy ===== *)
theory Prelude
  imports Main
begin

text \<open>
  Shared vocabulary of the development: the Python exceptions the translator raises
  (as the left side of a sum), a bind on results, Python's list slicing and indexing,
  and the generic lemmas on them that the component theories use through the
  \<open>py_simps\<close> collection.
\<close>

named_theorems py_simps "evaluation rules of the Python helpers modelled here"

section \<open>Python exceptions as values\<close>

text \<open>
  Every \<open>throw(...)\<close>, \<open>raise\<close> and failing \<open>assert\<close> of the source becomes an
  \<open>Inl\<close> of this type; the string keeps the message where the code gives one.
  \<open>OutOfFuel\<close> is not a Python exception: it is the value of a fuelled model whose
  fuel ran out, and the termination lemmas show that enough fuel never yields it.
\<close>

datatype py_error =
    TypeError string
  | NotImplementedError string
  | TranslationError string
  | AttributeError string
  | IncomparableTypesError
  | IndexError
  | KeyError
  | AssertionError
  | OptimizationFailed
  | OutOfFuel
  | ValueError string
  | PathError string
  | Http404

type_synonym 'a result = "py_error + 'a"

definition rbind :: "'a result \<Rightarrow> ('a \<Rightarrow> 'b result) \<Rightarrow> 'b result" where
  "rbind r f = (case r of Inl e \<Rightarrow> Inl e | Inr a \<Rightarrow> f a)"

text \<open>A Python list comprehension whose body may raise: the first exception wins.\<close>

fun rmap :: "('a \<Rightarrow> 'b result) \<Rightarrow> 'a list \<Rightarrow> 'b list result" where
  "rmap f [] = Inr []"
| "rmap f (x # xs) = rbind (f x) (\<lambda>y. rbind (rmap f xs) (\<lambda>ys. Inr (y # ys)))"

section \<open>Python slicing and indexing\<close>

text \<open>
  \<open>xs[a:b]\<close> with no step: a missing bound is the start or the end, a negative bound
  counts from the end, and both are clamped to \<open>[0, len xs]\<close>.
\<close>

definition py_bound :: "nat \<Rightarrow> int \<Rightarrow> nat" where
  "py_bound n i = nat (min (int n) (if i < 0 then max 0 (int n + i) else i))"

definition py_slice :: "'a list \<Rightarrow> int option \<Rightarrow> int option \<Rightarrow> 'a list" where
  "py_slice xs a b =
     (let n = length xs;
          lo = (case a of None \<Rightarrow> 0 | Some i \<Rightarrow> py_bound n i);
          hi = (case b of None \<Rightarrow> n | Some j \<Rightarrow> py_bound n j)
      in take (hi - lo) (drop lo xs))"

text \<open>\<open>xs[i]\<close>: negative indices count from the end; out of range raises IndexError.\<close>

definition py_index :: "'a list \<Rightarrow> int \<Rightarrow> 'a result" where
  "py_index xs i =
     (if i < int (length xs) \<and> - int (length xs) \<le> i
      then Inr (xs ! nat (if i < 0 then i + int (length xs) else i))
      else Inl IndexError)"

section \<open>Dicts built from pairs and their reverses\<close>

text \<open>
  \<open>d = {k: v, ...}; d.update((v, k) for k, v in d.items())\<close>: the later entries
  win, so the reversed pairs come first in the association list.
\<close>

definition swap_pairs :: "('a \<times> 'a) list \<Rightarrow> ('a \<times> 'a) list" where
  "swap_pairs ps = map (\<lambda>(k, v). (v, k)) ps"

section \<open>Generic lemmas\<close>

lemma rbind_Inl [simp, py_simps]: "rbind (Inl e) f = Inl e"
  by (simp add: rbind_def)

lemma rbind_Inr [simp, py_simps]: "rbind (Inr a) f = f a"
  by (simp add: rbind_def)

lemma rbind_eq_Inr [simp]:
  "rbind r f = Inr b \<longleftrightarrow> (\<exists>a. r = Inr a \<and> f a = Inr b)"
  by (cases r) (auto simp: rbind_def)

lemma Inr_exists: "(case r of Inl _ \<Rightarrow> False | Inr _ \<Rightarrow> True) \<Longrightarrow> \<exists>x. r = Inr x"
  by (cases r) auto

lemma Inr_pair_exists: "(case r of Inl _ \<Rightarrow> False | Inr _ \<Rightarrow> True) \<Longrightarrow> \<exists>a b. r = Inr (a, b)"
  by (cases r) auto

lemma rmap_map [simp]: "rmap (\<lambda>x. Inr (g x)) xs = Inr (map g xs)"
  by (induction xs) auto

lemma rmap_Inr_length: "rmap f xs = Inr ys \<Longrightarrow> length ys = length xs"
  by (induction xs arbitrary: ys) auto

lemma py_bound_nonneg [simp]: "0 \<le> i \<Longrightarrow> py_bound n i = min n (nat i)"
  by (auto simp: py_bound_def)

lemma py_slice_nonneg:
  "0 \<le> a \<Longrightarrow> 0 \<le> b \<Longrightarrow>
   py_slice xs (Some a) (Some b) = take (nat b - nat a) (drop (nat a) xs)"
proof -
  assume a: "0 \<le> a" and b: "0 \<le> b"
  have "take (min (length xs) (nat b) - min (length xs) (nat a)) (drop (min (length xs) (nat a)) xs)
        = take (nat b - nat a) (drop (nat a) xs)"
    by (cases "nat a \<le> length xs") (auto simp: min_def)
  with a b show ?thesis by (simp add: py_slice_def Let_def)
qed

lemma py_slice_from [py_simps]:
  "0 \<le> a \<Longrightarrow> py_slice xs (Some a) None = drop (nat a) xs"
  by (simp add: py_slice_def Let_def min_def)

lemma py_slice_upto [py_simps]:
  "0 \<le> b \<Longrightarrow> py_slice xs None (Some b) = take (nat b) xs"
  by (simp add: py_slice_def Let_def min_def)

lemma py_slice_all [simp, py_simps]: "py_slice xs None None = xs"
  by (simp add: py_slice_def)

lemma py_index_nonneg:
  "0 \<le> i \<Longrightarrow> nat i < length xs \<Longrightarrow> py_index xs i = Inr (xs ! nat i)"
  by (auto simp: py_index_def)

lemma py_index_neg:
  "i < 0 \<Longrightarrow> nat (- i) \<le> length xs \<Longrightarrow>
   py_index xs i = Inr (xs ! (length xs - nat (- i)))"
proof -
  assume neg: "i < 0" and len: "nat (- i) \<le> length xs"
  then have "nat (i + int (length xs)) = length xs - nat (- i)" by arith
  with neg len show ?thesis by (simp add: py_index_def)
qed

lemma map_of_swap_pairs_involutive:
  assumes d: "distinct (map fst ps @ map snd ps)"
    and tu: "map_of (swap_pairs ps @ ps) t = Some u"
  shows "map_of (swap_pairs ps @ ps) u = Some t"
proof -
  have keys: "map fst (swap_pairs ps) = map snd ps"
    by (induction ps) (auto simp: swap_pairs_def)
  have mem: "(a, b) \<in> set (swap_pairs ps) \<longleftrightarrow> (b, a) \<in> set ps" for a b
    by (auto simp: swap_pairs_def)
  from d have d1: "distinct (map fst ps)" and d2: "distinct (map fst (swap_pairs ps))"
    by (simp_all add: keys)
  from tu have "(t, u) \<in> set (swap_pairs ps) \<or> (t, u) \<in> set ps"
    by (auto dest: map_of_SomeD)
  then show ?thesis
  proof
    assume "(t, u) \<in> set (swap_pairs ps)"
    then have up: "(u, t) \<in> set ps" by (simp add: mem)
    with d have "u \<notin> set (map snd ps)" by (force simp: image_iff)
    then have "map_of (swap_pairs ps) u = None"
      by (simp add: keys[symmetric] map_of_eq_None_iff)
    moreover from d1 up have "map_of ps u = Some t" by (rule map_of_is_SomeI)
    ultimately show ?thesis by (simp add: map_add_def)
  next
    assume "(t, u) \<in> set ps"
    then have "(u, t) \<in> set (swap_pairs ps)" by (simp add: mem)
    with d2 have "map_of (swap_pairs ps) u = Some t" by (rule map_of_is_SomeI)
    then show ?thesis by (simp add: map_of_append)
  qed
qed

lemma sep_split_unique:
  assumes "c \<notin> set ys" and "c \<notin> set ys'" and eq: "xs @ c # ys = xs' @ c # ys'"
  shows "xs = xs' \<and> ys = ys'"
proof -
  from arg_cong [OF eq, of rev] have r: "rev ys @ c # rev xs = rev ys' @ c # rev xs'" by simp
  have "takeWhile (\<lambda>x. x \<noteq> c) (rev ys @ c # rev xs) = rev ys"
    using assms(1) by (subst takeWhile_append2) auto
  moreover have "takeWhile (\<lambda>x. x \<noteq> c) (rev ys' @ c # rev xs') = rev ys'"
    using assms(2) by (subst takeWhile_append2) auto
  ultimately have "ys = ys'" using r by simp
  with eq show ?thesis by simp
qed

end
