(* ===== verification/SqlAst.thy ===== *)
theory SqlAst
  imports Prelude "HOL-Library.Char_ord" "HOL-Library.List_Lexorder"
begin

text \<open>
  The translator's output: SQL ASTs in the nested list-of-tag form of
  \<open>src/pony/orm/sqltranslation.py\<close> (\<open>['AND', ['EQ', a, b], ...]\<close>), the smart
  constructors \<open>sqland\<close>, \<open>sqlor\<close> and \<open>join_tables\<close>, and the operator tables
  \<open>sql_negation\<close>, \<open>cmp_ops\<close> and \<open>cmp_negate\<close>. The semantics \<open>eval3\<close> is
  not code: it is SQL's three-valued reading of the boolean fragment over one row,
  against which the builders are proved.
\<close>

section \<open>The AST\<close>

text \<open>
  A Python list is \<open>Node\<close>; a Python str (a tag, an alias, a column name, a
  string literal) is \<open>Str\<close>; ints (\<open>IntV\<close>), \<open>None\<close> and booleans are leaves of their own.
\<close>

datatype sql = Str string | IntV int | NoneV | BoolV bool | Node "sql list"

abbreviation sqlnode :: "string \<Rightarrow> sql list \<Rightarrow> sql" where
  "sqlnode t args \<equiv> Node (Str t # args)"

abbreviation column :: "string \<Rightarrow> string \<Rightarrow> sql" where
  "column a c \<equiv> Node [Str ''COLUMN'', Str a, Str c]"

abbreviation sql_value :: "sql \<Rightarrow> sql" where
  "sql_value v \<equiv> Node [Str ''VALUE'', v]"

text \<open>\<open>item[0]\<close> and \<open>item[1:]\<close> on a list or a string; other values are not subscriptable.\<close>

fun py_first :: "sql \<Rightarrow> sql result" where
  "py_first (Node []) = Inl IndexError"
| "py_first (Node (x # _)) = Inr x"
| "py_first (Str []) = Inl IndexError"
| "py_first (Str (c # _)) = Inr (Str [c])"
| "py_first _ = Inl (TypeError ''object is not subscriptable'')"

fun py_rest :: "sql \<Rightarrow> sql list" where
  "py_rest (Node xs) = drop 1 xs"
| "py_rest (Str s) = map (\<lambda>c. Str [c]) (drop 1 s)"
| "py_rest _ = []"

section \<open>sqland, sqlor, join_tables (sqltranslation.py, lines 33--53)\<close>

text \<open>The loop of \<open>sqland\<close>/\<open>sqlor\<close>: an item headed by the operator is spliced in.\<close>

fun sql_flatten :: "string \<Rightarrow> sql list \<Rightarrow> sql list result" where
  "sql_flatten op [] = Inr []"
| "sql_flatten op (item # items) =
     rbind (py_first item) (\<lambda>h.
     rbind (sql_flatten op items) (\<lambda>rest.
       Inr (if h = Str op then py_rest item @ rest else item # rest)))"

fun sqland :: "sql list \<Rightarrow> sql result" where
  "sqland [] = Inr (Node [])"
| "sqland [x] = Inr x"
| "sqland items = rbind (sql_flatten ''AND'' items) (\<lambda>xs. Inr (sqlnode ''AND'' xs))"

fun sqlor :: "sql list \<Rightarrow> sql result" where
  "sqlor [] = Inr (Node [])"
| "sqlor [x] = Inr x"
| "sqlor items = rbind (sql_flatten ''OR'' items) (\<lambda>xs. Inr (sqlnode ''OR'' xs))"

definition join_tables :: "string \<Rightarrow> string \<Rightarrow> string list \<Rightarrow> string list \<Rightarrow> sql result" where
  "join_tables alias1 alias2 columns1 columns2 =
     (if length columns1 \<noteq> length columns2 then Inl AssertionError
      else sqland (map2 (\<lambda>c1 c2. sqlnode ''EQ'' [column alias1 c1, column alias2 c2])
                        columns1 columns2))"

section \<open>Operator tables (lines 1270--1271 and 1290--1293)\<close>

definition sql_negation_pairs :: "(string \<times> string) list" where
  "sql_negation_pairs =
     [(''IN'', ''NOT_IN''), (''EXISTS'', ''NOT_EXISTS''), (''LIKE'', ''NOT_LIKE''),
      (''BETWEEN'', ''NOT_BETWEEN''), (''IS_NULL'', ''IS_NOT_NULL'')]"

definition sql_negation :: "string \<Rightarrow> string option" where
  "sql_negation = map_of (swap_pairs sql_negation_pairs @ sql_negation_pairs)"

definition cmp_ops :: "string \<Rightarrow> string option" where
  "cmp_ops = map_of [(''>='', ''GE''), (''>'', ''GT''), (''<='', ''LE''), (''<'', ''LT'')]"

definition cmp_negate_pairs :: "(string \<times> string) list" where
  "cmp_negate_pairs = [(''<'', ''>=''), (''<='', ''>''), (''=='', ''!=''), (''is'', ''is not'')]"

definition cmp_negate :: "string \<Rightarrow> string option" where
  "cmp_negate = map_of (swap_pairs cmp_negate_pairs @ cmp_negate_pairs)"

section \<open>Three-valued semantics of the boolean fragment\<close>

datatype tv = TT | FF | UU

fun not3 :: "tv \<Rightarrow> tv" where
  "not3 TT = FF" | "not3 FF = TT" | "not3 UU = UU"

fun and3 :: "tv \<Rightarrow> tv \<Rightarrow> tv" where
  "and3 FF _ = FF" | "and3 _ FF = FF" | "and3 TT TT = TT" | "and3 _ _ = UU"

fun or3 :: "tv \<Rightarrow> tv \<Rightarrow> tv" where
  "or3 TT _ = TT" | "or3 _ TT = TT" | "or3 FF FF = FF" | "or3 _ _ = UU"

definition tv_of :: "bool \<Rightarrow> tv" where
  "tv_of b = (if b then TT else FF)"

text \<open>Combination of defined values: an undefined (ill-formed) operand makes the whole undefined.\<close>

definition lift2 :: "(tv \<Rightarrow> tv \<Rightarrow> tv) \<Rightarrow> tv option \<Rightarrow> tv option \<Rightarrow> tv option" where
  "lift2 f a b = (case (a, b) of (Some x, Some y) \<Rightarrow> Some (f x y) | _ \<Rightarrow> None)"

fun and3_list :: "tv option list \<Rightarrow> tv option" where
  "and3_list [] = Some TT"
| "and3_list (x # xs) = lift2 and3 x (and3_list xs)"

fun or3_list :: "tv option list \<Rightarrow> tv option" where
  "or3_list [] = Some FF"
| "or3_list (x # xs) = lift2 or3 x (or3_list xs)"

text \<open>A row gives each column of each alias a value; \<open>NoneV\<close> is SQL NULL.\<close>

type_synonym row = "string \<Rightarrow> string \<Rightarrow> sql"

fun sval :: "row \<Rightarrow> sql \<Rightarrow> sql option" where
  "sval r (Node [Str t, Str a, Str c]) = (if t = ''COLUMN'' then Some (r a c) else None)"
| "sval r (Node [Str t, v]) = (if t = ''VALUE'' then Some v else None)"
| "sval r _ = None"

fun ord_sem :: "string \<Rightarrow> sql \<Rightarrow> sql \<Rightarrow> tv option" where
  "ord_sem t (IntV i) (IntV j) =
     (if t = ''LT'' then Some (tv_of (i < j)) else if t = ''LE'' then Some (tv_of (i \<le> j))
      else if t = ''GT'' then Some (tv_of (i > j)) else if t = ''GE'' then Some (tv_of (i \<ge> j))
      else None)"
| "ord_sem t (Str a) (Str b) =
     (if t = ''LT'' then Some (tv_of (a < b)) else if t = ''LE'' then Some (tv_of (a \<le> b))
      else if t = ''GT'' then Some (tv_of (a > b)) else if t = ''GE'' then Some (tv_of (a \<ge> b))
      else None)"
| "ord_sem t _ _ = None"

definition cmp_sem :: "string \<Rightarrow> sql \<Rightarrow> sql \<Rightarrow> tv option" where
  "cmp_sem t x y =
     (if t \<notin> {''EQ'', ''NE'', ''LT'', ''LE'', ''GT'', ''GE''} then None
      else if x = NoneV \<or> y = NoneV then Some UU
      else if t = ''EQ'' then Some (tv_of (x = y))
      else if t = ''NE'' then Some (tv_of (x \<noteq> y))
      else ord_sem t x y)"

definition in_sem :: "sql \<Rightarrow> sql option list \<Rightarrow> tv option" where
  "in_sem x vs = (if None \<in> set vs then None
                  else or3_list (map (\<lambda>v. case v of Some y \<Rightarrow> cmp_sem ''EQ'' x y | None \<Rightarrow> None) vs))"

definition null_sem :: "string \<Rightarrow> sql \<Rightarrow> tv option" where
  "null_sem t v =
     (if t = ''IS_NULL'' then Some (tv_of (v = NoneV))
      else if t = ''IS_NOT_NULL'' then Some (tv_of (v \<noteq> NoneV))
      else None)"

definition between_sem :: "sql \<Rightarrow> sql \<Rightarrow> sql \<Rightarrow> tv option" where
  "between_sem x l h = lift2 and3 (cmp_sem ''GE'' x l) (cmp_sem ''LE'' x h)"

text \<open>The atoms: comparisons, NULL tests, \<open>IN\<close> over a literal list, \<open>BETWEEN\<close>.\<close>

fun atom_sem :: "row \<Rightarrow> string \<Rightarrow> sql list \<Rightarrow> tv option" where
  "atom_sem r t [a] = Option.bind (sval r a) (null_sem t)"
| "atom_sem r t [a, Node ys] =
     (if t = ''IN'' then Option.bind (sval r a) (\<lambda>x. in_sem x (map (sval r) ys))
      else if t = ''NOT_IN'' then Option.bind (sval r a) (\<lambda>x. map_option not3 (in_sem x (map (sval r) ys)))
      else Option.bind (sval r a) (\<lambda>x. Option.bind (sval r (Node ys)) (cmp_sem t x)))"
| "atom_sem r t [a, b] = Option.bind (sval r a) (\<lambda>x. Option.bind (sval r b) (cmp_sem t x))"
| "atom_sem r t [a, lo, hi] =
     Option.bind (sval r a) (\<lambda>x. Option.bind (sval r lo) (\<lambda>l. Option.bind (sval r hi) (\<lambda>h.
       if t = ''BETWEEN'' then between_sem x l h
       else if t = ''NOT_BETWEEN'' then map_option not3 (between_sem x l h)
       else None)))"
| "atom_sem r t _ = None"

fun eval3 :: "row \<Rightarrow> sql \<Rightarrow> tv option" where
  "eval3 r (Node (Str t # args)) =
     (if t = ''AND'' then (if args = [] then None else and3_list (map (eval3 r) args))
      else if t = ''OR'' then (if args = [] then None else or3_list (map (eval3 r) args))
      else if t = ''NOT'' then (case args of [a] \<Rightarrow> map_option not3 (eval3 r a) | _ \<Rightarrow> None)
      else atom_sem r t args)"
| "eval3 r _ = None"


text \<open>The n-ary AND and OR of the semantics, selected by the operator's tag.\<close>

definition bool_list_sem :: "string \<Rightarrow> tv option list \<Rightarrow> tv option" where
  "bool_list_sem op = (if op = ''AND'' then and3_list else or3_list)"

definition bool_op :: "string \<Rightarrow> tv \<Rightarrow> tv \<Rightarrow> tv" where
  "bool_op op = (if op = ''AND'' then and3 else or3)"

section \<open>Lemmas\<close>


lemma and3_assoc: "and3 (and3 a b) c = and3 a (and3 b c)"
  by (cases a; cases b; cases c) auto
lemma or3_assoc: "or3 (or3 a b) c = or3 a (or3 b c)"
  by (cases a; cases b; cases c) auto

lemma and3_TT_left [simp]: "and3 TT a = a"
  by (cases a) auto
lemma or3_FF_left [simp]: "or3 FF a = a"
  by (cases a) auto
lemma and3_TT_right [simp]: "and3 a TT = a"
  by (cases a) auto
lemma or3_FF_right [simp]: "or3 a FF = a"
  by (cases a) auto

lemma and3_list_append:
  "and3_list (xs @ ys) = lift2 and3 (and3_list xs) (and3_list ys)"
proof (induction xs)
  case Nil
  show ?case by (cases "and3_list ys") (auto simp: lift2_def)
next
  case (Cons x xs)
  then show ?case
    by (auto simp: lift2_def and3_assoc split: option.splits)
qed

lemma or3_list_append:
  "or3_list (xs @ ys) = lift2 or3 (or3_list xs) (or3_list ys)"
proof (induction xs)
  case Nil
  show ?case by (cases "or3_list ys") (auto simp: lift2_def)
next
  case (Cons x xs)
  then show ?case
    by (auto simp: lift2_def or3_assoc split: option.splits)
qed


lemma eval3_defined_shape:
  "eval3 r x \<noteq> None \<Longrightarrow> \<exists>t args. x = Node (Str t # args)"
  by (cases "(r, x)" rule: eval3.cases) auto

lemma sql_negation_involutive: "sql_negation t = Some u \<Longrightarrow> sql_negation u = Some t"
  unfolding sql_negation_def
  by (rule map_of_swap_pairs_involutive) (simp_all add: sql_negation_pairs_def)

lemma cmp_negate_involutive: "cmp_negate t = Some u \<Longrightarrow> cmp_negate u = Some t"
  unfolding cmp_negate_def
  by (rule map_of_swap_pairs_involutive) (simp_all add: cmp_negate_pairs_def)

lemma bool_list_sem_append:
  "bool_list_sem op (xs @ ys) = lift2 (bool_op op) (bool_list_sem op xs) (bool_list_sem op ys)"
  by (simp add: bool_list_sem_def bool_op_def and3_list_append or3_list_append)

lemma bool_list_sem_Cons:
  "bool_list_sem op (x # xs) = lift2 (bool_op op) x (bool_list_sem op xs)"
  by (simp add: bool_list_sem_def bool_op_def)

lemma eval3_junction:
  "op \<in> {''AND'', ''OR''} \<Longrightarrow> args \<noteq> [] \<Longrightarrow>
   eval3 r (sqlnode op args) = bool_list_sem op (map (eval3 r) args)"
  by (elim insertE) (simp_all add: bool_list_sem_def)


lemma sql_flatten_sem:
  assumes op: "op \<in> {''AND'', ''OR''}"
  shows "(\<forall>x\<in>set items. eval3 r x \<noteq> None) \<Longrightarrow>
     \<exists>xs. sql_flatten op items = Inr xs \<and> length items \<le> length xs \<and>
          bool_list_sem op (map (eval3 r) xs) = bool_list_sem op (map (eval3 r) items)"
proof (induction items)
  case Nil
  then show ?case by simp
next
  case (Cons item items)
  from Cons.prems have "\<forall>x\<in>set items. eval3 r x \<noteq> None" by simp
  with Cons.IH obtain xs where xs: "sql_flatten op items = Inr xs" "length items \<le> length xs"
    and sem: "bool_list_sem op (map (eval3 r) xs) = bool_list_sem op (map (eval3 r) items)"
    by blast
  from Cons.prems have def: "eval3 r item \<noteq> None" by simp
  then obtain t args where item: "item = Node (Str t # args)"
    using eval3_defined_shape by blast
  show ?case
  proof (cases "t = op")
    case True
    have "args \<noteq> []"
    proof
      assume "args = []"
      with def item True op show False by (elim insertE) auto
    qed
    with op have "eval3 r (sqlnode op args) = bool_list_sem op (map (eval3 r) args)"
      by (rule eval3_junction)
    with True item have ev: "eval3 r item = bool_list_sem op (map (eval3 r) args)"
      by simp
    from True item xs have "sql_flatten op (item # items) = Inr (args @ xs)" by simp
    moreover from xs \<open>args \<noteq> []\<close> have "length (item # items) \<le> length (args @ xs)"
      by (cases args) simp_all
    moreover from ev sem have "bool_list_sem op (map (eval3 r) (args @ xs)) =
        bool_list_sem op (map (eval3 r) (item # items))"
      by (simp add: bool_list_sem_append bool_list_sem_Cons)
    ultimately show ?thesis by blast
  next
    case False
    with item xs sem show ?thesis by (simp add: bool_list_sem_Cons)
  qed
qed


lemma bool_list_sem_single: "x \<noteq> None \<Longrightarrow> bool_list_sem op [x] = x"
  by (cases x) (auto simp: bool_list_sem_def lift2_def)

lemma junction_sem:
  assumes op: "op \<in> {''AND'', ''OR''}" and defd: "\<forall>x\<in>set items. eval3 r x \<noteq> None"
    and two: "2 \<le> length items"
  shows "\<exists>s. rbind (sql_flatten op items) (\<lambda>xs. Inr (sqlnode op xs)) = Inr s \<and>
             eval3 r s = bool_list_sem op (map (eval3 r) items)"
proof -
  from sql_flatten_sem [OF op defd] obtain xs where xs: "sql_flatten op items = Inr xs"
    and len: "length items \<le> length xs"
    and sem: "bool_list_sem op (map (eval3 r) xs) = bool_list_sem op (map (eval3 r) items)"
    by blast
  from len two have "xs \<noteq> []" by auto
  with op have "eval3 r (sqlnode op xs) = bool_list_sem op (map (eval3 r) xs)"
    by (rule eval3_junction)
  with xs sem show ?thesis by simp
qed

lemma sqland_eval:
  assumes "items \<noteq> []" and "\<forall>x\<in>set items. eval3 r x \<noteq> None"
  shows "\<exists>s. sqland items = Inr s \<and> eval3 r s = and3_list (map (eval3 r) items)"
proof (cases items rule: sqland.cases)
  case (3 x y zs)
  with junction_sem [of "''AND''" items r] assms show ?thesis
    by (simp add: bool_list_sem_def)
qed (use assms in \<open>auto simp: lift2_def split: option.splits\<close>)

text \<open>
  Claim C1. \<open>sqland\<close> builds the conjunction of its items: for a non-empty list of
  well-formed boolean ASTs it returns an AST whose three-valued value on every row
  is the AND of the items' values, nested AND items being spliced in.
\<close>

theorem sqland_sem:
  assumes "items \<noteq> []" and "\<forall>x\<in>set items. eval3 r x \<noteq> None"
  shows "\<exists>s. sqland items = Inr s \<and> eval3 r s = and3_list (map (eval3 r) items)"
proof (cases items rule: sqland.cases)
  case (3 x y zs)
  with junction_sem [of "''AND''" items r] assms show ?thesis
    by (simp add: bool_list_sem_def)
qed (use assms in \<open>auto simp: lift2_def split: option.splits\<close>)

text \<open>
  Claim C2. \<open>sqlor\<close> builds the disjunction of its items: for a non-empty list of
  well-formed boolean ASTs its result evaluates to the OR of the items' values.
\<close>

theorem sqlor_sem:
  assumes "items \<noteq> []" and "\<forall>x\<in>set items. eval3 r x \<noteq> None"
  shows "\<exists>s. sqlor items = Inr s \<and> eval3 r s = or3_list (map (eval3 r) items)"
proof (cases items rule: sqlor.cases)
  case (3 x y zs)
  with junction_sem [of "''OR''" items r] assms show ?thesis
    by (simp add: bool_list_sem_def)
qed (use assms in \<open>auto simp: lift2_def split: option.splits\<close>)


lemma and3_list_TT:
  "and3_list xs = Some TT \<longleftrightarrow> (\<forall>x\<in>set xs. x = Some TT)"
proof (induction xs)
  case (Cons x xs)
  then show ?case
    by (cases x; cases "and3_list xs") (auto simp: lift2_def elim: and3.elims)
qed simp

lemma cmp_sem_EQ_TT:
  "cmp_sem ''EQ'' x y = Some TT \<longleftrightarrow> x = y \<and> x \<noteq> NoneV"
  by (auto simp: cmp_sem_def tv_of_def)

text \<open>
  Claim C3. \<open>join_tables\<close> builds the join condition of two aliases: for column
  lists of equal, non-zero length its AST is true on a row exactly when every pair
  of columns holds equal, non-NULL values.
\<close>

theorem join_tables_sem:
  assumes "length cs1 = length cs2" and "cs1 \<noteq> []"
  shows "\<exists>s. join_tables a1 a2 cs1 cs2 = Inr s \<and>
           (eval3 r s = Some TT \<longleftrightarrow>
              (\<forall>(c1, c2)\<in>set (zip cs1 cs2). r a1 c1 = r a2 c2 \<and> r a1 c1 \<noteq> NoneV))"
proof -
  let ?items = "map2 (\<lambda>c1 c2. sqlnode ''EQ'' [column a1 c1, column a2 c2]) cs1 cs2"
  have "?items \<noteq> []" using assms by (cases cs1; cases cs2) auto
  moreover have "\<forall>x\<in>set ?items. eval3 r x \<noteq> None"
    by (auto simp: cmp_sem_def set_zip)
  ultimately obtain s where s: "sqland ?items = Inr s"
    and sem: "eval3 r s = and3_list (map (eval3 r) ?items)"
    using sqland_eval by blast
  have "and3_list (map (eval3 r) ?items) = Some TT \<longleftrightarrow>
        (\<forall>(c1, c2)\<in>set (zip cs1 cs2). r a1 c1 = r a2 c2 \<and> r a1 c1 \<noteq> NoneV)"
    by (auto simp: and3_list_TT cmp_sem_EQ_TT simp del: cmp_sem_def)
  with s sem assms(1) show ?thesis by (simp add: join_tables_def)
qed


lemma not3_not3 [simp]: "not3 (not3 x) = x"
  by (cases x) auto

lemma map_option_not3_twice [simp]: "map_option not3 (map_option not3 x) = x"
  by (cases x) auto

lemma eval3_atom:
  "t \<notin> {''AND'', ''OR'', ''NOT''} \<Longrightarrow> eval3 r (sqlnode t args) = atom_sem r t args"
  by simp

lemma not3_tv_of [simp]: "not3 (tv_of b) = tv_of (\<not> b)"
  by (simp add: tv_of_def)

lemma map_option_bind_lam: "map_option g (Option.bind m f) = Option.bind m (\<lambda>x. map_option g (f x))"
  by (cases m) auto

lemma bind_const_None [simp]: "Option.bind m (\<lambda>x. None) = None"
  by (cases m) auto

section \<open>Witnesses\<close>

definition ex_row :: row where
  "ex_row a c = (if c = ''x'' then IntV 5 else NoneV)"

theorem sqland_sem_witness:
  "[sqlnode ''EQ'' [column ''s'' ''x'', sql_value (IntV 5)], sqlnode ''IS_NULL'' [column ''s'' ''y'']] \<noteq> [] \<and>
   (\<exists>s. sqland [sqlnode ''EQ'' [column ''s'' ''x'', sql_value (IntV 5)], sqlnode ''IS_NULL'' [column ''s'' ''y'']] = Inr s \<and>
        eval3 ex_row s = Some TT)"
  using sqland_sem [of "[sqlnode ''EQ'' [column ''s'' ''x'', sql_value (IntV 5)], sqlnode ''IS_NULL'' [column ''s'' ''y'']]" ex_row]
  by (simp add: ex_row_def cmp_sem_def null_sem_def tv_of_def lift2_def)

theorem sqlor_sem_witness:
  "[sqlnode ''EQ'' [column ''s'' ''x'', sql_value (IntV 4)], sqlnode ''IS_NULL'' [column ''s'' ''y'']] \<noteq> [] \<and>
   (\<exists>s. sqlor [sqlnode ''EQ'' [column ''s'' ''x'', sql_value (IntV 4)], sqlnode ''IS_NULL'' [column ''s'' ''y'']] = Inr s \<and>
        eval3 ex_row s = Some TT)"
  using sqlor_sem [of "[sqlnode ''EQ'' [column ''s'' ''x'', sql_value (IntV 4)], sqlnode ''IS_NULL'' [column ''s'' ''y'']]" ex_row]
  by (simp add: ex_row_def cmp_sem_def null_sem_def tv_of_def lift2_def)

theorem join_tables_sem_witness:
  "length [''x'', ''y''] = length [''x'', ''z''] \<and> [''x'', ''y''] \<noteq> [] \<and>
   (\<exists>s. join_tables ''s'' ''g'' [''x'', ''y''] [''x'', ''z''] = Inr s \<and> eval3 ex_row s \<noteq> Some TT)"
  using join_tables_sem [of "[''x'', ''y'']" "[''x'', ''z'']" "''s''" "''g''" ex_row]
  by (simp add: ex_row_def)

end
