(* ===== verification/Schema.thy ===== *)
theory Schema
  imports SqlAst
begin

text \<open>
  The entity schema the translator reads (the spec's "Entity schema view", section 3).
  The schema lives in \<open>pony/orm/core.py\<close>, which is not among the repository's
  sources, so these records follow the spec's description of it: an entity has a
  name, a table, its primary-key columns and an optional discriminator; an attribute
  knows its owner, its target entity (for relations), whether it is a collection, its
  columns, the parts of its reverse attribute the translator reads, its offset in a
  composite primary key, and for many-to-many links the link table and its column groups.
  The concrete schema of \<open>src/old/models/model1.py\<close> (groups, students, marks)
  is given at the end; the witnesses of the component theories use it.
\<close>

record entity =
  ent_name :: string
  ent_table :: string
  ent_pk_columns :: "string list"
  ent_discr :: "(string \<times> sql list) option"
  ent_database :: string

text \<open>
  The normalized types of the spec's data model (section 3, "NormalizedType"): the
  primitive types, an entity, a set of a type, a tuple, and the sentinels the translator
  gives to methods in flight and to special functions.
\<close>

datatype ptype =
    TInt | TFloat | TDecimal | TStr | TDate | TDatetime | TBool | TBuffer | TNone
  | TEnt entity | TSet ptype | TTuple "ptype list" | TMethod | TFunc string

text \<open>What the translator reads of \<open>attr.reverse\<close>: its columns and its kind.\<close>

record rev_info =
  rev_columns :: "string list"
  rev_is_collection :: bool
  rev_is_set :: bool

record attribute =
  attr_name :: string
  attr_owner :: string
  attr_type :: ptype
  is_collection :: bool
  is_set :: bool
  attr_columns :: "string list"
  attr_reverse :: "rev_info option"
  pk_offset :: "nat option"
  pk_columns_offset :: nat
  symmetric :: bool
  m2m_table :: string
  attr_reverse_columns :: "string list"
  is_required :: bool
  nullable :: bool

text \<open>\<open>attr.py_type\<close> when it is an entity: the target of a relation attribute.\<close>

definition attr_target :: "attribute \<Rightarrow> entity option" where
  "attr_target attr = (case attr_type attr of TEnt e \<Rightarrow> Some e | _ \<Rightarrow> None)"

text \<open>
  \<open>entity._construct_discriminator_criteria_(alias)\<close>: the discriminator column of the
  alias must take one of the values of the entity and its subclasses.
\<close>

definition discriminator_criteria :: "entity \<Rightarrow> string \<Rightarrow> sql option" where
  "discriminator_criteria e alias =
     (case ent_discr e of
        None \<Rightarrow> None
      | Some (col, vals) \<Rightarrow> Some (sqlnode ''IN'' [column alias col, Node (map sql_value vals)]))"

section \<open>The schema of src/old/models/model1.py\<close>

definition group_ent :: entity where
  "group_ent = \<lparr>ent_name = ''Group'', ent_table = ''Group'',
     ent_pk_columns = [''number'', ''faculty''], ent_discr = None, ent_database = ''db''\<rparr>"

definition student_ent :: entity where
  "student_ent = \<lparr>ent_name = ''Student'', ent_table = ''Student1'',
     ent_pk_columns = [''group_number'', ''group_faculty'', ''first_name''], ent_discr = None,
     ent_database = ''db''\<rparr>"

definition mark_ent :: entity where
  "mark_ent = \<lparr>ent_name = ''Mark'', ent_table = ''Mark'',
     ent_pk_columns = [''student_group_number'', ''student_group_faculty'', ''student_first_name'', ''subject''],
     ent_discr = None, ent_database = ''db''\<rparr>"

definition subject_ent :: entity where
  "subject_ent = \<lparr>ent_name = ''Subject'', ent_table = ''DISCIPLINES'',
     ent_pk_columns = [''id''], ent_discr = None, ent_database = ''db''\<rparr>"

text \<open>\<open>Student.group = Required(Group)\<close>: a foreign key that is part of Student's primary key.\<close>

definition student_group :: attribute where
  "student_group = \<lparr>attr_name = ''group'', attr_owner = ''Student'', attr_type = TEnt group_ent,
     is_collection = False, is_set = False, attr_columns = [''group_number'', ''group_faculty''],
     attr_reverse = Some \<lparr>rev_columns = [], rev_is_collection = True, rev_is_set = True\<rparr>,
     pk_offset = Some 0, pk_columns_offset = 0, symmetric = False, m2m_table = [],
     attr_reverse_columns = [], is_required = True, nullable = False\<rparr>"

text \<open>\<open>Student.marks = Set('Mark')\<close>: the reverse side of \<open>Mark.student\<close>.\<close>

definition student_marks :: attribute where
  "student_marks = \<lparr>attr_name = ''marks'', attr_owner = ''Student'', attr_type = TEnt mark_ent,
     is_collection = True, is_set = True, attr_columns = [],
     attr_reverse = Some \<lparr>rev_columns = [''student_group_number'', ''student_group_faculty'', ''student_first_name''],
                          rev_is_collection = False, rev_is_set = False\<rparr>,
     pk_offset = None, pk_columns_offset = 0, symmetric = False, m2m_table = [],
     attr_reverse_columns = [], is_required = False, nullable = False\<rparr>"

text \<open>\<open>Group.subjects = Set('Subject')\<close> and \<open>Subject.groups = Set(Group)\<close>: many-to-many.\<close>

definition group_subjects :: attribute where
  "group_subjects = \<lparr>attr_name = ''subjects'', attr_owner = ''Group'', attr_type = TEnt subject_ent,
     is_collection = True, is_set = True, attr_columns = [''subject''],
     attr_reverse = Some \<lparr>rev_columns = [''group_number'', ''group_faculty''], rev_is_collection = True, rev_is_set = True\<rparr>,
     pk_offset = None, pk_columns_offset = 0, symmetric = False, m2m_table = ''Group_Subject'',
     attr_reverse_columns = [], is_required = False, nullable = False\<rparr>"

end
