(* ===== verification/Subqueries.thy ===== *)
theory Subqueries
  imports Schema
begin

text \<open>
  The \<open>Subquery\<close> class of \<open>src/pony/orm/sqltranslation.py\<close> (lines 533--570) and the
  store of table references it owns. One translation keeps a tree of subqueries (a
  nested comprehension or a correlated subselect opens a child) and the table
  references bound in them. Python objects with identity become entries of explicit
  stores: \<open>sqs\<close> maps a subquery's number to its state, \<open>trs\<close> maps the key
  (subquery number, name path) to a table reference, the key under which the code files
  it in \<open>subquery.tablerefs\<close>. A reference to a parent tableref is its key.
  The chain of \<open>parent_subquery\<close> pointers is kept as the list it spells
  (\<open>sq_scope\<close>, nearest first). The expression counter \<open>count(1)\<close> that a root
  subquery creates and its children share is one counter of the state.
\<close>

section \<open>State\<close>

type_synonym trkey = "nat \<times> string"

text \<open>\<open>TableRef\<close> (a \<open>for x in Entity\<close> target) or \<open>JoinedTableRef\<close> (an attribute traversal).\<close>

datatype trkind = RootRef | JoinedRef trkey attribute

record tableref =
  tr_sq :: nat
  tr_name_path :: string
  tr_alias :: "string option"
  tr_entity :: entity
  joined :: bool
  optimized :: "bool option"
  tr_pk_columns :: "string list option"
  tr_kind :: trkind

record subquery =
  sq_scope :: "nat list"
  sq_left_join :: bool
  from_ast :: "sql list"
  sq_conditions :: "sql list"
  sq_names :: "string list"
  alias_counters :: "string \<rightharpoonup> nat"

record tstate =
  sqs :: "nat \<rightharpoonup> subquery"
  next_sq :: nat
  trs :: "trkey \<rightharpoonup> tableref"
  expr_counter :: nat

definition init_tstate :: tstate where
  "init_tstate = \<lparr>sqs = Map.empty, next_sq = 0, trs = Map.empty, expr_counter = 1\<rparr>"

text \<open>Access to the stores; a missing entry is a dangling reference, impossible in Python.\<close>

definition get_sq :: "tstate \<Rightarrow> nat \<Rightarrow> subquery result" where
  "get_sq st i = (case sqs st i of None \<Rightarrow> Inl KeyError | Some sq \<Rightarrow> Inr sq)"

definition put_sq :: "nat \<Rightarrow> subquery \<Rightarrow> tstate \<Rightarrow> tstate" where
  "put_sq i sq st = st\<lparr>sqs := (sqs st)(i \<mapsto> sq)\<rparr>"

definition get_tr :: "tstate \<Rightarrow> trkey \<Rightarrow> tableref result" where
  "get_tr st k = (case trs st k of None \<Rightarrow> Inl KeyError | Some tr \<Rightarrow> Inr tr)"

definition put_tr :: "trkey \<Rightarrow> tableref \<Rightarrow> tstate \<Rightarrow> tstate" where
  "put_tr k tr st = st\<lparr>trs := (trs st)(k \<mapsto> tr)\<rparr>"

section \<open>Subquery.__init__ (lines 536--547)\<close>

text \<open>
  A root subquery starts empty counters and a fresh \<open>count(1)\<close>; a child copies its
  parent's alias counters (\<open>.copy()\<close>: later changes are not shared) and shares the
  expression counter. \<open>from_ast\<close> starts as \<open>['LEFT_JOIN']\<close> or \<open>['FROM']\<close>.
\<close>

definition new_subquery :: "nat option \<Rightarrow> bool \<Rightarrow> tstate \<Rightarrow> (nat \<times> tstate) result" where
  "new_subquery parent left_join st =
     (let i = next_sq st;
          head = Str (if left_join then ''LEFT_JOIN'' else ''FROM'')
      in case parent of
           None \<Rightarrow>
             Inr (i, st\<lparr>sqs := (sqs st)(i \<mapsto> \<lparr>sq_scope = [], sq_left_join = left_join,
                       from_ast = [head], sq_conditions = [], sq_names = [],
                       alias_counters = Map.empty\<rparr>),
                     next_sq := Suc i, expr_counter := 1\<rparr>)
         | Some p \<Rightarrow>
             rbind (get_sq st p) (\<lambda>psq.
               Inr (i, st\<lparr>sqs := (sqs st)(i \<mapsto> \<lparr>sq_scope = p # sq_scope psq, sq_left_join = left_join,
                         from_ast = [head], sq_conditions = [], sq_names = [],
                         alias_counters = alias_counters psq\<rparr>),
                       next_sq := Suc i\<rparr>)))"

section \<open>get_tableref and add_tableref (lines 548--560)\<close>

text \<open>The search along the parent chain, nearest scope first.\<close>

fun scope_lookup :: "tstate \<Rightarrow> nat list \<Rightarrow> string \<Rightarrow> trkey option" where
  "scope_lookup st [] np = None"
| "scope_lookup st (i # is) np = (if trs st (i, np) \<noteq> None then Some (i, np) else scope_lookup st is np)"

definition get_tableref :: "tstate \<Rightarrow> nat \<Rightarrow> string \<Rightarrow> trkey option result" where
  "get_tableref st i np = rbind (get_sq st i) (\<lambda>sq. Inr (scope_lookup st (i # sq_scope sq) np))"

text \<open>\<open>JoinedTableRef.__init__\<close> (lines 591--600): no alias yet, entity \<open>attr.py_type\<close>.\<close>

definition new_joined_tableref :: "nat \<Rightarrow> string \<Rightarrow> trkey \<Rightarrow> attribute \<Rightarrow> tableref result" where
  "new_joined_tableref i np parent attr =
     (case attr_target attr of
        None \<Rightarrow> Inl AssertionError
      | Some e \<Rightarrow> Inr \<lparr>tr_sq = i, tr_name_path = np, tr_alias = None, tr_entity = e,
                      joined = False, optimized = None, tr_pk_columns = None,
                      tr_kind = JoinedRef parent attr\<rparr>)"

definition add_tableref :: "nat \<Rightarrow> string \<Rightarrow> trkey \<Rightarrow> attribute \<Rightarrow> tstate \<Rightarrow> (trkey \<times> tstate) result" where
  "add_tableref i np parent attr st =
     rbind (get_sq st i) (\<lambda>sq.
       if trs st (i, np) \<noteq> None then Inl AssertionError
       else rbind (new_joined_tableref i np parent attr) (\<lambda>tr.
         Inr ((i, np), put_sq i (sq\<lparr>sq_names := sq_names sq @ [np]\<rparr>) (put_tr (i, np) tr st))))"

text \<open>\<open>TableRef.__init__\<close> (lines 573--577): the alias is the target's name.\<close>

definition add_root_tableref :: "nat \<Rightarrow> string \<Rightarrow> entity \<Rightarrow> tstate \<Rightarrow> (trkey \<times> tstate) result" where
  "add_root_tableref i name e st =
     rbind (get_sq st i) (\<lambda>sq.
       Inr ((i, name),
            put_sq i (sq\<lparr>sq_names := (if name \<in> set (sq_names sq) then sq_names sq else sq_names sq @ [name])\<rparr>)
              (put_tr (i, name) \<lparr>tr_sq = i, tr_name_path = name, tr_alias = Some name, tr_entity = e,
                                joined = False, optimized = None, tr_pk_columns = None,
                                tr_kind = RootRef\<rparr> st)))"

section \<open>get_short_alias (lines 561--570)\<close>

text \<open>
  \<open>is_ident\<close> is \<open>pony.utils.is_ident\<close> (not among the sources): a Python identifier,
  \<open>[A-Za-z_][A-Za-z0-9_]*\<close>.
\<close>

definition ident_start :: "char \<Rightarrow> bool" where
  "ident_start c \<longleftrightarrow> c = CHR ''_'' \<or> (CHR ''a'' \<le> c \<and> c \<le> CHR ''z'') \<or> (CHR ''A'' \<le> c \<and> c \<le> CHR ''Z'')"

definition ident_char :: "char \<Rightarrow> bool" where
  "ident_char c \<longleftrightarrow> ident_start c \<or> (CHR ''0'' \<le> c \<and> c \<le> CHR ''9'')"

definition is_ident :: "string \<Rightarrow> bool" where
  "is_ident s \<longleftrightarrow> s \<noteq> [] \<and> ident_start (hd s) \<and> list_all ident_char (tl s)"

text \<open>Python 2 \<open>str.lower()\<close>: ASCII letters only.\<close>

definition py_lower :: "string \<Rightarrow> string" where
  "py_lower s = map (\<lambda>c. if CHR ''A'' \<le> c \<and> c \<le> CHR ''Z'' then char_of (of_char c + (32::nat)) else c) s"

text \<open>\<open>'%d' % n\<close> for a natural number.\<close>

fun dec_string :: "nat \<Rightarrow> string" where
  "dec_string n =
     (if n < 10 then [char_of (48 + n)] else dec_string (n div 10) @ [char_of (48 + n mod 10)])"

definition max_alias_length :: nat where
  "max_alias_length = 30"

text \<open>
  A name path is kept as the alias when it is an identifier (of any length), or,
  unless \<open>options.SIMPLE_ALIASES\<close>, when it has at most 30 characters. Otherwise
  the alias is the lower-cased first 27 characters of the entity name, a dash and the
  next value of that name's counter in this subquery. An empty path is false in Python.
\<close>

definition keeps_path :: "bool \<Rightarrow> string option \<Rightarrow> bool" where
  "keeps_path simple_aliases name_path =
     (case name_path of
        None \<Rightarrow> False
      | Some np \<Rightarrow> np \<noteq> [] \<and> (is_ident np \<or> (\<not> simple_aliases \<and> length np \<le> max_alias_length)))"

definition alias_base :: "string \<Rightarrow> string" where
  "alias_base entity_name = py_lower (take (max_alias_length - 3) entity_name)"

definition get_short_alias ::
  "bool \<Rightarrow> nat \<Rightarrow> string option \<Rightarrow> string \<Rightarrow> tstate \<Rightarrow> (string \<times> tstate) result" where
  "get_short_alias simple_aliases i name_path entity_name st =
     rbind (get_sq st i) (\<lambda>sq.
       if keeps_path simple_aliases name_path then Inr (the name_path, st)
       else
         (let name = alias_base entity_name;
              k = (case alias_counters sq name of None \<Rightarrow> 0 | Some c \<Rightarrow> c) + 1
          in Inr (name @ ''-'' @ dec_string k,
                  put_sq i (sq\<lparr>alias_counters := (alias_counters sq)(name \<mapsto> k)\<rparr>) st)))"


section \<open>Runs of alias requests and the counters they advance\<close>

text \<open>
  Not code: the counter of a base name in a subquery (0 before its first use), the
  reading of a \<open>'%d'\<close> string back to its number, and a run of \<open>get_short_alias\<close>
  calls in one subquery as the translator makes them, with the aliases of the run that
  were generated rather than kept from a name path.
\<close>

definition cnt :: "tstate \<Rightarrow> nat \<Rightarrow> string \<Rightarrow> nat" where
  "cnt st i b = (case sqs st i of None \<Rightarrow> 0 | Some sq \<Rightarrow> (case alias_counters sq b of None \<Rightarrow> 0 | Some c \<Rightarrow> c))"

fun dec_value :: "string \<Rightarrow> nat" where
  "dec_value s = foldl (\<lambda>acc c. 10 * acc + (of_char c - 48)) 0 s"

fun alias_run :: "bool \<Rightarrow> nat \<Rightarrow> (string option \<times> string) list \<Rightarrow> tstate \<Rightarrow> (string list \<times> tstate) result" where
  "alias_run sa i [] st = Inr ([], st)"
| "alias_run sa i ((np, en) # rs) st =
     rbind (get_short_alias sa i np en st) (\<lambda>(a, st1).
     rbind (alias_run sa i rs st1) (\<lambda>(as, st2). Inr (a # as, st2)))"

definition generated :: "bool \<Rightarrow> (string option \<times> string) list \<Rightarrow> string list \<Rightarrow> string list" where
  "generated sa rs as = map fst (filter (\<lambda>(a, r). \<not> keeps_path sa (fst r)) (zip as rs))"

section \<open>Example states\<close>

text \<open>A translation with its root subquery (number 0), and with \<open>for s in Student\<close> bound in it.\<close>

definition st_root :: tstate where
  "st_root = snd (projr (new_subquery None False init_tstate))"

definition st_s :: tstate where
  "st_s = snd (projr (add_root_tableref 0 ''s'' student_ent st_root))"

definition reqs_ex :: "(string option \<times> string) list" where
  "reqs_ex = [(None, ''Student''), (None, ''Student''), (Some ''s'', ''Student''), (None, ''Group'')]"

section \<open>Lemmas\<close>

declare dec_string.simps [simp del]

lemma dec_string_digits: "c \<in> set (dec_string n) \<Longrightarrow> CHR ''0'' \<le> c \<and> c \<le> CHR ''9''"
proof (induction n rule: dec_string.induct)
  case (1 n)
  show ?case
  proof (cases "n < 10")
    case True
    with "1.prems" have "c = char_of (48 + n)" by (simp add: dec_string.simps [of n])
    with True show ?thesis by (auto simp: less_eq_char_def)
  next
    case False
    with "1.prems" have "c \<in> set (dec_string (n div 10)) \<or> c = char_of (48 + n mod 10)"
      by (auto simp add: dec_string.simps [of n])
    then show ?thesis
    proof
      assume "c \<in> set (dec_string (n div 10))"
      with "1.IH" False show ?thesis by blast
    next
      assume c: "c = char_of (48 + n mod 10)"
      have "n mod 10 < 10" by simp
      then show ?thesis unfolding c by (auto simp: less_eq_char_def)
    qed
  qed
qed

lemma dec_value_dec_string: "dec_value (dec_string n) = n"
proof (induction n rule: dec_string.induct)
  case (1 n)
  then show ?case
    by (simp add: dec_string.simps [of n] of_char_of)
qed



lemma dash_not_digit: "CHR ''-'' \<notin> set (dec_string k)"
  using dec_string_digits [of "CHR ''-''" k] by (auto simp: less_eq_char_def)

lemma dec_string_inj: "dec_string k1 = dec_string k2 \<Longrightarrow> k1 = k2"
  by (metis dec_value_dec_string)

lemma alias_shape_inj:
  "b1 @ CHR ''-'' # dec_string k1 = b2 @ CHR ''-'' # dec_string k2 \<Longrightarrow> b1 = b2 \<and> k1 = k2"
  using sep_split_unique [of "CHR ''-''" "dec_string k1" "dec_string k2" b1 b2]
  by (auto simp: dash_not_digit dest: dec_string_inj)

lemma get_short_alias_gen:
  assumes "get_short_alias sa i np en st = Inr (a, st1)" and "\<not> keeps_path sa np"
  shows "a = alias_base en @ ''-'' @ dec_string (Suc (cnt st i (alias_base en))) \<and>
         cnt st1 i = (cnt st i)(alias_base en := Suc (cnt st i (alias_base en))) \<and>
         (\<forall>j. j \<noteq> i \<longrightarrow> cnt st1 j = cnt st j)"
  using assms
  by (auto simp: get_short_alias_def get_sq_def put_sq_def cnt_def Let_def fun_eq_iff
           split: option.splits)

lemma get_short_alias_keep:
  assumes "get_short_alias sa i np en st = Inr (a, st1)" and "keeps_path sa np"
  shows "st1 = st \<and> np = Some a"
  using assms
  by (auto simp: get_short_alias_def keeps_path_def split: option.splits if_splits)

lemma alias_run_fresh:
  "alias_run sa i rs st = Inr (as, st') \<Longrightarrow>
     distinct (generated sa rs as) \<and>
     (\<forall>a\<in>set (generated sa rs as). \<exists>b k. a = b @ ''-'' @ dec_string k \<and> cnt st i b < k \<and> k \<le> cnt st' i b) \<and>
     (\<forall>b. cnt st i b \<le> cnt st' i b)"
proof (induction rs arbitrary: st as)
  case Nil
  then show ?case by (simp add: generated_def)
next
  case (Cons r rs)
  obtain np en where rq: "r = (np, en)" by (cases r)
  from Cons.prems rq obtain a st1 as' where g: "get_short_alias sa i np en st = Inr (a, st1)"
    and rr: "alias_run sa i rs st1 = Inr (as', st')" and as: "as = a # as'"
    by (auto split: prod.splits)
  note IH = Cons.IH [OF rr]
  show ?case
  proof (cases "keeps_path sa np")
    case True
    with g have "st1 = st" by (simp add: get_short_alias_keep)
    with IH True as rq show ?thesis by (simp add: generated_def)
  next
    case False
    let ?b = "alias_base en" and ?k = "Suc (cnt st i (alias_base en))"
    from get_short_alias_gen [OF g False] have a: "a = ?b @ ''-'' @ dec_string ?k"
      and c1: "cnt st1 i = (cnt st i)(?b := ?k)" by auto
    have fresh: "a \<notin> set (generated sa rs as')"
    proof
      assume "a \<in> set (generated sa rs as')"
      with IH obtain b k where eq: "a = b @ ''-'' @ dec_string k" and lt: "cnt st1 i b < k" by blast
      from eq a have "b = ?b \<and> k = ?k" using alias_shape_inj [of b k ?b ?k] by simp
      with lt c1 show False by simp
    qed
    have mono: "cnt st i b \<le> cnt st1 i b" for b by (simp add: c1)
    show ?thesis
    proof (intro conjI allI ballI)
      show "distinct (generated sa (r # rs) as)"
        using IH fresh False as rq by (simp add: generated_def)
    next
      fix b show "cnt st i b \<le> cnt st' i b" using IH mono order_trans by blast
    next
      fix x assume "x \<in> set (generated sa (r # rs) as)"
      with False as rq have "x = a \<or> x \<in> set (generated sa rs as')" by (auto simp: generated_def)
      then show "\<exists>b k. x = b @ ''-'' @ dec_string k \<and> cnt st i b < k \<and> k \<le> cnt st' i b"
      proof
        assume "x = a"
        moreover have "?k \<le> cnt st' i ?b" using IH c1 by (metis fun_upd_same)
        ultimately show ?thesis using a by auto
      next
        assume "x \<in> set (generated sa rs as')"
        with IH obtain b k where "x = b @ ''-'' @ dec_string k" "cnt st1 i b < k" "k \<le> cnt st' i b"
          by blast
        moreover from mono [of b] \<open>cnt st1 i b < k\<close> have "cnt st i b < k" by simp
        ultimately show ?thesis by blast
      qed
    qed
  qed
qed


text \<open>
  Claim C4. The aliases \<open>get_short_alias\<close> generates in one subquery (those not kept
  from a name path) are pairwise distinct over any run of requests: each is a base name,
  a dash and a number its counter has not reached before.
\<close>

theorem alias_run_distinct:
  "alias_run sa i rs st = Inr (as, st') \<Longrightarrow> distinct (generated sa rs as)"
  using alias_run_fresh by blast

lemma st_root_sq: "sqs st_root 0 = Some \<lparr>sq_scope = [], sq_left_join = False, from_ast = [Str ''FROM''],
    sq_conditions = [], sq_names = [], alias_counters = Map.empty\<rparr>"
  by (simp add: st_root_def new_subquery_def init_tstate_def)

theorem alias_run_distinct_witness:
  "(\<exists>st'. alias_run False 0 reqs_ex st_root = Inr ([''student-1'', ''student-2'', ''s'', ''group-1''], st')) \<and>
   distinct (generated False reqs_ex [''student-1'', ''student-2'', ''s'', ''group-1''])"
proof -
  have "map_sum id fst (alias_run False 0 reqs_ex st_root) = Inr [''student-1'', ''student-2'', ''s'', ''group-1'']"
    by code_simp
  then obtain st' where run: "alias_run False 0 reqs_ex st_root = Inr ([''student-1'', ''student-2'', ''s'', ''group-1''], st')"
    by (cases "alias_run False 0 reqs_ex st_root") auto
  show ?thesis using run alias_run_distinct [OF run] by blast
qed


text \<open>
  Claim C5. \<open>get_short_alias\<close> keeps a name path that is a Python identifier as the
  alias whatever its length, also with \<open>SIMPLE_ALIASES\<close> set and beyond the 30
  characters of \<open>max_alias_length\<close>.
\<close>

theorem get_short_alias_ident:
  "is_ident np \<Longrightarrow> sqs st i \<noteq> None \<Longrightarrow> get_short_alias sa i (Some np) en st = Inr (np, st)"
  by (auto simp: get_short_alias_def get_sq_def keeps_path_def is_ident_def)

theorem get_short_alias_ident_witness:
  "is_ident ''student_group_subjects_of_the_faculty'' \<and> max_alias_length < length ''student_group_subjects_of_the_faculty'' \<and>
   get_short_alias True 0 (Some ''student_group_subjects_of_the_faculty'') ''Subject'' st_root
     = Inr (''student_group_subjects_of_the_faculty'', st_root)"
proof -
  have id: "is_ident ''student_group_subjects_of_the_faculty''" by code_simp
  have "sqs st_root 0 \<noteq> None" by (simp add: st_root_sq)
  with id show ?thesis using get_short_alias_ident by (simp add: max_alias_length_def)
qed

lemma scope_lookup_cong:
  "(\<And>j. trs st' (j, np) = trs st (j, np)) \<Longrightarrow> scope_lookup st' is np = scope_lookup st is np"
  by (induction "is") auto

lemma add_tableref_Inr:
  assumes "add_tableref i np p attr st = Inr (k, st')"
  shows "\<exists>sq e. sqs st i = Some sq \<and> trs st (i, np) = None \<and> attr_target attr = Some e \<and> k = (i, np) \<and>
     st' = put_sq i (sq\<lparr>sq_names := sq_names sq @ [np]\<rparr>)
             (put_tr (i, np) \<lparr>tr_sq = i, tr_name_path = np, tr_alias = None, tr_entity = e,
                      joined = False, optimized = None, tr_pk_columns = None,
                      tr_kind = JoinedRef p attr\<rparr> st)"
  using assms
  by (auto simp: add_tableref_def get_sq_def new_joined_tableref_def split: option.splits if_splits)

text \<open>
  Claim C6. \<open>add_tableref\<close> files a new, unjoined JoinedTableRef under its name path:
  afterwards \<open>get_tableref\<close> finds it from its subquery, and the lookup of every other
  name path from every subquery is unchanged.
\<close>

theorem add_tableref_lookup:
  assumes add: "add_tableref i np p attr st = Inr (k, st')"
  shows "k = (i, np) \<and> get_tableref st' i np = Inr (Some (i, np)) \<and>
         (\<exists>tr. trs st' (i, np) = Some tr \<and> \<not> joined tr \<and> tr_kind tr = JoinedRef p attr) \<and>
         (\<forall>j np'. np' \<noteq> np \<longrightarrow> get_tableref st' j np' = get_tableref st j np')"
proof -
  from add_tableref_Inr [OF add] obtain sq e where sq: "sqs st i = Some sq"
    and k: "k = (i, np)" and st': "st' = put_sq i (sq\<lparr>sq_names := sq_names sq @ [np]\<rparr>)
             (put_tr (i, np) \<lparr>tr_sq = i, tr_name_path = np, tr_alias = None, tr_entity = e,
                      joined = False, optimized = None, tr_pk_columns = None,
                      tr_kind = JoinedRef p attr\<rparr> st)"
    by blast
  have scopes: "map_option sq_scope (sqs st' j) = map_option sq_scope (sqs st j)" for j
    using sq by (simp add: st' put_sq_def put_tr_def)
  have other: "get_tableref st' j np' = get_tableref st j np'" if "np' \<noteq> np" for j np'
  proof -
    have sl: "scope_lookup st' is np' = scope_lookup st is np'" for "is"
      using that by (intro scope_lookup_cong) (simp add: st' put_sq_def put_tr_def)
    show ?thesis
    proof (cases "sqs st j")
      case None
      with scopes [of j] have "sqs st' j = None" by simp
      with None show ?thesis by (simp add: get_tableref_def get_sq_def)
    next
      case (Some a)
      with scopes [of j] obtain aa where "sqs st' j = Some aa" and "sq_scope aa = sq_scope a"
        by (cases "sqs st' j") auto
      with Some show ?thesis by (simp only: get_tableref_def get_sq_def option.case rbind_Inr sl)
    qed
  qed
  have "get_tableref st' i np = Inr (Some (i, np))"
    by (simp add: st' get_tableref_def get_sq_def put_sq_def put_tr_def)
  with k other st' show ?thesis by (auto simp: put_sq_def put_tr_def)
qed

theorem add_tableref_lookup_witness:
  "\<exists>st'. add_tableref 0 ''s-group'' (0, ''s'') student_group st_s = Inr ((0, ''s-group''), st') \<and>
         get_tableref st' 0 ''s-group'' = Inr (Some (0, ''s-group''))"
proof -
  have "map_sum id fst (add_tableref 0 ''s-group'' (0, ''s'') student_group st_s) = Inr (0, ''s-group'')"
    by code_simp
  then obtain st' where add: "add_tableref 0 ''s-group'' (0, ''s'') student_group st_s = Inr ((0, ''s-group''), st')"
    by (cases "add_tableref 0 ''s-group'' (0, ''s'') student_group st_s") auto
  with add_tableref_lookup [OF add] show ?thesis by blast
qed

text \<open>
  Claim C7. \<open>add_tableref\<close> refuses a name path already bound in the same subquery
  (the \<open>assert name_path not in tablerefs\<close>): each name path names one tableref per scope.
\<close>

theorem add_tableref_duplicate:
  "sqs st i \<noteq> None \<Longrightarrow> trs st (i, np) \<noteq> None \<Longrightarrow> add_tableref i np p attr st = Inl AssertionError"
  by (auto simp: add_tableref_def get_sq_def)

theorem add_tableref_duplicate_witness:
  "add_tableref 0 ''s'' (0, ''s'') student_group st_s = Inl AssertionError"
proof -
  have "sqs st_s 0 \<noteq> None" and "trs st_s (0, ''s'') \<noteq> None" by code_simp+
  then show ?thesis by (rule add_tableref_duplicate)
qed



lemma dec_string_length_le2: "n < 100 \<Longrightarrow> length (dec_string n) \<le> 2"
proof (cases "n < 10")
  case False
  assume "n < 100"
  then have "n div 10 < 10" by simp
  with False show ?thesis by (simp add: dec_string.simps [of n] dec_string.simps [of "n div 10"])
qed (simp add: dec_string.simps [of n])

lemma length_py_lower [simp]: "length (py_lower s) = length s"
  by (simp add: py_lower_def)

text \<open>C36: A generated alias has the lower-cased first 27 characters of the entity name, a dash
  and the counter's digits; so it stays within \<open>max_alias_length\<close> while the counter is
  below 100, the bound the truncation to 27 characters leaves room for.\<close>

theorem generated_alias_length:
  assumes g: "get_short_alias sa i np en st = Inr (a, st1)" and "\<not> keeps_path sa np"
  shows "length a = min (length en) 27 + 1 + length (dec_string (Suc (cnt st i (alias_base en)))) \<and>
         (Suc (cnt st i (alias_base en)) < 100 \<longrightarrow> length a \<le> max_alias_length)"
proof -
  let ?k = "Suc (cnt st i (alias_base en))"
  have a: "a = alias_base en @ ''-'' @ dec_string ?k" using get_short_alias_gen [OF assms] by blast
  then have len: "length a = min (length en) 27 + 1 + length (dec_string ?k)"
    by (simp add: alias_base_def max_alias_length_def)
  have "?k < 100 \<longrightarrow> length a \<le> max_alias_length"
  proof
    assume "?k < 100"
    then have "length (dec_string ?k) \<le> 2" by (rule dec_string_length_le2)
    moreover have "min (length en) 27 \<le> 27" by simp
    ultimately show "length a \<le> max_alias_length" using len unfolding max_alias_length_def by linarith
  qed
  with len show ?thesis by blast
qed

theorem generated_alias_length_witness:
  "(\<exists>st1. get_short_alias False 0 None ''StudentGroupSubjectsOfFaculty'' st_root
           = Inr (''studentgroupsubjectsoffacul-1'', st1)) \<and>
   length ''studentgroupsubjectsoffacul-1'' \<le> max_alias_length \<and>
   (\<exists>st1. get_short_alias False 0 None ''StudentGroupSubjectsOfFaculty'' (put_sq 0 \<lparr>sq_scope = [], sq_left_join = False, from_ast = [Str ''FROM''],
    sq_conditions = [], sq_names = [], alias_counters = [''studentgroupsubjectsoffacul'' \<mapsto> 99]\<rparr> st_root)
           = Inr (''studentgroupsubjectsoffacul-100'', st1)) \<and>
   max_alias_length < length ''studentgroupsubjectsoffacul-100''"
proof -
  have "map_sum id fst (get_short_alias False 0 None ''StudentGroupSubjectsOfFaculty'' st_root)
          = Inr ''studentgroupsubjectsoffacul-1''"
    by code_simp
  then obtain st1 where g1: "get_short_alias False 0 None ''StudentGroupSubjectsOfFaculty'' st_root
          = Inr (''studentgroupsubjectsoffacul-1'', st1)"
    by (cases "get_short_alias False 0 None ''StudentGroupSubjectsOfFaculty'' st_root") auto
  have "map_sum id fst (get_short_alias False 0 None ''StudentGroupSubjectsOfFaculty'' (put_sq 0 \<lparr>sq_scope = [], sq_left_join = False, from_ast = [Str ''FROM''],
    sq_conditions = [], sq_names = [], alias_counters = [''studentgroupsubjectsoffacul'' \<mapsto> 99]\<rparr> st_root))
          = Inr ''studentgroupsubjectsoffacul-100''"
    by code_simp
  then have g2: "\<exists>st1. get_short_alias False 0 None ''StudentGroupSubjectsOfFaculty'' (put_sq 0 \<lparr>sq_scope = [], sq_left_join = False, from_ast = [Str ''FROM''],
    sq_conditions = [], sq_names = [], alias_counters = [''studentgroupsubjectsoffacul'' \<mapsto> 99]\<rparr> st_root)
          = Inr (''studentgroupsubjectsoffacul-100'', st1)"
    by (cases "get_short_alias False 0 None ''StudentGroupSubjectsOfFaculty'' (put_sq 0 \<lparr>sq_scope = [], sq_left_join = False, from_ast = [Str ''FROM''],
    sq_conditions = [], sq_names = [], alias_counters = [''studentgroupsubjectsoffacul'' \<mapsto> 99]\<rparr> st_root)") auto
  have nk: "\<not> keeps_path False None" by (simp add: keeps_path_def)
  have c: "cnt st_root 0 (alias_base ''StudentGroupSubjectsOfFaculty'') = 0"
    by (simp add: cnt_def st_root_sq)
  from generated_alias_length [OF g1 nk] c have "length ''studentgroupsubjectsoffacul-1'' \<le> max_alias_length"
    by simp
  with g1 g2 show ?thesis by (auto simp: max_alias_length_def)
qed

end
