(* ===== verification/TableRefs.thy ===== *)
theory TableRefs
  imports Subqueries
begin

text \<open>
  Join materialisation: \<open>TableRef.make_join\<close> and \<open>JoinedTableRef.make_join\<close> of
  \<open>src/pony/orm/sqltranslation.py\<close> (lines 578--665). A table reference is joined
  lazily, the first time a column of it is needed: a root reference adds
  \<open>[alias, 'TABLE', table]\<close> to its subquery's FROM list; an attribute traversal first
  joins its parent, then adds the target table with the join condition on the owning
  side's columns, or the link table and the target table for a many-to-many attribute.
  With \<open>pk_only\<close>, a traversal whose foreign key sits in the parent row is not joined at
  all: the parent's alias and the key columns stand for it (the "optimized" state).

  The JoinedTableRef handler is written against the parent's join as a function
  argument \<open>pj\<close> (the interface of the parent reference); \<open>make_join\<close> ties it
  to the recursion through the parent chain, with fuel: each step to a parent spends
  one unit, and the termination lemmas show that a fuel of the chain's length never
  runs out and that more fuel changes nothing.
\<close>

type_synonym join_result = "((string \<times> string list) \<times> tstate) result"

section \<open>Subquery updates\<close>

text \<open>\<open>subquery.from_ast.append(item)\<close>, \<open>conditions.append(c)\<close>, \<open>conditions.insert(0, c)\<close>.\<close>

definition sq_append_from :: "nat \<Rightarrow> sql \<Rightarrow> tstate \<Rightarrow> tstate result" where
  "sq_append_from i item st =
     rbind (get_sq st i) (\<lambda>sq. Inr (put_sq i (sq\<lparr>from_ast := from_ast sq @ [item]\<rparr>) st))"

definition sq_append_cond :: "nat \<Rightarrow> sql \<Rightarrow> tstate \<Rightarrow> tstate result" where
  "sq_append_cond i c st =
     rbind (get_sq st i) (\<lambda>sq. Inr (put_sq i (sq\<lparr>sq_conditions := sq_conditions sq @ [c]\<rparr>) st))"

definition sq_insert_cond0 :: "nat \<Rightarrow> sql \<Rightarrow> tstate \<Rightarrow> tstate result" where
  "sq_insert_cond0 i c st =
     rbind (get_sq st i) (\<lambda>sq. Inr (put_sq i (sq\<lparr>sq_conditions := c # sq_conditions sq\<rparr>) st))"

text \<open>A FROM entry: \<open>[alias, 'TABLE', table]\<close>, with the join condition as fourth element.\<close>

definition table_item :: "string \<Rightarrow> string \<Rightarrow> sql list \<Rightarrow> sql" where
  "table_item alias table cond = Node ([Str alias, Str ''TABLE'', Str table] @ cond)"

text \<open>The assignments to the tableref's own fields, on the object as it is at that point.\<close>

definition set_join_state ::
  "trkey \<Rightarrow> string \<Rightarrow> string list \<Rightarrow> bool \<Rightarrow> tstate \<Rightarrow> tstate result" where
  "set_join_state k alias cols opt st =
     rbind (get_tr st k) (\<lambda>tr. Inr (put_tr k (tr\<lparr>tr_alias := Some alias, tr_pk_columns := Some cols,
                                                  optimized := Some opt, joined := True\<rparr>) st))"

section \<open>TableRef.make_join (lines 578--588)\<close>

definition make_join_root :: "trkey \<Rightarrow> tableref \<Rightarrow> tstate \<Rightarrow> join_result" where
  "make_join_root k tr st =
     (case tr_alias tr of
        None \<Rightarrow> Inl (AttributeError ''alias'')
      | Some alias \<Rightarrow>
          (let e = tr_entity tr
           in if joined tr then Inr ((alias, ent_pk_columns e), st)
              else
                rbind (sq_append_from (tr_sq tr) (table_item alias (ent_table e) []) st) (\<lambda>st1.
                rbind (case ent_discr e of
                         None \<Rightarrow> Inr st1
                       | Some _ \<Rightarrow> (case discriminator_criteria e alias of
                                     None \<Rightarrow> Inl AssertionError
                                   | Some c \<Rightarrow> sq_append_cond (tr_sq tr) c st1)) (\<lambda>st2.
                Inr ((alias, ent_pk_columns e), put_tr k (tr\<lparr>joined := True\<rparr>) st2)))))"

section \<open>JoinedTableRef.make_join (lines 601--665)\<close>

text \<open>
  The end of every full join (lines 658--665): the discriminator condition goes first in
  the subquery's conditions, the tableref records its alias and key columns, is joined
  and not optimized, and the alias and the target's key columns are returned.
\<close>

definition jmj_finish :: "trkey \<Rightarrow> nat \<Rightarrow> entity \<Rightarrow> string \<Rightarrow> tstate \<Rightarrow> join_result" where
  "jmj_finish k i e alias st =
     rbind (case ent_discr e of
              None \<Rightarrow> Inr st
            | Some _ \<Rightarrow> (case discriminator_criteria e alias of
                          None \<Rightarrow> Inl AssertionError
                        | Some c \<Rightarrow> sq_insert_cond0 i c st)) (\<lambda>st1.
     rbind (set_join_state k alias (ent_pk_columns e) False st1) (\<lambda>st2.
     Inr ((alias, ent_pk_columns e), st2)))"

text \<open>
  A full join of the target table under a fresh alias with condition
  \<open>join_tables(left_alias, alias, left_columns, right_columns)\<close>.
\<close>

definition jmj_table ::
  "bool \<Rightarrow> trkey \<Rightarrow> nat \<Rightarrow> string \<Rightarrow> entity \<Rightarrow> string \<Rightarrow> string list \<Rightarrow> string list \<Rightarrow> tstate \<Rightarrow> join_result" where
  "jmj_table sa k i np e left_alias left_cols right_cols st =
     rbind (get_short_alias sa i (Some np) (ent_name e) st) (\<lambda>(alias, st1).
     rbind (join_tables left_alias alias left_cols right_cols) (\<lambda>jc.
     rbind (sq_append_from i (table_item alias (ent_table e) [jc]) st1) (\<lambda>st2.
     jmj_finish k i e alias st2)))"

text \<open>
  A to-one attribute (lines 613--631). Without columns of its own the key is on the
  reverse side. With columns, a part of the parent's primary key is sliced out by
  \<open>pk_columns_offset\<close>; with \<open>pk_only\<close> no join is made.
\<close>

text \<open>
  The owning side's columns of a to-one attribute (lines 620--623): a slice of the
  parent's primary key when the attribute is part of it, its own columns otherwise.
\<close>

definition fk_left_columns :: "attribute \<Rightarrow> string list \<Rightarrow> string list" where
  "fk_left_columns attr left_pk_columns =
     (case pk_offset attr of
        None \<Rightarrow> attr_columns attr
      | Some _ \<Rightarrow> take (length (attr_columns attr)) (drop (pk_columns_offset attr) left_pk_columns))"

definition jmj_to_one ::
  "bool \<Rightarrow> trkey \<Rightarrow> tableref \<Rightarrow> attribute \<Rightarrow> bool \<Rightarrow> string \<Rightarrow> string list \<Rightarrow> tstate \<Rightarrow> join_result" where
  "jmj_to_one sa k tr attr pk_only parent_alias left_pk_columns st =
     (let e = tr_entity tr; i = tr_sq tr; np = tr_name_path tr
      in if attr_columns attr = [] then
           (case attr_reverse attr of
              None \<Rightarrow> Inl (AttributeError ''columns'')
            | Some ri \<Rightarrow>
                if rev_columns ri \<noteq> [] \<and> \<not> rev_is_collection ri
                then jmj_table sa k i np e parent_alias left_pk_columns (rev_columns ri) st
                else Inl AssertionError)
         else
           (let left_columns = fk_left_columns attr left_pk_columns
            in if pk_only then
                 rbind (set_join_state k parent_alias left_columns True st) (\<lambda>st1.
                 Inr ((parent_alias, left_columns), st1))
               else jmj_table sa k i np e parent_alias left_columns (ent_pk_columns e) st))"

text \<open>
  A many-to-many attribute (lines 637--656): the link table under an alias
  \<open>t-<n>\<close>, joined once; with \<open>pk_only\<close> the link table's columns stand for the
  target's key. A later full join reuses the link alias of the optimized state.
\<close>

definition jmj_m2m ::
  "bool \<Rightarrow> trkey \<Rightarrow> tableref \<Rightarrow> attribute \<Rightarrow> rev_info \<Rightarrow> bool \<Rightarrow> string \<Rightarrow> string list \<Rightarrow> tstate \<Rightarrow> join_result" where
  "jmj_m2m sa k tr attr ri pk_only parent_alias left_pk_columns st =
       (let e = tr_entity tr; i = tr_sq tr; np = tr_name_path tr;
            right_m2m_columns =
              (if symmetric attr \<and> attr_reverse_columns attr \<noteq> [] then attr_reverse_columns attr
               else attr_columns attr);
            rest = (\<lambda>m2m_alias st1. jmj_table sa k i np e m2m_alias right_m2m_columns (ent_pk_columns e) st1)
        in if \<not> joined tr then
             rbind (get_short_alias sa i None ''t'' st) (\<lambda>(m2m_alias, st1).
             rbind (join_tables parent_alias m2m_alias left_pk_columns
                      (if symmetric attr \<and> attr_columns attr \<noteq> [] then attr_columns attr else rev_columns ri))
               (\<lambda>jc.
             rbind (sq_append_from i (table_item m2m_alias (m2m_table attr) [jc]) st1) (\<lambda>st2.
             if pk_only then
               rbind (set_join_state k m2m_alias right_m2m_columns True st2) (\<lambda>st3.
               Inr ((m2m_alias, right_m2m_columns), st3))
             else rest m2m_alias st2)))
           else if optimized tr = Some True then
             (if pk_only then Inl AssertionError
              else (case tr_alias tr of None \<Rightarrow> Inl (AttributeError ''alias'') | Some a \<Rightarrow> rest a st))
           else Inl AssertionError)"

text \<open>
  The three kinds of attribute (lines 613--656): to-one, one-to-many through the
  reverse attribute's columns, and many-to-many through the link table.
\<close>

definition jmj_attr ::
  "bool \<Rightarrow> trkey \<Rightarrow> tableref \<Rightarrow> attribute \<Rightarrow> bool \<Rightarrow> string \<Rightarrow> string list \<Rightarrow> tstate \<Rightarrow> join_result" where
  "jmj_attr sa k tr attr pk_only parent_alias left_pk_columns st =
     (if \<not> is_collection attr then
        jmj_to_one sa k tr attr pk_only parent_alias left_pk_columns st
      else (case attr_reverse attr of
              None \<Rightarrow> Inl (AttributeError ''is_collection'')
            | Some ri \<Rightarrow>
                if \<not> rev_is_collection ri then
                  jmj_table sa k (tr_sq tr) (tr_name_path tr) (tr_entity tr) parent_alias
                    left_pk_columns (rev_columns ri) st
                else jmj_m2m sa k tr attr ri pk_only parent_alias left_pk_columns st))"

text \<open>
  The whole handler: the early return of a joined reference, the parent's join
  (\<open>pj\<close>, asked for its key only when this attribute is part of the parent's key or
  a collection), then the attribute's own join on the tableref as it is after the
  parent's join.
\<close>

definition joined_make_join ::
  "(bool \<Rightarrow> tstate \<Rightarrow> join_result) \<Rightarrow> bool \<Rightarrow> trkey \<Rightarrow> tableref \<Rightarrow> attribute \<Rightarrow> bool \<Rightarrow> tstate \<Rightarrow> join_result" where
  "joined_make_join pj sa k tr attr pk_only0 st =
     (let e = tr_entity tr;
          pk_only = (pk_only0 \<and> ent_discr e = None)
      in if joined tr \<and> (pk_only \<or> optimized tr \<noteq> Some True) then
           (case (tr_alias tr, tr_pk_columns tr) of
              (Some a, Some cols) \<Rightarrow> Inr ((a, cols), st)
            | _ \<Rightarrow> Inl (AttributeError ''pk_columns''))
         else
           rbind (pj (pk_offset attr \<noteq> None \<or> is_collection attr) st) (\<lambda>((parent_alias, left_pk_columns), st1).
           rbind (get_tr st1 k) (\<lambda>tr1.
             jmj_attr sa k tr1 attr pk_only parent_alias left_pk_columns st1)))"

section \<open>The recursion through the parent chain\<close>

fun make_join :: "nat \<Rightarrow> bool \<Rightarrow> trkey \<Rightarrow> bool \<Rightarrow> tstate \<Rightarrow> join_result" where
  "make_join 0 sa k pk_only st = Inl OutOfFuel"
| "make_join (Suc n) sa k pk_only st =
     rbind (get_tr st k) (\<lambda>tr.
       case tr_kind tr of
         RootRef \<Rightarrow> make_join_root k tr st
       | JoinedRef p attr \<Rightarrow> joined_make_join (\<lambda>b. make_join n sa p b) sa k tr attr pk_only st)"

text \<open>
  The chain of parents from a reference reaches a root reference within \<open>n\<close> steps.
  Not code: the fuel a join needs.
\<close>

fun chain_ok :: "nat \<Rightarrow> tstate \<Rightarrow> trkey \<Rightarrow> bool" where
  "chain_ok 0 st k = False"
| "chain_ok (Suc n) st k =
     (case trs st k of
        None \<Rightarrow> False
      | Some tr \<Rightarrow> (case tr_kind tr of RootRef \<Rightarrow> True | JoinedRef p _ \<Rightarrow> chain_ok n st p))"

section \<open>Abstractions used by the lemmas\<close>

text \<open>
  Not code: the parts of a tableref that a join never changes, the growth of the
  subqueries' FROM lists, the cached result of a joined reference, the keys of a parent
  chain, a rank that decreases along parent links, the states the translator's
  operations reach, and the join phases of a tableref with their allowed steps.
\<close>

definition tr_frame :: "tstate \<Rightarrow> trkey \<Rightarrow> (nat \<times> string \<times> entity \<times> trkind) option" where
  "tr_frame st k = map_option (\<lambda>tr. (tr_sq tr, tr_name_path tr, tr_entity tr, tr_kind tr)) (trs st k)"

definition sq_grows :: "tstate \<Rightarrow> tstate \<Rightarrow> bool" where
  "sq_grows st st' =
     (\<forall>i sq. sqs st i = Some sq \<longrightarrow>
        (\<exists>sq' suf. sqs st' i = Some sq' \<and> sq_scope sq' = sq_scope sq \<and> from_ast sq' = from_ast sq @ suf))"

definition grows :: "tstate \<Rightarrow> tstate \<Rightarrow> bool" where
  "grows st st' = (tr_frame st' = tr_frame st \<and> sq_grows st st')"

definition join_cached :: "bool \<Rightarrow> tableref \<Rightarrow> string \<Rightarrow> string list \<Rightarrow> bool" where
  "join_cached b tr a cols =
     (joined tr \<and> tr_alias tr = Some a \<and>
      (case tr_kind tr of
         RootRef \<Rightarrow> cols = ent_pk_columns (tr_entity tr)
       | JoinedRef _ _ \<Rightarrow> tr_pk_columns tr = Some cols \<and>
                         (b \<and> ent_discr (tr_entity tr) = None \<or> optimized tr \<noteq> Some True)))"

definition sets_join :: "trkey \<Rightarrow> bool \<Rightarrow> tstate \<Rightarrow> tstate \<Rightarrow> string \<Rightarrow> string list \<Rightarrow> bool" where
  "sets_join k b st st' a cols =
     (\<exists>tr0 opt. trs st k = Some tr0 \<and> (opt \<longrightarrow> b) \<and>
        trs st' = (trs st)(k \<mapsto> tr0\<lparr>tr_alias := Some a, tr_pk_columns := Some cols, optimized := Some opt, joined := True\<rparr>))"

fun chain_keys :: "nat \<Rightarrow> tstate \<Rightarrow> trkey \<Rightarrow> trkey list" where
  "chain_keys 0 st k = []"
| "chain_keys (Suc n) st k =
     k # (case trs st k of
            None \<Rightarrow> []
          | Some tr \<Rightarrow> (case tr_kind tr of RootRef \<Rightarrow> [] | JoinedRef p _ \<Rightarrow> chain_keys n st p))"

definition ranked :: "(trkey \<Rightarrow> nat) \<Rightarrow> tstate \<Rightarrow> bool" where
  "ranked rk st =
     (\<forall>k tr p attr. trs st k = Some tr \<longrightarrow> tr_kind tr = JoinedRef p attr \<longrightarrow>
        trs st p \<noteq> None \<and> rk p < rk k)"

inductive reach :: "tstate \<Rightarrow> bool" where
  init: "reach init_tstate"
| subquery: "reach st \<Longrightarrow> new_subquery p lj st = Inr (i, st') \<Longrightarrow> reach st'"
| root: "reach st \<Longrightarrow> add_root_tableref i name e st = Inr (k, st') \<Longrightarrow> reach st'"
| attr: "reach st \<Longrightarrow> trs st parent \<noteq> None \<Longrightarrow> add_tableref i np parent attr st = Inr (k, st') \<Longrightarrow> reach st'"
| join: "reach st \<Longrightarrow> make_join n sa k b st = Inr (r, st') \<Longrightarrow> reach st'"

datatype join_phase = Unjoined | Optimized | Joined

definition phase_of :: "tableref \<Rightarrow> join_phase" where
  "phase_of tr = (if \<not> joined tr then Unjoined else if optimized tr = Some True then Optimized else Joined)"

inductive phase_step :: "join_phase \<Rightarrow> join_phase \<Rightarrow> bool" where
  stay: "phase_step p p"
| optimize: "phase_step Unjoined Optimized"
| join: "phase_step Unjoined Joined"
| upgrade: "phase_step Optimized Joined"

text \<open>The state the witnesses use: a root reference \<open>s\<close> of \<open>Student\<close> in subquery 0 and the
  attribute reference \<open>s-group\<close> for \<open>s.group\<close> (\<open>src/old/models/model1.py\<close>).\<close>

definition st_g :: tstate where
  "st_g = snd (projr (add_tableref 0 ''s-group'' (0, ''s'') student_group st_s))"

section \<open>Lemmas\<close>

subsection \<open>Frame and growth of the store\<close>

lemma set_join_state_Inr:
  "set_join_state k a c opt st = Inr st' \<longleftrightarrow>
   (\<exists>tr. trs st k = Some tr \<and> st' = put_tr k (tr\<lparr>tr_alias := Some a, tr_pk_columns := Some c, optimized := Some opt, joined := True\<rparr>) st)"
  by (auto simp: set_join_state_def get_tr_def split: option.splits)

lemma grows_refl [simp]: "grows st st"
  by (auto simp: grows_def sq_grows_def)

lemma grows_trans [trans]: "grows st1 st2 \<Longrightarrow> grows st2 st3 \<Longrightarrow> grows st1 st3"
proof -
  assume g1: "grows st1 st2" and g2: "grows st2 st3"
  have "sq_grows st1 st3"
    unfolding sq_grows_def
  proof (intro allI impI)
    fix i sq assume "sqs st1 i = Some sq"
    with g1 obtain sq2 suf2 where "sqs st2 i = Some sq2" "sq_scope sq2 = sq_scope sq"
      "from_ast sq2 = from_ast sq @ suf2" unfolding grows_def sq_grows_def by blast
    with g2 obtain sq3 suf3 where "sqs st3 i = Some sq3" "sq_scope sq3 = sq_scope sq"
      "from_ast sq3 = from_ast sq @ suf2 @ suf3" unfolding grows_def sq_grows_def by fastforce
    then show "\<exists>sq' suf. sqs st3 i = Some sq' \<and> sq_scope sq' = sq_scope sq \<and> from_ast sq' = from_ast sq @ suf"
      by blast
  qed
  with g1 g2 show ?thesis by (simp add: grows_def)
qed

lemma trs_put_sq [simp]: "trs (put_sq i sq st) = trs st"
  by (simp add: put_sq_def)

lemma grows_put_sq:
  "sqs st i = Some sq \<Longrightarrow> sq_scope sq' = sq_scope sq \<Longrightarrow> from_ast sq' = from_ast sq @ suf \<Longrightarrow>
   grows st (put_sq i sq' st)"
  unfolding grows_def sq_grows_def by (auto simp: put_sq_def tr_frame_def [abs_def])

lemma grows_put_sq_same:
  "sqs st i = Some sq \<Longrightarrow> sq_scope sq' = sq_scope sq \<Longrightarrow> from_ast sq' = from_ast sq \<Longrightarrow>
   grows st (put_sq i sq' st)"
  using grows_put_sq [where suf = "[]"] by simp

lemma grows_put_tr:
  "trs st k = Some tr \<Longrightarrow> tr_sq tr' = tr_sq tr \<Longrightarrow> tr_name_path tr' = tr_name_path tr \<Longrightarrow>
   tr_entity tr' = tr_entity tr \<Longrightarrow> tr_kind tr' = tr_kind tr \<Longrightarrow> grows st (put_tr k tr' st)"
  unfolding grows_def sq_grows_def tr_frame_def by (auto simp: put_tr_def fun_eq_iff)

lemma get_short_alias_grows:
  "get_short_alias sa i np en st = Inr x \<Longrightarrow> grows st (snd x) \<and> trs (snd x) = trs st"
  unfolding get_short_alias_def Let_def
  by (auto simp: get_sq_def split: option.splits if_splits intro!: grows_put_sq_same)

lemma sq_append_from_grows: "sq_append_from i x st = Inr st' \<Longrightarrow> grows st st' \<and> trs st' = trs st"
  by (auto simp: sq_append_from_def get_sq_def split: option.splits intro!: grows_put_sq)

lemma sq_append_cond_grows: "sq_append_cond i x st = Inr st' \<Longrightarrow> grows st st' \<and> trs st' = trs st"
  by (auto simp: sq_append_cond_def get_sq_def split: option.splits intro!: grows_put_sq_same)

lemma sq_insert_cond0_grows: "sq_insert_cond0 i x st = Inr st' \<Longrightarrow> grows st st' \<and> trs st' = trs st"
  by (auto simp: sq_insert_cond0_def get_sq_def split: option.splits intro!: grows_put_sq_same)

lemma set_join_state_grows: "set_join_state k a c opt st = Inr st' \<Longrightarrow> grows st st'"
  by (auto simp: set_join_state_Inr intro: grows_put_tr)

lemma discr_step_grows:
  "(case ent_discr e of None \<Rightarrow> Inr st | Some _ \<Rightarrow> (case discriminator_criteria e a of None \<Rightarrow> Inl AssertionError
      | Some c \<Rightarrow> sq_insert_cond0 i c st)) = Inr st1 \<Longrightarrow> grows st st1 \<and> trs st1 = trs st"
  by (auto split: option.splits dest: sq_insert_cond0_grows)

lemma jmj_finish_grows:
  "jmj_finish k i e a st = Inr (r, st') \<Longrightarrow> grows st st'"
  unfolding jmj_finish_def
  by (auto dest!: discr_step_grows set_join_state_grows intro: grows_trans)

lemma jmj_table_grows:
  "jmj_table sa k i np e la lc rc st = Inr (r, st') \<Longrightarrow> grows st st'"
  unfolding jmj_table_def case_prod_unfold
  by (auto dest!: jmj_finish_grows get_short_alias_grows sq_append_from_grows intro: grows_trans)

lemma jmj_to_one_grows:
  "jmj_to_one sa k tr attr b pa lpk st = Inr (r, st') \<Longrightarrow> grows st st'"
  unfolding jmj_to_one_def Let_def
  by (auto dest!: jmj_table_grows set_join_state_grows split: option.splits if_splits)

lemma jmj_m2m_grows:
  "jmj_m2m sa k tr attr ri b pa lpk st = Inr (r, st') \<Longrightarrow> grows st st'"
  unfolding jmj_m2m_def Let_def case_prod_unfold
  by (auto dest!: jmj_table_grows set_join_state_grows get_short_alias_grows sq_append_from_grows
           split: option.splits if_splits intro: grows_trans)

lemma jmj_attr_grows:
  "jmj_attr sa k tr attr b pa lpk st = Inr (r, st') \<Longrightarrow> grows st st'"
  unfolding jmj_attr_def
  by (auto dest: jmj_table_grows jmj_to_one_grows jmj_m2m_grows split: option.splits if_splits)

lemma grows_mark_joined:
  "grows st st1 \<Longrightarrow> trs st1 k = Some tr \<Longrightarrow> grows st (put_tr k (tr\<lparr>joined := True\<rparr>) st1)"
  by (rule grows_trans) (auto intro: grows_put_tr)

lemma make_join_root_grows:
  "trs st k = Some tr \<Longrightarrow> make_join_root k tr st = Inr (r, st') \<Longrightarrow> grows st st'"
  unfolding make_join_root_def Let_def
  by (auto dest!: sq_append_from_grows sq_append_cond_grows split: option.splits if_splits
           intro!: grows_mark_joined intro: grows_trans)

lemma joined_make_join_grows:
  assumes pj: "\<And>b x st1. pj b st = Inr (x, st1) \<Longrightarrow> grows st st1"
    and r: "joined_make_join pj sa k tr attr b st = Inr (r, st')"
  shows "grows st st'"
  using r unfolding joined_make_join_def Let_def case_prod_unfold
  by (auto dest!: pj jmj_attr_grows simp: get_tr_def split: option.splits if_splits intro: grows_trans)

lemma make_join_grows:
  "make_join n sa k b st = Inr (r, st') \<Longrightarrow> grows st st'"
proof (induction n arbitrary: k b st r st')
  case 0
  then show ?case by simp
next
  case (Suc n)
  then obtain tr where tr: "trs st k = Some tr" by (auto simp: get_tr_def split: option.splits)
  show ?case
  proof (cases "tr_kind tr")
    case RootRef
    with Suc.prems tr show ?thesis by (auto simp: get_tr_def intro: make_join_root_grows)
  next
    case (JoinedRef p attr)
    with Suc.prems tr show ?thesis
      by (auto simp: get_tr_def intro: joined_make_join_grows Suc.IH)
  qed
qed

lemma make_join_frame:
  "make_join n sa k b st = Inr (r, st') \<Longrightarrow> tr_frame st' = tr_frame st"
  by (auto dest: make_join_grows simp: grows_def)

subsection \<open>Fuel: enough fuel never runs out, more fuel changes nothing\<close>

lemma rbind_not_Inl:
  "r \<noteq> Inl e \<Longrightarrow> (\<And>a. r = Inr a \<Longrightarrow> f a \<noteq> Inl e) \<Longrightarrow> rbind r f \<noteq> Inl e"
  by (cases r) auto

lemma rbind_eq_Inl [simp]: "rbind r f = Inl e \<longleftrightarrow> r = Inl e \<or> (\<exists>a. r = Inr a \<and> f a = Inl e)"
  by (cases r) auto

lemma py_first_oof: "py_first x \<noteq> Inl OutOfFuel"
  by (cases x rule: py_first.cases) auto

lemma sql_flatten_oof: "sql_flatten op xs \<noteq> Inl OutOfFuel"
  by (induction xs) (auto simp: py_first_oof)

lemma sqland_oof: "sqland xs \<noteq> Inl OutOfFuel"
  by (cases xs rule: sqland.cases) (auto simp: sql_flatten_oof py_first_oof)

lemma get_short_alias_oof: "get_short_alias sa i np en st \<noteq> Inl OutOfFuel"
  by (auto simp: get_short_alias_def get_sq_def Let_def split: option.splits)

lemma join_tables_oof: "join_tables a1 a2 c1 c2 \<noteq> Inl OutOfFuel"
  by (simp add: join_tables_def sqland_oof)

lemma jmj_finish_oof: "jmj_finish k i e a st \<noteq> Inl OutOfFuel"
  by (auto simp: jmj_finish_def set_join_state_def get_tr_def sq_insert_cond0_def get_sq_def
           intro!: rbind_not_Inl split: option.splits)

lemma jmj_table_oof: "jmj_table sa k i np e la lc rc st \<noteq> Inl OutOfFuel"
  unfolding jmj_table_def
  by (auto simp: get_short_alias_oof join_tables_oof jmj_finish_oof sq_append_from_def get_sq_def
           split: option.splits)

lemma jmj_to_one_oof: "jmj_to_one sa k tr attr b pa lpk st \<noteq> Inl OutOfFuel"
  unfolding jmj_to_one_def Let_def
  by (auto simp: jmj_table_oof set_join_state_def get_tr_def split: option.splits)

lemma jmj_m2m_oof: "jmj_m2m sa k tr attr ri b pa lpk st \<noteq> Inl OutOfFuel"
  unfolding jmj_m2m_def Let_def
  by (auto simp: jmj_table_oof get_short_alias_oof join_tables_oof set_join_state_def get_tr_def
           sq_append_from_def get_sq_def split: option.splits)

lemma make_join_root_oof: "make_join_root k tr st \<noteq> Inl OutOfFuel"
  unfolding make_join_root_def Let_def
  by (auto simp: sq_append_from_def sq_append_cond_def get_sq_def split: option.splits)

lemma jmj_attr_oof: "jmj_attr sa k tr attr b pa lpk st \<noteq> Inl OutOfFuel"
  by (simp add: jmj_attr_def jmj_table_oof jmj_to_one_oof jmj_m2m_oof split: option.splits)

lemma joined_make_join_oof:
  "(\<And>b. pj b st \<noteq> Inl OutOfFuel) \<Longrightarrow> joined_make_join pj sa k tr attr b st \<noteq> Inl OutOfFuel"
  unfolding joined_make_join_def Let_def
  by (auto simp: jmj_attr_oof get_tr_def split: option.splits)

lemma joined_make_join_cong:
  assumes "\<And>b. pj b st = pj' b st"
  shows "joined_make_join pj sa k tr attr b st = joined_make_join pj' sa k tr attr b st"
  unfolding joined_make_join_def Let_def using assms by presburger

lemma chain_ok_Suc_iff:
  "chain_ok (Suc n) st k \<longleftrightarrow> (\<exists>tr. trs st k = Some tr \<and>
      (case tr_kind tr of RootRef \<Rightarrow> True | JoinedRef p _ \<Rightarrow> chain_ok n st p))"
  by (simp split: option.splits)

lemma make_join_enough_fuel:
  "chain_ok n st k \<Longrightarrow> make_join n sa k b st \<noteq> Inl OutOfFuel"
proof (induction n arbitrary: k b st)
  case 0
  then show ?case by simp
next
  case (Suc n)
  then obtain tr where tr: "trs st k = Some tr" by (auto split: option.splits)
  show ?case
  proof (cases "tr_kind tr")
    case RootRef
    with tr show ?thesis by (simp add: get_tr_def make_join_root_oof)
  next
    case (JoinedRef p attr)
    with Suc.prems tr have "chain_ok n st p" by simp
    with JoinedRef tr show ?thesis
      by (simp add: get_tr_def joined_make_join_oof Suc.IH)
  qed
qed

lemma make_join_fuel_mono:
  "chain_ok n st k \<Longrightarrow> n \<le> m \<Longrightarrow> make_join m sa k b st = make_join n sa k b st"
proof (induction n arbitrary: m k b st)
  case 0
  then show ?case by simp
next
  case (Suc n)
  then obtain m' where m: "m = Suc m'" and nm: "n \<le> m'" by (cases m) auto
  from Suc.prems obtain tr where tr: "trs st k = Some tr" by (auto split: option.splits)
  show ?case
  proof (cases "tr_kind tr")
    case RootRef
    with tr m show ?thesis by (simp add: get_tr_def)
  next
    case (JoinedRef p attr)
    with Suc.prems tr have "chain_ok n st p" by simp
    then have "\<And>b'. make_join m' sa p b' st = make_join n sa p b' st"
      using nm by (rule Suc.IH)
    with JoinedRef tr m show ?thesis
      by (simp add: get_tr_def cong: joined_make_join_cong)
  qed
qed

subsection \<open>The cached result of a join\<close>

lemma set_join_state_sets:
  "set_join_state k a c opt st = Inr st' \<Longrightarrow> (opt \<longrightarrow> b) \<Longrightarrow> sets_join k b st st' a c"
  by (auto simp: set_join_state_Inr sets_join_def put_tr_def)

lemma sets_join_trs: "sets_join k b st1 st' a c \<Longrightarrow> trs st1 = trs st \<Longrightarrow> sets_join k b st st' a c"
  by (simp add: sets_join_def)

lemma jmj_finish_sets:
  "jmj_finish k i e a st = Inr ((a', c), st') \<Longrightarrow> sets_join k b st st' a' c"
  unfolding jmj_finish_def
  by (auto dest!: discr_step_grows set_join_state_sets [where b = b] elim: sets_join_trs)

lemma jmj_table_sets:
  "jmj_table sa k i np e la lc rc st = Inr ((a, c), st') \<Longrightarrow> sets_join k b st st' a c"
  unfolding jmj_table_def case_prod_unfold
  by (auto dest!: jmj_finish_sets [where b = b] get_short_alias_grows sq_append_from_grows elim!: sets_join_trs)

lemma jmj_to_one_sets:
  "jmj_to_one sa k tr attr b pa lpk st = Inr ((a, c), st') \<Longrightarrow> sets_join k b st st' a c"
  unfolding jmj_to_one_def Let_def
  by (auto dest!: jmj_table_sets [where b = b] set_join_state_sets [where b = b] split: option.splits if_splits)

lemma jmj_m2m_sets:
  "jmj_m2m sa k tr attr ri b pa lpk st = Inr ((a, c), st') \<Longrightarrow> sets_join k b st st' a c"
  unfolding jmj_m2m_def Let_def case_prod_unfold
  apply (simp split: if_splits option.splits)
  apply (auto dest!: jmj_table_sets [where b = b] set_join_state_sets [where b = b] get_short_alias_grows
           sq_append_from_grows elim!: sets_join_trs)
  done

lemma tr_frame_kind:
  "tr_frame st' = tr_frame st \<Longrightarrow> trs st k = Some tr \<Longrightarrow>
   \<exists>tr'. trs st' k = Some tr' \<and> tr_kind tr' = tr_kind tr \<and> tr_entity tr' = tr_entity tr"
  by (drule fun_cong [of _ _ k]) (auto simp: tr_frame_def)

lemma jmj_attr_sets:
  "jmj_attr sa k tr attr b pa lpk st = Inr ((a, c), st') \<Longrightarrow> sets_join k b st st' a c"
  unfolding jmj_attr_def
  by (auto split: if_splits option.splits dest: jmj_to_one_sets jmj_m2m_sets jmj_table_sets [where b = b])

lemma joined_make_join_step:
  assumes r: "joined_make_join pj sa k tr attr b st = Inr ((a, c), st')"
    and nc: "\<not> (joined tr \<and> (b \<and> ent_discr (tr_entity tr) = None \<or> optimized tr \<noteq> Some True))"
  obtains x st1 where "pj (pk_offset attr \<noteq> None \<or> is_collection attr) st = Inr (x, st1)"
    and "sets_join k (b \<and> ent_discr (tr_entity tr) = None) st1 st' a c"
proof -
  from r nc have "\<exists>x st1. pj (pk_offset attr \<noteq> None \<or> is_collection attr) st = Inr (x, st1) \<and>
                    sets_join k (b \<and> ent_discr (tr_entity tr) = None) st1 st' a c"
    by (auto simp: joined_make_join_def Let_def get_tr_def case_prod_unfold split: option.splits
             dest!: jmj_attr_sets)
  then show ?thesis using that by blast
qed

lemma joined_make_join_post:
  assumes pj: "\<And>b x st1. pj b st = Inr (x, st1) \<Longrightarrow> tr_frame st1 = tr_frame st"
    and tr: "trs st k = Some tr" and kind: "tr_kind tr = JoinedRef p attr"
    and r: "joined_make_join pj sa k tr attr b st = Inr ((a, c), st')"
  shows "\<exists>tr'. trs st' k = Some tr' \<and> join_cached b tr' a c"
proof (cases "joined tr \<and> (b \<and> ent_discr (tr_entity tr) = None \<or> optimized tr \<noteq> Some True)")
  case True
  with r tr kind show ?thesis
    by (auto simp: joined_make_join_def join_cached_def split: option.splits)
next
  case False
  with r obtain x st1 where p: "pj (pk_offset attr \<noteq> None \<or> is_collection attr) st = Inr (x, st1)"
    and s: "sets_join k (b \<and> ent_discr (tr_entity tr) = None) st1 st' a c"
    by (rule joined_make_join_step)
  from pj [OF p] tr kind obtain tr1 where "trs st1 k = Some tr1" "tr_kind tr1 = JoinedRef p attr"
      "tr_entity tr1 = tr_entity tr"
    by (auto dest: tr_frame_kind)
  with s show ?thesis
    by (auto simp: sets_join_def join_cached_def)
qed

lemma make_join_root_post:
  "make_join_root k tr st = Inr ((a, c), st') \<Longrightarrow> trs st k = Some tr \<Longrightarrow> tr_kind tr = RootRef \<Longrightarrow>
   \<exists>tr'. trs st' k = Some tr' \<and> join_cached b tr' a c"
  unfolding make_join_root_def Let_def
  by (auto simp: join_cached_def put_tr_def split: option.splits if_splits)

lemma make_join_post:
  assumes r: "make_join n sa k b st = Inr ((a, c), st')"
  shows "\<exists>tr'. trs st' k = Some tr' \<and> join_cached b tr' a c"
proof -
  from r obtain n' tr where n: "n = Suc n'" and tr: "trs st k = Some tr"
    by (cases n) (auto simp: get_tr_def split: option.splits)
  show ?thesis
  proof (cases "tr_kind tr")
    case RootRef
    with r n tr show ?thesis by (auto simp: get_tr_def intro: make_join_root_post)
  next
    case (JoinedRef p attr)
    with r n tr have "joined_make_join (\<lambda>b. make_join n' sa p b) sa k tr attr b st = Inr ((a, c), st')"
      by (simp add: get_tr_def)
    with tr JoinedRef show ?thesis
      by (blast intro: joined_make_join_post make_join_frame)
  qed
qed

lemma make_join_cached:
  "trs st k = Some tr \<Longrightarrow> join_cached b tr a c \<Longrightarrow> make_join (Suc n) sa k b st = Inr ((a, c), st)"
  by (auto simp: get_tr_def join_cached_def make_join_root_def joined_make_join_def Let_def
           split: trkind.splits)

subsection \<open>Locality and the rank of parent chains\<close>

lemma sets_join_other: "sets_join k b st st' a c \<Longrightarrow> k' \<noteq> k \<Longrightarrow> trs st' k' = trs st k'"
  by (auto simp: sets_join_def)

lemma make_join_local:
  "make_join n sa k b st = Inr (r, st') \<Longrightarrow> k' \<notin> set (chain_keys n st k) \<Longrightarrow> trs st' k' = trs st k'"
proof (induction n arbitrary: k b st r st')
  case 0
  then show ?case by simp
next
  case (Suc n)
  then obtain tr where tr: "trs st k = Some tr" by (auto simp: get_tr_def split: option.splits)
  show ?case
  proof (cases "tr_kind tr")
    case RootRef
    with Suc.prems tr show ?thesis
      by (auto simp: get_tr_def make_join_root_def Let_def put_tr_def split: option.splits if_splits
               dest!: sq_append_from_grows sq_append_cond_grows)
  next
    case (JoinedRef p attr)
    with Suc.prems tr have r: "joined_make_join (make_join n sa p) sa k tr attr b st = Inr (r, st')"
      and out: "k' \<noteq> k" "k' \<notin> set (chain_keys n st p)"
      by (auto simp: get_tr_def)
    show ?thesis
    proof (cases "joined tr \<and> (b \<and> ent_discr (tr_entity tr) = None \<or> optimized tr \<noteq> Some True)")
      case True
      with r show ?thesis by (auto simp: joined_make_join_def split: option.splits)
    next
      case False
      obtain a c where rc: "r = (a, c)" by (cases r)
      from r False rc obtain x st1 where p: "make_join n sa p (pk_offset attr \<noteq> None \<or> is_collection attr) st = Inr (x, st1)"
        and s: "sets_join k (b \<and> ent_discr (tr_entity tr) = None) st1 st' a c"
        by (auto elim: joined_make_join_step)
      from Suc.IH [OF p out(2)] sets_join_other [OF s out(1)] show ?thesis by simp
    qed
  qed
qed

lemma ranked_parent:
  "ranked rk st \<Longrightarrow> trs st k = Some tr \<Longrightarrow> tr_kind tr = JoinedRef p attr \<Longrightarrow>
   trs st p \<noteq> None \<and> rk p < rk k"
  unfolding ranked_def by blast

lemma chain_ok_mono: "chain_ok n st k \<Longrightarrow> n \<le> m \<Longrightarrow> chain_ok m st k"
proof (induction n arbitrary: m k)
  case (Suc n)
  then obtain m' where "m = Suc m'" "n \<le> m'" by (cases m) auto
  with Suc show ?case by (auto split: option.splits trkind.splits)
qed simp

lemma ranked_chain_keys:
  "ranked rk st \<Longrightarrow> k' \<in> set (chain_keys n st p) \<Longrightarrow> rk k' \<le> rk p"
proof (induction n arbitrary: p)
  case (Suc n)
  show ?case
  proof (cases "k' = p")
    case False
    show ?thesis
    proof (cases "trs st p")
      case (Some tr)
      then show ?thesis
      proof (cases "tr_kind tr")
        case (JoinedRef q attr)
        with Suc.prems(2) False Some have "k' \<in> set (chain_keys n st q)" by simp
        with Suc.IH [of q] Suc.prems(1) Some JoinedRef show ?thesis by (fastforce dest: ranked_parent)
      qed (use Suc.prems(2) False in simp)
    qed (use Suc.prems(2) False in simp)
  qed simp
qed simp

lemma ranked_chain_ok:
  assumes r: "ranked rk st" shows "trs st k \<noteq> None \<Longrightarrow> chain_ok (Suc (rk k)) st k"
proof (induction "rk k" arbitrary: k rule: less_induct)
  case less
  then obtain tr where tr: "trs st k = Some tr" by auto
  show ?case
  proof (cases "tr_kind tr")
    case RootRef
    with tr show ?thesis by simp
  next
    case (JoinedRef p attr)
    with r tr have p: "trs st p \<noteq> None" "rk p < rk k" by (auto dest: ranked_parent)
    then have "chain_ok (Suc (rk p)) st p" using less.hyps [of p] by simp
    then have "chain_ok (rk k) st p" by (rule chain_ok_mono) (use p(2) in simp)
    with tr JoinedRef show ?thesis by simp
  qed
qed

subsection \<open>Reachable states are ranked\<close>

lemma new_subquery_trs: "new_subquery p lj st = Inr (i, st') \<Longrightarrow> trs st' = trs st"
  by (auto simp: new_subquery_def Let_def get_sq_def split: option.splits)

lemma ranked_frame: "tr_frame st' = tr_frame st \<Longrightarrow> ranked rk st \<Longrightarrow> ranked rk st'"
  unfolding ranked_def
proof (intro allI impI)
  fix k tr' p attr
  assume f: "tr_frame st' = tr_frame st" and r: "\<forall>k tr p attr. trs st k = Some tr \<longrightarrow>
      tr_kind tr = JoinedRef p attr \<longrightarrow> trs st p \<noteq> None \<and> rk p < rk k"
    and k: "trs st' k = Some tr'" and kind: "tr_kind tr' = JoinedRef p attr"
  from f [symmetric] k obtain tr where "trs st k = Some tr" "tr_kind tr = JoinedRef p attr"
    using kind by (auto dest: tr_frame_kind)
  with r have p: "trs st p \<noteq> None" "rk p < rk k" by blast+
  from p(1) obtain trp where "trs st p = Some trp" by auto
  with f have "trs st' p \<noteq> None" by (auto dest: tr_frame_kind)
  with p(2) show "trs st' p \<noteq> None \<and> rk p < rk k" by simp
qed

lemma rankedI:
  "(\<And>k tr p attr. trs st k = Some tr \<Longrightarrow> tr_kind tr = JoinedRef p attr \<Longrightarrow> trs st p \<noteq> None \<and> rk p < rk k)
   \<Longrightarrow> ranked rk st"
  unfolding ranked_def by blast

lemma add_root_tableref_trs:
  "add_root_tableref i name e st = Inr (k, st') \<Longrightarrow>
   trs st' = (trs st)((i, name) \<mapsto> \<lparr>tr_sq = i, tr_name_path = name, tr_alias = Some name, tr_entity = e,
                          joined = False, optimized = None, tr_pk_columns = None, tr_kind = RootRef\<rparr>)"
  by (auto simp: add_root_tableref_def get_sq_def put_sq_def put_tr_def split: option.splits)

lemma add_tableref_trs:
  "add_tableref i np parent attr st = Inr (k, st') \<Longrightarrow>
   k = (i, np) \<and> trs st (i, np) = None \<and>
   (\<exists>e. trs st' = (trs st)((i, np) \<mapsto> \<lparr>tr_sq = i, tr_name_path = np, tr_alias = None, tr_entity = e,
                          joined = False, optimized = None, tr_pk_columns = None, tr_kind = JoinedRef parent attr\<rparr>))"
  by (auto simp: add_tableref_def get_sq_def new_joined_tableref_def put_sq_def put_tr_def
           split: option.splits if_splits)

lemma ranked_add_root:
  assumes r: "ranked rk st" and a: "add_root_tableref i name e st = Inr (k, st')"
  shows "ranked rk st'"
proof (rule rankedI)
  fix k' tr p attr
  assume k': "trs st' k' = Some tr" and kind: "tr_kind tr = JoinedRef p attr"
  with add_root_tableref_trs [OF a] have "trs st k' = Some tr"
    by (cases "k' = (i, name)") auto
  with r kind have "trs st p \<noteq> None \<and> rk p < rk k'" by (blast dest: ranked_parent)
  with add_root_tableref_trs [OF a] show "trs st' p \<noteq> None \<and> rk p < rk k'" by simp
qed

lemma ranked_add_tableref:
  assumes r: "ranked rk st" and p: "trs st parent \<noteq> None"
    and a: "add_tableref i np parent attr st = Inr (k, st')"
  shows "ranked (rk(k := Suc (rk parent))) st'"
proof (rule rankedI)
  fix k' tr q attr'
  assume k': "trs st' k' = Some tr" and kind: "tr_kind tr = JoinedRef q attr'"
  from add_tableref_trs [OF a] obtain e where k: "k = (i, np)" and fresh: "trs st (i, np) = None"
    and st': "trs st' = (trs st)((i, np) \<mapsto> \<lparr>tr_sq = i, tr_name_path = np, tr_alias = None, tr_entity = e,
                          joined = False, optimized = None, tr_pk_columns = None, tr_kind = JoinedRef parent attr\<rparr>)"
    by blast
  from p fresh have pk: "parent \<noteq> k" using k by auto
  show "trs st' q \<noteq> None \<and> (rk(k := Suc (rk parent))) q < (rk(k := Suc (rk parent))) k'"
  proof (cases "k' = k")
    case True
    with k' st' k kind have "q = parent" by auto
    with True pk p st' show ?thesis by simp
  next
    case False
    with k' st' k have old: "trs st k' = Some tr" by simp
    with r kind have "trs st q \<noteq> None \<and> rk q < rk k'" by (blast dest: ranked_parent)
    moreover from old fresh k have "k' \<noteq> k" by auto
    moreover from calculation fresh k have "q \<noteq> k" by auto
    ultimately show ?thesis using st' by simp
  qed
qed

lemma reach_ranked: "reach st \<Longrightarrow> \<exists>rk. ranked rk st"
proof (induction rule: reach.induct)
  case init
  then show ?case by (simp add: ranked_def init_tstate_def)
next
  case (subquery st p lj i st')
  then show ?case by (simp add: ranked_def new_subquery_trs)
next
  case (root st i name e k st')
  then show ?case by (blast intro: ranked_add_root)
next
  case (attr st parent i np attr k st')
  then show ?case by (blast intro: ranked_add_tableref)
next
  case (join st n sa k b r st')
  then show ?case by (blast dest: make_join_frame ranked_frame)
qed

subsection \<open>Join phases\<close>

lemma phase_step_Joined: "phase_step p Joined"
  by (cases p) (simp_all add: phase_step.intros)

lemma phase_step_set_join:
  "\<not> (joined tr \<and> (b \<or> optimized tr \<noteq> Some True)) \<Longrightarrow> (opt \<longrightarrow> b) \<Longrightarrow>
   phase_step (phase_of tr) (phase_of (tr\<lparr>tr_alias := Some a, tr_pk_columns := Some c, optimized := Some opt, joined := True\<rparr>))"
  by (cases opt) (auto simp: phase_of_def phase_step_Joined intro: phase_step.intros)

lemma phase_step_root_join: "phase_step (phase_of tr) (phase_of (tr\<lparr>joined := True\<rparr>))"
proof (cases "joined tr")
  case True
  then have "tr\<lparr>joined := True\<rparr> = tr" by simp
  then show ?thesis by (simp add: phase_step.stay)
next
  case False
  then show ?thesis
    by (auto simp: phase_of_def intro: phase_step.intros)
qed

lemma make_join_root_trs:
  "make_join_root k tr st = Inr (r, st') \<Longrightarrow>
   trs st' = trs st \<or> trs st' = (trs st)(k \<mapsto> tr\<lparr>joined := True\<rparr>)"
  unfolding make_join_root_def Let_def
  by (auto simp: put_tr_def split: option.splits if_splits dest!: sq_append_from_grows sq_append_cond_grows)

lemma make_join_phase:
  assumes "ranked rk st"
  shows "make_join n sa k b st = Inr (r, st') \<Longrightarrow> trs st k' = Some tr \<Longrightarrow> trs st' k' = Some tr' \<Longrightarrow>
         phase_step (phase_of tr) (phase_of tr')"
proof (induction n arbitrary: k b r st' tr tr')
  case 0
  then show ?case by simp
next
  case (Suc n)
  then obtain tr0 where tr0: "trs st k = Some tr0" by (auto simp: get_tr_def split: option.splits)
  show ?case
  proof (cases "tr_kind tr0")
    case RootRef
    with Suc.prems(1) tr0 have "make_join_root k tr0 st = Inr (r, st')" by (simp add: get_tr_def)
    then have "trs st' = trs st \<or> trs st' = (trs st)(k \<mapsto> tr0\<lparr>joined := True\<rparr>)"
      by (rule make_join_root_trs)
    with Suc.prems(2,3) tr0 show ?thesis
      by (cases "k' = k") (auto simp: phase_step.stay phase_step_root_join)
  next
    case (JoinedRef p attr)
    with Suc.prems tr0 have r: "joined_make_join (make_join n sa p) sa k tr0 attr b st = Inr (r, st')"
      by (simp add: get_tr_def)
    show ?thesis
    proof (cases "joined tr0 \<and> (b \<and> ent_discr (tr_entity tr0) = None \<or> optimized tr0 \<noteq> Some True)")
      case True
      with r have "st' = st" by (auto simp: joined_make_join_def split: option.splits)
      with Suc.prems(2,3) show ?thesis by (simp add: phase_step.stay)
    next
      case False
      obtain a c where rc: "r = (a, c)" by (cases r)
      from r False rc obtain x st1 where pj: "make_join n sa p (pk_offset attr \<noteq> None \<or> is_collection attr) st = Inr (x, st1)"
        and s: "sets_join k (b \<and> ent_discr (tr_entity tr0) = None) st1 st' a c"
        by (auto elim: joined_make_join_step)
      show ?thesis
      proof (cases "k' = k")
        case False
        with s have "trs st' k' = trs st1 k'" by (rule sets_join_other)
        with Suc.prems(3) have "trs st1 k' = Some tr'" by simp
        with Suc.IH [OF pj Suc.prems(2)] show ?thesis .
      next
        case True
        from assms tr0 JoinedRef have "rk p < rk k" by (blast dest: ranked_parent)
        with assms have "k \<notin> set (chain_keys n st p)" by (auto dest: ranked_chain_keys)
        with pj have "trs st1 k = trs st k" by (rule make_join_local)
        note st1k = this
        from s obtain tr1 opt where "trs st1 k = Some tr1" and o: "opt \<longrightarrow> b \<and> ent_discr (tr_entity tr0) = None"
          and st': "trs st' = (trs st1)(k \<mapsto> tr1\<lparr>tr_alias := Some a, tr_pk_columns := Some c, optimized := Some opt, joined := True\<rparr>)"
          unfolding sets_join_def by blast
        with st1k tr0 have t': "trs st' k = Some (tr0\<lparr>tr_alias := Some a, tr_pk_columns := Some c, optimized := Some opt, joined := True\<rparr>)"
          by simp
        from True Suc.prems(2) tr0 have "tr = tr0" by simp
        moreover from True Suc.prems(3) t' have "tr' = tr0\<lparr>tr_alias := Some a, tr_pk_columns := Some c, optimized := Some opt, joined := True\<rparr>"
          by simp
        ultimately show ?thesis
          using phase_step_set_join [OF False o] by simp
      qed
    qed
  qed
qed

subsection \<open>The example state\<close>

lemma Inr_projr: "r = Inr (k, x) \<Longrightarrow> r = Inr (k, snd (projr r))"
  by simp

lemma new_sq_root: "new_subquery None False init_tstate = Inr (0, st_root)"
  by (simp add: st_root_def new_subquery_def init_tstate_def)

lemma add_root_s: "add_root_tableref 0 ''s'' student_ent st_root = Inr ((0, ''s''), st_s)"
  unfolding st_s_def
  by (rule Inr_projr) (simp add: add_root_tableref_def get_sq_def st_root_sq)

lemma trs_st_s: "trs st_s (0, ''s'') = Some \<lparr>tr_sq = 0, tr_name_path = ''s'', tr_alias = Some ''s'', tr_entity = student_ent,
                                joined = False, optimized = None, tr_pk_columns = None, tr_kind = RootRef\<rparr>"
  by (simp add: st_s_def add_root_tableref_def get_sq_def st_root_sq put_sq_def put_tr_def)

lemma sqs_st_s: "sqs st_s 0 = Some \<lparr>sq_scope = [], sq_left_join = False, from_ast = [Str ''FROM''],
      sq_conditions = [], sq_names = [''s''], alias_counters = Map.empty\<rparr>"
  by (simp add: st_s_def add_root_tableref_def get_sq_def st_root_sq put_sq_def put_tr_def)

lemma trs_st_root: "trs st_root = Map.empty"
  by (simp add: st_root_def new_subquery_def init_tstate_def)

lemma trs_st_s_group: "trs st_s (0, ''s-group'') = None"
  by (simp add: st_s_def add_root_tableref_def get_sq_def st_root_sq put_sq_def put_tr_def trs_st_root)

lemma add_s_group: "add_tableref 0 ''s-group'' (0, ''s'') student_group st_s = Inr ((0, ''s-group''), st_g)"
  unfolding st_g_def
  by (rule Inr_projr) (simp add: add_tableref_def get_sq_def sqs_st_s trs_st_s_group new_joined_tableref_def student_group_def attr_target_def)

lemma reach_st_g: "reach st_g"
  by (rule reach.attr [OF reach.root [OF reach.subquery [OF reach.init new_sq_root] add_root_s] _ add_s_group])
     (simp add: trs_st_s)

lemma trs_st_g: "trs st_g = (trs st_s)((0, ''s-group'') \<mapsto> \<lparr>tr_sq = 0, tr_name_path = ''s-group'', tr_alias = None,
     tr_entity = group_ent, joined = False, optimized = None, tr_pk_columns = None,
     tr_kind = JoinedRef (0, ''s'') student_group\<rparr>)"
proof -
  have "attr_target student_group = Some group_ent" by (simp add: student_group_def attr_target_def)
  then show ?thesis
    by (simp add: st_g_def add_tableref_def get_sq_def sqs_st_s trs_st_s_group new_joined_tableref_def
        put_sq_def put_tr_def)
qed

subsection \<open>Concrete join paths\<close>

lemma make_join_Suc_joined:
  "trs st k = Some tr \<Longrightarrow> tr_kind tr = JoinedRef p attr \<Longrightarrow>
   make_join (Suc n) sa k b st = joined_make_join (make_join n sa p) sa k tr attr b st"
  by (simp add: get_tr_def)

lemma make_join_keeps_tr:
  "make_join n sa p b st = Inr (x, st1) \<Longrightarrow> trs st k = Some tr \<Longrightarrow>
   \<exists>tr1. trs st1 k = Some tr1 \<and> tr_kind tr1 = tr_kind tr \<and> tr_entity tr1 = tr_entity tr"
  by (blast dest: make_join_frame tr_frame_kind)

lemma get_short_alias_sq:
  "get_short_alias sa i np en st = Inr (a, st') \<Longrightarrow> sqs st i = Some sq \<Longrightarrow>
   \<exists>c. sqs st' i = Some (sq\<lparr>alias_counters := c\<rparr>) \<and> trs st' = trs st"
  unfolding get_short_alias_def Let_def
  by (auto simp: get_sq_def put_sq_def split: if_splits) (metis subquery.update_convs(6) subquery.surjective)

lemma get_short_alias_exists:
  "sqs st i \<noteq> None \<Longrightarrow> \<exists>a st'. get_short_alias sa i np en st = Inr (a, st')"
  by (cases "keeps_path sa np") (auto simp: get_short_alias_def get_sq_def Let_def)

lemma sql_flatten_nodes:
  "\<forall>x\<in>set xs. \<exists>h t. x = Node (h # t) \<Longrightarrow> \<exists>ys. sql_flatten op xs = Inr ys"
proof (induction xs)
  case (Cons x xs)
  then obtain ys h t where "sql_flatten op xs = Inr ys" "x = Node (h # t)" by auto
  then show ?case by (cases "h = Str op") auto
qed simp

lemma join_tables_Inr: "length c1 = length c2 \<Longrightarrow> \<exists>jc. join_tables a1 a2 c1 c2 = Inr jc"
proof -
  assume len: "length c1 = length c2"
  let ?items = "map2 (\<lambda>x y. sqlnode ''EQ'' [column a1 x, column a2 y]) c1 c2"
  have "\<forall>x\<in>set ?items. \<exists>h t. x = Node (h # t)" by auto
  then have "\<exists>s. sqland ?items = Inr s"
    by (cases ?items rule: sqland.cases) (auto dest: sql_flatten_nodes [where op = "''AND''"])
  with len show ?thesis by (simp add: join_tables_def)
qed

section \<open>Properties of the join\<close>

text \<open>
  C8: joining a table reference twice is joining it once. When \<open>make_join\<close> succeeds, calling it
  again with the same arguments on the resulting state returns the same alias and key columns and
  changes nothing: a path expression used twice in a query produces a single join.
\<close>

theorem make_join_idempotent:
  "make_join n sa k b st = Inr (r, st') \<Longrightarrow> make_join n sa k b st' = Inr (r, st')"
proof -
  assume r: "make_join n sa k b st = Inr (r, st')"
  then obtain n' where n: "n = Suc n'" by (cases n) auto
  obtain a c where rc: "r = (a, c)" by (cases r)
  from r rc obtain tr' where "trs st' k = Some tr'" "join_cached b tr' a c"
    by (auto dest: make_join_post)
  then show ?thesis unfolding n rc by (rule make_join_cached)
qed

theorem make_join_idempotent_witness:
  "\<exists>r st'. make_join 2 True (0, ''s-group'') False st_g = Inr (r, st') \<and>
           make_join 2 True (0, ''s-group'') False st' = Inr (r, st')"
proof -
  have "case make_join 2 True (0, ''s-group'') False st_g of Inl _ \<Rightarrow> False | Inr _ \<Rightarrow> True"
    by code_simp
  then obtain r st' where j: "make_join 2 True (0, ''s-group'') False st_g = Inr (r, st')"
    by (auto dest!: Inr_exists)
  with make_join_idempotent [OF j] show ?thesis by blast
qed

text \<open>
  C9: on every state the translator's operations reach (new subqueries, root and attribute
  table references, joins), \<open>make_join\<close> of an existing table reference terminates: some fuel
  never runs out, and any larger fuel gives the same result.
\<close>

theorem reach_make_join_terminates:
  assumes "reach st" and "trs st k \<noteq> None"
  shows "\<exists>n. make_join n sa k b st \<noteq> Inl OutOfFuel \<and> (\<forall>m\<ge>n. make_join m sa k b st = make_join n sa k b st)"
proof -
  from assms(1) obtain rk where "ranked rk st" by (blast dest: reach_ranked)
  then have c: "chain_ok (Suc (rk k)) st k" using assms(2) by (rule ranked_chain_ok)
  show ?thesis
  proof (intro exI conjI allI impI)
    from c show "make_join (Suc (rk k)) sa k b st \<noteq> Inl OutOfFuel" by (rule make_join_enough_fuel)
    fix m assume "Suc (rk k) \<le> m"
    with c show "make_join m sa k b st = make_join (Suc (rk k)) sa k b st" by (rule make_join_fuel_mono)
  qed
qed

theorem reach_make_join_terminates_witness:
  "reach st_g \<and> trs st_g (0, ''s-group'') \<noteq> None \<and>
   (\<exists>n. make_join n True (0, ''s-group'') False st_g \<noteq> Inl OutOfFuel)"
proof -
  have t: "trs st_g (0, ''s-group'') \<noteq> None" by (simp add: trs_st_g)
  from reach_make_join_terminates [OF reach_st_g t, of True False] reach_st_g t show ?thesis by blast
qed

text \<open>
  C10: a full join of an unjoined to-one attribute with its own columns (\<open>pk_only\<close> false, no
  discriminator) first joins the parent, then allocates the alias with \<open>get_short_alias\<close>, and
  appends exactly one FROM entry \<open>[alias, 'TABLE', table, cond]\<close> to its subquery, where
  \<open>cond\<close> equates the owning-side columns of the parent alias with the target's primary key; it
  returns the alias and the target's primary-key columns.
\<close>

theorem make_join_full_to_one:
  assumes tr: "trs st k = Some tr" and kind: "tr_kind tr = JoinedRef p attr" and nj: "\<not> joined tr"
    and one: "\<not> is_collection attr" and cols: "attr_columns attr \<noteq> []"
    and nd: "ent_discr (tr_entity tr) = None"
    and pj: "make_join n sa p (pk_offset attr \<noteq> None) st = Inr ((pa, pcols), st1)"
    and sq: "sqs st1 (tr_sq tr) = Some sq"
    and len: "length (fk_left_columns attr pcols) = length (ent_pk_columns (tr_entity tr))"
  shows "\<exists>alias st2 jc st'.
           get_short_alias sa (tr_sq tr) (Some (tr_name_path tr)) (ent_name (tr_entity tr)) st1 = Inr (alias, st2) \<and>
           join_tables pa alias (fk_left_columns attr pcols) (ent_pk_columns (tr_entity tr)) = Inr jc \<and>
           make_join (Suc n) sa k False st = Inr ((alias, ent_pk_columns (tr_entity tr)), st') \<and>
           map_option from_ast (sqs st' (tr_sq tr)) = Some (from_ast sq @ [table_item alias (ent_table (tr_entity tr)) [jc]])"
proof -
  from make_join_keeps_tr [OF pj tr] obtain tr1 where tr1: "trs st1 k = Some tr1"
    and same: "tr_kind tr1 = tr_kind tr" "tr_entity tr1 = tr_entity tr" by blast
  have sq1: "tr_sq tr1 = tr_sq tr" "tr_name_path tr1 = tr_name_path tr"
    using make_join_frame [OF pj] tr tr1 by (auto simp: tr_frame_def dest: fun_cong [of _ _ k])
  from sq obtain al st2 where ga: "get_short_alias sa (tr_sq tr) (Some (tr_name_path tr)) (ent_name (tr_entity tr)) st1 = Inr (al, st2)"
    using get_short_alias_exists by blast
  from get_short_alias_sq [OF ga sq] obtain c where sq2: "sqs st2 (tr_sq tr) = Some (sq\<lparr>alias_counters := c\<rparr>)"
    and trs2: "trs st2 = trs st1" by blast
  from join_tables_Inr [OF len] obtain jc
    where jc: "join_tables pa al (fk_left_columns attr pcols) (ent_pk_columns (tr_entity tr)) = Inr jc" by blast
  have tr1': "trs st2 k = Some tr1" using trs2 tr1 by simp
  show ?thesis
    using tr kind nj one cols nd pj tr1 same sq1 ga jc sq2 tr1'
    by (simp add: make_join_Suc_joined joined_make_join_def jmj_attr_def jmj_to_one_def jmj_table_def
        jmj_finish_def Let_def sq_append_from_def get_sq_def set_join_state_def get_tr_def put_sq_def put_tr_def)
qed

theorem make_join_full_to_one_witness:
  "\<exists>tr st1 sq. trs st_g (0, ''s-group'') = Some tr \<and> tr_kind tr = JoinedRef (0, ''s'') student_group \<and>
     \<not> joined tr \<and> \<not> is_collection student_group \<and> attr_columns student_group \<noteq> [] \<and>
     ent_discr (tr_entity tr) = None \<and>
     make_join 1 True (0, ''s'') (pk_offset student_group \<noteq> None) st_g =
       Inr ((''s'', [''group_number'', ''group_faculty'', ''first_name'']), st1) \<and>
     sqs st1 (tr_sq tr) = Some sq \<and>
     length (fk_left_columns student_group [''group_number'', ''group_faculty'', ''first_name'']) =
       length (ent_pk_columns (tr_entity tr)) \<and>
     (\<exists>al st2 jc st'.
        get_short_alias True (tr_sq tr) (Some (tr_name_path tr)) (ent_name (tr_entity tr)) st1 = Inr (al, st2) \<and>
        join_tables ''s'' al (fk_left_columns student_group [''group_number'', ''group_faculty'', ''first_name''])
          (ent_pk_columns (tr_entity tr)) = Inr jc \<and>
        make_join 2 True (0, ''s-group'') False st_g = Inr ((al, ent_pk_columns (tr_entity tr)), st') \<and>
        map_option from_ast (sqs st' (tr_sq tr)) = Some (from_ast sq @ [table_item al (ent_table (tr_entity tr)) [jc]]))"
proof -
  obtain tr where tr: "trs st_g (0, ''s-group'') = Some tr" "tr_kind tr = JoinedRef (0, ''s'') student_group"
    "\<not> joined tr" "ent_discr (tr_entity tr) = None" "tr_sq tr = 0"
    "length (fk_left_columns student_group [''group_number'', ''group_faculty'', ''first_name'']) =
       length (ent_pk_columns (tr_entity tr))"
    by (simp add: trs_st_g group_ent_def fk_left_columns_def student_group_def)
  have a: "\<not> is_collection student_group" "attr_columns student_group \<noteq> []"
    "pk_offset student_group = Some 0"
    by (simp_all add: student_group_def)
  have "case make_join 1 True (0, ''s'') True st_g of
          Inl _ \<Rightarrow> False
        | Inr (r, st1) \<Rightarrow> r = (''s'', [''group_number'', ''group_faculty'', ''first_name'']) \<and> sqs st1 0 \<noteq> None"
    by code_simp
  then obtain st1 sq where pj: "make_join 1 True (0, ''s'') (pk_offset student_group \<noteq> None) st_g =
      Inr ((''s'', [''group_number'', ''group_faculty'', ''first_name'']), st1)" and sq: "sqs st1 (tr_sq tr) = Some sq"
    using a(3) tr(5) by (auto split: sum.splits)
  from make_join_full_to_one [OF tr(1,2,3) a(1,2) tr(4) pj sq tr(6)] tr a pj sq show ?thesis
    by (auto simp: numeral_2_eq_2)
qed

text \<open>
  C11: with \<open>pk_only\<close>, a to-one attribute whose columns sit in the parent row is not joined:
  the result is the parent's alias and the attribute's slice of the parent key, and the
  subqueries are exactly as the parent's join left them (no FROM entry, no alias allocated).
\<close>

theorem make_join_pk_only_elides:
  assumes tr: "trs st k = Some tr" and kind: "tr_kind tr = JoinedRef p attr" and nj: "\<not> joined tr"
    and one: "\<not> is_collection attr" and cols: "attr_columns attr \<noteq> []"
    and nd: "ent_discr (tr_entity tr) = None"
    and pj: "make_join n sa p (pk_offset attr \<noteq> None) st = Inr ((pa, pcols), st1)"
  shows "\<exists>st'. make_join (Suc n) sa k True st =
                 Inr ((pa, fk_left_columns attr pcols), st') \<and>
               sqs st' = sqs st1"
proof -
  from make_join_keeps_tr [OF pj tr] obtain tr1 where tr1: "trs st1 k = Some tr1" by blast
  from tr kind nj one cols nd pj tr1 show ?thesis
    by (simp add: make_join_Suc_joined joined_make_join_def jmj_attr_def jmj_to_one_def Let_def
        set_join_state_def get_tr_def put_tr_def)
qed

theorem make_join_pk_only_elides_witness:
  "\<exists>tr st1 st'. trs st_g (0, ''s-group'') = Some tr \<and> tr_kind tr = JoinedRef (0, ''s'') student_group \<and>
     \<not> joined tr \<and> \<not> is_collection student_group \<and> attr_columns student_group \<noteq> [] \<and>
     ent_discr (tr_entity tr) = None \<and>
     make_join 1 True (0, ''s'') (pk_offset student_group \<noteq> None) st_g =
       Inr ((''s'', [''group_number'', ''group_faculty'', ''first_name'']), st1) \<and>
     make_join 2 True (0, ''s-group'') True st_g = Inr ((''s'', [''group_number'', ''group_faculty'']), st') \<and>
     sqs st' = sqs st1"
proof -
  obtain tr where tr: "trs st_g (0, ''s-group'') = Some tr" "tr_kind tr = JoinedRef (0, ''s'') student_group"
    "\<not> joined tr" "ent_discr (tr_entity tr) = None"
    by (simp add: trs_st_g group_ent_def)
  have a: "\<not> is_collection student_group" "attr_columns student_group \<noteq> []"
    "pk_offset student_group = Some 0" "pk_columns_offset student_group = 0"
    "attr_columns student_group = [''group_number'', ''group_faculty'']"
    by (simp_all add: student_group_def)
  have "case make_join 1 True (0, ''s'') True st_g of
          Inl _ \<Rightarrow> False | Inr (r, _) \<Rightarrow> r = (''s'', [''group_number'', ''group_faculty'', ''first_name''])"
    by code_simp
  then obtain st1 where pj: "make_join 1 True (0, ''s'') (pk_offset student_group \<noteq> None) st_g =
      Inr ((''s'', [''group_number'', ''group_faculty'', ''first_name'']), st1)"
    using a(3) by (auto split: sum.splits)
  from make_join_pk_only_elides [OF tr(1,2,3) a(1,2) tr(4) pj] a obtain st' where
    "make_join 2 True (0, ''s-group'') True st_g = Inr ((''s'', [''group_number'', ''group_faculty'']), st')"
    "sqs st' = sqs st1"
    by (auto simp: numeral_2_eq_2 fk_left_columns_def)
  with tr a pj show ?thesis by blast
qed

text \<open>
  C12: along any join on a reachable state every table reference moves forward in its
  lifecycle \<open>Unjoined \<rightarrow> Optimized \<rightarrow> Joined\<close> (or stays): a joined reference is never
  unjoined, and a fully joined one is never demoted to the optimized state.
\<close>

theorem reach_make_join_phase:
  "reach st \<Longrightarrow> make_join n sa k b st = Inr (r, st') \<Longrightarrow> trs st k' = Some tr \<Longrightarrow> trs st' k' = Some tr' \<Longrightarrow>
   phase_step (phase_of tr) (phase_of tr')"
  by (blast dest: reach_ranked make_join_phase)

theorem reach_make_join_phase_witness:
  "\<exists>r st' tr tr'. reach st_g \<and> make_join 2 True (0, ''s-group'') False st_g = Inr (r, st') \<and>
     trs st_g (0, ''s-group'') = Some tr \<and> trs st' (0, ''s-group'') = Some tr' \<and>
     phase_step (phase_of tr) (phase_of tr')"
proof -
  have "case make_join 2 True (0, ''s-group'') False st_g of
          Inl _ \<Rightarrow> False | Inr (_, st') \<Rightarrow> trs st' (0, ''s-group'') \<noteq> None"
    by code_simp
  then obtain r st' tr' where j: "make_join 2 True (0, ''s-group'') False st_g = Inr (r, st')"
    and tr': "trs st' (0, ''s-group'') = Some tr'"
    by (auto split: sum.splits)
  obtain tr where tr: "trs st_g (0, ''s-group'') = Some tr" by (simp add: trs_st_g)
  from reach_make_join_phase [OF reach_st_g j tr tr'] reach_st_g j tr tr' show ?thesis by blast
qed

text \<open>
  C13: in every reachable state the parent of an attribute table reference exists, and the
  chain of parents starting there never comes back to the reference itself.
\<close>

theorem reach_parent_chain_acyclic:
  "reach st \<Longrightarrow> trs st k = Some tr \<Longrightarrow> tr_kind tr = JoinedRef p attr \<Longrightarrow>
   trs st p \<noteq> None \<and> k \<notin> set (chain_keys n st p)"
proof -
  assume "reach st" and tr: "trs st k = Some tr" and kind: "tr_kind tr = JoinedRef p attr"
  then obtain rk where r: "ranked rk st" by (blast dest: reach_ranked)
  with tr kind have p: "trs st p \<noteq> None" "rk p < rk k" by (blast dest: ranked_parent)+
  with r show ?thesis by (auto dest: ranked_chain_keys)
qed

theorem reach_parent_chain_acyclic_witness:
  "\<exists>tr. reach st_g \<and> trs st_g (0, ''s-group'') = Some tr \<and> tr_kind tr = JoinedRef (0, ''s'') student_group \<and>
        trs st_g (0, ''s'') \<noteq> None \<and> (0, ''s-group'') \<notin> set (chain_keys 3 st_g (0, ''s''))"
proof -
  obtain tr where tr: "trs st_g (0, ''s-group'') = Some tr" "tr_kind tr = JoinedRef (0, ''s'') student_group"
    by (simp add: trs_st_g)
  from reach_parent_chain_acyclic [OF reach_st_g tr, of 3] reach_st_g tr show ?thesis by blast
qed

text \<open>
  C14: a join only appends to FROM lists: every subquery keeps its scope and its FROM list
  is extended at the end, so aliases already emitted stay valid.
\<close>

theorem make_join_from_append_only:
  "make_join n sa k b st = Inr (r, st') \<Longrightarrow> sqs st i = Some sq \<Longrightarrow>
   \<exists>sq' suf. sqs st' i = Some sq' \<and> sq_scope sq' = sq_scope sq \<and> from_ast sq' = from_ast sq @ suf"
  by (auto dest!: make_join_grows simp: grows_def sq_grows_def)

theorem make_join_from_append_only_witness:
  "\<exists>r st' sq sq' suf. make_join 2 True (0, ''s-group'') False st_g = Inr (r, st') \<and> sqs st_g 0 = Some sq \<and>
     sqs st' 0 = Some sq' \<and> sq_scope sq' = sq_scope sq \<and> from_ast sq' = from_ast sq @ suf"
proof -
  have "case make_join 2 True (0, ''s-group'') False st_g of Inl _ \<Rightarrow> False | Inr _ \<Rightarrow> True"
    by code_simp
  then obtain r st' where j: "make_join 2 True (0, ''s-group'') False st_g = Inr (r, st')"
    by (auto dest!: Inr_exists)
  obtain sq where sq: "sqs st_g 0 = Some sq"
    by (simp add: st_g_def add_tableref_def get_sq_def sqs_st_s trs_st_s_group new_joined_tableref_def
        student_group_def attr_target_def put_sq_def put_tr_def)
  from make_join_from_append_only [OF j sq] j sq show ?thesis by blast
qed

end
