(* ===== verification/Monads.thy ===== *)
theory Monads
  imports TableRefs
begin

text \<open>
  The monad algebra of \<open>src/pony/orm/sqltranslation.py\<close> (lines 17--30 and 685--1357):
  the translator's intermediate values. A Python monad object is a value of the datatype
  \<open>monad\<close>, one constructor per class family (the numeric, string, date flavours of a
  class are the same constructor, told apart by the monad's type). \<open>getsql\<close> returns what
  the Python method returns: a list of column expressions for a value monad and one
  boolean expression for a boolean monad, both a Python list, here a \<open>Node\<close>. Getting the
  SQL of an attribute joins its table reference, so \<open>getsql\<close> and every operation that
  calls it pass the translator's state and the fuel of \<open>make_join\<close>.

  The type rules (\<open>coerce_types\<close>, \<open>are_comparable_types\<close>) live in
  \<open>pony/orm/ormtypes.py\<close>, which is not among the sources: they follow the spec's
  "Comparability" paragraph (section 4.2). Float constants are not modelled (the SQL AST
  has no float literal); a parameter's converter is represented by its type's name.
\<close>

section \<open>Types (spec section 4.2)\<close>

definition numeric_type :: "ptype \<Rightarrow> bool" where
  "numeric_type t \<longleftrightarrow> t = TInt \<or> t = TFloat \<or> t = TDecimal"

definition comparable_type :: "ptype \<Rightarrow> bool" where
  "comparable_type t \<longleftrightarrow> numeric_type t \<or> t = TStr \<or> t = TDate \<or> t = TDatetime"

fun num_rank :: "ptype \<Rightarrow> nat" where
  "num_rank TInt = 0" | "num_rank TFloat = 1" | "num_rank _ = 2"

text \<open>The coercion lattice \<open>int \<subseteq> float \<subseteq> Decimal\<close>; equal types coerce to themselves.\<close>

definition coerce_types :: "ptype \<Rightarrow> ptype \<Rightarrow> ptype option" where
  "coerce_types t1 t2 =
     (if t1 = t2 then Some t1
      else if numeric_type t1 \<and> numeric_type t2 then
        Some (if num_rank t1 \<le> num_rank t2 then t2 else t1)
      else None)"

fun same_category :: "ptype \<Rightarrow> ptype \<Rightarrow> bool" where
  "same_category (TTuple ts) (TTuple us) =
     (length ts = length us \<and> list_all2 same_category ts us)"
| "same_category t u =
     (numeric_type t \<and> numeric_type u \<or>
      t = u \<and> t \<in> {TStr, TDate, TDatetime, TBool, TBuffer} \<or>
      (case (t, u) of (TEnt e1, TEnt e2) \<Rightarrow> e1 = e2 | _ \<Rightarrow> False))"

definition ordered_type :: "ptype \<Rightarrow> bool" where
  "ordered_type t \<longleftrightarrow> comparable_type t"

text \<open>
  \<open>are_comparable_types(t1, t2, op)\<close>: \<open>None\<close> only against a non-\<open>None\<close> value and only
  for (in)equality and identity; equality within a category; order only on comparable
  primitive types; \<open>LIKE\<close>, \<open>CONCAT\<close> and the string methods (operator \<open>None\<close>) on strings.
\<close>

definition are_comparable_types :: "ptype \<Rightarrow> ptype \<Rightarrow> string option \<Rightarrow> bool" where
  "are_comparable_types t1 t2 op =
     (case op of
        None \<Rightarrow> t1 = TStr \<and> t2 = TStr
      | Some opn \<Rightarrow>
          if opn \<in> {''is'', ''is not''} then (t1 = TNone) \<noteq> (t2 = TNone)
          else if opn \<in> {''=='', ''!='', ''<>''} then
            (t1 = TNone) \<noteq> (t2 = TNone) \<or> t1 \<noteq> TNone \<and> same_category t1 t2
          else if opn \<in> {''<'', ''<='', ''>'', ''>=''} then
            ordered_type t1 \<and> ordered_type t2 \<and> same_category t1 t2
          else if opn \<in> {''LIKE'', ''CONCAT''} then t1 = TStr \<and> t2 = TStr
          else False)"

text \<open>\<open>type2str\<close> (lines 54--58): the name of a type in messages.\<close>

fun type2str :: "ptype \<Rightarrow> string" where
  "type2str TInt = ''int''" | "type2str TFloat = ''float''" | "type2str TDecimal = ''Decimal''"
| "type2str TStr = ''unicode''" | "type2str TDate = ''date''" | "type2str TDatetime = ''datetime''"
| "type2str TBool = ''bool''" | "type2str TBuffer = ''buffer''" | "type2str TNone = ''NoneType''"
| "type2str (TEnt e) = ent_name e" | "type2str (TSet t) = ''Set of '' @ type2str t"
| "type2str (TTuple _) = ''list''" | "type2str TMethod = ''METHOD''" | "type2str (TFunc f) = f"

section \<open>Constants\<close>

text \<open>The literal values of a query (integers, strings, \<open>None\<close>) and their SQL form.\<close>

datatype pyval = VInt int | VStr string | VNone

fun value_type :: "pyval \<Rightarrow> ptype" where
  "value_type (VInt _) = TInt" | "value_type (VStr _) = TStr" | "value_type VNone = TNone"

fun val_sql :: "pyval \<Rightarrow> sql" where
  "val_sql (VInt i) = IntV i" | "val_sql (VStr s) = Str s" | "val_sql VNone = NoneV"

section \<open>Monads\<close>

text \<open>
  \<open>ConstM\<close>: \<open>ConstMonad\<close> and its flavours (\<open>NoneMonad\<close> for \<open>None\<close>);
  \<open>ParamM\<close>: \<open>ParamMonad\<close> of a primitive type; \<open>ObjParamM\<close>: \<open>ObjectParamMonad\<close>;
  \<open>ExprM\<close>: \<open>ExprMonad\<close>; \<open>ObjIterM\<close>: \<open>ObjectIterMonad\<close> on its table reference;
  \<open>AttrM\<close>: the scalar \<open>AttrMonad\<close> flavours (parent, attribute, normalized type);
  \<open>ObjAttrM\<close>: \<open>ObjectAttrMonad\<close> with the table reference it created;
  \<open>ListM\<close>, \<open>EntityM\<close>, \<open>MethodM\<close>; and the boolean monads.
\<close>

datatype monad =
    ConstM pyval
  | ParamM ptype string
  | ObjParamM entity string
  | ExprM ptype sql
  | ObjIterM trkey entity
  | AttrM monad attribute ptype
  | ObjAttrM monad attribute trkey
  | ListM "monad list"
  | EntityM entity
  | MethodM monad string
  | BoolExprM sql
  | CmpM string monad monad
  | AndM "monad list"
  | OrM "monad list"
  | NotM monad

fun mtype :: "monad \<Rightarrow> ptype" where
  "mtype (ConstM v) = value_type v"
| "mtype (ParamM t _) = t"
| "mtype (ObjParamM e _) = TEnt e"
| "mtype (ExprM t _) = t"
| "mtype (ObjIterM _ e) = TEnt e"
| "mtype (AttrM _ _ t) = t"
| "mtype (ObjAttrM _ attr _) = attr_type attr"
| "mtype (ListM ms) = TTuple (map mtype ms)"
| "mtype (EntityM e) = TSet (TEnt e)"
| "mtype (MethodM _ _) = TMethod"
| "mtype _ = TBool"

text \<open>The classes that take \<open>NumericMixin\<close> and \<open>StringMixin\<close>: the attribute, parameter,
  expression and constant flavours chosen by a numeric or string type.\<close>

fun flavoured :: "monad \<Rightarrow> bool" where
  "flavoured (ConstM _) = True" | "flavoured (ParamM _ _) = True" | "flavoured (ExprM _ _) = True"
| "flavoured (AttrM _ _ _) = True" | "flavoured _ = False"

definition is_numeric :: "monad \<Rightarrow> bool" where
  "is_numeric m \<longleftrightarrow> flavoured m \<and> numeric_type (mtype m)"

definition is_string :: "monad \<Rightarrow> bool" where
  "is_string m \<longleftrightarrow> flavoured m \<and> mtype m = TStr"

definition const0 :: monad where
  "const0 = ConstM (VInt 0)"

text \<open>\<open>raise_forgot_parentheses\<close> (lines 786--788).\<close>

definition forgot_parentheses :: "'a result" where
  "forgot_parentheses = Inl (TranslationError ''You seems to forgot parentheses'')"

text \<open>\<open>check_comparable\<close> (lines 17--23).\<close>

definition check_comparable :: "monad \<Rightarrow> monad \<Rightarrow> string option \<Rightarrow> unit result" where
  "check_comparable l r op =
     (if mtype l = TMethod \<or> mtype r = TMethod then forgot_parentheses
      else if \<not> are_comparable_types (mtype l) (mtype r) op then Inl IncomparableTypesError
      else Inr ())"

section \<open>CmpMonad.__init__ (lines 1288--1303)\<close>

text \<open>The operator after \<open><>\<close> is read as \<open>!=\<close> and the \<open>None\<close> operand is put on the right.\<close>

definition cmp_norm_op :: "string \<Rightarrow> bool \<Rightarrow> string" where
  "cmp_norm_op op right_none =
     (if right_none then (if op = ''=='' then ''is'' else if op = ''!='' then ''is not'' else op)
      else if op = ''is'' then ''=='' else if op = ''is not'' then ''!='' else op)"

definition cmp_monad :: "string \<Rightarrow> monad \<Rightarrow> monad \<Rightarrow> monad result" where
  "cmp_monad op0 left0 right0 =
     rbind (check_comparable left0 right0 (Some op0)) (\<lambda>_.
       (let op = (if op0 = ''<>'' then ''!='' else op0)
        in if mtype left0 = TNone then
             (if mtype right0 = TNone then Inl AssertionError
              else Inr (CmpM (cmp_norm_op op True) right0 left0))
           else Inr (CmpM (cmp_norm_op op (mtype right0 = TNone)) left0 right0)))"

section \<open>getsql\<close>

text \<open>A Python list as the list of its elements; anything else is not iterable.\<close>

fun py_list :: "sql \<Rightarrow> sql list result" where
  "py_list (Node xs) = Inr xs"
| "py_list _ = Inl (TypeError ''object is not iterable'')"

definition columns_sql :: "string \<Rightarrow> string list \<Rightarrow> sql" where
  "columns_sql alias cols = Node (map (column alias) cols)"

fun tableref_of :: "monad \<Rightarrow> trkey option" where
  "tableref_of (ObjIterM k _) = Some k"
| "tableref_of (ObjAttrM _ _ k) = Some k"
| "tableref_of _ = None"

text \<open>
  \<open>AttrMonad.getsql\<close> (lines 1118--1129): the parent's table reference is joined, with
  \<open>pk_only\<close> when the attribute is part of the owner's primary key; the owner is the
  entity of the parent's table reference.
\<close>

definition attr_getsql :: "nat \<Rightarrow> bool \<Rightarrow> monad \<Rightarrow> attribute \<Rightarrow> tstate \<Rightarrow> (sql \<times> tstate) result" where
  "attr_getsql f sa parent attr st =
     (case tableref_of parent of
        None \<Rightarrow> Inl (AttributeError ''tableref'')
      | Some k \<Rightarrow>
          (let pk_only = (pk_offset attr \<noteq> None)
           in rbind (make_join f sa k pk_only st) (\<lambda>((alias, parent_columns), st1).
              rbind (get_tr st k) (\<lambda>tr.
                Inr (columns_sql alias
                       (if \<not> pk_only then attr_columns attr
                        else if length (ent_pk_columns (tr_entity tr)) \<le> 1 then parent_columns
                        else take (length (attr_columns attr)) (drop (pk_columns_offset attr) parent_columns)),
                     st1)))))"

text \<open>\<open>CmpMonad.getsql\<close> after the operands' SQL (lines 1309--1323).\<close>

definition cmp_sql :: "string \<Rightarrow> sql list \<Rightarrow> sql list \<Rightarrow> sql result" where
  "cmp_sql op ls rs =
     (if op = ''is'' then sqland (map (\<lambda>x. sqlnode ''IS_NULL'' [x]) ls)
      else if op = ''is not'' then sqland (map (\<lambda>x. sqlnode ''IS_NOT_NULL'' [x]) ls)
      else if length ls \<noteq> length rs then Inl AssertionError
      else case cmp_ops op of
             Some t \<Rightarrow> (if length ls = 1 then Inr (sqlnode t [hd ls, hd rs]) else Inl AssertionError)
           | None \<Rightarrow>
               if op = ''=='' then sqland (map2 (\<lambda>a b. sqlnode ''EQ'' [a, b]) ls rs)
               else if op = ''!='' then sqlor (map2 (\<lambda>a b. sqlnode ''NE'' [a, b]) ls rs)
               else Inl AssertionError)"

fun getsql :: "nat \<Rightarrow> bool \<Rightarrow> monad \<Rightarrow> tstate \<Rightarrow> (sql \<times> tstate) result"
and getsql_list :: "nat \<Rightarrow> bool \<Rightarrow> monad list \<Rightarrow> tstate \<Rightarrow> (sql list \<times> tstate) result" where
  "getsql f sa (ConstM v) st = Inr (Node [sql_value (val_sql v)], st)"
| "getsql f sa (ParamM t src) st = Inr (Node [sqlnode ''PARAM'' [Str src, Str (type2str t)]], st)"
| "getsql f sa (ObjParamM e src) st =
     Inr (Node (map (\<lambda>i. sqlnode ''PARAM'' [Node [Str src, IntV (int i)], Str (ent_name e)])
                 [0..<length (ent_pk_columns e)]), st)"
| "getsql f sa (ExprM t s) st = Inr (Node [s], st)"
| "getsql f sa (ObjIterM k e) st =
     rbind (make_join f sa k True st) (\<lambda>((alias, cols), st1). Inr (columns_sql alias cols, st1))"
| "getsql f sa (AttrM p attr t) st = attr_getsql f sa p attr st"
| "getsql f sa (ObjAttrM p attr k) st = attr_getsql f sa p attr st"
| "getsql f sa (BoolExprM s) st = Inr (s, st)"
| "getsql f sa (CmpM op l r) st =
     rbind (getsql f sa l st) (\<lambda>(lsql, st1). rbind (py_list lsql) (\<lambda>ls.
       if op \<in> {''is'', ''is not''} then rbind (cmp_sql op ls []) (\<lambda>s. Inr (s, st1))
       else rbind (getsql f sa r st1) (\<lambda>(rsql, st2). rbind (py_list rsql) (\<lambda>rs.
              rbind (cmp_sql op ls rs) (\<lambda>s. Inr (s, st2))))))"
| "getsql f sa (AndM ms) st =
     rbind (getsql_list f sa ms st) (\<lambda>(ss, st1). Inr (Node (Str ''AND'' # ss), st1))"
| "getsql f sa (OrM ms) st =
     rbind (getsql_list f sa ms st) (\<lambda>(ss, st1). Inr (Node (Str ''OR'' # ss), st1))"
| "getsql f sa (NotM m) st = rbind (getsql f sa m st) (\<lambda>(s, st1). Inr (sqlnode ''NOT'' [s], st1))"
| "getsql f sa (ListM _) st = Inl (AttributeError ''getsql'')"
| "getsql f sa (EntityM _) st = Inl (AttributeError ''getsql'')"
| "getsql f sa (MethodM _ _) st = Inl (AttributeError ''getsql'')"
| "getsql_list f sa [] st = Inr ([], st)"
| "getsql_list f sa (m # ms) st =
     rbind (getsql f sa m st) (\<lambda>(s, st1).
     rbind (getsql_list f sa ms st1) (\<lambda>(ss, st2). Inr (s # ss, st2)))"

section \<open>Truth value and negation\<close>

text \<open>
  \<open>nonzero\<close>: a number is true when it is not 0 (\<open>NumericMixin.nonzero\<close>, line 887), a
  string when it is not empty (\<open>StringMixin.nonzero\<close>, line 1003); a method in flight
  was called without parentheses; other monads raise \<open>TypeError\<close> (\<open>Monad.nonzero\<close>).
\<close>

definition nonzero :: "nat \<Rightarrow> bool \<Rightarrow> monad \<Rightarrow> tstate \<Rightarrow> (monad \<times> tstate) result" where
  "nonzero f sa m st =
     (if mtype m = TMethod then forgot_parentheses
      else if is_numeric m then rbind (cmp_monad ''!='' m const0) (\<lambda>c. Inr (c, st))
      else if is_string m then
        rbind (getsql f sa m st) (\<lambda>(s, st1). rbind (py_first s) (\<lambda>x.
          Inr (BoolExprM (sqlnode ''GT'' [sqlnode ''LENGTH'' [x], sql_value (IntV 0)]), st1)))
      else Inl (TypeError ''nonzero''))"

text \<open>\<open>NotMonad.__init__\<close> (lines 1348--1351).\<close>

definition not_monad :: "nat \<Rightarrow> bool \<Rightarrow> monad \<Rightarrow> tstate \<Rightarrow> (monad \<times> tstate) result" where
  "not_monad f sa m st =
     (if mtype m \<noteq> TBool then rbind (nonzero f sa m st) (\<lambda>(m1, st1). Inr (NotM m1, st1))
      else Inr (NotM m, st))"

text \<open>
  \<open>LogicalBinOpMonad.__init__\<close> (lines 1326--1337): a non-boolean operand is replaced
  by its truth value, an operand of the same connective is spliced in.
\<close>

fun logical_binop :: "monad \<Rightarrow> string option" where
  "logical_binop (AndM _) = Some ''AND''" | "logical_binop (OrM _) = Some ''OR''"
| "logical_binop _ = None"

fun logical_operands :: "monad \<Rightarrow> monad list" where
  "logical_operands (AndM ms) = ms" | "logical_operands (OrM ms) = ms" | "logical_operands _ = []"

fun logical_items ::
  "string \<Rightarrow> nat \<Rightarrow> bool \<Rightarrow> monad list \<Rightarrow> tstate \<Rightarrow> (monad list \<times> tstate) result" where
  "logical_items binop f sa [] st = Inr ([], st)"
| "logical_items binop f sa (m # ms) st =
     rbind (if mtype m \<noteq> TBool then rbind (nonzero f sa m st) (\<lambda>(m1, st1). Inr ([m1], st1))
            else if logical_binop m = Some binop then Inr (logical_operands m, st)
            else Inr ([m], st)) (\<lambda>(xs, st1).
     rbind (logical_items binop f sa ms st1) (\<lambda>(ys, st2). Inr (xs @ ys, st2)))"

definition logical_monad ::
  "string \<Rightarrow> nat \<Rightarrow> bool \<Rightarrow> monad list \<Rightarrow> tstate \<Rightarrow> (monad \<times> tstate) result" where
  "logical_monad binop f sa ms st =
     (if length ms < 2 then Inl AssertionError
      else rbind (logical_items binop f sa ms st) (\<lambda>(items, st1).
             Inr (if binop = ''AND'' then AndM items else OrM items, st1)))"

text \<open>
  \<open>BoolExprMonad.negate\<close> (lines 1269--1280) as written: a head with an entry in
  \<open>sql_negation\<close> is replaced by its negation; the \<open>elif negated_op == 'NOT'\<close> branch is
  never taken (\<open>negated_op\<close> is \<open>None\<close> there); otherwise the code calls
  \<open>translator.NotMonad(translator, sql)\<close>, which passes two arguments to
  \<open>NotMonad.__init__(monad, operand)\<close> and raises \<open>TypeError\<close>.
\<close>

definition boolexpr_negate :: "sql \<Rightarrow> monad result" where
  "boolexpr_negate s =
     rbind (py_first s) (\<lambda>h.
       case (case h of Str op \<Rightarrow> sql_negation op | _ \<Rightarrow> None) of
         Some nop \<Rightarrow> Inr (BoolExprM (Node (Str nop # py_rest s)))
       | None \<Rightarrow> Inl (TypeError ''__init__() takes exactly 2 arguments (3 given)''))"

text \<open>
  \<open>negate\<close>: \<open>CmpMonad.negate\<close> builds the comparison with the negated operator
  (line 1304), \<open>NotMonad.negate\<close> returns the operand (line 1352), a number is
  negated by \<open>== 0\<close> (line 890), and every other monad is wrapped in a \<open>NotMonad\<close>
  (\<open>Monad.negate\<close>, line 697).
\<close>

definition negate :: "nat \<Rightarrow> bool \<Rightarrow> monad \<Rightarrow> tstate \<Rightarrow> (monad \<times> tstate) result" where
  "negate f sa m st =
     (case m of
        BoolExprM s \<Rightarrow> rbind (boolexpr_negate s) (\<lambda>m1. Inr (m1, st))
      | CmpM op l r \<Rightarrow>
          (case cmp_negate op of
             None \<Rightarrow> Inl KeyError
           | Some nop \<Rightarrow> rbind (cmp_monad nop l r) (\<lambda>m1. Inr (m1, st)))
      | NotM m1 \<Rightarrow> Inr (m1, st)
      | MethodM _ _ \<Rightarrow> forgot_parentheses
      | _ \<Rightarrow> if is_numeric m then rbind (cmp_monad ''=='' m const0) (\<lambda>m1. Inr (m1, st))
             else not_monad f sa m st)"

section \<open>Lemmas: the SQL of comparisons\<close>

text \<open>
  \<open>sqland\<close> and \<open>sqlor\<close> over items that are not themselves conjunctions (disjunctions)
  build the conjunction (disjunction) of the items; the comparison atoms and their negations.
\<close>

lemma sql_flatten_no_splice:
  "\<forall>x\<in>set xs. \<exists>t ys. x = Node (Str t # ys) \<and> t \<noteq> op \<Longrightarrow> sql_flatten op xs = Inr xs"
  by (induction xs) auto

lemma sqland_plain:
  assumes plain: "\<forall>x\<in>set xs. \<exists>t ys. x = Node (Str t # ys) \<and> t \<noteq> ''AND''" and ne: "xs \<noteq> []"
  shows "\<exists>s. sqland xs = Inr s \<and> eval3 r s = and3_list (map (eval3 r) xs)"
proof -
  obtain x ys where xs: "xs = x # ys" using ne by (cases xs) auto
  show ?thesis
  proof (cases ys)
    case Nil
    then show ?thesis using xs by (cases "eval3 r x") (simp_all add: lift2_def)
  next
    case (Cons y zs)
    from plain have "sql_flatten ''AND'' xs = Inr xs" by (rule sql_flatten_no_splice)
    with xs Cons show ?thesis by (simp del: sql_flatten.simps)
  qed
qed

lemma sqlor_plain:
  assumes plain: "\<forall>x\<in>set xs. \<exists>t ys. x = Node (Str t # ys) \<and> t \<noteq> ''OR''" and ne: "xs \<noteq> []"
  shows "\<exists>s. sqlor xs = Inr s \<and> eval3 r s = or3_list (map (eval3 r) xs)"
proof -
  obtain x ys where xs: "xs = x # ys" using ne by (cases xs) auto
  show ?thesis
  proof (cases ys)
    case Nil
    then show ?thesis using xs by (cases "eval3 r x") (simp_all add: lift2_def)
  next
    case (Cons y zs)
    from plain have "sql_flatten ''OR'' xs = Inr xs" by (rule sql_flatten_no_splice)
    with xs Cons show ?thesis by (simp del: sql_flatten.simps)
  qed
qed

lemma not3_and3: "not3 (and3 a b) = or3 (not3 a) (not3 b)"
  by (cases a; cases b) auto

lemma lift2_not3:
  "lift2 or3 (map_option not3 x) (map_option not3 y) = map_option not3 (lift2 and3 x y)"
  by (cases x; cases y) (simp_all add: lift2_def not3_and3)

lemma or3_list_not3:
  "or3_list (map (map_option not3) xs) = map_option not3 (and3_list xs)"
  by (induction xs) (simp_all add: lift2_not3)

lemma atom_sem_pair:
  "t \<noteq> ''IN'' \<Longrightarrow> t \<noteq> ''NOT_IN'' \<Longrightarrow>
   atom_sem r t [a, b] = Option.bind (sval r a) (\<lambda>x. Option.bind (sval r b) (cmp_sem t x))"
  by (cases b) auto

lemma cmp_sem_negate:
  "(t, u) \<in> {(''LT'', ''GE''), (''GE'', ''LT''), (''LE'', ''GT''), (''GT'', ''LE''), (''EQ'', ''NE''), (''NE'', ''EQ'')} \<Longrightarrow>
   cmp_sem u x y = map_option not3 (cmp_sem t x y)"
  by (cases x; cases y) (auto simp: cmp_sem_def not_less not_le)

lemma eval3_cmp_negate:
  "(t, u) \<in> {(''LT'', ''GE''), (''GE'', ''LT''), (''LE'', ''GT''), (''GT'', ''LE''), (''EQ'', ''NE''), (''NE'', ''EQ'')} \<Longrightarrow>
   eval3 r (sqlnode u [a, b]) = map_option not3 (eval3 r (sqlnode t [a, b]))"
proof -
  assume tu: "(t, u) \<in> {(''LT'', ''GE''), (''GE'', ''LT''), (''LE'', ''GT''), (''GT'', ''LE''), (''EQ'', ''NE''), (''NE'', ''EQ'')}"
  then have "t \<notin> {''AND'', ''OR'', ''NOT'', ''IN'', ''NOT_IN''}" "u \<notin> {''AND'', ''OR'', ''NOT'', ''IN'', ''NOT_IN''}"
    by auto
  moreover have "cmp_sem u = (\<lambda>x y. map_option not3 (cmp_sem t x y))"
    using cmp_sem_negate [OF tu] by (intro ext) simp
  ultimately show ?thesis
    by (simp add: atom_sem_pair map_option_bind_lam)
qed

lemma cmp_negate_vals:
  "cmp_negate ''<'' = Some ''>=''" "cmp_negate ''>='' = Some ''<''" "cmp_negate ''<='' = Some ''>''"
  "cmp_negate ''>'' = Some ''<=''" "cmp_negate ''=='' = Some ''!=''" "cmp_negate ''!='' = Some ''==''"
  "cmp_negate ''is'' = Some ''is not''" "cmp_negate ''is not'' = Some ''is''"
  by (simp_all add: cmp_negate_def cmp_negate_pairs_def swap_pairs_def)

lemma cmp_ops_vals:
  "cmp_ops ''<'' = Some ''LT''" "cmp_ops ''>='' = Some ''GE''" "cmp_ops ''<='' = Some ''LE''"
  "cmp_ops ''>'' = Some ''GT''" "cmp_ops ''=='' = None" "cmp_ops ''!='' = None"
  by (simp_all add: cmp_ops_def)

lemma eq_items_plain:
  "\<forall>x\<in>set (map2 (\<lambda>a b. sqlnode t [a, b]) ls rs). \<exists>u ys. x = Node (Str u # ys) \<and> u \<noteq> op"
  if "t \<noteq> op" using that by (auto simp: set_zip)

lemma not3_or3: "not3 (or3 a b) = and3 (not3 a) (not3 b)"
  by (cases a; cases b) auto

lemma lift2_not3_or:
  "lift2 and3 (map_option not3 x) (map_option not3 y) = map_option not3 (lift2 or3 x y)"
  by (cases x; cases y) (simp_all add: lift2_def not3_or3)

lemma and3_list_not3:
  "and3_list (map (map_option not3) xs) = map_option not3 (or3_list xs)"
  by (induction xs) (simp_all add: lift2_not3_or)

lemma map_eval3_negate:
  assumes "(t, u) \<in> {(''LT'', ''GE''), (''GE'', ''LT''), (''LE'', ''GT''), (''GT'', ''LE''), (''EQ'', ''NE''), (''NE'', ''EQ'')}"
  shows "map (eval3 r) (map2 (\<lambda>x y. sqlnode u [x, y]) ls rs) =
         map (map_option not3) (map (eval3 r) (map2 (\<lambda>x y. sqlnode t [x, y]) ls rs))"
proof (induction ls arbitrary: rs)
  case (Cons l ls)
  then show ?case
    by (cases rs) (simp_all add: eval3_cmp_negate [OF assms] del: eval3.simps map_map)
qed simp

lemma cmp_sql_negate_sem:
  assumes op: "op \<in> {''=='', ''!='', ''<'', ''<='', ''>'', ''>=''}" and neg: "cmp_negate op = Some op'"
    and s: "cmp_sql op ls rs = Inr s" and s': "cmp_sql op' ls rs = Inr s'" and def: "eval3 r s \<noteq> None"
  shows "eval3 r s' = map_option not3 (eval3 r s)"
proof -
  have len: "length ls = length rs" using s op by (auto simp: cmp_sql_def split: if_splits)
  let ?eq = "map2 (\<lambda>a b. sqlnode ''EQ'' [a, b]) ls rs" and ?ne = "map2 (\<lambda>a b. sqlnode ''NE'' [a, b]) ls rs"
  show ?thesis
  proof (cases "op \<in> {''=='', ''!=''}")
    case True
    have "ls \<noteq> []"
    proof
      assume "ls = []"
      with len have "cmp_sql op ls rs = Inr (Node [])"
        using True by (auto simp: cmp_sql_def cmp_ops_vals)
      with s have "s = Node []" by simp
      with def show False by simp
    qed
    then have "?eq \<noteq> []" "?ne \<noteq> []" using len by (cases ls; cases rs; simp)+
    then obtain a b where a: "sqland ?eq = Inr a" "eval3 r a = and3_list (map (eval3 r) ?eq)"
      and b: "sqlor ?ne = Inr b" "eval3 r b = or3_list (map (eval3 r) ?ne)"
      using sqland_plain [OF eq_items_plain [where t = "''EQ''" and op = "''AND''" and ls = ls and rs = rs]]
            sqlor_plain [OF eq_items_plain [where t = "''NE''" and op = "''OR''" and ls = ls and rs = rs]]
      by blast
    have "op = ''=='' \<and> op' = ''!='' \<or> op = ''!='' \<and> op' = ''==''"
      using True neg by (auto simp: cmp_negate_vals)
    then show ?thesis
    proof
      assume "op = ''=='' \<and> op' = ''!=''"
      with s s' len a b show ?thesis
        by (simp add: cmp_sql_def cmp_ops_vals or3_list_not3 map_eval3_negate [of "''EQ''" "''NE''"] del: map_map)
    next
      assume "op = ''!='' \<and> op' = ''==''"
      with s s' len a b show ?thesis
        by (simp add: cmp_sql_def cmp_ops_vals and3_list_not3 map_eval3_negate [of "''NE''" "''EQ''"] del: map_map)
    qed
  next
    case False
    with op have ord: "op \<in> {''<'', ''<='', ''>'', ''>=''}" by auto
    then obtain t u where t: "cmp_ops op = Some t" and u: "cmp_ops op' = Some u"
      and tu: "(t, u) \<in> {(''LT'', ''GE''), (''GE'', ''LT''), (''LE'', ''GT''), (''GT'', ''LE''), (''EQ'', ''NE''), (''NE'', ''EQ'')}"
      using neg by (auto simp: cmp_ops_vals cmp_negate_vals)
    have op_not: "op \<noteq> ''is''" "op \<noteq> ''is not''" "op' \<noteq> ''is''" "op' \<noteq> ''is not''"
      using ord neg by (auto simp: cmp_negate_vals)
    obtain a b where ab: "ls = [a]" "rs = [b]" "s = sqlnode t [a, b]"
      using s t len op_not by (auto simp: cmp_sql_def length_Suc_conv split: if_splits)
    then have "s' = sqlnode u [a, b]"
      using s' u op_not by (simp add: cmp_sql_def)
    with ab show ?thesis by (simp only: eval3_cmp_negate [OF tu])
  qed
qed

section \<open>Lemmas: comparison monads\<close>

lemma cmp_negate_SomeD:
  "cmp_negate op = Some nop \<Longrightarrow>
   (op, nop) \<in> {(''<'', ''>=''), (''>='', ''<''), (''<='', ''>''), (''>'', ''<=''),
                (''=='', ''!=''), (''!='', ''==''), (''is'', ''is not''), (''is not'', ''is'')}"
  unfolding cmp_negate_def by (drule map_of_SomeD) (auto simp: swap_pairs_def cmp_negate_pairs_def)

lemma cmp_monad_plain:
  assumes "cmp_monad op l r = Inr m" "mtype l \<noteq> TNone" "mtype r \<noteq> TNone"
  shows "m = CmpM (cmp_norm_op (if op = ''<>'' then ''!='' else op) False) l r"
  using assms by (auto simp: cmp_monad_def Let_def split: sum.splits if_splits)

lemma cmp_norm_op_plain: "cmp_norm_op op False \<notin> {''is'', ''is not''}"
  by (simp add: cmp_norm_op_def)

lemma cmp_norm_op_keep: "op \<notin> {''is'', ''is not''} \<Longrightarrow> cmp_norm_op op False = op"
  by (simp add: cmp_norm_op_def)

lemma getsql_CmpM_plain:
  assumes op: "op \<notin> {''is'', ''is not''}" and g: "getsql f sa (CmpM op l r) st = Inr (s, st')"
  obtains ls rs where "cmp_sql op ls rs = Inr s"
    "\<And>op2. op2 \<notin> {''is'', ''is not''} \<Longrightarrow>
       getsql f sa (CmpM op2 l r) st = rbind (cmp_sql op2 ls rs) (\<lambda>s. Inr (s, st'))"
proof -
  from g op obtain l1 st1 ls r1 rs where
    "getsql f sa l st = Inr (l1, st1)" "py_list l1 = Inr ls" "getsql f sa r st1 = Inr (r1, st')"
    "py_list r1 = Inr rs" "cmp_sql op ls rs = Inr s"
    by (auto simp: rbind_def split: sum.splits prod.splits)
  then show thesis using that by (simp add: rbind_def)
qed

lemma negate_CmpM:
  assumes "negate f sa (CmpM op l r) st = Inr (m', st')"
  shows "\<exists>nop. cmp_negate op = Some nop \<and> cmp_monad nop l r = Inr m' \<and> st' = st"
  using assms by (auto simp: negate_def rbind_def split: option.splits sum.splits)

section \<open>Properties of negation\<close>

text \<open>
  C15: negating a comparison negates its SQL. For a comparison built by \<open>CmpMonad\<close> between
  two operands that are not \<open>None\<close>, if \<open>negate\<close> succeeds and both monads give their SQL,
  then on every row where the original condition is defined the negated condition has the
  opposite three-valued truth value (\<open>UNKNOWN\<close> stays \<open>UNKNOWN\<close>).
\<close>

theorem negate_cmp_sem:
  assumes m: "cmp_monad op l r = Inr m" and nl: "mtype l \<noteq> TNone" and nr: "mtype r \<noteq> TNone"
    and n: "negate f sa m st = Inr (m', st')"
    and s: "getsql f sa m st = Inr (s, st1)" and s': "getsql f sa m' st' = Inr (s', st2)"
    and def: "eval3 row s \<noteq> None"
  shows "eval3 row s' = map_option not3 (eval3 row s)"
proof -
  define op1 where "op1 = cmp_norm_op (if op = ''<>'' then ''!='' else op) False"
  have m1: "m = CmpM op1 l r" unfolding op1_def using m nl nr by (rule cmp_monad_plain)
  then obtain nop where nop: "cmp_negate op1 = Some nop" and m2: "cmp_monad nop l r = Inr m'"
    and st: "st' = st"
    using negate_CmpM n by blast
  have op1: "op1 \<notin> {''is'', ''is not''}" unfolding op1_def by (rule cmp_norm_op_plain)
  with cmp_negate_SomeD [OF nop]
  have ops: "op1 \<in> {''=='', ''!='', ''<'', ''<='', ''>'', ''>=''}" "nop \<notin> {''is'', ''is not'', ''<>''}"
    by auto
  then have m': "m' = CmpM nop l r"
    using cmp_monad_plain [OF m2 nl nr] cmp_norm_op_keep [of nop] by simp
  obtain ls rs where a: "cmp_sql op1 ls rs = Inr s"
    and b: "getsql f sa (CmpM nop l r) st = rbind (cmp_sql nop ls rs) (\<lambda>s. Inr (s, st1))"
    using getsql_CmpM_plain [OF op1 s [unfolded m1]] ops by blast
  have "cmp_sql nop ls rs = Inr s'"
    using s' b by (auto simp: m' st rbind_def split: sum.splits)
  then show ?thesis using cmp_sql_negate_sem [OF ops(1) nop a] def by blast
qed

theorem negate_cmp_sem_witness:
  "cmp_monad ''<'' (ExprM TInt (column ''s'' ''x'')) (ConstM (VInt 3)) =
     Inr (CmpM ''<'' (ExprM TInt (column ''s'' ''x'')) (ConstM (VInt 3))) \<and>
   negate 1 False (CmpM ''<'' (ExprM TInt (column ''s'' ''x'')) (ConstM (VInt 3))) st_root =
     Inr (CmpM ''>='' (ExprM TInt (column ''s'' ''x'')) (ConstM (VInt 3)), st_root) \<and>
   eval3 ex_row (sqlnode ''GE'' [column ''s'' ''x'', sql_value (IntV 3)]) =
     map_option not3 (eval3 ex_row (sqlnode ''LT'' [column ''s'' ''x'', sql_value (IntV 3)]))"
proof -
  let ?l = "ExprM TInt (column ''s'' ''x'')" and ?r = "ConstM (VInt 3)"
  have m: "cmp_monad ''<'' ?l ?r = Inr (CmpM ''<'' ?l ?r)"
    by (simp add: cmp_monad_def check_comparable_def are_comparable_types_def cmp_norm_op_def
        ordered_type_def comparable_type_def numeric_type_def rbind_def)
  have n: "negate 1 False (CmpM ''<'' ?l ?r) st_root = Inr (CmpM ''>='' ?l ?r, st_root)"
    by (simp add: negate_def cmp_negate_vals cmp_monad_def check_comparable_def
        are_comparable_types_def cmp_norm_op_def ordered_type_def comparable_type_def
        numeric_type_def rbind_def)
  have s: "getsql 1 False (CmpM ''<'' ?l ?r) st_root =
      Inr (sqlnode ''LT'' [column ''s'' ''x'', sql_value (IntV 3)], st_root)"
    by (simp add: cmp_sql_def cmp_ops_vals rbind_def)
  have s': "getsql 1 False (CmpM ''>='' ?l ?r) st_root =
      Inr (sqlnode ''GE'' [column ''s'' ''x'', sql_value (IntV 3)], st_root)"
    by (simp add: cmp_sql_def cmp_ops_vals rbind_def)
  have d: "eval3 ex_row (sqlnode ''LT'' [column ''s'' ''x'', sql_value (IntV 3)]) \<noteq> None"
    by (simp add: ex_row_def cmp_sem_def)
  show ?thesis
    using m n negate_cmp_sem [OF m _ _ n s s' d] by simp
qed

end
