(* ===== verification/Operations.thy ===== *)
theory Operations
  imports Monads "HOL-Library.Sublist"
begin

text \<open>
  The operations of the value monads of \<open>src/pony/orm/sqltranslation.py\<close>: the
  constructors that pick a flavour by type (\<open>AttrMonad.new\<close>, \<open>ParamMonad.new\<close>,
  \<open>ExprMonad.new\<close>, \<open>ConstMonad.new\<close>), attribute access (\<open>Monad.getattr\<close>,
  \<open>ObjectMixin.getattr\<close>, \<open>ObjectAttrMonad.__init__\<close>), the arithmetic of
  \<open>NumericMixin\<close>, the date parts of \<open>DateMixin\<close>, the string operations of
  \<open>StringMixin\<close> (concatenation, indexing and slicing, \<open>len\<close>, \<open>in\<close>, the methods),
  \<open>ListMonad.contains\<close>, \<open>Monad.count\<close> and \<open>Monad.aggregate\<close>, and the special
  functions (\<open>FuncMonad\<close> subclasses). Python's operator dispatch on the left operand's
  class is written out: a method of a mixin applies when the monad has that flavour, a
  \<open>MethodMonad\<close> raises "forgot parentheses", and the base class \<open>Monad\<close> raises
  \<open>TypeError\<close>. Every operation passes the translator's state and the fuel of
  \<open>make_join\<close>, since getting the SQL of an attribute joins its table reference.
\<close>

section \<open>Flavours and SQL of one column\<close>

definition is_date :: "monad \<Rightarrow> bool" where
  "is_date m \<longleftrightarrow> flavoured m \<and> (mtype m = TDate \<or> mtype m = TDatetime)"

definition is_datetime :: "monad \<Rightarrow> bool" where
  "is_datetime m \<longleftrightarrow> flavoured m \<and> mtype m = TDatetime"

fun str_const :: "monad \<Rightarrow> string option" where
  "str_const (ConstM (VStr s)) = Some s"
| "str_const _ = None"

fun int_const :: "monad \<Rightarrow> int option" where
  "int_const (ConstM (VInt i)) = Some i"
| "int_const _ = None"

text \<open>\<open>monad.getsql()[0]\<close>.\<close>

definition sql1 :: "nat \<Rightarrow> bool \<Rightarrow> monad \<Rightarrow> tstate \<Rightarrow> (sql \<times> tstate) result" where
  "sql1 f sa m st = rbind (getsql f sa m st) (\<lambda>(s, st1). rbind (py_first s) (\<lambda>x. Inr (x, st1)))"

text \<open>\<open>monad.getsql()\<close> as a list of columns.\<close>

definition sql_cols :: "nat \<Rightarrow> bool \<Rightarrow> monad \<Rightarrow> tstate \<Rightarrow> (sql list \<times> tstate) result" where
  "sql_cols f sa m st = rbind (getsql f sa m st) (\<lambda>(s, st1). rbind (py_list s) (\<lambda>xs. Inr (xs, st1)))"

text \<open>\<open>left_sql = a.getsql(); right_sql = b.getsql(); assert len(left_sql) == len(right_sql) == 1\<close>.\<close>

definition sql_pair1 :: "nat \<Rightarrow> bool \<Rightarrow> monad \<Rightarrow> monad \<Rightarrow> tstate \<Rightarrow> ((sql \<times> sql) \<times> tstate) result" where
  "sql_pair1 f sa a b st =
     rbind (sql_cols f sa a st) (\<lambda>(ls, st1). rbind (sql_cols f sa b st1) (\<lambda>(rs, st2).
       if length ls = 1 \<and> length rs = 1 then Inr ((hd ls, hd rs), st2) else Inl AssertionError))"

definition binop_error :: "monad \<Rightarrow> monad \<Rightarrow> string \<Rightarrow> 'a result" where
  "binop_error m m2 op =
     Inl (TypeError (''Unsupported operand types '' @ type2str (mtype m) @ '' and '' @
                     type2str (mtype m2) @ '' for operation '' @ op))"

section \<open>Flavour-choosing constructors\<close>

text \<open>\<open>ExprMonad.new\<close> (lines 1194--1201).\<close>

definition expr_new :: "ptype \<Rightarrow> sql \<Rightarrow> monad result" where
  "expr_new t s =
     (if numeric_type t \<or> t = TStr \<or> t = TDate \<or> t = TDatetime then Inr (ExprM t s)
      else Inl (NotImplementedError (type2str t)))"

text \<open>\<open>ParamMonad.new\<close> (lines 1150--1160).\<close>

definition param_new :: "ptype \<Rightarrow> string \<Rightarrow> monad result" where
  "param_new t src =
     (if numeric_type t \<or> t = TStr \<or> t = TDate \<or> t = TDatetime \<or> t = TBuffer then Inr (ParamM t src)
      else case t of TEnt e \<Rightarrow> Inr (ObjParamM e src) | _ \<Rightarrow> Inl (NotImplementedError (type2str t)))"

text \<open>
  \<open>ObjectAttrMonad.__init__\<close> (lines 1132--1141): an entity-valued attribute gets the
  table reference \<open>parent-path-attr\<close>, looked up in the current subquery \<open>cur\<close> and
  otherwise added to the subquery of the parent's table reference.
\<close>

definition obj_attr_init :: "nat \<Rightarrow> monad \<Rightarrow> attribute \<Rightarrow> tstate \<Rightarrow> (monad \<times> tstate) result" where
  "obj_attr_init cur parent attr st =
     (case tableref_of parent of
        None \<Rightarrow> Inl (AttributeError ''tableref'')
      | Some pk \<Rightarrow>
          rbind (get_tr st pk) (\<lambda>ptr.
            (let np = tr_name_path ptr @ CHR ''-'' # attr_name attr
             in rbind (get_tableref st cur np) (\<lambda>found.
                  case found of
                    Some k \<Rightarrow> Inr (ObjAttrM parent attr k, st)
                  | None \<Rightarrow> rbind (add_tableref (tr_sq ptr) np pk attr st) (\<lambda>(k, st1).
                              Inr (ObjAttrM parent attr k, st1))))))"

text \<open>\<open>AttrMonad.new\<close> (lines 1096--1107): the flavour is chosen by the attribute's type.\<close>

definition attr_new :: "nat \<Rightarrow> monad \<Rightarrow> attribute \<Rightarrow> tstate \<Rightarrow> (monad \<times> tstate) result" where
  "attr_new cur parent attr st =
     (let t = attr_type attr
      in if numeric_type t \<or> t = TStr \<or> t = TDate \<or> t = TDatetime \<or> t = TBuffer
         then Inr (AttrM parent attr t, st)
         else case t of
           TEnt e \<Rightarrow> obj_attr_init cur parent attr st
         | _ \<Rightarrow> Inl (NotImplementedError (type2str t)))"

section \<open>NumericMixin (lines 849--892)\<close>

text \<open>
  \<open>make_numeric_binop\<close>: the operand types are coerced (\<open>coerce_types\<close>), the result is a
  numeric expression \<open>[sqlop, left, right]\<close> of the coerced type. (Its first branch, for a
  right operand that is a set of values, concerns \<open>AttrSetMonad\<close>s, which are not
  monads of this model.)
\<close>

definition numeric_binop ::
  "string \<Rightarrow> string \<Rightarrow> nat \<Rightarrow> bool \<Rightarrow> monad \<Rightarrow> monad \<Rightarrow> tstate \<Rightarrow> (monad \<times> tstate) result" where
  "numeric_binop op sqlop f sa m m2 st =
     (if mtype m2 = TMethod then forgot_parentheses
      else case coerce_types (mtype m) (mtype m2) of
        None \<Rightarrow> binop_error m m2 op
      | Some t \<Rightarrow>
          rbind (sql1 f sa m st) (\<lambda>(l, st1). rbind (sql1 f sa m2 st1) (\<lambda>(r, st2).
            Inr (ExprM t (sqlnode sqlop [l, r]), st2))))"

definition numeric_pow :: "nat \<Rightarrow> bool \<Rightarrow> monad \<Rightarrow> monad \<Rightarrow> tstate \<Rightarrow> (monad \<times> tstate) result" where
  "numeric_pow f sa m m2 st =
     (if \<not> is_numeric m2 then binop_error m m2 ''**''
      else rbind (sql_pair1 f sa m m2 st) (\<lambda>((l, r), st1). Inr (ExprM TFloat (sqlnode ''POW'' [l, r]), st1)))"

text \<open>\<open>__neg__\<close> and \<open>abs\<close>: \<open>[op, sql]\<close> of the monad's own type.\<close>

definition numeric_unop :: "string \<Rightarrow> nat \<Rightarrow> bool \<Rightarrow> monad \<Rightarrow> tstate \<Rightarrow> (monad \<times> tstate) result" where
  "numeric_unop sqlop f sa m st =
     rbind (sql1 f sa m st) (\<lambda>(x, st1). Inr (ExprM (mtype m) (sqlnode sqlop [x]), st1))"

section \<open>DateMixin (lines 894--914)\<close>

text \<open>\<open>datetime_attr_factory(name)\<close>: an integer expression \<open>[name, sql]\<close>.\<close>

definition datetime_attr :: "string \<Rightarrow> nat \<Rightarrow> bool \<Rightarrow> monad \<Rightarrow> tstate \<Rightarrow> (monad \<times> tstate) result" where
  "datetime_attr name f sa m st =
     rbind (sql1 f sa m st) (\<lambda>(x, st1). Inr (ExprM TInt (sqlnode name [x]), st1))"

definition date_parts :: "monad \<Rightarrow> (string \<times> string) list" where
  "date_parts m =
     (if is_date m then [(''year'', ''YEAR''), (''month'', ''MONTH''), (''day'', ''DAY'')] else []) @
     (if is_datetime m then [(''hour'', ''HOUR''), (''minute'', ''MINUTE''), (''second'', ''SECOND'')] else [])"

section \<open>StringMixin (lines 916--1067)\<close>

text \<open>\<open>make_string_binop('+', 'CONCAT')\<close> (lines 916--927).\<close>

definition string_binop ::
  "string \<Rightarrow> string \<Rightarrow> nat \<Rightarrow> bool \<Rightarrow> monad \<Rightarrow> monad \<Rightarrow> tstate \<Rightarrow> (monad \<times> tstate) result" where
  "string_binop op sqlop f sa m m2 st =
     (if \<not> are_comparable_types (mtype m) (mtype m2) (Some sqlop) then
        (if mtype m2 = TMethod then forgot_parentheses else binop_error m m2 op)
      else rbind (sql_pair1 f sa m m2 st) (\<lambda>((l, r), st1).
             Inr (ExprM (mtype m) (sqlnode sqlop [l, r]), st1)))"

text \<open>\<open>make_string_func\<close> (lines 929--936): \<open>upper\<close> and \<open>lower\<close>.\<close>

definition string_func :: "string \<Rightarrow> nat \<Rightarrow> bool \<Rightarrow> monad \<Rightarrow> tstate \<Rightarrow> (monad \<times> tstate) result" where
  "string_func sqlop f sa m st =
     rbind (sql_cols f sa m st) (\<lambda>(xs, st1).
       if length xs = 1 then Inr (ExprM (mtype m) (sqlnode sqlop [hd xs]), st1) else Inl AssertionError)"

text \<open>The argument of \<open>__getitem__\<close>: an index monad, or a slice of optional monads.\<close>

datatype idxarg = IndexArg monad | SliceArg "monad option" "monad option" "monad option"

abbreviation int_value :: "int \<Rightarrow> sql" where
  "int_value i \<equiv> sql_value (IntV i)"

text \<open>
  The start of a slice in SQL (lines 963--969): a constant is shifted to 1-based, and a
  negative constant is refused; an expression gets \<open>+ 1\<close>.
\<close>

definition slice_start :: "nat \<Rightarrow> bool \<Rightarrow> monad \<Rightarrow> tstate \<Rightarrow> (sql \<times> tstate) result" where
  "slice_start f sa start st =
     (case int_const start of
        Some v \<Rightarrow> if v < 0 then Inl (NotImplementedError ''Negative indices are not supported in string slice'')
                  else Inr (int_value (v + 1), st)
      | None \<Rightarrow> rbind (sql1 f sa start st) (\<lambda>(x, st1). Inr (sqlnode ''ADD'' [x, int_value 1], st1)))"

text \<open>The length of a slice in SQL (lines 971--983); \<open>None\<close> when the slice is open.\<close>

definition slice_length :: "nat \<Rightarrow> bool \<Rightarrow> monad \<Rightarrow> monad option \<Rightarrow> tstate \<Rightarrow> (sql \<times> tstate) result" where
  "slice_length f sa start stop st =
     (case stop of
        None \<Rightarrow> Inr (NoneV, st)
      | Some sp \<Rightarrow>
          (case int_const sp of
             Some w \<Rightarrow>
               if w < 0 then Inl (NotImplementedError ''Negative indices are not supported in string slice'')
               else (case int_const start of
                       Some v \<Rightarrow> Inr (int_value (w - v), st)
                     | None \<Rightarrow> rbind (sql1 f sa start st) (\<lambda>(x, st1). Inr (sqlnode ''SUB'' [int_value w, x], st1)))
           | None \<Rightarrow>
               rbind (sql1 f sa sp st) (\<lambda>(y, st1).
                 case int_const start of
                   Some v \<Rightarrow> Inr (sqlnode ''SUB'' [y, int_value v], st1)
                 | None \<Rightarrow> rbind (sql1 f sa start st1) (\<lambda>(x, st2). Inr (sqlnode ''SUB'' [y, x], st2)))))"

text \<open>The SQL index of \<open>s[i]\<close> (lines 993--999): a non-negative constant shifted to 1-based, a
  negative one kept (SQL counts it from the end), an expression shifted when non-negative.\<close>

definition index_sql :: "nat \<Rightarrow> bool \<Rightarrow> monad \<Rightarrow> tstate \<Rightarrow> (sql \<times> tstate) result" where
  "index_sql f sa i st =
     (case int_const i of
        Some v \<Rightarrow> Inr (int_value (if v \<ge> 0 then v + 1 else v), st)
      | None \<Rightarrow> rbind (sql1 f sa i st) (\<lambda>(x, st1).
          Inr (sqlnode ''ADD'' [x, sqlnode ''CASE'' [NoneV,
                 Node [Node [sqlnode ''GE'' [x, int_value 0], int_value 1]], int_value 0]], st1)))"

text \<open>\<open>StringMixin.__getitem__\<close> (lines 942--1002).\<close>

definition string_getitem :: "nat \<Rightarrow> bool \<Rightarrow> monad \<Rightarrow> idxarg \<Rightarrow> tstate \<Rightarrow> (monad \<times> tstate) result" where
  "string_getitem f sa m idx st =
     (case idx of
        IndexArg (ListM _) \<Rightarrow> Inl (TypeError ''String index must be of int type. Got tuple'')
      | SliceArg start stop step \<Rightarrow>
          if step \<noteq> None then Inl (TypeError ''Step is not supported'')
          else if start = None \<and> stop = None then Inr (m, st)
          else if str_const m \<noteq> None \<and> (case start of None \<Rightarrow> True | Some s \<Rightarrow> int_const s \<noteq> None)
                  \<and> (case stop of None \<Rightarrow> True | Some s \<Rightarrow> int_const s \<noteq> None)
          then Inr (ConstM (VStr (py_slice (the (str_const m)) (map_option (the \<circ> int_const) start)
                                    (map_option (the \<circ> int_const) stop))), st)
          else if (case start of Some s \<Rightarrow> mtype s \<noteq> TInt | None \<Rightarrow> False)
          then Inl (TypeError ''Invalid type of start index in string slice'')
          else if (case stop of Some s \<Rightarrow> mtype s \<noteq> TInt | None \<Rightarrow> False)
          then Inl (TypeError ''Invalid type of stop index in string slice'')
          else rbind (sql1 f sa m st) (\<lambda>(e, st1).
                 (let s0 = (case start of None \<Rightarrow> const0 | Some s \<Rightarrow> s)
                  in rbind (slice_start f sa s0 st1) (\<lambda>(a, st2).
                     rbind (slice_length f sa s0 stop st2) (\<lambda>(l, st3).
                       Inr (ExprM (mtype m) (sqlnode ''SUBSTR'' [e, a, l]), st3)))))
      | IndexArg i \<Rightarrow>
          (case (str_const m, int_const i) of
             (Some s, Some v) \<Rightarrow> rbind (py_index s v) (\<lambda>c. Inr (ConstM (VStr [c]), st))
           | _ \<Rightarrow>
               if mtype i \<noteq> TInt then Inl (TypeError ''String indices must be integers'')
               else rbind (sql1 f sa m st) (\<lambda>(e, st1).
                 rbind (index_sql f sa i st1) (\<lambda>(ix, st2).
                   Inr (ExprM (mtype m) (sqlnode ''SUBSTR'' [e, ix, int_value 1]), st2)))))"

text \<open>\<open>StringMixin.len\<close> (lines 1007--1010) and \<open>StringConstMonad.len\<close> (lines 1247--1248).\<close>

definition string_len :: "nat \<Rightarrow> bool \<Rightarrow> monad \<Rightarrow> tstate \<Rightarrow> (monad \<times> tstate) result" where
  "string_len f sa m st =
     (case str_const m of
        Some s \<Rightarrow> Inr (ConstM (VInt (int (length s))), st)
      | None \<Rightarrow> rbind (sql1 f sa m st) (\<lambda>(x, st1). Inr (ExprM TInt (sqlnode ''LENGTH'' [x]), st1)))"

text \<open>
  \<open>StringMixin.contains\<close> (lines 1011--1021) as written: the \<open>not_in\<close> argument is
  accepted and not used, so \<open>x not in s\<close> builds the same \<open>LIKE\<close> as \<open>x in s\<close>.
\<close>

definition string_contains ::
  "nat \<Rightarrow> bool \<Rightarrow> monad \<Rightarrow> monad \<Rightarrow> bool \<Rightarrow> tstate \<Rightarrow> (monad \<times> tstate) result" where
  "string_contains f sa m item not_in st =
     rbind (check_comparable item m (Some ''LIKE'')) (\<lambda>_.
       rbind (case str_const item of
                Some v \<Rightarrow> Inr (sql_value (Str (CHR ''%'' # v @ ''%'')), st)
              | None \<Rightarrow> rbind (sql1 f sa item st) (\<lambda>(x, st1).
                          Inr (sqlnode ''CONCAT'' [sql_value (Str ''%''), x, sql_value (Str ''%'')], st1)))
         (\<lambda>(pat, st1). rbind (sql1 f sa m st1) (\<lambda>(e, st2).
            Inr (BoolExprM (sqlnode ''LIKE'' [e, pat]), st2))))"

text \<open>\<open>call_startswith\<close> and \<open>call_endswith\<close> (lines 1022--1051): \<open>LIKE\<close> with \<open>%\<close> after or before.\<close>

definition string_affix ::
  "bool \<Rightarrow> nat \<Rightarrow> bool \<Rightarrow> monad \<Rightarrow> monad \<Rightarrow> tstate \<Rightarrow> (monad \<times> tstate) result" where
  "string_affix is_prefix f sa m arg st =
     (if \<not> are_comparable_types (mtype m) (mtype arg) None then
        (if mtype arg = TMethod then forgot_parentheses
         else Inl (TypeError (''Expected '' @ type2str (mtype m) @ '' argument but got '' @ type2str (mtype arg))))
      else
        rbind (case str_const arg of
                 Some v \<Rightarrow> Inr (sql_value (Str (if is_prefix then v @ ''%'' else CHR ''%'' # v)), st)
               | None \<Rightarrow> rbind (sql1 f sa arg st) (\<lambda>(x, st1).
                   Inr (if is_prefix then sqlnode ''CONCAT'' [x, sql_value (Str ''%'')]
                        else sqlnode ''CONCAT'' [sql_value (Str ''%''), x], st1)))
          (\<lambda>(pat, st1). rbind (sql1 f sa m st1) (\<lambda>(e, st2).
             Inr (BoolExprM (sqlnode ''LIKE'' [e, pat]), st2))))"

text \<open>\<open>StringMixin.strip\<close> (lines 1052--1067): \<open>TRIM\<close>, \<open>LTRIM\<close>, \<open>RTRIM\<close>, with the characters.\<close>

definition string_strip ::
  "string \<Rightarrow> nat \<Rightarrow> bool \<Rightarrow> monad \<Rightarrow> monad option \<Rightarrow> tstate \<Rightarrow> (monad \<times> tstate) result" where
  "string_strip strip_type f sa m chars st =
     (if (case chars of Some c \<Rightarrow> \<not> are_comparable_types (mtype m) (mtype c) None | None \<Rightarrow> False) then
        (if (case chars of Some c \<Rightarrow> mtype c = TMethod | None \<Rightarrow> False) then forgot_parentheses
         else Inl (TypeError ''chars argument must be of the string type''))
      else rbind (sql1 f sa m st) (\<lambda>(e, st1).
             case chars of
               None \<Rightarrow> Inr (ExprM (mtype m) (sqlnode strip_type [e]), st1)
             | Some c \<Rightarrow> rbind (sql1 f sa c st1) (\<lambda>(x, st2).
                 Inr (ExprM (mtype m) (sqlnode strip_type [e, x]), st2))))"

section \<open>Monad.getattr and ObjectMixin.getattr (lines 699--706, 1071--1079)\<close>

text \<open>The \<open>call_\<close> methods of \<open>StringMixin\<close> (lines 1020--1067); no other flavour of this
  model has one.\<close>

definition string_methods :: "string list" where
  "string_methods = [''upper'', ''lower'', ''startswith'', ''endswith'', ''strip'', ''lstrip'', ''rstrip'']"

definition call_methods :: "monad \<Rightarrow> string list" where
  "call_methods m = (if is_string m then string_methods else [])"

text \<open>The classes that take \<open>ObjectMixin\<close>: \<open>ObjectIterMonad\<close>, \<open>ObjectAttrMonad\<close>,
  \<open>ObjectParamMonad\<close>.\<close>

fun obj_entity :: "monad \<Rightarrow> entity option" where
  "obj_entity (ObjIterM _ e) = Some e"
| "obj_entity (ObjAttrM _ attr _) = attr_target attr"
| "obj_entity (ObjParamM e _) = Some e"
| "obj_entity _ = None"

text \<open>What \<open>getattr\<close> returns: a monad, or an \<open>AttrSetMonad\<close> (a collection attribute), which is
  not a monad of this model and is returned as its parent and attribute.\<close>

datatype attr_result = GMonad monad | GAttrSet monad attribute

text \<open>\<open>ObjectMixin.getattr\<close> (lines 1071--1079): the name is looked up in the entity's
  attribute dictionary \<open>adict\<close> (\<open>entity._adict_\<close>).\<close>

definition obj_getattr ::
  "(entity \<Rightarrow> string \<Rightarrow> attribute option) \<Rightarrow> nat \<Rightarrow> monad \<Rightarrow> entity \<Rightarrow> string \<Rightarrow> tstate
   \<Rightarrow> (attr_result \<times> tstate) result" where
  "obj_getattr adict cur m e name st =
     (case adict e name of
        None \<Rightarrow> Inl (AttributeError name)
      | Some attr \<Rightarrow>
          if is_collection attr then Inr (GAttrSet m attr, st)
          else rbind (attr_new cur m attr st) (\<lambda>(r, st1). Inr (GMonad r, st1)))"

text \<open>
  \<open>monad.getattr(name)\<close> (\<open>Monad.getattr\<close>, lines 699--706): a method in flight was
  called without parentheses (\<open>MethodMonad.getattr\<close>, line 795); an object uses
  \<open>ObjectMixin.getattr\<close>; other monads have the properties \<open>attr_year\<close> \<open>...\<close> of
  \<open>DateMixin\<close> and the methods of \<open>StringMixin\<close>.
\<close>

definition monad_getattr ::
  "(entity \<Rightarrow> string \<Rightarrow> attribute option) \<Rightarrow> nat \<Rightarrow> nat \<Rightarrow> bool \<Rightarrow> monad \<Rightarrow> string \<Rightarrow> tstate
   \<Rightarrow> (attr_result \<times> tstate) result" where
  "monad_getattr adict cur f sa m name st =
     (if mtype m = TMethod then forgot_parentheses
      else case obj_entity m of
        Some e \<Rightarrow> obj_getattr adict cur m e name st
      | None \<Rightarrow>
          (case map_of (date_parts m) name of
             Some sqlname \<Rightarrow> rbind (datetime_attr sqlname f sa m st) (\<lambda>(r, st1). Inr (GMonad r, st1))
           | None \<Rightarrow>
               if name \<in> set (call_methods m) then Inr (GMonad (MethodM m name), st)
               else Inl (AttributeError (type2str (mtype m) @ '' object has no attribute '' @ name))))"

section \<open>Operator dispatch on the left operand's class\<close>

definition binop_sqlop :: "string \<Rightarrow> string option" where
  "binop_sqlop op = map_of [(''+'', ''ADD''), (''-'', ''SUB''), (''*'', ''MUL''), (''/'', ''DIV'')] op"

text \<open>
  \<open>monad + monad2\<close>, \<open>-\<close>, \<open>*\<close>, \<open>/\<close>, \<open>**\<close>: \<open>MethodMonad\<close> (lines 808--812) raises "forgot
  parentheses", \<open>NumericMixin\<close> (lines 867--878) and \<open>StringMixin.__add__\<close> (line 941) build the
  expression, \<open>Monad\<close> (lines 759--763) raises \<open>TypeError\<close>.
\<close>

definition monad_binop ::
  "string \<Rightarrow> nat \<Rightarrow> bool \<Rightarrow> monad \<Rightarrow> monad \<Rightarrow> tstate \<Rightarrow> (monad \<times> tstate) result" where
  "monad_binop op f sa m m2 st =
     (if mtype m = TMethod then forgot_parentheses
      else if is_numeric m then
        (if op = ''**'' then numeric_pow f sa m m2 st
         else case binop_sqlop op of
                Some sqlop \<Rightarrow> numeric_binop op sqlop f sa m m2 st
              | None \<Rightarrow> Inl (TypeError op))
      else if is_string m \<and> op = ''+'' then string_binop ''+'' ''CONCAT'' f sa m m2 st
      else Inl (TypeError op))"

text \<open>\<open>-monad\<close> and \<open>abs(monad)\<close> (\<open>sqlop\<close> is \<open>NEG\<close> or \<open>ABS\<close>; lines 764--765, 814--815, 879--886).\<close>

definition monad_unop :: "string \<Rightarrow> nat \<Rightarrow> bool \<Rightarrow> monad \<Rightarrow> tstate \<Rightarrow> (monad \<times> tstate) result" where
  "monad_unop sqlop f sa m st =
     (if mtype m = TMethod then forgot_parentheses
      else if is_numeric m then numeric_unop sqlop f sa m st
      else Inl (TypeError sqlop))"

text \<open>\<open>len(monad)\<close>: \<open>MethodMonad\<close> does not override \<open>Monad.len\<close> (line 707).\<close>

definition monad_len :: "nat \<Rightarrow> bool \<Rightarrow> monad \<Rightarrow> tstate \<Rightarrow> (monad \<times> tstate) result" where
  "monad_len f sa m st = (if is_string m then string_len f sa m st else Inl (TypeError ''len''))"

text \<open>\<open>monad[index]\<close> (lines 758, 806, 824--825, 942).\<close>

definition monad_getitem :: "nat \<Rightarrow> bool \<Rightarrow> monad \<Rightarrow> idxarg \<Rightarrow> tstate \<Rightarrow> (monad \<times> tstate) result" where
  "monad_getitem f sa m idx st =
     (if mtype m = TMethod then forgot_parentheses
      else if is_string m then string_getitem f sa m idx st
      else case m of EntityM _ \<Rightarrow> Inl (NotImplementedError '''') | _ \<Rightarrow> Inl (TypeError ''getitem''))"

section \<open>ListMonad.contains (lines 831--842)\<close>

text \<open>\<open>[ item.getsql()[0] for item in items ]\<close> and \<open>[ item.getsql() for item in items ]\<close>.\<close>

fun sql1_list :: "nat \<Rightarrow> bool \<Rightarrow> monad list \<Rightarrow> tstate \<Rightarrow> (sql list \<times> tstate) result" where
  "sql1_list f sa [] st = Inr ([], st)"
| "sql1_list f sa (m # ms) st =
     rbind (sql1 f sa m st) (\<lambda>(x, st1). rbind (sql1_list f sa ms st1) (\<lambda>(xs, st2). Inr (x # xs, st2)))"

fun sql_cols_list :: "nat \<Rightarrow> bool \<Rightarrow> monad list \<Rightarrow> tstate \<Rightarrow> (sql list list \<times> tstate) result" where
  "sql_cols_list f sa [] st = Inr ([], st)"
| "sql_cols_list f sa (m # ms) st =
     rbind (sql_cols f sa m st) (\<lambda>(x, st1). rbind (sql_cols_list f sa ms st1) (\<lambda>(xs, st2). Inr (x # xs, st2)))"

text \<open>
  \<open>x in (a, b, ...)\<close>: one column gives \<open>IN\<close> or \<open>NOT_IN\<close>; several columns compare the
  columns pairwise (Python's \<open>zip\<close> is \<open>map2\<close>), \<open>OR\<close> of \<open>AND\<close>s for \<open>in\<close>, \<open>AND\<close> of
  \<open>OR\<close>s of \<open>NE\<close> for \<open>not in\<close>.
\<close>

definition list_contains ::
  "nat \<Rightarrow> bool \<Rightarrow> monad list \<Rightarrow> monad \<Rightarrow> bool \<Rightarrow> tstate \<Rightarrow> (monad \<times> tstate) result" where
  "list_contains f sa items x not_in st =
     rbind (rmap (\<lambda>i. check_comparable i x (Some ''=='')) items) (\<lambda>_.
     rbind (sql_cols f sa x st) (\<lambda>(ls, st1).
       if length ls = 1 then
         rbind (sql1_list f sa items st1) (\<lambda>(xs, st2).
           Inr (BoolExprM (sqlnode (if not_in then ''NOT_IN'' else ''IN'') [hd ls, Node xs]), st2))
       else rbind (sql_cols_list f sa items st1) (\<lambda>(xss, st2).
         rbind (if not_in then rbind (rmap (\<lambda>is. sqlor (map2 (\<lambda>a b. sqlnode ''NE'' [a, b]) ls is)) xss) sqland
                else rbind (rmap (\<lambda>is. sqland (map2 (\<lambda>a b. sqlnode ''EQ'' [a, b]) ls is)) xss) sqlor)
           (\<lambda>s. Inr (BoolExprM s, st2)))))"

text \<open>\<open>item in monad\<close> (lines 695, 800, 831, 1011).\<close>

definition monad_contains ::
  "nat \<Rightarrow> bool \<Rightarrow> monad \<Rightarrow> monad \<Rightarrow> bool \<Rightarrow> tstate \<Rightarrow> (monad \<times> tstate) result" where
  "monad_contains f sa m item not_in st =
     (if mtype m = TMethod then forgot_parentheses
      else if is_string m then string_contains f sa m item not_in st
      else case m of ListM items \<Rightarrow> list_contains f sa items item not_in st
                   | _ \<Rightarrow> Inl (TypeError ''contains''))"

section \<open>MethodMonad.__call__ (lines 797--801)\<close>

text \<open>
  \<open>method(*args)\<close> for \<open>method = getattr(parent, 'call_' + attrname)\<close>: a parent without
  that method raises \<open>AttributeError\<close>; the arity of the Python method decides, a wrong
  number of arguments is Python's \<open>TypeError\<close>.
\<close>

definition call_method ::
  "nat \<Rightarrow> bool \<Rightarrow> monad \<Rightarrow> string \<Rightarrow> monad list \<Rightarrow> tstate \<Rightarrow> (monad \<times> tstate) result" where
  "call_method f sa parent name args st =
     (if name \<notin> set (call_methods parent) then Inl (AttributeError (''call_'' @ name))
      else if name = ''upper'' \<and> args = [] then string_func ''UPPER'' f sa parent st
      else if name = ''lower'' \<and> args = [] then string_func ''LOWER'' f sa parent st
      else if name = ''startswith'' \<and> length args = 1 then string_affix True f sa parent (hd args) st
      else if name = ''endswith'' \<and> length args = 1 then string_affix False f sa parent (hd args) st
      else if name \<in> {''strip'', ''lstrip'', ''rstrip''} \<and> length args \<le> 1 then
        string_strip (if name = ''strip'' then ''TRIM'' else if name = ''lstrip'' then ''LTRIM'' else ''RTRIM'')
          f sa parent (if args = [] then None else Some (hd args)) st
      else Inl (TypeError (name @ ''() takes a different number of arguments'')))"

section \<open>Monad.count and Monad.aggregate (lines 708--756)\<close>

text \<open>
  A monad together with its \<open>aggregated\<close> attribute: \<open>Some b\<close> when it is set on the
  object, \<open>None\<close> when it is not (the walker sets it from the children after each node,
  lines 119--125; a monad made for an external variable never gets it, lines 70--100).
  \<open>count\<close> and \<open>aggregate\<close> read \<open>monad.aggregated\<close>, which raises \<open>AttributeError\<close> when
  it is unset.
\<close>

type_synonym amonad = "monad \<times> bool option"

definition is_aggregated :: "amonad \<Rightarrow> bool" where
  "is_aggregated am = (snd am = Some True)"

definition nested_aggregate :: "'a result" where
  "nested_aggregate = Inl (TranslationError ''Aggregated functions cannot be nested'')"

definition composite_pk_error :: "string \<Rightarrow> 'a result" where
  "composite_pk_error dialect =
     Inl (NotImplementedError (dialect @ '' database provider does not support entities with composite primary keys inside aggregate functions''))"

text \<open>
  \<open>monad.count()\<close>: a boolean counts the rows where it holds; one column is counted
  \<open>DISTINCT\<close>; several columns are a row value, or on SQLite the \<open>ROWID\<close> of the
  object's table (after \<open>make_join(pk_only=False)\<close>).
\<close>

definition monad_count ::
  "string \<Rightarrow> bool \<Rightarrow> nat \<Rightarrow> bool \<Rightarrow> amonad \<Rightarrow> tstate \<Rightarrow> (amonad \<times> tstate) result" where
  "monad_count dialect row_value_syntax f sa am st =
     (let m = fst am in
      if snd am = None then Inl (AttributeError ''aggregated'')
      else if is_aggregated am then nested_aggregate
      else rbind (getsql f sa m st) (\<lambda>(expr, st1).
        rbind (if mtype m = TBool then
                 Inr ((sqlnode ''CASE'' [NoneV, Node [Node [expr, int_value 1]], sql_value NoneV], ''ALL''), st1)
               else rbind (py_list expr) (\<lambda>cols.
                 if length cols = 1 then Inr ((hd cols, ''DISTINCT''), st1)
                 else if row_value_syntax \<and> dialect \<noteq> ''Oracle'' then Inr ((Node (Str ''ROW'' # cols), ''DISTINCT''), st1)
                 else if dialect = ''SQLite'' then
                   (case tableref_of m of
                      None \<Rightarrow> Inl (AttributeError ''tableref'')
                    | Some k \<Rightarrow> rbind (make_join f sa k False st1) (\<lambda>((alias, _), st2).
                                 Inr ((column alias ''ROWID'', ''DISTINCT''), st2)))
                 else composite_pk_error dialect))
          (\<lambda>((e, kind), st2). rbind (expr_new TInt (sqlnode ''COUNT'' [Str kind, e])) (\<lambda>r.
             Inr ((r, Some True), st2)))))"

text \<open>\<open>monad.aggregate(func_name)\<close> for \<open>SUM\<close>, \<open>AVG\<close>, \<open>MIN\<close>, \<open>MAX\<close>.\<close>

definition monad_aggregate ::
  "bool \<Rightarrow> nat \<Rightarrow> bool \<Rightarrow> string \<Rightarrow> string \<Rightarrow> amonad \<Rightarrow> tstate \<Rightarrow> (amonad \<times> tstate) result" where
  "monad_aggregate row_value_syntax f sa dialect func_name am st =
     (let m = fst am; t = mtype m in
      if snd am = None then Inl (AttributeError ''aggregated'')
      else if is_aggregated am then nested_aggregate
      else if func_name \<in> {''SUM'', ''AVG''} \<and> \<not> numeric_type t then
        Inl (TypeError (''Function '' @ func_name @ '' expects argument of numeric type, got '' @ type2str t))
      else if func_name \<in> {''MIN'', ''MAX''} \<and> \<not> comparable_type t then
        Inl (TypeError (''Function '' @ func_name @ '' cannot be applied to type '' @ type2str t))
      else if func_name \<notin> {''SUM'', ''AVG'', ''MIN'', ''MAX''} then Inl AssertionError
      else rbind (getsql f sa m st) (\<lambda>(expr, st1). rbind (py_list expr) (\<lambda>cols.
        rbind (if length cols = 1 then Inr (hd cols)
               else if row_value_syntax then Inr (Node (Str ''ROW'' # cols))
               else composite_pk_error dialect) (\<lambda>e.
        rbind (expr_new (if func_name = ''AVG'' then TFloat else t) (sqlnode func_name [e])) (\<lambda>r.
          Inr ((r, Some True), st1))))))"

section \<open>Special functions (lines 1426--1485)\<close>

text \<open>
  \<open>minmax(monad, sqlop, *args)\<close>: the types of the arguments are coerced from left to
  right; the result is \<open>[sqlop, sql1, sql2, ...]\<close> of the coerced type.
\<close>

fun minmax_type :: "ptype \<Rightarrow> monad list \<Rightarrow> ptype result" where
  "minmax_type t [] = Inr t"
| "minmax_type t (a # as) =
     (if mtype a = TMethod then forgot_parentheses
      else case coerce_types t (mtype a) of
             None \<Rightarrow> Inl IncomparableTypesError
           | Some t3 \<Rightarrow> minmax_type t3 as)"

definition minmax :: "string \<Rightarrow> nat \<Rightarrow> bool \<Rightarrow> monad list \<Rightarrow> tstate \<Rightarrow> (monad \<times> tstate) result" where
  "minmax sqlop f sa args st =
     (if length args \<le> 1 then Inl AssertionError
      else let t = mtype (hd args) in
        if t = TMethod then forgot_parentheses
        else if \<not> comparable_type t then
          Inl (TypeError (''Value of type '' @ type2str t @ '' is not valid as argument of '' @ py_lower sqlop @ '' function''))
        else rbind (minmax_type t (tl args)) (\<lambda>t'.
               rbind (sql1_list f sa args st) (\<lambda>(xs, st1).
                 rbind (expr_new t' (sqlnode sqlop xs)) (\<lambda>r. Inr (r, st1)))))"

text \<open>The special functions of this model, by the Python function they stand for.\<close>

datatype special = FLen | FCount | FAbs | FSum | FAvg | FMin | FMax

text \<open>
  \<open>FuncMonad.__call__\<close> and the \<open>call\<close> methods of \<open>FuncLenMonad\<close>, \<open>FuncCountMonad\<close>,
  \<open>FuncAbsMonad\<close>, \<open>FuncSumMonad\<close>, \<open>FuncAvgMonad\<close>, \<open>FuncMinMonad\<close>, \<open>FuncMaxMonad\<close>: the
  arguments come with their \<open>aggregated\<close> attribute; a result built by \<open>count\<close> or
  \<open>aggregate\<close> is marked aggregated, the others leave the attribute unset.
\<close>

definition plain :: "(monad \<times> tstate) result \<Rightarrow> (amonad \<times> tstate) result" where
  "plain r = rbind r (\<lambda>(m, st). Inr ((m, None), st))"

definition arity_error :: "string \<Rightarrow> 'a result" where
  "arity_error name = Inl (TypeError (name @ ''() takes exactly 1 argument''))"

definition call_special ::
  "string \<Rightarrow> bool \<Rightarrow> nat \<Rightarrow> bool \<Rightarrow> special \<Rightarrow> amonad list \<Rightarrow> tstate \<Rightarrow> (amonad \<times> tstate) result" where
  "call_special dialect rvs f sa fn args st =
     (case fn of
        FLen \<Rightarrow> (case args of [x] \<Rightarrow> plain (monad_len f sa (fst x) st) | _ \<Rightarrow> arity_error ''len'')
      | FAbs \<Rightarrow> (case args of [x] \<Rightarrow> plain (monad_unop ''ABS'' f sa (fst x) st) | _ \<Rightarrow> arity_error ''abs'')
      | FCount \<Rightarrow>
          (case args of
             [] \<Rightarrow> rbind (expr_new TInt (sqlnode ''COUNT'' [Str ''ALL''])) (\<lambda>r. Inr ((r, Some True), st))
           | [x] \<Rightarrow>
               if str_const (fst x) = Some ''*'' then
                 rbind (expr_new TInt (sqlnode ''COUNT'' [Str ''ALL''])) (\<lambda>r. Inr ((r, Some True), st))
               else monad_count dialect rvs f sa x st
           | _ \<Rightarrow> Inl (TypeError ''count() takes at most 1 argument''))
      | FSum \<Rightarrow> (case args of [x] \<Rightarrow> monad_aggregate rvs f sa dialect ''SUM'' x st | _ \<Rightarrow> arity_error ''sum'')
      | FAvg \<Rightarrow> (case args of [x] \<Rightarrow> monad_aggregate rvs f sa dialect ''AVG'' x st | _ \<Rightarrow> arity_error ''avg'')
      | FMin \<Rightarrow>
          (case args of
             [] \<Rightarrow> Inl (TypeError ''min() function expected at least one argument'')
           | [x] \<Rightarrow> monad_aggregate rvs f sa dialect ''MIN'' x st
           | _ \<Rightarrow> plain (minmax ''MIN'' f sa (map fst args) st))
      | FMax \<Rightarrow>
          (case args of
             [] \<Rightarrow> Inl (TypeError ''max() function expected at least one argument'')
           | [x] \<Rightarrow> monad_aggregate rvs f sa dialect ''MAX'' x st
           | _ \<Rightarrow> plain (minmax ''MAX'' f sa (map fst args) st)))"

section \<open>The flags the walker sets after each node (lines 115--137)\<close>

text \<open>
  \<open>SQLTranslator.call\<close> after a handler returned \<open>monad\<close>: an unset \<open>aggregated\<close>
  (\<open>nogroup\<close>) attribute is true when a child's is (\<open>getattr(m, 'aggregated', False)\<close>:
  a child whose attribute is unset counts as false); an aggregated monad that is also
  \<open>nogroup\<close> is refused unless it is a list; the result is the monad's two flags.
\<close>

definition call_flags ::
  "bool \<Rightarrow> bool option \<Rightarrow> bool option \<Rightarrow> (bool option \<times> bool option) list \<Rightarrow> (bool \<times> bool) result" where
  "call_flags is_list agg ng children =
     (let a = (case agg of Some b \<Rightarrow> b | None \<Rightarrow> list_ex (\<lambda>c. fst c = Some True) children);
          n = (case ng of Some b \<Rightarrow> b | None \<Rightarrow> list_ex (\<lambda>c. snd c = Some True) children)
      in if a \<and> n \<and> \<not> is_list
         then Inl (NotImplementedError ''Aggregation functions with different semantics cannot be mixed'')
         else Inr (a, n))"

section \<open>What the database does with the SQL built here\<close>

text \<open>
  SQLite's \<open>substr(X, Y, Z)\<close> on a string, as its \<open>substrFunc\<close> computes it: positions
  count from 1, a non-positive \<open>Y\<close> counts from the end, a negative \<open>Z\<close> takes the
  \<open>|Z|\<close> characters before position \<open>Y\<close>; \<open>None\<close> is the two-argument form.
\<close>

definition sqlite_substr :: "string \<Rightarrow> int \<Rightarrow> int option \<Rightarrow> string" where
  "sqlite_substr x y z =
     (let len = int (length x);
          neg = (case z of Some w \<Rightarrow> w < 0 | None \<Rightarrow> False);
          p2 = (case z of Some w \<Rightarrow> \<bar>w\<bar> | None \<Rightarrow> len);
          (p1, p2) = (if y < 0 then (if y + len < 0 then (0, max 0 (p2 + y + len)) else (y + len, p2))
                      else if y > 0 then (y - 1, p2)
                      else (0, if p2 > 0 then p2 - 1 else p2));
          (p1, p2) = (if neg then (if p1 - p2 < 0 then (0, p2 + (p1 - p2)) else (p1 - p2, p2)) else (p1, p2));
          p2 = (if p1 + p2 > len then max 0 (len - p1) else p2)
      in take (nat p2) (drop (nat p1) x))"

text \<open>
  \<open>LIKE\<close> as the SQL standard defines it, without an escape character: \<open>%\<close> matches any
  sequence of characters, \<open>_\<close> any one character, every other character itself (the
  case-sensitive \<open>LIKE\<close> of PostgreSQL and Oracle; SQLite's ignores the case of ASCII letters).
\<close>

fun like_match :: "string \<Rightarrow> string \<Rightarrow> bool" where
  "like_match [] s = (s = [])"
| "like_match (c # p) s =
     (if c = CHR ''%'' then list_ex (\<lambda>k. like_match p (drop k s)) [0..<Suc (length s)]
      else if c = CHR ''_'' then s \<noteq> [] \<and> like_match p (tl s)
      else s \<noteq> [] \<and> hd s = c \<and> like_match p (tl s))"

definition no_wildcards :: "string \<Rightarrow> bool" where
  "no_wildcards v \<longleftrightarrow> CHR ''%'' \<notin> set v \<and> CHR ''_'' \<notin> set v"

section \<open>Lemmas: shapes, constants and the coercion order\<close>

lemma is_string_shape:
  "is_string m \<Longrightarrow> mtype m = TStr \<and> obj_entity m = None \<and> date_parts m = [] \<and> \<not> is_numeric m
     \<and> call_methods m = string_methods"
  by (cases m) (auto simp: is_string_def is_numeric_def numeric_type_def date_parts_def is_date_def
                           is_datetime_def call_methods_def)

lemma sql1_const [simp]: "sql1 f sa (ConstM v) st = Inr (sql_value (val_sql v), st)"
  by (simp add: sql1_def rbind_def)

lemma numeric_TFloat [simp]: "numeric_type TFloat"
  by (simp add: numeric_type_def)

lemma coerce_numeric:
  "coerce_types t1 t2 = Some t \<Longrightarrow> numeric_type t1 \<Longrightarrow> numeric_type t"
  by (auto simp: coerce_types_def split: if_splits)

lemma coerce_refl [simp]: "coerce_types t t = Some t"
  by (simp add: coerce_types_def)

lemma coerce_join:
  "coerce_types t u = Some w \<Longrightarrow> coerce_types t w = Some w \<and> coerce_types u w = Some w"
  by (auto simp: coerce_types_def split: if_splits)

lemma coerce_trans:
  "coerce_types a b = Some b \<Longrightarrow> coerce_types b c = Some c \<Longrightarrow> coerce_types a c = Some c"
  by (auto simp: coerce_types_def numeric_type_def split: if_splits)

lemma expr_new_Inr: "expr_new t s = Inr r \<Longrightarrow> r = ExprM t s \<and> comparable_type t"
  by (auto simp: expr_new_def comparable_type_def split: if_splits)

lemma if_error_Inr: "(if c then Inl e else r) = Inr v \<Longrightarrow> r = Inr v"
  by (cases c) auto

section \<open>Lemmas: SQLite substr and LIKE\<close>

lemma sqlite_substr_from:
  assumes "0 \<le> a" "0 \<le> n"
  shows "sqlite_substr s (a + 1) (Some n) = take (nat n) (drop (nat a) s)"
proof -
  have "take (nat (if a + n > int (length s) then max 0 (int (length s) - a) else n)) (drop (nat a) s)
        = take (nat n) (drop (nat a) s)"
    using assms by (auto simp: min_def)
  with assms show ?thesis by (simp add: sqlite_substr_def Let_def)
qed

lemma sqlite_substr_slice:
  "0 \<le> a \<Longrightarrow> a \<le> b \<Longrightarrow> sqlite_substr s (a + 1) (Some (b - a)) = py_slice s (Some a) (Some b)"
  by (simp add: sqlite_substr_from py_slice_nonneg nat_diff_distrib)

lemma take_Suc0_drop: "i < length s \<Longrightarrow> take (Suc 0) (drop i s) = [s ! i]"
  by (simp add: Cons_nth_drop_Suc [symmetric])

lemma sqlite_substr_index:
  assumes "py_index s v = Inr c"
  shows "sqlite_substr s (if v \<ge> 0 then v + 1 else v) (Some 1) = [c]"
proof (cases "v \<ge> 0")
  case True
  with assms have "nat v < length s" "c = s ! nat v" by (auto simp: py_index_def split: if_splits)
  with True show ?thesis by (simp add: sqlite_substr_from take_Suc0_drop)
next
  case False
  with assms have "nat (v + int (length s)) < length s" "c = s ! nat (v + int (length s))"
    "0 \<le> v + int (length s)"
    by (auto simp: py_index_def split: if_splits)
  with False show ?thesis
    by (simp add: sqlite_substr_def Let_def take_Suc0_drop)
qed

lemma like_match_pct:
  "like_match (CHR ''%'' # p) s \<longleftrightarrow> (\<exists>k \<le> length s. like_match p (drop k s))"
  by (auto simp del: upt_Suc simp: list_ex_iff less_Suc_eq_le)

lemma like_match_lit:
  "no_wildcards v \<Longrightarrow>
   like_match (v @ p) s \<longleftrightarrow> take (length v) s = v \<and> like_match p (drop (length v) s)"
proof (induction v arbitrary: s)
  case Nil
  then show ?case by simp
next
  case (Cons c v)
  then have "c \<noteq> CHR ''%''" "c \<noteq> CHR ''_''" "no_wildcards v" by (auto simp: no_wildcards_def)
  with Cons.IH show ?case by (cases s) auto
qed

lemma take_length_prefix: "take (length v) s = v \<longleftrightarrow> prefix v s"
proof
  assume "take (length v) s = v"
  then have "s = v @ drop (length v) s" by (metis append_take_drop_id)
  then show "prefix v s" by (rule prefixI)
qed (auto simp: prefix_def)

lemma like_match_exact: "no_wildcards v \<Longrightarrow> like_match v s \<longleftrightarrow> s = v"
  using like_match_lit [of v "[]" s] by (auto simp: take_length_prefix prefix_def)

lemma like_prefix: "no_wildcards v \<Longrightarrow> like_match (v @ ''%'') s \<longleftrightarrow> prefix v s"
  unfolding like_match_lit [of v "''%''" s] by (auto simp: like_match_pct take_length_prefix intro: exI [of _ 0])

lemma suffix_drop_iff: "suffix v s \<longleftrightarrow> (\<exists>k \<le> length s. drop k s = v)"
proof
  assume "suffix v s"
  then obtain zs where "s = zs @ v" by (auto simp: suffix_def)
  then show "\<exists>k \<le> length s. drop k s = v" by (intro exI [of _ "length zs"]) auto
next
  assume "\<exists>k \<le> length s. drop k s = v"
  then obtain k where "drop k s = v" by blast
  then show "suffix v s" using suffix_drop [of k s] by simp
qed

lemma like_suffix: "no_wildcards v \<Longrightarrow> like_match (CHR ''%'' # v) s \<longleftrightarrow> suffix v s"
  unfolding like_match_pct by (simp add: like_match_exact suffix_drop_iff)

lemma sublist_drop_iff: "sublist v s \<longleftrightarrow> (\<exists>k \<le> length s. prefix v (drop k s))"
proof
  assume "sublist v s"
  then obtain ps ss where "s = ps @ v @ ss" by (auto simp: sublist_def)
  then show "\<exists>k \<le> length s. prefix v (drop k s)" by (intro exI [of _ "length ps"]) auto
next
  assume "\<exists>k \<le> length s. prefix v (drop k s)"
  then obtain k zs where "drop k s = v @ zs" by (auto simp: prefix_def)
  then have "s = take k s @ v @ zs" by (metis append_take_drop_id)
  then show "sublist v s" using sublist_appendI [of v "take k s" zs] by simp
qed

lemma like_infix: "no_wildcards v \<Longrightarrow> like_match (CHR ''%'' # v @ ''%'') s \<longleftrightarrow> sublist v s"
  unfolding like_match_pct by (simp add: like_prefix sublist_drop_iff)

section \<open>Lemmas: the operations\<close>

lemma string_contains_const:
  "is_string m \<Longrightarrow> sql1 f sa m st = Inr (e, st1) \<Longrightarrow>
   string_contains f sa m (ConstM (VStr v)) ni st =
     Inr (BoolExprM (sqlnode ''LIKE'' [e, sql_value (Str (CHR ''%'' # v @ ''%''))]), st1)"
  by (simp add: string_contains_def check_comparable_def are_comparable_types_def is_string_shape rbind_def)

lemma string_affix_const:
  "is_string m \<Longrightarrow> sql1 f sa m st = Inr (e, st1) \<Longrightarrow>
   string_affix b f sa m (ConstM (VStr v)) st =
     Inr (BoolExprM (sqlnode ''LIKE'' [e, sql_value (Str (if b then v @ ''%'' else CHR ''%'' # v))]), st1)"
  by (simp add: string_affix_def are_comparable_types_def is_string_shape rbind_def)

lemma getattr_string_method:
  "is_string m \<Longrightarrow> name \<in> set string_methods \<Longrightarrow>
   monad_getattr adict cur f sa m name st = Inr (GMonad (MethodM m name), st)"
  by (simp add: monad_getattr_def is_string_shape)

lemma minmax_type_upper:
  "minmax_type t as = Inr t' \<Longrightarrow>
   coerce_types t t' = Some t' \<and> (\<forall>a\<in>set as. coerce_types (mtype a) t' = Some t')"
proof (induction t as rule: minmax_type.induct)
  case (1 t)
  then show ?case by simp
next
  case (2 t a as)
  then obtain t3 where na: "mtype a \<noteq> TMethod" and t3: "coerce_types t (mtype a) = Some t3"
    and rest: "minmax_type t3 as = Inr t'"
    by (auto simp: forgot_parentheses_def split: if_splits option.splits)
  have "coerce_types t3 t' = Some t'" "\<forall>b\<in>set as. coerce_types (mtype b) t' = Some t'"
    using "2.IH" [OF na t3 rest] by auto
  with coerce_join [OF t3] show ?case by (auto intro: coerce_trans)
qed

lemma monad_count_Inr:
  "monad_count d rvs f sa am st = Inr (y, st') \<Longrightarrow> snd y = Some True \<and> str_const (fst y) = None"
  unfolding monad_count_def Let_def
  by (auto simp: nested_aggregate_def composite_pk_error_def expr_new_def split: if_splits option.splits)

lemma monad_aggregate_Inr:
  "monad_aggregate rvs f sa d fn am st = Inr (y, st') \<Longrightarrow> snd y = Some True \<and> str_const (fst y) = None"
  unfolding monad_aggregate_def Let_def nested_aggregate_def
  apply (drule if_error_Inr)+
  apply (simp only: rbind_eq_Inr)
  apply (elim exE conjE)
  by (clarsimp simp: composite_pk_error_def split: if_split_asm; auto dest!: expr_new_Inr)

lemma count_special_Inr:
  "call_special d rvs f sa FCount [x] st = Inr (y, st') \<Longrightarrow> snd y = Some True \<and> str_const (fst y) = None"
  by (auto simp: call_special_def expr_new_def dest: monad_count_Inr split: if_splits)

lemma aggregated_refused:
  "is_aggregated am \<Longrightarrow> monad_count d rvs f sa am st = nested_aggregate"
  "is_aggregated am \<Longrightarrow> monad_aggregate rvs f sa d fn am st = nested_aggregate"
  by (simp_all add: monad_count_def monad_aggregate_def Let_def is_aggregated_def)

lemma list_contains_single:
  "sql_cols f sa x st = Inr ([l], stx) \<Longrightarrow>
   list_contains f sa items x ni st =
     rbind (rmap (\<lambda>i. check_comparable i x (Some ''=='')) items) (\<lambda>_.
     rbind (sql1_list f sa items stx) (\<lambda>(xs, st2).
       Inr (BoolExprM (sqlnode (if ni then ''NOT_IN'' else ''IN'') [l, Node xs]), st2)))"
  by (simp add: list_contains_def rbind_def)

lemma sqlite_substr_reversed:
  "0 \<le> b \<Longrightarrow> b < a \<Longrightarrow> sqlite_substr s (a + 1) (Some (b - a)) = py_slice s (Some b) (Some a)"
  by (auto simp: sqlite_substr_def Let_def py_slice_nonneg nat_diff_distrib min_def)

lemma py_slice_reversed: "0 \<le> b \<Longrightarrow> b < a \<Longrightarrow> py_slice s (Some a) (Some b) = []"
  by (simp add: py_slice_nonneg)

lemma like_prefix_pct: "no_wildcards p \<Longrightarrow> like_match (p @ ''%%'') s \<longleftrightarrow> prefix p s"
  unfolding like_match_lit [of p "''%%''" s]
  by (auto simp: take_length_prefix like_match_pct intro!: exI [of _ 0])

section \<open>Properties\<close>

text \<open>C21: Slicing a string expression with constant bounds \<open>0 \<le> a \<le> b\<close>
  (\<open>StringMixin.__getitem__\<close>, lines 942--989) builds \<open>SUBSTR(e, x, y)\<close>, and SQLite's
  \<open>substr\<close> with these arguments is Python's \<open>s[a:b]\<close> on every string \<open>s\<close>.\<close>

theorem getitem_slice_sem:
  assumes "is_string m" "str_const m = None" "sql1 f sa m st = Inr (e, st1)" "0 \<le> a" "a \<le> b"
  shows "\<exists>x y. string_getitem f sa m (SliceArg (Some (ConstM (VInt a))) (Some (ConstM (VInt b))) None) st
                 = Inr (ExprM TStr (sqlnode ''SUBSTR'' [e, int_value x, int_value y]), st1)
             \<and> (\<forall>s. sqlite_substr s x (Some y) = py_slice s (Some a) (Some b))"
  using assms
  by (simp add: string_getitem_def is_string_shape slice_start_def slice_length_def rbind_def
                sqlite_substr_slice)

text \<open>C22: Indexing a string expression with a constant index that is in range for
  \<open>s\<close> (lines 991--1002) builds \<open>SUBSTR(e, x, 1)\<close>, which SQLite evaluates on \<open>s\<close> to
  the one-character string \<open>s[i]\<close> of Python, negative indices included.\<close>

theorem getitem_index_sem:
  assumes "is_string m" "str_const m = None" "sql1 f sa m st = Inr (e, st1)" "py_index s v = Inr c"
  shows "\<exists>x. string_getitem f sa m (IndexArg (ConstM (VInt v))) st
               = Inr (ExprM TStr (sqlnode ''SUBSTR'' [e, int_value x, int_value 1]), st1)
           \<and> sqlite_substr s x (Some 1) = [c]"
  using assms sqlite_substr_index [OF assms(4)]
  by (simp add: string_getitem_def is_string_shape index_sql_def rbind_def)

text \<open>C23: \<open>s.startswith(v)\<close> on a string expression: \<open>getattr\<close> returns the method in
  flight and the call (lines 1022--1036) builds \<open>e LIKE pat\<close>, which holds exactly when
  \<open>v\<close> is a prefix of the value, when \<open>v\<close> has no \<open>%\<close> or \<open>_\<close>.\<close>

theorem startswith_like_sem:
  assumes "is_string m" "sql1 f sa m st = Inr (e, st1)" "no_wildcards v"
  shows "monad_getattr adict cur f sa m ''startswith'' st = Inr (GMonad (MethodM m ''startswith''), st)
       \<and> (\<exists>pat. call_method f sa m ''startswith'' [ConstM (VStr v)] st =
                  Inr (BoolExprM (sqlnode ''LIKE'' [e, sql_value (Str pat)]), st1)
                \<and> (\<forall>s. like_match pat s = prefix v s))"
  using assms by (simp add: getattr_string_method string_methods_def call_method_def string_affix_const like_prefix
                          is_string_shape)

text \<open>C24: \<open>s.endswith(v)\<close> (lines 1037--1051) builds a \<open>LIKE\<close> that holds exactly when
  \<open>v\<close> is a suffix of the value, when \<open>v\<close> has no wildcard.\<close>

theorem endswith_like_sem:
  assumes "is_string m" "sql1 f sa m st = Inr (e, st1)" "no_wildcards v"
  shows "monad_getattr adict cur f sa m ''endswith'' st = Inr (GMonad (MethodM m ''endswith''), st)
       \<and> (\<exists>pat. call_method f sa m ''endswith'' [ConstM (VStr v)] st =
                  Inr (BoolExprM (sqlnode ''LIKE'' [e, sql_value (Str pat)]), st1)
                \<and> (\<forall>s. like_match pat s = suffix v s))"
  using assms by (simp add: getattr_string_method string_methods_def call_method_def string_affix_const like_suffix
                          is_string_shape del: like_match.simps(2))

text \<open>C25: \<open>v in s\<close> on a string expression (\<open>StringMixin.contains\<close>, lines 1011--1019)
  builds a \<open>LIKE\<close> that holds exactly when \<open>v\<close> is a substring of the value, when
  \<open>v\<close> has no wildcard.\<close>

theorem contains_like_sem:
  assumes "is_string m" "sql1 f sa m st = Inr (e, st1)" "no_wildcards v"
  shows "\<exists>pat. monad_contains f sa m (ConstM (VStr v)) False st =
               Inr (BoolExprM (sqlnode ''LIKE'' [e, sql_value (Str pat)]), st1)
             \<and> (\<forall>s. like_match pat s = sublist v s)"
  using assms by (simp add: monad_contains_def is_string_shape string_contains_const like_infix del: like_match.simps(2))

text \<open>C26: \<open>v not in s\<close> on a string expression builds the very same \<open>LIKE\<close>: the
  condition holds exactly when \<open>v\<close> IS a substring, the opposite of Python's
  \<open>not in\<close> (the \<open>not_in\<close> argument of line 1011 is never read).\<close>

theorem not_in_string_like_sem:
  assumes "is_string m" "sql1 f sa m st = Inr (e, st1)" "no_wildcards v"
  shows "\<exists>pat. monad_contains f sa m (ConstM (VStr v)) True st =
               Inr (BoolExprM (sqlnode ''LIKE'' [e, sql_value (Str pat)]), st1)
             \<and> (\<forall>s. like_match pat s = sublist v s)"
  using assms by (simp add: monad_contains_def is_string_shape string_contains_const like_infix del: like_match.simps(2))

text \<open>C27: The argument of \<open>startswith\<close> is put into the \<open>LIKE\<close> pattern unescaped
  (lines 1022--1036): for every literal \<open>p\<close>, \<open>s.startswith(p + '%')\<close> builds \<open>LIKE 'p%%'\<close>,
  which holds on every string that starts with \<open>p\<close>, where Python asks for the prefix
  \<open>p + '%'\<close>.\<close>

theorem startswith_wildcard:
  assumes "is_string m" "sql1 f sa m st = Inr (e, st1)" "no_wildcards p"
  shows "call_method f sa m ''startswith'' [ConstM (VStr (p @ ''%''))] st =
           Inr (BoolExprM (sqlnode ''LIKE'' [e, sql_value (Str (p @ ''%%''))]), st1)
         \<and> (\<forall>s. like_match (p @ ''%%'') s \<longleftrightarrow> prefix p s)"
  using assms by (simp add: call_method_def string_methods_def string_affix_const like_prefix_pct
                            is_string_shape del: like_match.simps(2))

text \<open>C28: A slice with constant bounds \<open>0 \<le> b < a\<close> gives \<open>SUBSTR\<close> the negative length
  \<open>b - a\<close> (lines 971--983 compute \<open>stop - start\<close> without a bound): SQLite then returns the
  characters before the start, \<open>s[b:a]\<close>, on every string, where Python's \<open>s[a:b]\<close> is empty.\<close>

theorem getitem_slice_reversed:
  assumes "is_string m" "str_const m = None" "sql1 f sa m st = Inr (e, st1)" "0 \<le> b" "b < a"
  shows "\<exists>x y. string_getitem f sa m (SliceArg (Some (ConstM (VInt a))) (Some (ConstM (VInt b))) None) st
                 = Inr (ExprM TStr (sqlnode ''SUBSTR'' [e, int_value x, int_value y]), st1)
             \<and> (\<forall>s. sqlite_substr s x (Some y) = py_slice s (Some b) (Some a)
                  \<and> py_slice s (Some a) (Some b) = [])"
  using assms
  by (simp add: string_getitem_def is_string_shape slice_start_def slice_length_def rbind_def
                sqlite_substr_reversed py_slice_reversed)

text \<open>C29: The type of an arithmetic result (\<open>make_numeric_binop\<close>, \<open>__pow__\<close>,
  \<open>make_string_binop\<close>): on numbers it is the coercion of the operand types (\<open>float\<close>
  for \<open>**\<close>) and numeric; on strings only \<open>+\<close> succeeds and gives a string.\<close>

theorem monad_binop_type:
  assumes "monad_binop op f sa m m2 st = Inr (r, st')"
  shows "flavoured r \<and>
         (if is_numeric m then numeric_type (mtype r) \<and>
            (if op = ''**'' then mtype r = TFloat else coerce_types (mtype m) (mtype m2) = Some (mtype r))
          else mtype r = TStr \<and> op = ''+'')"
  using assms
  by (auto simp: monad_binop_def numeric_pow_def numeric_binop_def string_binop_def rbind_def
                 binop_error_def forgot_parentheses_def is_numeric_def is_string_def
                 intro: coerce_numeric
           split: if_splits option.splits sum.splits prod.splits)

text \<open>C30: \<open>min(a, b, ...)\<close> and \<open>max(...)\<close> of several arguments (\<open>minmax\<close>, lines
  1470--1485) have a comparable result type to which every argument's type coerces.\<close>

theorem minmax_upper_bound:
  assumes "minmax sqlop f sa args st = Inr (r, st')"
  shows "comparable_type (mtype r) \<and> (\<forall>a\<in>set args. coerce_types (mtype a) (mtype r) = Some (mtype r))"
proof -
  obtain a as where args: "args = a # as"
    using assms by (cases args) (auto simp: minmax_def)
  from assms args obtain t' xs where
    t': "minmax_type (mtype a) as = Inr t'" and r: "expr_new t' (sqlnode sqlop xs) = Inr r"
    by (auto simp: minmax_def rbind_def forgot_parentheses_def Let_def
             split: if_splits sum.splits prod.splits)
  from expr_new_Inr [OF r] have "r = ExprM t' (sqlnode sqlop xs)" "comparable_type t'" by auto
  with minmax_type_upper [OF t'] args show ?thesis by auto
qed

text \<open>C31: An aggregate cannot be nested: the result of \<open>count(x)\<close> is marked aggregated,
  and \<open>count\<close>, \<open>sum\<close>, \<open>avg\<close>, \<open>min\<close>, \<open>max\<close> of it raise
  \<open>TranslationError\<close> (lines 710, 732).\<close>

theorem aggregate_not_nested:
  assumes "call_special d rvs f sa FCount [x] st = Inr (y, st')"
    and "fn \<in> {FCount, FSum, FAvg, FMin, FMax}"
  shows "call_special d rvs f sa fn [y] st'' = Inl (TranslationError ''Aggregated functions cannot be nested'')"
proof -
  from count_special_Inr [OF assms(1)] have "is_aggregated y" "str_const (fst y) = None"
    by (simp_all add: is_aggregated_def)
  with assms(2) show ?thesis
    by (auto simp: call_special_def aggregated_refused nested_aggregate_def)
qed

text \<open>C32: For a one-column value, \<open>x in (a, b, ...)\<close> (\<open>ListMonad.contains\<close>, lines
  831--842) is SQL's \<open>IN\<close> over the items' values on every row, and \<open>x not in (a, b, ...)\<close>
  its three-valued negation.\<close>

theorem list_not_in_sem:
  assumes "list_contains f sa items x False st = Inr (BoolExprM s, st1)"
    and "list_contains f sa items x True st = Inr (BoolExprM s', st2)"
    and "sql_cols f sa x st = Inr ([l], stx)"
  shows "\<exists>xs. sql1_list f sa items stx = Inr (xs, st1)
              \<and> eval3 row s = Option.bind (sval row l) (\<lambda>v. in_sem v (map (sval row) xs))
              \<and> eval3 row s' = map_option not3 (eval3 row s)"
proof -
  from assms obtain xs where
    "sql1_list f sa items stx = Inr (xs, st1)"
    "s = sqlnode ''IN'' [l, Node xs]" "s' = sqlnode ''NOT_IN'' [l, Node xs]"
    by (auto simp: list_contains_single)
  then show ?thesis by (simp add: map_option_bind_lam)
qed

section \<open>Witnesses\<close>

text \<open>The properties at a string column \<open>s.name\<close>, an integer column \<open>s.n\<close>, and constants.\<close>

theorem getitem_slice_sem_witness:
  "is_string (ExprM TStr (column ''s'' ''name'')) \<and> str_const (ExprM TStr (column ''s'' ''name'')) = None
   \<and> sql1 0 False (ExprM TStr (column ''s'' ''name'')) st_root = Inr (column ''s'' ''name'', st_root)
   \<and> 0 \<le> (1::int) \<and> (1::int) \<le> 3
   \<and> (\<exists>x y. string_getitem 0 False (ExprM TStr (column ''s'' ''name''))
               (SliceArg (Some (ConstM (VInt 1))) (Some (ConstM (VInt 3))) None) st_root
             = Inr (ExprM TStr (sqlnode ''SUBSTR'' [column ''s'' ''name'', int_value x, int_value y]), st_root)
           \<and> (\<forall>s. sqlite_substr s x (Some y) = py_slice s (Some 1) (Some 3)))"
  using getitem_slice_sem [of "ExprM TStr (column ''s'' ''name'')" 0 False st_root "column ''s'' ''name''" st_root 1 3]
  by (simp add: is_string_def sql1_def)

theorem getitem_index_sem_witness:
  "is_string (ExprM TStr (column ''s'' ''name'')) \<and> str_const (ExprM TStr (column ''s'' ''name'')) = None
   \<and> sql1 0 False (ExprM TStr (column ''s'' ''name'')) st_root = Inr (column ''s'' ''name'', st_root)
   \<and> py_index ''abc'' (-1) = Inr (CHR ''c'')
   \<and> (\<exists>x. string_getitem 0 False (ExprM TStr (column ''s'' ''name'')) (IndexArg (ConstM (VInt (-1)))) st_root
             = Inr (ExprM TStr (sqlnode ''SUBSTR'' [column ''s'' ''name'', int_value x, int_value 1]), st_root)
         \<and> sqlite_substr ''abc'' x (Some 1) = ''c'')"
  using getitem_index_sem [of "ExprM TStr (column ''s'' ''name'')" 0 False st_root "column ''s'' ''name''"
                              st_root "''abc''" "-1" "CHR ''c''"]
  by (simp add: is_string_def sql1_def py_index_def)

theorem startswith_like_sem_witness:
  "is_string (ExprM TStr (column ''s'' ''name''))
   \<and> sql1 0 False (ExprM TStr (column ''s'' ''name'')) st_root = Inr (column ''s'' ''name'', st_root)
   \<and> no_wildcards ''ab''
   \<and> monad_getattr (\<lambda>_ _. None) 0 0 False (ExprM TStr (column ''s'' ''name'')) ''startswith'' st_root
       = Inr (GMonad (MethodM (ExprM TStr (column ''s'' ''name'')) ''startswith''), st_root)
   \<and> (\<exists>pat. call_method 0 False (ExprM TStr (column ''s'' ''name'')) ''startswith'' [ConstM (VStr ''ab'')] st_root
              = Inr (BoolExprM (sqlnode ''LIKE'' [column ''s'' ''name'', sql_value (Str pat)]), st_root)
            \<and> (\<forall>s. like_match pat s = prefix ''ab'' s))"
  using startswith_like_sem [of "ExprM TStr (column ''s'' ''name'')" 0 False st_root "column ''s'' ''name''"
                                st_root "''ab''" "\<lambda>_ _. None" 0]
  by (simp add: is_string_def sql1_def no_wildcards_def del: like_match.simps(2))

theorem endswith_like_sem_witness:
  "is_string (ExprM TStr (column ''s'' ''name''))
   \<and> sql1 0 False (ExprM TStr (column ''s'' ''name'')) st_root = Inr (column ''s'' ''name'', st_root)
   \<and> no_wildcards ''ab''
   \<and> monad_getattr (\<lambda>_ _. None) 0 0 False (ExprM TStr (column ''s'' ''name'')) ''endswith'' st_root
       = Inr (GMonad (MethodM (ExprM TStr (column ''s'' ''name'')) ''endswith''), st_root)
   \<and> (\<exists>pat. call_method 0 False (ExprM TStr (column ''s'' ''name'')) ''endswith'' [ConstM (VStr ''ab'')] st_root
              = Inr (BoolExprM (sqlnode ''LIKE'' [column ''s'' ''name'', sql_value (Str pat)]), st_root)
            \<and> (\<forall>s. like_match pat s = suffix ''ab'' s))"
  using endswith_like_sem [of "ExprM TStr (column ''s'' ''name'')" 0 False st_root "column ''s'' ''name''"
                              st_root "''ab''" "\<lambda>_ _. None" 0]
  by (simp add: is_string_def sql1_def no_wildcards_def del: like_match.simps(2))

theorem contains_like_sem_witness:
  "is_string (ExprM TStr (column ''s'' ''name''))
   \<and> sql1 0 False (ExprM TStr (column ''s'' ''name'')) st_root = Inr (column ''s'' ''name'', st_root)
   \<and> no_wildcards ''ab''
   \<and> (\<exists>pat. monad_contains 0 False (ExprM TStr (column ''s'' ''name'')) (ConstM (VStr ''ab'')) False st_root
              = Inr (BoolExprM (sqlnode ''LIKE'' [column ''s'' ''name'', sql_value (Str pat)]), st_root)
            \<and> (\<forall>s. like_match pat s = sublist ''ab'' s))"
  using contains_like_sem [of "ExprM TStr (column ''s'' ''name'')" 0 False st_root "column ''s'' ''name''"
                              st_root "''ab''"]
  by (simp add: is_string_def sql1_def no_wildcards_def del: like_match.simps(2))

theorem not_in_string_like_sem_witness:
  "is_string (ExprM TStr (column ''s'' ''name''))
   \<and> sql1 0 False (ExprM TStr (column ''s'' ''name'')) st_root = Inr (column ''s'' ''name'', st_root)
   \<and> no_wildcards ''ab''
   \<and> (\<exists>pat. monad_contains 0 False (ExprM TStr (column ''s'' ''name'')) (ConstM (VStr ''ab'')) True st_root
              = Inr (BoolExprM (sqlnode ''LIKE'' [column ''s'' ''name'', sql_value (Str pat)]), st_root)
            \<and> (\<forall>s. like_match pat s = sublist ''ab'' s))"
  using not_in_string_like_sem [of "ExprM TStr (column ''s'' ''name'')" 0 False st_root "column ''s'' ''name''"
                                   st_root "''ab''"]
  by (simp add: is_string_def sql1_def no_wildcards_def del: like_match.simps(2))

theorem monad_binop_type_witness:
  "monad_binop ''+'' 0 False (ConstM (VInt 2)) (ParamM TFloat ''x'') st_root
     = Inr (ExprM TFloat (sqlnode ''ADD'' [sql_value (IntV 2), sqlnode ''PARAM'' [Str ''x'', Str ''float'']]), st_root)
   \<and> numeric_type TFloat \<and> coerce_types TInt TFloat = Some TFloat"
proof -
  have r: "monad_binop ''+'' 0 False (ConstM (VInt 2)) (ParamM TFloat ''x'') st_root
     = Inr (ExprM TFloat (sqlnode ''ADD'' [sql_value (IntV 2), sqlnode ''PARAM'' [Str ''x'', Str ''float'']]), st_root)"
    by (simp add: monad_binop_def is_numeric_def numeric_type_def binop_sqlop_def numeric_binop_def
                  coerce_types_def sql1_def)
  from monad_binop_type [OF r] r show ?thesis by (simp add: is_numeric_def numeric_type_def)
qed

theorem minmax_upper_bound_witness:
  "minmax ''MAX'' 0 False [ConstM (VInt 1), ParamM TFloat ''x''] st_root
     = Inr (ExprM TFloat (sqlnode ''MAX'' [sql_value (IntV 1), sqlnode ''PARAM'' [Str ''x'', Str ''float'']]), st_root)
   \<and> comparable_type TFloat \<and> coerce_types TInt TFloat = Some TFloat"
proof -
  have r: "minmax ''MAX'' 0 False [ConstM (VInt 1), ParamM TFloat ''x''] st_root
     = Inr (ExprM TFloat (sqlnode ''MAX'' [sql_value (IntV 1), sqlnode ''PARAM'' [Str ''x'', Str ''float'']]), st_root)"
    by (simp add: minmax_def comparable_type_def numeric_type_def coerce_types_def sql1_def expr_new_def)
  from minmax_upper_bound [OF r] r show ?thesis by simp
qed

theorem aggregate_not_nested_witness:
  "call_special ''SQLite'' True 0 False FCount [(ExprM TInt (column ''s'' ''n''), Some False)] st_root
     = Inr ((ExprM TInt (sqlnode ''COUNT'' [Str ''DISTINCT'', column ''s'' ''n'']), Some True), st_root)
   \<and> call_special ''SQLite'' True 0 False FSum
       [(ExprM TInt (sqlnode ''COUNT'' [Str ''DISTINCT'', column ''s'' ''n'']), Some True)] st_root
     = Inl (TranslationError ''Aggregated functions cannot be nested'')"
proof -
  have r: "call_special ''SQLite'' True 0 False FCount [(ExprM TInt (column ''s'' ''n''), Some False)] st_root
     = Inr ((ExprM TInt (sqlnode ''COUNT'' [Str ''DISTINCT'', column ''s'' ''n'']), Some True), st_root)"
    by (simp add: call_special_def monad_count_def is_aggregated_def expr_new_def numeric_type_def)
  show ?thesis using r aggregate_not_nested [OF r, of FSum st_root] by simp
qed

theorem list_not_in_sem_witness:
  "list_contains 0 False [ConstM (VInt 1), ConstM (VInt 2)] (ExprM TInt (column ''s'' ''n'')) False st_root
     = Inr (BoolExprM (sqlnode ''IN'' [column ''s'' ''n'', Node [sql_value (IntV 1), sql_value (IntV 2)]]), st_root)
   \<and> list_contains 0 False [ConstM (VInt 1), ConstM (VInt 2)] (ExprM TInt (column ''s'' ''n'')) True st_root
     = Inr (BoolExprM (sqlnode ''NOT_IN'' [column ''s'' ''n'', Node [sql_value (IntV 1), sql_value (IntV 2)]]), st_root)
   \<and> sql_cols 0 False (ExprM TInt (column ''s'' ''n'')) st_root = Inr ([column ''s'' ''n''], st_root)
   \<and> eval3 ex_row (sqlnode ''NOT_IN'' [column ''s'' ''n'', Node [sql_value (IntV 1), sql_value (IntV 2)]])
     = map_option not3 (eval3 ex_row (sqlnode ''IN'' [column ''s'' ''n'', Node [sql_value (IntV 1), sql_value (IntV 2)]]))"
proof -
  have c: "sql_cols 0 False (ExprM TInt (column ''s'' ''n'')) st_root = Inr ([column ''s'' ''n''], st_root)"
    by (simp add: sql_cols_def)
  have a: "list_contains 0 False [ConstM (VInt 1), ConstM (VInt 2)] (ExprM TInt (column ''s'' ''n'')) False st_root
     = Inr (BoolExprM (sqlnode ''IN'' [column ''s'' ''n'', Node [sql_value (IntV 1), sql_value (IntV 2)]]), st_root)"
    and b: "list_contains 0 False [ConstM (VInt 1), ConstM (VInt 2)] (ExprM TInt (column ''s'' ''n'')) True st_root
     = Inr (BoolExprM (sqlnode ''NOT_IN'' [column ''s'' ''n'', Node [sql_value (IntV 1), sql_value (IntV 2)]]), st_root)"
    by (simp_all add: list_contains_single [OF c] check_comparable_def are_comparable_types_def
                      numeric_type_def)
  have "\<exists>xs. sql1_list 0 False [ConstM (VInt 1), ConstM (VInt 2)] st_root = Inr (xs, st_root)
              \<and> eval3 ex_row (sqlnode ''IN'' [column ''s'' ''n'', Node [sql_value (IntV 1), sql_value (IntV 2)]])
                  = Option.bind (sval ex_row (column ''s'' ''n'')) (\<lambda>v. in_sem v (map (sval ex_row) xs))
              \<and> eval3 ex_row (sqlnode ''NOT_IN'' [column ''s'' ''n'', Node [sql_value (IntV 1), sql_value (IntV 2)]])
                  = map_option not3 (eval3 ex_row (sqlnode ''IN'' [column ''s'' ''n'', Node [sql_value (IntV 1), sql_value (IntV 2)]]))"
    using list_not_in_sem [OF a b c] by blast
  then show ?thesis using a b c by blast
qed

theorem startswith_wildcard_witness:
  "is_string (ExprM TStr (column ''s'' ''name''))
   \<and> sql1 0 False (ExprM TStr (column ''s'' ''name'')) st_root = Inr (column ''s'' ''name'', st_root)
   \<and> no_wildcards ''5''
   \<and> call_method 0 False (ExprM TStr (column ''s'' ''name'')) ''startswith'' [ConstM (VStr ''5%'')] st_root
       = Inr (BoolExprM (sqlnode ''LIKE'' [column ''s'' ''name'', sql_value (Str ''5%%'')]), st_root)
   \<and> like_match ''5%%'' ''50'' \<and> \<not> prefix ''5%'' ''50''"
proof -
  have h: "is_string (ExprM TStr (column ''s'' ''name''))"
          "sql1 0 False (ExprM TStr (column ''s'' ''name'')) st_root = Inr (column ''s'' ''name'', st_root)"
          "no_wildcards ''5''"
    by (simp_all add: is_string_def sql1_def no_wildcards_def)
  from startswith_wildcard [OF h] have
    "call_method 0 False (ExprM TStr (column ''s'' ''name'')) ''startswith'' [ConstM (VStr ''5%'')] st_root
       = Inr (BoolExprM (sqlnode ''LIKE'' [column ''s'' ''name'', sql_value (Str ''5%%'')]), st_root)"
    "like_match ''5%%'' ''50'' \<longleftrightarrow> prefix ''5'' ''50''"
    by simp_all
  with h show ?thesis by simp
qed

theorem getitem_slice_reversed_witness:
  "is_string (ExprM TStr (column ''s'' ''name'')) \<and> str_const (ExprM TStr (column ''s'' ''name'')) = None
   \<and> sql1 0 False (ExprM TStr (column ''s'' ''name'')) st_root = Inr (column ''s'' ''name'', st_root)
   \<and> 0 \<le> (2::int) \<and> (2::int) < 4
   \<and> string_getitem 0 False (ExprM TStr (column ''s'' ''name''))
        (SliceArg (Some (ConstM (VInt 4))) (Some (ConstM (VInt 2))) None) st_root
      = Inr (ExprM TStr (sqlnode ''SUBSTR'' [column ''s'' ''name'', int_value 5, int_value (-2)]), st_root)
   \<and> sqlite_substr ''abcdef'' 5 (Some (-2)) = ''cd'' \<and> py_slice ''abcdef'' (Some 4) (Some 2) = []"
proof -
  have h: "is_string (ExprM TStr (column ''s'' ''name''))" "str_const (ExprM TStr (column ''s'' ''name'')) = None"
          "sql1 0 False (ExprM TStr (column ''s'' ''name'')) st_root = Inr (column ''s'' ''name'', st_root)"
          "0 \<le> (2::int)" "(2::int) < 4"
    by (simp_all add: is_string_def sql1_def)
  from getitem_slice_reversed [OF h] obtain x y where
    g: "string_getitem 0 False (ExprM TStr (column ''s'' ''name''))
          (SliceArg (Some (ConstM (VInt 4))) (Some (ConstM (VInt 2))) None) st_root
        = Inr (ExprM TStr (sqlnode ''SUBSTR'' [column ''s'' ''name'', int_value x, int_value y]), st_root)"
    and sem: "\<forall>s. sqlite_substr s x (Some y) = py_slice s (Some 2) (Some 4) \<and> py_slice s (Some 4) (Some 2) = []"
    by blast
  have xy: "x = 5" "y = -2"
    using g by (simp_all add: string_getitem_def slice_start_def slice_length_def rbind_def sql1_def)
  have "py_slice ''abcdef'' (Some 2) (Some 4) = ''cd''" by (simp add: py_slice_def py_bound_def)
  with sem xy g h show ?thesis by simp
qed

end
