(* ===== verification/Walker.thy ===== *)
theory Walker
  imports Operations
begin

text \<open>
  The AST walker of \<open>SQLTranslator\<close> on the host expressions of a query
  (\<open>src/pony/orm/sqltranslation.py\<close>): \<open>dispatch\<close> (lines 66--99) with its route for
  external names, the \<open>pre\<close>/\<open>post\<close> handlers of the expression nodes (lines 402--531),
  and \<open>call\<close> (lines 101--137), which sets the \<open>aggregated\<close> and \<open>nogroup\<close> flags of each
  node's monad. The generic walk of \<open>ASTTranslator\<close> (not among the sources) follows the
  spec: a node's \<open>pre\<close> handler runs first and, when it returns a monad, the node is done;
  otherwise the children are dispatched in order and the \<open>post\<close> handler runs. The walk
  threads the translator's table references and subqueries (\<open>tstate\<close>) and the
  database the entities of the query belong to (\<open>translator.database\<close>).
\<close>

section \<open>Host expressions and the types of external names\<close>

text \<open>
  The expression nodes of the Python 2 \<open>compiler.ast\<close> the handlers cover. \<open>Ext k src\<close> is
  a node marked \<open>external\<close> (and not \<open>constant\<close>) with its \<open>src\<close> key, and \<open>k\<close> its
  class as far as the handlers ask (a \<open>Name\<close>, whose \<open>src\<close> is its name, a \<open>Getattr\<close>,
  or another node); \<open>Name n\<close> is a loop variable of the query. A subscript by
  a single \<open>Sliceobj\<close> is \<open>SubSlice\<close> with the slice object's nodes.
\<close>

datatype ext_kind = KName | KGetattr | KOther

datatype pexpr =
    Const pyval
  | ConstTuple "pyval list"
  | Ext ext_kind string
  | Name string
  | ListE "pexpr list"
  | TupleE "pexpr list"
  | BinOp string pexpr pexpr
  | UnarySub pexpr
  | Getattr pexpr string
  | AndE "pexpr list"
  | OrE "pexpr list"
  | NotE pexpr
  | CallFunc pexpr "pexpr list"
  | Subscript pexpr "pexpr list"
  | SubSlice pexpr "pexpr list"
  | Slice pexpr "pexpr option" "pexpr option"
  | Compare pexpr "(string \<times> pexpr) list"

text \<open>
  \<open>translator.vartypes[src]\<close> as \<open>dispatch\<close> distinguishes it: \<open>NoneType\<close>, a set of
  entities, a special function (\<open>FuncType\<close> of a function in \<open>special_functions\<close>), another
  function, a method of an entity class (with whether the class defines it itself), a tuple
  type, and any other type.
\<close>

datatype vartype =
    VTNone | VTEntSet entity | VTFunc special | VTOtherFunc string
  | VTMethod entity string bool | VTTuple "ptype list" | VTPlain ptype

text \<open>What a node's monad is: a monad of the algebra, a special function (\<open>FuncMonad\<close>), or
  an \<open>AttrSetMonad\<close> (a collection attribute, whose operations are not modelled).\<close>

datatype wval = WM monad | WFunc special | WAttrSet monad attribute

text \<open>A dispatched node: its monad and its \<open>aggregated\<close> and \<open>nogroup\<close> attributes
  (\<open>None\<close> when unset).\<close>

type_synonym wnode = "wval \<times> bool option \<times> bool option"

text \<open>The translator's state as the walk sees it: the subqueries and table references, and
  \<open>translator.database\<close>.\<close>

type_synonym xstate = "tstate \<times> string option"

text \<open>What stays fixed during a walk: the variable types, the attribute dictionaries of
  the entities, the dialect switches, the current subquery and the fuel of \<open>make_join\<close>.\<close>

record wenv =
  vartypes :: "string \<Rightarrow> vartype option"
  adict :: "entity \<Rightarrow> string \<Rightarrow> attribute option"
  dialect :: string
  row_value_syntax :: bool
  cur_sq :: nat
  jfuel :: nat
  jsa :: bool

section \<open>Dispatch of external names (lines 66--99)\<close>

text \<open>\<open>EntityMonad.__init__\<close> (lines 818--823): the first entity fixes the database, the
  others must belong to it.\<close>

definition entity_monad :: "entity \<Rightarrow> xstate \<Rightarrow> xstate result" where
  "entity_monad e xs =
     (case snd xs of
        None \<Rightarrow> Inr (fst xs, Some (ent_database e))
      | Some d \<Rightarrow> if d = ent_database e then Inr xs
                  else Inl (TranslationError ''All entities in a query must belong to the same database''))"

text \<open>\<open>ParamMonad.new(translator, item_type, (src, i))\<close>: the key \<open>(src, i)\<close> of a tuple item,
  written \<open>src,i\<close>.\<close>

definition tuple_src :: "string \<Rightarrow> nat \<Rightarrow> string" where
  "tuple_src src i = src @ CHR '','' # dec_string i"

fun external_of :: "bool \<Rightarrow> string \<Rightarrow> vartype \<Rightarrow> xstate \<Rightarrow> (wval \<times> xstate) result" where
  "external_of is_name src VTNone xs = Inr (WM (ConstM VNone), xs)"
| "external_of is_name src (VTEntSet e) xs = rbind (entity_monad e xs) (\<lambda>xs1. Inr (WM (EntityM e), xs1))"
| "external_of is_name src (VTFunc fn) xs = Inr (WFunc fn, xs)"
| "external_of is_name src (VTOtherFunc name) xs =
     Inl (TypeError (''Function '' @ name @ '' cannot be used inside query''))"
| "external_of is_name src (VTMethod e name own) xs =
     rbind (entity_monad e xs) (\<lambda>xs1.
       if \<not> own then Inl (NotImplementedError '''') else Inr (WM (MethodM (EntityM e) name), xs1))"
| "external_of is_name src (VTTuple ts) xs =
     (if is_name \<and> src \<in> {''True'', ''False''} then Inr (WM (ConstM (VInt (if src = ''True'' then 1 else 0))), xs)
      else rbind (rmap (\<lambda>(i, t). param_new t (tuple_src src i)) (enumerate 0 ts)) (\<lambda>ms. Inr (WM (ListM ms), xs)))"
| "external_of is_name src (VTPlain t) xs =
     (if is_name \<and> src \<in> {''True'', ''False''} then Inr (WM (ConstM (VInt (if src = ''True'' then 1 else 0))), xs)
      else rbind (param_new t src) (\<lambda>m. Inr (WM m, xs)))"

definition dispatch_external :: "wenv \<Rightarrow> bool \<Rightarrow> string \<Rightarrow> xstate \<Rightarrow> (wnode \<times> xstate) result" where
  "dispatch_external env is_name src xs =
     (case vartypes env src of
        None \<Rightarrow> Inl KeyError
      | Some t \<Rightarrow> rbind (external_of is_name src t xs) (\<lambda>(v, xs1). Inr ((v, None, None), xs1)))"

section \<open>SQLTranslator.call (lines 101--137)\<close>

text \<open>A translator operation on the subqueries and table references, run on the walker's state.\<close>

definition on_t :: "(tstate \<Rightarrow> ('a \<times> tstate) result) \<Rightarrow> xstate \<Rightarrow> ('a \<times> xstate) result" where
  "on_t g xs = rbind (g (fst xs)) (\<lambda>(a, st). Inr (a, (st, snd xs)))"

fun is_list_wval :: "wval \<Rightarrow> bool" where
  "is_list_wval (WM (ListM _)) = True" | "is_list_wval _ = False"

definition node_flags :: "wnode \<Rightarrow> bool option \<times> bool option" where
  "node_flags n = snd n"

text \<open>After a handler returned \<open>v\<close> (with the attributes it set itself): the flags of the
  children decide the unset ones, and the node is done.\<close>

definition finish ::
  "wval \<Rightarrow> bool option \<Rightarrow> bool option \<Rightarrow> wnode list \<Rightarrow> xstate \<Rightarrow> (wnode \<times> xstate) result" where
  "finish v agg ng children xs =
     rbind (call_flags (is_list_wval v) agg ng (map node_flags children)) (\<lambda>(a, n).
       Inr ((v, Some a, Some n), xs))"

section \<open>The handlers (lines 402--531)\<close>

text \<open>The monad of a dispatched node as an operand; a special function or a collection
  attribute is refused here (Python raises \<open>TypeError\<close> from the operator for a function;
  the operations of \<open>AttrSetMonad\<close> are not modelled).\<close>

fun as_monad :: "wval \<Rightarrow> monad result" where
  "as_monad (WM m) = Inr m"
| "as_monad (WFunc _) = Inl (TypeError ''function'')"
| "as_monad (WAttrSet _ _) = Inl (NotImplementedError ''AttrSetMonad'')"

definition node_monads :: "wnode list \<Rightarrow> monad list result" where
  "node_monads ns = rmap (\<lambda>n. as_monad (fst n)) ns"

text \<open>\<open>postName\<close> (lines 435--439): a loop variable is an object of its table reference.\<close>

definition post_name :: "wenv \<Rightarrow> string \<Rightarrow> tstate \<Rightarrow> (wval \<times> tstate) result" where
  "post_name env n st =
     rbind (get_tableref st (cur_sq env) n) (\<lambda>found.
       case found of
         None \<Rightarrow> Inl AssertionError
       | Some k \<Rightarrow> rbind (get_tr st k) (\<lambda>tr. Inr (WM (ObjIterM k (tr_entity tr)), st)))"

text \<open>\<open>postGetattr\<close> (lines 452--453): \<open>node.expr.monad.getattr(node.attrname)\<close>; a
  \<open>FuncMonad\<close> has no attributes (\<open>Monad.getattr\<close>).\<close>

fun of_attr_result :: "attr_result \<Rightarrow> wval" where
  "of_attr_result (GMonad m) = WM m"
| "of_attr_result (GAttrSet p a) = WAttrSet p a"

definition post_getattr :: "wenv \<Rightarrow> wval \<Rightarrow> string \<Rightarrow> tstate \<Rightarrow> (wval \<times> tstate) result" where
  "post_getattr env v name st =
     (case v of
        WM m \<Rightarrow> rbind (monad_getattr (adict env) (cur_sq env) (jfuel env) (jsa env) m name st) (\<lambda>(r, st1).
                  Inr (of_attr_result r, st1))
      | WFunc _ \<Rightarrow> Inl (AttributeError name)
      | WAttrSet _ _ \<Rightarrow> Inl (NotImplementedError ''AttrSetMonad''))"

text \<open>\<open>preCallFunc\<close> (line 466): the called node must be a \<open>Name\<close> or a \<open>Getattr\<close>.\<close>

fun callable_node :: "pexpr \<Rightarrow> bool" where
  "callable_node (Name _) = True" | "callable_node (Ext k _) = (k \<noteq> KOther)"
| "callable_node (Getattr _ _) = True" | "callable_node _ = False"

text \<open>
  \<open>postCallFunc\<close> (lines 498--506): \<open>func_monad(*args)\<close>; a special function receives its
  arguments with their \<open>aggregated\<close> attributes and may set the result's; a method in
  flight calls its \<open>call_\<close> method; other monads raise \<open>TypeError\<close> (\<open>Monad.__call__\<close>).
\<close>

definition post_call ::
  "wenv \<Rightarrow> wval \<Rightarrow> wnode list \<Rightarrow> tstate \<Rightarrow> ((monad \<times> bool option) \<times> tstate) result" where
  "post_call env fv args st =
     rbind (node_monads args) (\<lambda>ms.
       case fv of
         WFunc fn \<Rightarrow> call_special (dialect env) (row_value_syntax env) (jfuel env) (jsa env) fn
                       (zip ms (map (\<lambda>n. fst (node_flags n)) args)) st
       | WM (MethodM p name) \<Rightarrow>
           rbind (call_method (jfuel env) (jsa env) p name ms st) (\<lambda>(r, st1). Inr ((r, None), st1))
       | WM _ \<Rightarrow> Inl (TypeError ''object is not callable'')
       | WAttrSet _ _ \<Rightarrow> Inl (NotImplementedError ''AttrSetMonad''))"

text \<open>
  \<open>postSubscript\<close> with one \<open>Sliceobj\<close> (lines 517--520): \<open>start, stop, step\<close> are the
  slice object's AST nodes, not their monads; the step node is always there in a
  \<open>Sliceobj\<close> of three, so \<open>__getitem__\<close> raises "Step is not supported"; with two nodes a
  present bound is an AST node without \<open>type\<close>.
\<close>

definition post_sliceobj :: "monad \<Rightarrow> bool \<Rightarrow> bool \<Rightarrow> bool \<Rightarrow> tstate \<Rightarrow> (monad \<times> tstate) result" where
  "post_sliceobj m has_start has_stop has_step st =
     (if mtype m = TMethod then forgot_parentheses
      else if \<not> is_string m then
        (case m of EntityM _ \<Rightarrow> Inl (NotImplementedError '''') | _ \<Rightarrow> Inl (TypeError ''getitem''))
      else if has_step then Inl (TypeError ''Step is not supported'')
      else if \<not> has_start \<and> \<not> has_stop then Inr (m, st)
      else Inl (AttributeError ''type''))"

text \<open>\<open>postSubscript\<close> otherwise (lines 509--521): several subscripts are a \<open>ListMonad\<close> key.\<close>

definition post_subscript :: "wenv \<Rightarrow> monad \<Rightarrow> monad list \<Rightarrow> tstate \<Rightarrow> (monad \<times> tstate) result" where
  "post_subscript env m subs st =
     (case subs of
        [] \<Rightarrow> Inl IndexError
      | [i] \<Rightarrow> monad_getitem (jfuel env) (jsa env) m (IndexArg i) st
      | _ \<Rightarrow> monad_getitem (jfuel env) (jsa env) m (IndexArg (ListM subs)) st)"

text \<open>One comparison of \<open>preCompare\<close> (lines 414--419): \<open>in\<close> and \<open>not in\<close> ask the right
  operand, the others build a \<open>CmpMonad\<close>; the flags are those of the two operands.\<close>

definition compare_one ::
  "wenv \<Rightarrow> string \<Rightarrow> wnode \<Rightarrow> wnode \<Rightarrow> tstate \<Rightarrow> ((monad \<times> bool \<times> bool) \<times> tstate) result" where
  "compare_one env op l r st =
     rbind (as_monad (fst l)) (\<lambda>ml. rbind (as_monad (fst r)) (\<lambda>mr.
       rbind (if op \<in> {''in'', ''not in''}
              then monad_contains (jfuel env) (jsa env) mr ml (op = ''not in'') st
              else rbind (cmp_monad op ml mr) (\<lambda>c. Inr (c, st))) (\<lambda>(m, st1).
         (let a = (fst (node_flags l) = Some True \<or> fst (node_flags r) = Some True);
              n = (snd (node_flags l) = Some True \<or> snd (node_flags r) = Some True)
          in if a \<and> n then Inl (NotImplementedError ''Aggregation functions with different semantics cannot be mixed'')
             else Inr ((m, a, n), st1)))))"

text \<open>The monads of the optional bounds of \<open>postSlice\<close> (lines 522--529).\<close>

definition opt_monad :: "wnode option \<Rightarrow> monad option result" where
  "opt_monad n = (case n of None \<Rightarrow> Inr None | Some x \<Rightarrow> rbind (as_monad (fst x)) (\<lambda>m. Inr (Some m)))"

definition opt_list :: "'a option \<Rightarrow> 'a list" where
  "opt_list x = (case x of None \<Rightarrow> [] | Some y \<Rightarrow> [y])"

section \<open>The walk\<close>

text \<open>
  \<open>translator.dispatch(node)\<close> and the handler of each node: \<open>postConst\<close> (lines 425--430),
  \<open>postList\<close> and \<open>postTuple\<close> (431--434), \<open>postName\<close>, the arithmetic handlers (440--451),
  \<open>postGetattr\<close>, \<open>postAnd\<close>, \<open>postOr\<close>, \<open>preNot\<close>/\<open>postNot\<close> (452--462),
  \<open>preCallFunc\<close>/\<open>postCallFunc\<close> (463--506), \<open>postSubscript\<close>, \<open>postSlice\<close> (509--529) and
  \<open>preCompare\<close> (402--424), each followed by \<open>call\<close>'s flags (\<open>finish\<close>).
\<close>

function walk :: "wenv \<Rightarrow> pexpr \<Rightarrow> xstate \<Rightarrow> (wnode \<times> xstate) result"
and walk_list :: "wenv \<Rightarrow> pexpr list \<Rightarrow> xstate \<Rightarrow> (wnode list \<times> xstate) result"
and walk_opt :: "wenv \<Rightarrow> pexpr option \<Rightarrow> xstate \<Rightarrow> (wnode option \<times> xstate) result"
and walk_cmp ::
  "wenv \<Rightarrow> wnode \<Rightarrow> (string \<times> pexpr) list \<Rightarrow> xstate
   \<Rightarrow> (((monad \<times> bool \<times> bool) list \<times> wnode list) \<times> xstate) result" where
  "walk env (Const v) xs = finish (WM (ConstM v)) None None [] xs"
| "walk env (ConstTuple vs) xs = finish (WM (ListM (map ConstM vs))) None None [] xs"
| "walk env (Ext k src) xs = dispatch_external env (k = KName) src xs"
| "walk env (Name n) xs = rbind (on_t (post_name env n) xs) (\<lambda>(v, xs1). finish v None None [] xs1)"
| "walk env (ListE es) xs =
     rbind (walk_list env es xs) (\<lambda>(ns, xs1). rbind (node_monads ns) (\<lambda>ms.
       finish (WM (ListM ms)) None None ns xs1))"
| "walk env (TupleE es) xs =
     rbind (walk_list env es xs) (\<lambda>(ns, xs1). rbind (node_monads ns) (\<lambda>ms.
       finish (WM (ListM ms)) None None ns xs1))"
| "walk env (BinOp op l r) xs =
     rbind (walk env l xs) (\<lambda>(nl, xs1). rbind (walk env r xs1) (\<lambda>(nr, xs2).
       rbind (as_monad (fst nl)) (\<lambda>ml. rbind (as_monad (fst nr)) (\<lambda>mr.
         rbind (on_t (monad_binop op (jfuel env) (jsa env) ml mr) xs2) (\<lambda>(m, xs3).
           finish (WM m) None None [nl, nr] xs3)))))"
| "walk env (UnarySub e) xs =
     rbind (walk env e xs) (\<lambda>(n, xs1). rbind (as_monad (fst n)) (\<lambda>m.
       rbind (on_t (monad_unop ''NEG'' (jfuel env) (jsa env) m) xs1) (\<lambda>(r, xs2).
         finish (WM r) None None [n] xs2)))"
| "walk env (Getattr e name) xs =
     rbind (walk env e xs) (\<lambda>(n, xs1).
       rbind (on_t (post_getattr env (fst n) name) xs1) (\<lambda>(v, xs2). finish v None None [n] xs2))"
| "walk env (AndE es) xs =
     rbind (walk_list env es xs) (\<lambda>(ns, xs1). rbind (node_monads ns) (\<lambda>ms.
       rbind (on_t (logical_monad ''AND'' (jfuel env) (jsa env) ms) xs1) (\<lambda>(m, xs2).
         finish (WM m) None None ns xs2)))"
| "walk env (OrE es) xs =
     rbind (walk_list env es xs) (\<lambda>(ns, xs1). rbind (node_monads ns) (\<lambda>ms.
       rbind (on_t (logical_monad ''OR'' (jfuel env) (jsa env) ms) xs1) (\<lambda>(m, xs2).
         finish (WM m) None None ns xs2)))"
| "walk env (NotE e) xs =
     rbind (walk env e xs) (\<lambda>(n, xs1). rbind (as_monad (fst n)) (\<lambda>m.
       rbind (on_t (negate (jfuel env) (jsa env) m) xs1) (\<lambda>(r, xs2).
         finish (WM r) None None [n] xs2)))"
| "walk env (CallFunc fe args) xs =
     (if \<not> callable_node fe then Inl (NotImplementedError '''')
      else rbind (walk env fe xs) (\<lambda>(nf, xs1). rbind (walk_list env args xs1) (\<lambda>(nargs, xs2).
        rbind (on_t (post_call env (fst nf) nargs) xs2) (\<lambda>((m, agg), xs3).
          finish (WM m) agg None (nf # nargs) xs3))))"
| "walk env (Subscript e subs) xs =
     rbind (walk env e xs) (\<lambda>(ne, xs1). rbind (walk_list env subs xs1) (\<lambda>(ns, xs2).
       rbind (as_monad (fst ne)) (\<lambda>m. rbind (node_monads ns) (\<lambda>ms.
         rbind (on_t (post_subscript env m ms) xs2) (\<lambda>(r, xs3).
           finish (WM r) None None (ne # ns) xs3)))))"
| "walk env (SubSlice e nodes) xs =
     rbind (walk env e xs) (\<lambda>(ne, xs1). rbind (walk_list env nodes xs1) (\<lambda>(_, xs2).
       rbind (as_monad (fst ne)) (\<lambda>m.
         rbind (on_t (post_sliceobj m (1 \<le> length nodes) (2 \<le> length nodes) (3 \<le> length nodes)) xs2)
           (\<lambda>(r, xs3). finish (WM r) None None [ne] xs3))))"
| "walk env (Slice e lo up) xs =
     rbind (walk env e xs) (\<lambda>(ne, xs1). rbind (walk_opt env lo xs1) (\<lambda>(nlo, xs2).
       rbind (walk_opt env up xs2) (\<lambda>(nup, xs3).
         rbind (as_monad (fst ne)) (\<lambda>m.
         rbind (opt_monad nlo) (\<lambda>mlo. rbind (opt_monad nup) (\<lambda>mup.
           rbind (on_t (monad_getitem (jfuel env) (jsa env) m (SliceArg mlo mup None)) xs3) (\<lambda>(r, xs4).
             finish (WM r) None None (ne # opt_list nlo @ opt_list nup) xs4)))))))"
| "walk env (Compare l ops) xs =
     rbind (walk env l xs) (\<lambda>(nl, xs1). rbind (walk_cmp env nl ops xs1) (\<lambda>((cs, rs), xs2).
       case cs of
         [(m, a, n)] \<Rightarrow> finish (WM m) (Some a) (Some n) (nl # rs) xs2
       | _ \<Rightarrow> rbind (on_t (logical_monad ''AND'' (jfuel env) (jsa env) (map fst cs)) xs2) (\<lambda>(m, xs3).
                finish (WM m) None None (nl # rs) xs3)))"
| "walk_list env [] xs = Inr ([], xs)"
| "walk_list env (e # es) xs =
     rbind (walk env e xs) (\<lambda>(n, xs1). rbind (walk_list env es xs1) (\<lambda>(ns, xs2). Inr (n # ns, xs2)))"
| "walk_opt env None xs = Inr (None, xs)"
| "walk_opt env (Some e) xs = rbind (walk env e xs) (\<lambda>(n, xs1). Inr (Some n, xs1))"
| "walk_cmp env left [] xs = Inr (([], []), xs)"
| "walk_cmp env left ((op, r) # rest) xs =
     rbind (walk env r xs) (\<lambda>(nr, xs1).
     rbind (on_t (compare_one env op left nr) xs1) (\<lambda>(c, xs2).
     rbind (walk_cmp env nr rest xs2) (\<lambda>((cs, rs), xs3). Inr ((c # cs, nr # rs), xs3))))"
  by pat_completeness auto
termination
  by (relation "measure (case_sum
                 (case_sum (\<lambda>(env, e, xs). size e) (\<lambda>(env, es, xs). size_list size es))
                 (case_sum (\<lambda>(env, eo, xs). size_option size eo)
                           (\<lambda>(env, left, ops, xs). size_list (size_prod (\<lambda>_. 0) size) ops)))") auto

section \<open>Aggregates in an expression\<close>

text \<open>The nodes \<open>getChildNodes\<close> returns, in order.\<close>

fun children :: "pexpr \<Rightarrow> pexpr list" where
  "children (ListE es) = es"
| "children (TupleE es) = es"
| "children (BinOp _ l r) = [l, r]"
| "children (UnarySub e) = [e]"
| "children (Getattr e _) = [e]"
| "children (AndE es) = es"
| "children (OrE es) = es"
| "children (NotE e) = [e]"
| "children (CallFunc f args) = f # args"
| "children (Subscript e subs) = e # subs"
| "children (SubSlice e nodes) = e # nodes"
| "children (Slice e lo up) = e # opt_list lo @ opt_list up"
| "children (Compare l ops) = l # map snd ops"
| "children _ = []"

text \<open>A call of \<open>count\<close>, \<open>sum\<close>, \<open>avg\<close>, or of \<open>min\<close> or \<open>max\<close> with one argument: the calls
  whose result \<open>Monad.count\<close> and \<open>Monad.aggregate\<close> mark aggregated.\<close>

fun is_agg_call :: "wenv \<Rightarrow> pexpr \<Rightarrow> bool" where
  "is_agg_call env (CallFunc (Ext k src) args) =
     (case vartypes env src of
        Some (VTFunc fn) \<Rightarrow> fn \<in> {FCount, FSum, FAvg} \<or> (fn \<in> {FMin, FMax} \<and> length args = 1)
      | _ \<Rightarrow> False)"
| "is_agg_call env _ = False"

function contains_agg :: "wenv \<Rightarrow> pexpr \<Rightarrow> bool" where
  "contains_agg env e = (is_agg_call env e \<or> list_ex (contains_agg env) (children e))"
  by pat_completeness auto
termination
proof (relation "measure (\<lambda>(env, e). size e)")
  fix env e c
  assume "c \<in> set (children e)"
  then show "((env, c), env, e) \<in> measure (\<lambda>(env, e). size e)"
  proof (induction e rule: children.induct)
    case (13 l ops)
    then obtain a where "(a, c) \<in> set ops \<or> c = l" by (auto simp: image_iff) blast
    then show ?case
      using size_list_estimation' [of "(a, c)" ops "size c" "size_prod (\<lambda>x. 0) size"] by auto
  qed (auto simp: opt_list_def split: option.splits dest: size_list_estimation' [of _ _ _ size])
qed simp

text \<open>A node whose monad is marked \<open>aggregated\<close> (the flag \<open>call\<close> sets).\<close>

definition aggf :: "wnode \<Rightarrow> bool" where
  "aggf n \<longleftrightarrow> fst (node_flags n) = Some True"

text \<open>An environment for the examples: \<open>count\<close> and \<open>sum\<close> are the built-in functions,
  \<open>x\<close> an external integer variable.\<close>


definition env_ex :: wenv where
  "env_ex = \<lparr>vartypes = map_of [(''count'', VTFunc FCount), (''sum'', VTFunc FSum), (''x'', VTPlain TInt)],
             adict = (\<lambda>_ _. None), dialect = ''SQLite'', row_value_syntax = True, cur_sq = 0,
             jfuel = 0, jsa = False\<rparr>"

section \<open>Helper lemmas\<close>



declare contains_agg.simps [simp del]

lemma contains_agg_cases [simp]:
  "contains_agg env (Const v) = False"
  "contains_agg env (ConstTuple vs) = False"
  "contains_agg env (Ext k src) = False"
  "contains_agg env (Name n) = False"
  "contains_agg env (ListE es) = list_ex (contains_agg env) es"
  "contains_agg env (TupleE es) = list_ex (contains_agg env) es"
  "contains_agg env (BinOp op l r) = (contains_agg env l \<or> contains_agg env r)"
  "contains_agg env (UnarySub e) = contains_agg env e"
  "contains_agg env (Getattr e name) = contains_agg env e"
  "contains_agg env (AndE es) = list_ex (contains_agg env) es"
  "contains_agg env (OrE es) = list_ex (contains_agg env) es"
  "contains_agg env (NotE e) = contains_agg env e"
  "contains_agg env (CallFunc f args) =
     (is_agg_call env (CallFunc f args) \<or> contains_agg env f \<or> list_ex (contains_agg env) args)"
  "contains_agg env (Subscript e subs) = (contains_agg env e \<or> list_ex (contains_agg env) subs)"
  "contains_agg env (SubSlice e nodes) = (contains_agg env e \<or> list_ex (contains_agg env) nodes)"
  "contains_agg env (Slice e lo up) =
     (contains_agg env e \<or> list_ex (contains_agg env) (opt_list lo) \<or> list_ex (contains_agg env) (opt_list up))"
  "contains_agg env (Compare l ops) = (contains_agg env l \<or> list_ex (\<lambda>p. contains_agg env (snd p)) ops)"
  by (rule trans [OF contains_agg.simps], simp add: list_ex_iff bex_Un)+


lemma finish_Inr:
  "finish v agg ng ns xs = Inr (r, xs') \<Longrightarrow>
   fst r = v \<and> xs' = xs \<and> aggf r = (case agg of Some b \<Rightarrow> b | None \<Rightarrow> list_ex aggf ns)"
  unfolding finish_def call_flags_def Let_def aggf_def list_ex_iff node_flags_def
  by (cases agg; cases ng; auto split: if_splits; force)

lemma dispatch_external_Inr:
  "dispatch_external env b src xs = Inr (r, xs') \<Longrightarrow> \<not> aggf r"
  by (auto simp: dispatch_external_def aggf_def node_flags_def split: option.splits)

lemma compare_one_agg:
  "compare_one env op l r st = Inr ((m, a, n), st') \<Longrightarrow> a = (aggf l \<or> aggf r)"
  by (auto simp: compare_one_def Let_def aggf_def node_flags_def split: if_splits prod.splits)

lemma plain_None: "plain r = Inr ((m, agg), st') \<Longrightarrow> agg = None"
  by (auto simp: plain_def split: prod.splits)

lemma call_special_agg:
  assumes h: "call_special d rvs f sa fn args st = Inr ((m, agg), st')"
  shows "agg = (if fn \<in> {FCount, FSum, FAvg} \<or> (fn \<in> {FMin, FMax} \<and> length args = 1) then Some True else None)"
proof (cases fn)
  case FCount
  then show ?thesis
    using h by (auto simp: call_special_def arity_error_def dest!: monad_count_Inr expr_new_Inr
                        split: list.splits if_splits)
next
  case FSum
  then show ?thesis
    using h by (auto simp: call_special_def arity_error_def dest!: monad_aggregate_Inr split: list.splits)
next
  case FAvg
  then show ?thesis
    using h by (auto simp: call_special_def arity_error_def dest!: monad_aggregate_Inr split: list.splits)
next
  case FMin
  then show ?thesis
    using h by (auto simp: call_special_def dest!: monad_aggregate_Inr plain_None split: list.splits)
next
  case FMax
  then show ?thesis
    using h by (auto simp: call_special_def dest!: monad_aggregate_Inr plain_None split: list.splits)
qed (use h in \<open>auto simp: call_special_def arity_error_def dest!: plain_None split: list.splits\<close>)

lemma node_monads_length: "node_monads ns = Inr ms \<Longrightarrow> length ms = length ns"
proof (induction ns arbitrary: ms)
  case (Cons n ns)
  then show ?case by (auto simp: node_monads_def)
qed (simp add: node_monads_def)

lemma post_call_agg:
  assumes h: "post_call env fv args st = Inr ((m, agg), st')"
  shows "agg = (case fv of
                  WFunc fn \<Rightarrow> if fn \<in> {FCount, FSum, FAvg} \<or> (fn \<in> {FMin, FMax} \<and> length args = 1)
                              then Some True else None
                | _ \<Rightarrow> None)"
proof (cases fv)
  case (WFunc fn)
  from h WFunc have "rbind (node_monads args) (\<lambda>ms. call_special (dialect env) (row_value_syntax env)
      (jfuel env) (jsa env) fn (zip ms (map (\<lambda>n. fst (node_flags n)) args)) st) = Inr ((m, agg), st')"
    by (simp only: post_call_def wval.case)
  then obtain ms where ms: "node_monads args = Inr ms"
    and c: "call_special (dialect env) (row_value_syntax env) (jfuel env) (jsa env) fn
              (zip ms (map (\<lambda>n. fst (node_flags n)) args)) st = Inr ((m, agg), st')"
    by (simp only: rbind_eq_Inr) blast
  from call_special_agg [OF c] node_monads_length [OF ms] WFunc show ?thesis by simp
next
  case (WM m0)
  show ?thesis
  proof (cases m0)
    case (MethodM p nm)
    with h WM show ?thesis by (auto simp: post_call_def split: prod.splits)
  qed (use h WM in \<open>auto simp: post_call_def\<close>)
next
  case (WAttrSet p a)
  with h show ?thesis by (auto simp: post_call_def)
qed

lemma on_t_Inr: "on_t g xs = Inr (a, xs') \<Longrightarrow> \<exists>st'. g (fst xs) = Inr (a, st') \<and> xs' = (st', snd xs)"
  by (auto simp: on_t_def split: prod.splits)

lemma external_of_func:
  "external_of b src t xs = Inr (v, xs') \<Longrightarrow> (v = WFunc fn) = (t = VTFunc fn)"
  by (cases t) (auto simp: entity_monad_def split: if_splits option.splits)

lemma post_name_WM: "post_name env nm st = Inr (v, st') \<Longrightarrow> \<exists>m. v = WM m"
  by (auto simp: post_name_def split: option.splits)

lemma post_getattr_not_func:
  "post_getattr env w name st = Inr (v, st') \<Longrightarrow> v \<noteq> WFunc fn"
  by (cases w) (auto simp: post_getattr_def elim: of_attr_result.elims split: prod.splits)

lemma dispatch_external_func:
  assumes h: "dispatch_external env b src xs = Inr (n, xs')"
  shows "(fst n = WFunc fn) = (vartypes env src = Some (VTFunc fn))"
proof -
  obtain t where t: "vartypes env src = Some t"
    using h by (cases "vartypes env src") (simp_all add: dispatch_external_def)
  with h obtain v xs1 where "external_of b src t xs = Inr (v, xs1)" and "n = (v, None, None)"
    by (auto simp: dispatch_external_def)
  with t show ?thesis using external_of_func by auto
qed

lemma walk_callee_func:
  assumes h: "walk env e xs = Inr (n, xs')" and c: "callable_node e"
  shows "(fst n = WFunc fn) = (\<exists>k src. e = Ext k src \<and> vartypes env src = Some (VTFunc fn))"
proof (cases e)
  case (Ext k src)
  with h show ?thesis by (simp add: dispatch_external_func)
next
  case (Name nm)
  with h show ?thesis by (auto dest!: on_t_Inr finish_Inr post_name_WM)
next
  case (Getattr e1 name)
  with h show ?thesis by (auto dest!: on_t_Inr finish_Inr dest: post_getattr_not_func)
qed (use c in simp_all)


lemma list_ex_map_id: "list_ex f xs = list_ex id (map f xs)"
  by (induction xs) auto

lemma list_ex_map_eq: "map f xs = map g ys \<Longrightarrow> list_ex f xs = list_ex g ys"
  by (simp only: list_ex_map_id [of f] list_ex_map_id [of g])

lemma finish_children:
  assumes f: "finish v None None ns xs = Inr (n, xs')" and m: "map aggf ns = map (contains_agg env) es"
  shows "aggf n = list_ex (contains_agg env) es"
proof -
  have "aggf n = list_ex aggf ns" using finish_Inr [OF f] by simp
  also have "\<dots> = list_ex (contains_agg env) es" by (rule list_ex_map_eq [OF m])
  finally show ?thesis .
qed

lemma is_agg_call_callee:
  "is_agg_call env (CallFunc fe args) \<Longrightarrow> \<exists>k src fn. fe = Ext k src \<and> vartypes env src = Some (VTFunc fn)"
  by (cases fe) (auto split: option.splits vartype.splits)

lemma post_sliceobj_Inr: "post_sliceobj m a b c st = Inr r \<Longrightarrow> \<not> a \<and> \<not> b"
  by (auto simp: post_sliceobj_def forgot_parentheses_def split: if_splits monad.splits)

lemma walk_aggregated:
  "\<forall>n xs'. walk env e xs = Inr (n, xs') \<longrightarrow> aggf n = contains_agg env e"
  "\<forall>ns xs'. walk_list env es xs = Inr (ns, xs') \<longrightarrow> map aggf ns = map (contains_agg env) es"
  "\<forall>no xs'. walk_opt env eo xs = Inr (no, xs') \<longrightarrow>
     map aggf (opt_list no) = map (contains_agg env) (opt_list eo)"
  "\<forall>cs rs xs'. walk_cmp env left ops xs = Inr ((cs, rs), xs') \<longrightarrow>
     map aggf rs = map (\<lambda>p. contains_agg env (snd p)) ops \<and> length cs = length rs \<and>
     (\<forall>c. cs = [c] \<longrightarrow> fst (snd c) = (aggf left \<or> list_ex aggf rs))"
proof (induction env e xs and env es xs and env eo xs and env left ops xs
       rule: walk_walk_list_walk_opt_walk_cmp.induct)
  case (1 env v xs)
  then show ?case by (auto dest!: finish_Inr)
next
  case (2 env vs xs)
  then show ?case by (auto dest!: finish_Inr)
next
  case (3 env k src xs)
  then show ?case by (auto dest: dispatch_external_Inr)
next
  case (4 env n xs)
  then show ?case by (auto dest!: finish_Inr on_t_Inr)
next
  case (5 env es xs)
  show ?case
  proof (intro allI impI)
    fix n xs'
    assume "walk env (ListE es) xs = Inr (n, xs')"
    then obtain ns xs1 ms where l: "walk_list env es xs = Inr (ns, xs1)"
      and f: "finish (WM (ListM ms)) None None ns xs1 = Inr (n, xs')"
      by (auto split: prod.splits)
    have "map aggf ns = map (contains_agg env) es" using "5.IH" [rule_format, OF l] .
    from finish_children [OF f this] show "aggf n = contains_agg env (ListE es)" by simp
  qed
next
  case (6 env es xs)
  show ?case
  proof (intro allI impI)
    fix n xs'
    assume "walk env (TupleE es) xs = Inr (n, xs')"
    then obtain ns xs1 ms where l: "walk_list env es xs = Inr (ns, xs1)"
      and f: "finish (WM (ListM ms)) None None ns xs1 = Inr (n, xs')"
      by (auto split: prod.splits)
    have "map aggf ns = map (contains_agg env) es" using "6.IH" [rule_format, OF l] .
    from finish_children [OF f this] show "aggf n = contains_agg env (TupleE es)" by simp
  qed
next
  case (7 env op l r xs)
  show ?case
  proof (intro allI impI)
    fix n xs'
    assume "walk env (BinOp op l r) xs = Inr (n, xs')"
    then obtain nl xs1 nr xs2 m xs3 where a: "walk env l xs = Inr (nl, xs1)"
      "walk env r xs1 = Inr (nr, xs2)" and f: "finish (WM m) None None [nl, nr] xs3 = Inr (n, xs')"
      by (auto split: prod.splits)
    have "map aggf [nl, nr] = map (contains_agg env) [l, r]"
      using "7.IH"(1) [rule_format, OF a(1)] "7.IH"(2) [rule_format, OF a(2)] by simp
    from finish_children [OF f this] show "aggf n = contains_agg env (BinOp op l r)" by simp
  qed
next
  case (8 env e xs)
  show ?case
  proof (intro allI impI)
    fix n xs'
    assume "walk env (UnarySub e) xs = Inr (n, xs')"
    then obtain n1 xs1 m xs2 where a: "walk env e xs = Inr (n1, xs1)"
      and f: "finish (WM m) None None [n1] xs2 = Inr (n, xs')"
      by (auto split: prod.splits)
    have "map aggf [n1] = map (contains_agg env) [e]" using "8.IH" [rule_format, OF a] by simp
    from finish_children [OF f this] show "aggf n = contains_agg env (UnarySub e)" by simp
  qed
next
  case (9 env e name xs)
  show ?case
  proof (intro allI impI)
    fix n xs'
    assume "walk env (Getattr e name) xs = Inr (n, xs')"
    then obtain n1 xs1 v xs2 where a: "walk env e xs = Inr (n1, xs1)"
      and f: "finish v None None [n1] xs2 = Inr (n, xs')"
      by (auto split: prod.splits)
    have "map aggf [n1] = map (contains_agg env) [e]" using "9.IH" [rule_format, OF a] by simp
    from finish_children [OF f this] show "aggf n = contains_agg env (Getattr e name)" by simp
  qed
next
  case (10 env es xs)
  show ?case
  proof (intro allI impI)
    fix n xs'
    assume "walk env (AndE es) xs = Inr (n, xs')"
    then obtain ns xs1 m xs2 where l: "walk_list env es xs = Inr (ns, xs1)"
      and f: "finish (WM m) None None ns xs2 = Inr (n, xs')"
      by (auto split: prod.splits)
    have "map aggf ns = map (contains_agg env) es" using "10.IH" [rule_format, OF l] .
    from finish_children [OF f this] show "aggf n = contains_agg env (AndE es)" by simp
  qed
next
  case (11 env es xs)
  show ?case
  proof (intro allI impI)
    fix n xs'
    assume "walk env (OrE es) xs = Inr (n, xs')"
    then obtain ns xs1 m xs2 where l: "walk_list env es xs = Inr (ns, xs1)"
      and f: "finish (WM m) None None ns xs2 = Inr (n, xs')"
      by (auto split: prod.splits)
    have "map aggf ns = map (contains_agg env) es" using "11.IH" [rule_format, OF l] .
    from finish_children [OF f this] show "aggf n = contains_agg env (OrE es)" by simp
  qed
next
  case (12 env e xs)
  show ?case
  proof (intro allI impI)
    fix n xs'
    assume "walk env (NotE e) xs = Inr (n, xs')"
    then obtain n1 xs1 m xs2 where a: "walk env e xs = Inr (n1, xs1)"
      and f: "finish (WM m) None None [n1] xs2 = Inr (n, xs')"
      by (auto split: prod.splits)
    have "map aggf [n1] = map (contains_agg env) [e]" using "12.IH" [rule_format, OF a] by simp
    from finish_children [OF f this] show "aggf n = contains_agg env (NotE e)" by simp
  qed
next
  case (13 env fe args xs)
  show ?case
  proof (intro allI impI)
    fix n xs'
    assume w: "walk env (CallFunc fe args) xs = Inr (n, xs')"
    then have cn: "callable_node fe" by (auto split: if_splits)
    with w obtain nf xs1 nargs xs2 m agg st3 where a: "walk env fe xs = Inr (nf, xs1)"
      "walk_list env args xs1 = Inr (nargs, xs2)"
      and p: "post_call env (fst nf) nargs (fst xs2) = Inr ((m, agg), st3)"
      and f: "finish (WM m) agg None (nf # nargs) (st3, snd xs2) = Inr (n, xs')"
      by (auto simp: on_t_def split: prod.splits)
    have hf: "aggf nf = contains_agg env fe" using "13.IH"(1) [rule_format, OF _ a(1)] cn by simp
    have ha: "map aggf nargs = map (contains_agg env) args"
      using "13.IH"(2) [rule_format, OF _ a(2)] cn by simp
    then have len: "length nargs = length args" by (metis length_map)
    have fl: "aggf n = (case agg of Some b \<Rightarrow> b | None \<Rightarrow> list_ex aggf (nf # nargs))"
      using finish_Inr [OF f] by simp
    have ex: "list_ex aggf (nf # nargs) = (contains_agg env fe \<or> list_ex (contains_agg env) args)"
      using hf list_ex_map_eq [OF ha] by simp
    show "aggf n = contains_agg env (CallFunc fe args)"
    proof (cases "\<exists>fn. fst nf = WFunc fn")
      case True
      then obtain fn where fn: "fst nf = WFunc fn" by blast
      with walk_callee_func [OF a(1) cn] obtain k src where
        fe: "fe = Ext k src" and vt: "vartypes env src = Some (VTFunc fn)" by blast
      show ?thesis
        using post_call_agg [OF p] fl ex fn fe vt len by auto
    next
      case False
      then have "\<not> is_agg_call env (CallFunc fe args)"
        using walk_callee_func [OF a(1) cn] is_agg_call_callee by blast
      moreover have "agg = None"
        using post_call_agg [OF p] False by (auto split: wval.splits)
      ultimately show ?thesis using fl ex by simp
    qed
  qed
next
  case (14 env e subs xs)
  show ?case
  proof (intro allI impI)
    fix n xs'
    assume "walk env (Subscript e subs) xs = Inr (n, xs')"
    then obtain ne xs1 ns xs2 r xs3 where a: "walk env e xs = Inr (ne, xs1)"
      "walk_list env subs xs1 = Inr (ns, xs2)" and f: "finish (WM r) None None (ne # ns) xs3 = Inr (n, xs')"
      by (auto split: prod.splits)
    have "map aggf (ne # ns) = map (contains_agg env) (e # subs)"
      using "14.IH"(1) [rule_format, OF a(1)] "14.IH"(2) [rule_format, OF a(2)] by simp
    from finish_children [OF f this] show "aggf n = contains_agg env (Subscript e subs)" by simp
  qed
next
  case (15 env e nodes xs)
  show ?case
  proof (intro allI impI)
    fix n xs'
    assume "walk env (SubSlice e nodes) xs = Inr (n, xs')"
    then obtain ne xs1 ns xs2 m r st3 where a: "walk env e xs = Inr (ne, xs1)"
      and ps: "post_sliceobj m (1 \<le> length nodes) (2 \<le> length nodes) (3 \<le> length nodes) (fst xs2) = Inr (r, st3)"
      and f: "finish (WM r) None None [ne] (st3, snd xs2) = Inr (n, xs')"
      by (auto simp: on_t_def split: prod.splits)
    from post_sliceobj_Inr [OF ps] have "nodes = []" by (cases nodes) auto
    moreover have "map aggf [ne] = map (contains_agg env) [e]" using "15.IH"(1) [rule_format, OF a] by simp
    ultimately show "aggf n = contains_agg env (SubSlice e nodes)"
      using finish_children [OF f, of env "[e]"] by simp
  qed
next
  case (16 env e lo up xs)
  show ?case
  proof (intro allI impI)
    fix n xs'
    assume "walk env (Slice e lo up) xs = Inr (n, xs')"
    then obtain ne xs1 nlo xs2 nup xs3 r xs4 where a: "walk env e xs = Inr (ne, xs1)"
      "walk_opt env lo xs1 = Inr (nlo, xs2)" "walk_opt env up xs2 = Inr (nup, xs3)"
      and f: "finish (WM r) None None (ne # opt_list nlo @ opt_list nup) xs4 = Inr (n, xs')"
      by (auto split: prod.splits)
    have "map aggf (ne # opt_list nlo @ opt_list nup) = map (contains_agg env) (e # opt_list lo @ opt_list up)"
      using "16.IH"(1) [rule_format, OF a(1)] "16.IH"(2) [rule_format, OF a(2)]
            "16.IH"(3) [rule_format, OF a(3)] by simp
    from finish_children [OF f this] show "aggf n = contains_agg env (Slice e lo up)"
      by (simp add: list_ex_iff bex_Un)
  qed
next
  case (17 env l ops xs)
  show ?case
  proof (intro allI impI)
    fix n xs'
    assume w: "walk env (Compare l ops) xs = Inr (n, xs')"
    then obtain nl xs1 cs rs xs2 where a: "walk env l xs = Inr (nl, xs1)"
      "walk_cmp env nl ops xs1 = Inr ((cs, rs), xs2)"
      and rest: "(case cs of [(m, a, g)] \<Rightarrow> finish (WM m) (Some a) (Some g) (nl # rs) xs2
                 | _ \<Rightarrow> rbind (on_t (logical_monad ''AND'' (jfuel env) (jsa env) (map fst cs)) xs2)
                         (\<lambda>(m, xs3). finish (WM m) None None (nl # rs) xs3)) = Inr (n, xs')"
      by (auto split: prod.splits)
    have hl: "aggf nl = contains_agg env l" using "17.IH"(1) [rule_format, OF a(1)] .
    have hc: "map aggf rs = map (\<lambda>p. contains_agg env (snd p)) ops" "length cs = length rs"
      "\<forall>c. cs = [c] \<longrightarrow> fst (snd c) = (aggf nl \<or> list_ex aggf rs)"
      using "17.IH"(2) [rule_format, OF a(2)] by auto
    have ex: "list_ex aggf (nl # rs) = contains_agg env (Compare l ops)"
      using hl list_ex_map_eq [OF hc(1)] by simp
    show "aggf n = contains_agg env (Compare l ops)"
    proof (cases "\<exists>c. cs = [c]")
      case True
      then obtain m a g where cs: "cs = [(m, a, g)]" by (metis prod_cases3)
      with hc(2) obtain r where rs: "rs = [r]" by (cases rs) auto
      from rest cs have "finish (WM m) (Some a) (Some g) (nl # rs) xs2 = Inr (n, xs')" by simp
      then show ?thesis using finish_Inr hc(3) cs rs ex by fastforce
    next
      case False
      with rest obtain m xs3 where "finish (WM m) None None (nl # rs) xs3 = Inr (n, xs')"
        by (cases cs rule: remdups_adj.cases) (auto split: prod.splits)
      then show ?thesis using finish_Inr ex by fastforce
    qed
  qed
next
  case (18 env xs)
  then show ?case by simp
next
  case (19 env e es xs)
  show ?case
  proof (intro allI impI)
    fix ns xs'
    assume "walk_list env (e # es) xs = Inr (ns, xs')"
    then obtain n xs1 ns' where a: "walk env e xs = Inr (n, xs1)" "walk_list env es xs1 = Inr (ns', xs')"
      and ns: "ns = n # ns'"
      by (auto split: prod.splits)
    show "map aggf ns = map (contains_agg env) (e # es)"
      using "19.IH"(1) [rule_format, OF a(1)] "19.IH"(2) [rule_format, OF a(2)] ns by simp
  qed
next
  case (20 env xs)
  then show ?case by (simp add: opt_list_def)
next
  case (21 env e xs)
  show ?case
  proof (intro allI impI)
    fix no xs'
    assume "walk_opt env (Some e) xs = Inr (no, xs')"
    then obtain n where a: "walk env e xs = Inr (n, xs')" and no: "no = Some n"
      by (auto split: prod.splits)
    show "map aggf (opt_list no) = map (contains_agg env) (opt_list (Some e))"
      using "21.IH" [rule_format, OF a] no by (simp add: opt_list_def)
  qed
next
  case (22 env left xs)
  then show ?case by simp
next
  case (23 env left op r rest xs)
  show ?case
  proof (intro allI impI)
    fix cs rs xs'
    assume "walk_cmp env left ((op, r) # rest) xs = Inr ((cs, rs), xs')"
    then obtain nr xs1 c st2 cs' rs' where a: "walk env r xs = Inr (nr, xs1)"
      and c: "compare_one env op left nr (fst xs1) = Inr (c, st2)"
      and w: "walk_cmp env nr rest (st2, snd xs1) = Inr ((cs', rs'), xs')"
      and eq: "cs = c # cs'" "rs = nr # rs'"
      by (auto simp: on_t_def split: prod.splits)
    have hr: "aggf nr = contains_agg env r" using "23.IH"(1) [rule_format, OF a] .
    have hw: "map aggf rs' = map (\<lambda>p. contains_agg env (snd p)) rest" "length cs' = length rs'"
      using "23.IH"(2) [rule_format, OF w] by auto
    obtain m a g where cc: "c = (m, a, g)" by (metis prod_cases3)
    have ca: "a = (aggf left \<or> aggf nr)" using compare_one_agg c cc by blast
    show "map aggf rs = map (\<lambda>p. contains_agg env (snd p)) ((op, r) # rest) \<and> length cs = length rs \<and>
          (\<forall>c. cs = [c] \<longrightarrow> fst (snd c) = (aggf left \<or> list_ex aggf rs))"
      using hr hw eq cc ca by auto
  qed
qed

section \<open>Properties\<close>

lemma call_special_nested:
  "fn \<in> {FSum, FAvg, FMin, FMax} \<Longrightarrow> snd x = Some True \<Longrightarrow>
   call_special d rvs f sa fn [x] st = nested_aggregate"
proof -
  assume fn: "fn \<in> {FSum, FAvg, FMin, FMax}" and x: "snd x = Some True"
  obtain a where "x = (a, Some True)" using x by (cases x) auto
  with fn show ?thesis using aggregated_refused(2) by (auto simp: call_special_def is_aggregated_def)
qed

text \<open>C33: Whenever the walk of an expression succeeds, the monad of its result is marked
  \<open>aggregated\<close> exactly when the expression contains a call of an aggregate function
  (\<open>count\<close>, \<open>sum\<close>, \<open>avg\<close>, or \<open>min\<close>/\<open>max\<close> of one argument): \<open>call\<close> (lines 118--137) propagates the
  flag from the children to every enclosing node.\<close>

theorem walk_aggregated_flag:
  assumes "walk env e xs = Inr (n, xs')"
  shows "(fst (snd n) = Some True) = contains_agg env e"
  using walk_aggregated(1) [rule_format, OF assms] by (simp add: aggf_def node_flags_def)

text \<open>C34: An aggregate \<open>sum\<close>, \<open>avg\<close>, \<open>min\<close> or \<open>max\<close> whose argument already contains an
  aggregate never translates: the nested aggregate is refused (\<open>Monad.aggregate\<close>, line 732,
  via the flag of C33), whatever the rest of the query.\<close>

theorem nested_aggregate_refused:
  assumes vt: "vartypes env f = Some (VTFunc fn)" and fn: "fn \<in> {FSum, FAvg, FMin, FMax}"
    and ca: "contains_agg env a"
  shows "\<forall>r. walk env (CallFunc (Ext k f) [a]) xs \<noteq> Inr r"
proof (intro allI notI)
  fix r
  assume w: "walk env (CallFunc (Ext k f) [a]) xs = Inr r"
  then have cn: "callable_node (Ext k f)" by (auto split: if_splits)
  with w obtain nf xs1 nargs xs2 m agg st3 where a: "walk env (Ext k f) xs = Inr (nf, xs1)"
      "walk_list env [a] xs1 = Inr (nargs, xs2)"
      and p: "post_call env (fst nf) nargs (fst xs2) = Inr ((m, agg), st3)"
    by (auto simp: on_t_def split: prod.splits)
  from walk_callee_func [OF a(1) cn] vt have fnf: "fst nf = WFunc fn" by blast
  from walk_aggregated(2) [rule_format, OF a(2)] ca obtain na where
    na: "nargs = [na]" "aggf na" by (cases nargs) auto
  from p fnf na obtain ma where "call_special (dialect env) (row_value_syntax env) (jfuel env) (jsa env) fn
      [(ma, fst (node_flags na))] (fst xs2) = Inr ((m, agg), st3)"
    by (auto simp: post_call_def node_monads_def split: prod.splits)
  with call_special_nested [OF fn, of "(ma, fst (node_flags na))"] na show False
    by (simp add: aggf_def nested_aggregate_def)
qed

text \<open>An aggregate of an external variable is refused with an \<open>AttributeError\<close>: \<open>dispatch\<close>
  (line 100) stores the variable's monad without passing it through \<open>call\<close>, so its
  \<open>aggregated\<close> attribute is never set, and \<open>aggregate\<close> (line 732) reads it.\<close>

theorem aggregate_of_variable:
  "walk env_ex (CallFunc (Ext KName ''sum'') [Ext KName ''x'']) (st_root, None)
     = Inl (AttributeError ''aggregated'')"
  by (simp add: env_ex_def dispatch_external_def param_new_def numeric_type_def post_call_def
                node_monads_def call_special_def monad_aggregate_def on_t_def node_flags_def)

theorem walk_aggregated_flag_witness:
  "walk env_ex (BinOp ''+'' (CallFunc (Ext KName ''count'') [Const (VInt 1)]) (Const (VInt 2))) (st_root, None)
     = Inr ((WM (ExprM TInt (sqlnode ''ADD'' [sqlnode ''COUNT'' [Str ''DISTINCT'', sql_value (IntV 1)],
                                              sql_value (IntV 2)])), Some True, Some False), (st_root, None))
   \<and> contains_agg env_ex (BinOp ''+'' (CallFunc (Ext KName ''count'') [Const (VInt 1)]) (Const (VInt 2)))"
proof -
  have w: "walk env_ex (BinOp ''+'' (CallFunc (Ext KName ''count'') [Const (VInt 1)]) (Const (VInt 2))) (st_root, None)
     = Inr ((WM (ExprM TInt (sqlnode ''ADD'' [sqlnode ''COUNT'' [Str ''DISTINCT'', sql_value (IntV 1)],
                                              sql_value (IntV 2)])), Some True, Some False), (st_root, None))"
    by (simp add: env_ex_def dispatch_external_def finish_def call_flags_def post_call_def node_monads_def
                  call_special_def monad_count_def is_aggregated_def expr_new_def numeric_type_def
                  on_t_def monad_binop_def is_numeric_def binop_sqlop_def numeric_binop_def coerce_types_def
                  sql1_def node_flags_def Let_def)
  from walk_aggregated_flag [OF w] w show ?thesis by simp
qed

theorem nested_aggregate_refused_witness:
  "vartypes env_ex ''sum'' = Some (VTFunc FSum) \<and> FSum \<in> {FSum, FAvg, FMin, FMax}
   \<and> contains_agg env_ex (CallFunc (Ext KName ''count'') [Const (VInt 1)])
   \<and> (\<forall>r. walk env_ex (CallFunc (Ext KName ''sum'') [CallFunc (Ext KName ''count'') [Const (VInt 1)]]) (st_root, None) \<noteq> Inr r)"
  using nested_aggregate_refused [of env_ex "''sum''" FSum "CallFunc (Ext KName ''count'') [Const (VInt 1)]" KName
                                     "(st_root, None)"]
  by (simp add: env_ex_def)

end
