(* ===== verification/PyStr.thy ===== *)
theory PyStr
  imports Prelude
begin

text \<open>
  The Python 2 library string functions that \<open>src/pony/web.py\<close> calls, as the standard
  library defines them: \<open>str.split\<close> on one character and \<open>str.split(sep, 1)\<close>,
  \<open>os.path.splitext\<close> (\<open>posixpath\<close>), \<open>urllib.quote\<close>/\<open>unquote\<close>,
  \<open>quote_plus\<close>/\<open>unquote_plus\<close> and \<open>cgi.parse_qsl\<close>. A Python byte string is a
  \<open>string\<close> (Isabelle's \<open>char\<close> is a byte).
\<close>

section \<open>Splitting and joining\<close>

text \<open>\<open>s.split(c)\<close>: the pieces between the occurrences of \<open>c\<close>; never empty.\<close>

fun split_char :: "char \<Rightarrow> string \<Rightarrow> string list" where
  "split_char c [] = [[]]"
| "split_char c (x # xs) =
     (let r = split_char c xs in if x = c then [] # r else (x # hd r) # tl r)"

text \<open>\<open>c.join(ws)\<close>.\<close>

fun join_char :: "char \<Rightarrow> string list \<Rightarrow> string" where
  "join_char c [] = []"
| "join_char c [w] = w"
| "join_char c (w # ws) = w @ c # join_char c ws"

text \<open>\<open>s.split(c, 1)\<close> when \<open>c in s\<close>: the text before the first \<open>c\<close> and the rest.\<close>

definition split_once :: "char \<Rightarrow> string \<Rightarrow> string \<times> string" where
  "split_once c s = (takeWhile (\<lambda>x. x \<noteq> c) s, drop 1 (dropWhile (\<lambda>x. x \<noteq> c) s))"

section \<open>os.path.splitext\<close>

text \<open>
  \<open>posixpath.splitext\<close> (\<open>genericpath._splitext\<close>): the extension starts at the last
  dot of the last path component, provided some character before that dot in the
  component is not a dot (leading dots do not start an extension).
\<close>

definition splitext :: "string \<Rightarrow> string \<times> string" where
  "splitext p =
     (let base = rev (takeWhile (\<lambda>c. c \<noteq> CHR ''/'') (rev p));
          dir = take (length p - length base) p;
          d = length base - Suc (length (takeWhile (\<lambda>c. c \<noteq> CHR ''.'') (rev base)))
      in if CHR ''.'' \<in> set base \<and> (\<exists>c\<in>set (take d base). c \<noteq> CHR ''.'')
         then (dir @ take d base, drop d base) else (p, []))"

section \<open>Percent encoding\<close>

definition always_safe :: "char list" where
  "always_safe = ''ABCDEFGHIJKLMNOPQRSTUVWXYZabcdefghijklmnopqrstuvwxyz0123456789_.-''"

definition hex_digits :: "char list" where
  "hex_digits = ''0123456789ABCDEF''"

definition hex_val :: "char \<Rightarrow> nat option" where
  "hex_val c =
     (let n = (of_char c :: nat)
      in if 48 \<le> n \<and> n \<le> 57 then Some (n - 48)
         else if 65 \<le> n \<and> n \<le> 70 then Some (n - 55)
         else if 97 \<le> n \<and> n \<le> 102 then Some (n - 87)
         else None)"

text \<open>\<open>'%%%02X' % ord(c)\<close>.\<close>

definition pct_encode :: "char \<Rightarrow> string" where
  "pct_encode c = [CHR ''%'', hex_digits ! (of_char c div 16 :: nat), hex_digits ! (of_char c mod 16 :: nat)]"

text \<open>\<open>urllib.quote(s, safe)\<close>: letters, digits, \<open>_.-\<close> and the safe characters stay.\<close>

definition quote :: "char list \<Rightarrow> string \<Rightarrow> string" where
  "quote safe s = concat (map (\<lambda>c. if c \<in> set always_safe \<or> c \<in> set safe then [c] else pct_encode c) s)"

text \<open>
  \<open>urllib.unquote\<close>: a \<open>%\<close> followed by two hexadecimal digits is the character they
  encode; any other \<open>%\<close> stays (the library's \<open>KeyError\<close> fallback).
\<close>

fun unquote :: "string \<Rightarrow> string" where
  "unquote [] = []"
| "unquote (c # cs) =
     (case cs of
        h1 # h2 # rest \<Rightarrow>
          (if c = CHR ''%'' then
             (case (hex_val h1, hex_val h2) of
                (Some a, Some b) \<Rightarrow> char_of (16 * a + b) # unquote rest
              | _ \<Rightarrow> c # unquote cs)
           else c # unquote cs)
      | _ \<Rightarrow> c # unquote cs)"

definition replace_char :: "char \<Rightarrow> char \<Rightarrow> string \<Rightarrow> string" where
  "replace_char a b s = map (\<lambda>c. if c = a then b else c) s"

text \<open>\<open>urllib.quote_plus(s)\<close> (\<open>safe=''\<close>): spaces become \<open>+\<close>.\<close>

definition quote_plus :: "string \<Rightarrow> string" where
  "quote_plus s =
     (if CHR '' '' \<in> set s then replace_char CHR '' '' CHR ''+'' (quote '' '' s) else quote [] s)"

definition unquote_plus :: "string \<Rightarrow> string" where
  "unquote_plus s = unquote (replace_char CHR ''+'' CHR '' '' s)"

section \<open>cgi.parse_qsl\<close>

text \<open>
  \<open>cgi.parse_qsl(qs, keep_blank_values, strict_parsing)\<close>: the fields between \<open>&\<close> and
  \<open>;\<close>; with \<open>strict_parsing\<close> a field without \<open>=\<close> (the empty field included) raises
  \<open>ValueError\<close>, otherwise it is skipped (or kept with an empty value under
  \<open>keep_blank_values\<close>); a field with an empty value is kept only under
  \<open>keep_blank_values\<close>.
\<close>

definition qs_fields :: "string \<Rightarrow> string list" where
  "qs_fields qs = concat (map (split_char CHR '';'') (split_char CHR ''&'' qs))"

fun parse_qs_fields :: "bool \<Rightarrow> bool \<Rightarrow> string list \<Rightarrow> (string \<times> string) list result" where
  "parse_qs_fields keep strict [] = Inr []"
| "parse_qs_fields keep strict (f # fs) =
     (if f = [] \<and> \<not> strict then parse_qs_fields keep strict fs
      else if CHR ''='' \<notin> set f then
        (if strict then Inl (ValueError ''bad query field'')
         else if keep then rbind (parse_qs_fields keep strict fs) (\<lambda>r. Inr ((unquote_plus f, []) # r))
         else parse_qs_fields keep strict fs)
      else (let (n, v) = split_once CHR ''='' f
            in if v \<noteq> [] \<or> keep
               then rbind (parse_qs_fields keep strict fs) (\<lambda>r. Inr ((unquote_plus n, unquote_plus v) # r))
               else parse_qs_fields keep strict fs))"

definition parse_qsl :: "bool \<Rightarrow> bool \<Rightarrow> string \<Rightarrow> (string \<times> string) list result" where
  "parse_qsl keep strict qs = parse_qs_fields keep strict (qs_fields qs)"

text \<open>\<open>build_url\<close>'s query field (\<open>web.py\<close> line 210): the field \<open>name=value\<close> of one pair, both sides \<open>quote_plus\<close>ed.\<close>

definition qs_field :: "string \<times> string \<Rightarrow> string" where
  "qs_field p = quote_plus (fst p) @ CHR ''='' # quote_plus (snd p)"

section \<open>Lemmas\<close>

lemma split_char_not_Nil [simp]: "split_char c s \<noteq> []"
  by (induction s) (auto simp: Let_def)

lemma join_char_Cons: "ws \<noteq> [] \<Longrightarrow> join_char c (w # ws) = w @ c # join_char c ws"
  by (cases ws) auto

lemma join_char_hd: "join_char c ((x # w) # ws) = x # join_char c (w # ws)"
  by (cases ws) auto

lemma join_split_char [simp]: "join_char c (split_char c s) = s"
proof (induction s)
  case (Cons x xs)
  obtain w ws where r: "split_char c xs = w # ws" by (cases "split_char c xs") auto
  from Cons r show ?case by (simp add: Let_def join_char_Cons join_char_hd)
qed simp

lemma split_char_append_sep:
  "c \<notin> set w \<Longrightarrow> split_char c (w @ c # s) = w # split_char c s"
  by (induction w) (auto simp: Let_def)

lemma split_char_no_sep: "c \<notin> set w \<Longrightarrow> split_char c w = [w]"
  by (induction w) (auto simp: Let_def)

lemma split_join_char:
  "ws \<noteq> [] \<Longrightarrow> \<forall>w\<in>set ws. c \<notin> set w \<Longrightarrow> split_char c (join_char c ws) = ws"
proof (induction ws)
  case (Cons w ws)
  then show ?case
    by (cases ws) (auto simp: split_char_no_sep split_char_append_sep join_char_Cons)
qed simp

lemma of_char_less_256: "(of_char c :: nat) < 256"
  using of_char_mod_256 [of c, where 'a = nat] by (metis mod_less_divisor zero_less_numeral)

lemma hex_val_digit: "n < 16 \<Longrightarrow> hex_val (hex_digits ! n) = Some n"
  by (auto simp: hex_digits_def hex_val_def numeral_eq_Suc less_Suc_eq)

lemma unquote_not_pct [simp]: "c \<noteq> CHR ''%'' \<Longrightarrow> unquote (c # cs) = c # unquote cs"
  by (cases cs rule: remdups_adj.cases) auto

lemma unquote_pct_encode [simp]: "unquote (pct_encode c @ s) = c # unquote s"
proof -
  have "of_char c div 16 < (16::nat)"
    using of_char_less_256 [of c] by (simp add: less_mult_imp_div_less)
  moreover have "of_char c mod 16 < (16::nat)" by simp
  ultimately have "of_char c div 16 < (16::nat)" "of_char c mod 16 < (16::nat)" .
  then have "16 * (of_char c div 16) + of_char c mod 16 = (of_char c :: nat)"
    by simp
  with hex_val_digit [of "of_char c div 16"] hex_val_digit [of "of_char c mod 16"]
    \<open>of_char c div 16 < (16::nat)\<close> \<open>of_char c mod 16 < (16::nat)\<close>
  show ?thesis by (simp add: pct_encode_def)
qed

lemma pct_not_always_safe [simp]: "CHR ''%'' \<notin> set always_safe"
  by (simp add: always_safe_def)

lemma unquote_quote: "CHR ''%'' \<notin> set safe \<Longrightarrow> unquote (quote safe s) = s"
proof (induction s)
  case (Cons c s)
  show ?case
  proof (cases "c \<in> set always_safe \<or> c \<in> set safe")
    case True
    then have "c \<noteq> CHR ''%''" using Cons.prems by auto
    with True Cons show ?thesis by (simp add: quote_def del: unquote.simps(2))
  next
    case False
    with Cons show ?thesis by (simp add: quote_def del: unquote.simps(2))
  qed
qed (simp add: quote_def)

lemma hex_digits_safe: "set hex_digits \<subseteq> set always_safe"
  by (simp add: hex_digits_def always_safe_def)

lemma set_pct_encode: "set (pct_encode c) \<subseteq> insert CHR ''%'' (set always_safe)"
proof -
  have "of_char c div 16 < (16::nat)"
    using of_char_less_256 [of c] by (simp add: less_mult_imp_div_less)
  moreover have len: "length hex_digits = 16" by (simp add: hex_digits_def)
  ultimately have "hex_digits ! (of_char c div 16) \<in> set hex_digits" "hex_digits ! (of_char c mod 16) \<in> set hex_digits"
    by (simp_all add: nth_mem)
  with hex_digits_safe show ?thesis by (auto simp: pct_encode_def)
qed

lemma quote_excludes:
  "d \<notin> set always_safe \<Longrightarrow> d \<notin> set safe \<Longrightarrow> d \<noteq> CHR ''%'' \<Longrightarrow> d \<notin> set (quote safe s)"
  using set_pct_encode by (fastforce simp: quote_def)

lemma replace_char_id: "a \<notin> set t \<Longrightarrow> replace_char a b t = t"
  by (induction t) (auto simp: replace_char_def)

lemma replace_char_back: "b \<notin> set t \<Longrightarrow> replace_char b a (replace_char a b t) = t"
  by (induction t) (auto simp: replace_char_def)

lemma set_replace_char: "set (replace_char a b t) \<subseteq> insert b (set t - {a})"
  by (auto simp: replace_char_def)

lemma unquote_plus_quote_plus: "unquote_plus (quote_plus s) = s"
proof (cases "CHR '' '' \<in> set s")
  case True
  have "CHR ''+'' \<notin> set (quote '' '' s)" by (rule quote_excludes) (simp_all add: always_safe_def)
  then show ?thesis
    using True by (simp add: quote_plus_def unquote_plus_def replace_char_back unquote_quote)
next
  case False
  have "CHR ''+'' \<notin> set (quote [] s)" by (rule quote_excludes) (simp_all add: always_safe_def)
  then show ?thesis
    using False by (simp add: quote_plus_def unquote_plus_def replace_char_id unquote_quote)
qed

lemma quote_plus_excludes:
  assumes "d \<notin> set always_safe" "d \<noteq> CHR ''%''" "d \<noteq> CHR ''+''"
  shows "d \<notin> set (quote_plus s)"
proof (cases "CHR '' '' \<in> set s")
  case True
  have "d \<notin> set (quote '' '' s) \<or> d = CHR '' ''"
    using quote_excludes [of d "'' ''" s] assms by auto
  then show ?thesis
    using True set_replace_char [of "CHR '' ''" "CHR ''+''" "quote '' '' s"] assms
    by (auto simp: quote_plus_def)
next
  case False
  then show ?thesis using quote_excludes [of d "[]" s] assms by (simp add: quote_plus_def)
qed

lemma quote_Nil [simp]: "quote safe s = [] \<longleftrightarrow> s = []"
  by (cases s) (auto simp: quote_def pct_encode_def)

lemma quote_plus_Nil [simp]: "quote_plus s = [] \<longleftrightarrow> s = []"
  by (simp add: quote_plus_def replace_char_def)

lemma split_once_sep: "c \<notin> set xs \<Longrightarrow> split_once c (xs @ c # ys) = (xs, ys)"
  by (induction xs) (auto simp: split_once_def)

lemma qs_field_seps:
  "CHR ''&'' \<notin> set (qs_field p)" "CHR '';'' \<notin> set (qs_field p)"
proof -
  have "CHR ''&'' \<notin> set (quote_plus s)" "CHR '';'' \<notin> set (quote_plus s)" for s
    by (rule quote_plus_excludes; simp add: always_safe_def)+
  then show "CHR ''&'' \<notin> set (qs_field p)" "CHR '';'' \<notin> set (qs_field p)"
    by (simp_all add: qs_field_def)
qed

lemma split_once_qs_field:
  "split_once CHR ''='' (qs_field p) = (quote_plus (fst p), quote_plus (snd p))"
proof -
  have "CHR ''='' \<notin> set (quote_plus (fst p))"
    by (rule quote_plus_excludes) (simp_all add: always_safe_def)
  then show ?thesis by (simp add: qs_field_def split_once_sep)
qed

lemma parse_qs_fields_encoded:
  "\<forall>p\<in>set ps. snd p \<noteq> [] \<Longrightarrow> parse_qs_fields False False (map qs_field ps) = Inr ps"
proof (induction ps)
  case (Cons p ps)
  have "qs_field p \<noteq> []" "CHR ''='' \<in> set (qs_field p)" by (simp_all add: qs_field_def)
  with Cons show ?case
    by (simp add: split_once_qs_field unquote_plus_quote_plus)
qed simp

end
