(* ===== verification/Web.thy ===== *)
theory Web
  imports PyStr
begin

text \<open>
  The URL router of \<open>src/pony/web.py\<close>: the \<open>http\<close> decorator registers a handler
  function under a URL pattern (\<open>HttpInfo\<close>), \<open>get_http_handlers\<close> finds the handlers
  of a requested URL and the arguments to call them with, \<open>url\<close>/\<open>build_url\<close> build the
  URL of a function call, \<open>http_remove\<close> and \<open>http_clear\<close> unregister.

  The registry \<open>http_registry\<close> is a tree of pairs \<open>(dict, list)\<close>: the dict maps a
  path component (or \<open>None\<close> for a parameter) to the subtree, the list holds the
  handlers whose pattern ends there; it is the datatype \<open>reg\<close>, the dict an association
  list with unique keys. Every handler function carries the list \<open>func.http\<close> of its
  \<open>HttpInfo\<close>s (most recent first); the state \<open>wstate\<close> holds the registry, these lists
  by function identifier (\<open>None\<close> when the function has no \<open>http\<close> attribute) and a
  counter that gives each \<open>HttpInfo\<close> its object identity. A handler's signature
  (\<open>inspect.getargspec\<close>) is the record \<open>argspec\<close>, its defaults already encoded as the
  code does (\<open>unicode(value).encode('utf8')\<close>); argument values are strings or \<open>None\<close>.
\<close>

section \<open>URL components (\<open>re_component\<close>, \<open>parse_component\<close>, \<open>adjust\<close>)\<close>

definition is_digit :: "char \<Rightarrow> bool" where
  "is_digit c \<longleftrightarrow> c \<in> set ''0123456789''"

definition is_word_start :: "char \<Rightarrow> bool" where
  "is_word_start c \<longleftrightarrow> c \<in> set ''ABCDEFGHIJKLMNOPQRSTUVWXYZabcdefghijklmnopqrstuvwxyz_''"

definition is_word :: "char \<Rightarrow> bool" where
  "is_word c \<longleftrightarrow> is_word_start c \<or> is_digit c"

text \<open>Group 3 of \<open>re_component\<close>: a sequence of \<open>$$\<close> and characters other than \<open>$\<close>.\<close>

fun lit_ok :: "string \<Rightarrow> bool" where
  "lit_ok [] = True"
| "lit_ok (c # cs) =
     (if c = CHR ''$'' then (case cs of d # ds \<Rightarrow> d = CHR ''$'' \<and> lit_ok ds | [] \<Rightarrow> False)
      else lit_ok cs)"

text \<open>\<open>.replace('$$', '$')\<close>.\<close>

fun undollar :: "string \<Rightarrow> string" where
  "undollar [] = []"
| "undollar (c # cs) =
     (case cs of
        d # ds \<Rightarrow> if c = CHR ''$'' \<and> d = CHR ''$'' then CHR ''$'' # undollar ds else c # undollar cs
      | [] \<Rightarrow> [c])"

text \<open>The regular expression's \<open>$\<close> also matches before a final newline.\<close>

definition strip_nl :: "string \<Rightarrow> string" where
  "strip_nl r = (if r \<noteq> [] \<and> last r = CHR 0x0A then butlast r else r)"

datatype cmatch = MIndex string | MName string | MPath string

text \<open>
  \<open>re_component.match\<close> and \<open>match.lastindex\<close>: \<open>$\<close> and digits (group 1), \<open>$\<close> and an
  identifier (group 2), otherwise a path component (group 3), otherwise no match.
\<close>

definition re_component :: "string \<Rightarrow> cmatch option" where
  "re_component s =
     (let r = strip_nl (tl s)
      in if s \<noteq> [] \<and> hd s = CHR ''$'' \<and> r \<noteq> [] \<and> list_all is_digit r then Some (MIndex r)
         else if s \<noteq> [] \<and> hd s = CHR ''$'' \<and> r \<noteq> [] \<and> is_word_start (hd r) \<and> list_all is_word r
         then Some (MName r)
         else if lit_ok s then Some (MPath s) else None)"

definition digits_val :: "string \<Rightarrow> nat" where
  "digits_val ds = foldl (\<lambda>n c. 10 * n + (of_char c - 48)) 0 ds"

datatype pkey = Idx nat | Key string

datatype pcomp = Lit string | Par pkey

record argspec =
  as_names :: "string list"
  as_varargs :: "string option"
  as_varkw :: "string option"
  as_defaults :: "string option list"

text \<open>\<open>self.args\<close> and \<open>self.keyargs\<close> while a pattern is parsed.\<close>

type_synonym pstate = "nat list \<times> string list"

fun index_of :: "'a list \<Rightarrow> 'a \<Rightarrow> nat" where
  "index_of [] x = 0"
| "index_of (y # ys) x = (if y = x then 0 else Suc (index_of ys x))"

text \<open>\<open>HttpInfo.adjust\<close> (lines 102--124) on a parameter number (already less one).\<close>

definition adjust_index :: "argspec \<Rightarrow> int \<Rightarrow> pstate \<Rightarrow> (pkey \<times> pstate) result" where
  "adjust_index sp x st =
     (let (args, keyargs) = st
      in if x < 0 \<or> x \<ge> int (length (as_names sp)) \<and> as_varargs sp = None
         then Inl (TypeError ''Invalid parameter index'')
         else if nat x \<in> set args then Inl (TypeError ''Parameter index already in use'')
         else Inr (Idx (nat x), (List.insert (nat x) args, keyargs)))"

text \<open>\<open>HttpInfo.adjust\<close> on a parameter name.\<close>

definition adjust_name :: "argspec \<Rightarrow> string \<Rightarrow> pstate \<Rightarrow> (pkey \<times> pstate) result" where
  "adjust_name sp x st =
     (let (args, keyargs) = st
      in if x \<in> set (as_names sp) then
           (let i = index_of (as_names sp) x
            in if i \<in> set args then Inl (TypeError ''Parameter name already in use'')
               else Inr (Idx i, (List.insert i args, keyargs)))
         else if as_varkw sp = None \<or> x \<in> set keyargs then Inl (TypeError ''Invalid parameter name'')
         else Inr (Key x, (args, List.insert x keyargs)))"

text \<open>\<open>HttpInfo.parse_component\<close> (lines 94--101).\<close>

definition parse_component :: "argspec \<Rightarrow> string \<Rightarrow> pstate \<Rightarrow> (pcomp \<times> pstate) result" where
  "parse_component sp c st =
     (case re_component c of
        None \<Rightarrow> Inl (ValueError ''Invalid url component'')
      | Some (MIndex ds) \<Rightarrow>
          rbind (adjust_index sp (int (digits_val ds) - 1) st) (\<lambda>(k, st'). Inr (Par k, st'))
      | Some (MName n) \<Rightarrow> rbind (adjust_name sp n st) (\<lambda>(k, st'). Inr (Par k, st'))
      | Some (MPath p) \<Rightarrow> Inr (Lit (undollar p), st))"

fun parse_components :: "argspec \<Rightarrow> string list \<Rightarrow> pstate \<Rightarrow> (pcomp list \<times> pstate) result" where
  "parse_components sp [] st = Inr ([], st)"
| "parse_components sp (c # cs) st =
     rbind (parse_component sp c st) (\<lambda>(p, st1).
     rbind (parse_components sp cs st1) (\<lambda>(ps, st2). Inr (p # ps, st2)))"

text \<open>\<open>path.split('/')\<close> without a leading empty component.\<close>

definition path_components :: "string \<Rightarrow> string list" where
  "path_components path = (let cs = split_char CHR ''/'' path in if hd cs = [] then tl cs else cs)"

text \<open>\<open>HttpInfo.parse_path\<close> (lines 82--85).\<close>

definition parse_path :: "argspec \<Rightarrow> string \<Rightarrow> pstate \<Rightarrow> (pcomp list \<times> pstate) result" where
  "parse_path sp path st = parse_components sp (map unquote (path_components path)) st"

fun parse_query_items ::
  "argspec \<Rightarrow> (string \<times> string) list \<Rightarrow> pstate \<Rightarrow> ((string \<times> pcomp) list \<times> pstate) result" where
  "parse_query_items sp [] st = Inr ([], st)"
| "parse_query_items sp ((n, v) # ps) st =
     rbind (parse_component sp v st) (\<lambda>(p, st1).
     rbind (parse_query_items sp ps st1) (\<lambda>(qs, st2). Inr ((n, p) # qs, st2)))"

text \<open>\<open>HttpInfo.parse_query\<close> (lines 86--93): strict parsing, blank values kept.\<close>

definition parse_query ::
  "argspec \<Rightarrow> string option \<Rightarrow> pstate \<Rightarrow> ((string \<times> pcomp) list \<times> pstate) result" where
  "parse_query sp q st =
     (case q of None \<Rightarrow> Inr ([], st)
      | Some qs \<Rightarrow> rbind (parse_qsl True True qs) (\<lambda>ps. parse_query_items sp ps st))"

text \<open>
  \<open>HttpInfo.check\<close> (lines 125--134): every parameter without a default is bound, and
  the extra positional parameters bound are contiguous.
\<close>

definition check_params :: "argspec \<Rightarrow> nat list \<Rightarrow> unit result" where
  "check_params sp args =
     (let names = as_names sp; req = length names - length (as_defaults sp)
      in if \<not> list_all (\<lambda>i. i \<in> set args) [0..<req]
         then Inl (TypeError ''Undefined path parameter'')
         else if args \<noteq> [] \<and> \<not> list_all (\<lambda>i. i \<in> set args) [length names..<Max (set args)]
         then Inl (TypeError ''Undefined path parameter'')
         else Inr ())"

section \<open>The registry (\<open>HttpInfo\<close>, \<open>register\<close>)\<close>

record hinfo =
  hi_id :: nat
  hi_func :: nat
  hi_url :: string
  hi_ext :: "string list"
  hi_params :: "(string \<times> string) list"
  hi_spec :: argspec
  hi_args :: "nat list"
  hi_keyargs :: "string list"
  hi_path :: "pcomp list"
  hi_query :: "(string \<times> pcomp) list"

datatype reg = Reg "(string option \<times> reg) list" "hinfo list"

record wstate =
  w_reg :: reg
  w_http :: "nat \<Rightarrow> hinfo list option"
  w_next :: nat

definition comp_key :: "pcomp \<Rightarrow> string option" where
  "comp_key c = (case c of Lit x \<Rightarrow> Some x | Par _ \<Rightarrow> None)"

text \<open>\<open>d[k] = v\<close> on a dict kept as an association list with unique keys.\<close>

fun assoc_set :: "'k \<Rightarrow> 'v \<Rightarrow> ('k \<times> 'v) list \<Rightarrow> ('k \<times> 'v) list" where
  "assoc_set k v [] = [(k, v)]"
| "assoc_set k v ((k', v') # ps) = (if k = k' then (k, v) # ps else (k', v') # assoc_set k v ps)"

text \<open>The walk of \<open>register\<close> (lines 135--145): \<open>dict.setdefault\<close> down the keys, then append.\<close>

fun reg_insert :: "string option list \<Rightarrow> hinfo \<Rightarrow> reg \<Rightarrow> reg" where
  "reg_insert [] h (Reg d l) = Reg d (l @ [h])"
| "reg_insert (k # ks) h (Reg d l) =
     Reg (assoc_set k (reg_insert ks h (case map_of d k of Some r \<Rightarrow> r | None \<Rightarrow> Reg [] [])) d) l"

definition func_http :: "wstate \<Rightarrow> nat \<Rightarrow> hinfo list" where
  "func_http st f = (case w_http st f of None \<Rightarrow> [] | Some hs \<Rightarrow> hs)"

text \<open>\<open>HttpInfo.register\<close>: \<open>func.http.insert(0, self)\<close> and \<open>list.append(self)\<close>.\<close>

definition register :: "hinfo \<Rightarrow> wstate \<Rightarrow> wstate" where
  "register h st =
     st\<lparr>w_reg := reg_insert (map comp_key (hi_path h)) h (w_reg st),
        w_http := (w_http st)(hi_func h := Some (h # func_http st (hi_func h)))\<rparr>"

datatype extarg = ExtNone | ExtStr string | ExtList "string list"

text \<open>\<open>self.ext\<close> (lines 45--53): the URL's own extension, then the \<open>ext\<close> argument, else \<open>''\<close>.\<close>

definition ext_list :: "string \<Rightarrow> extarg \<Rightarrow> string list" where
  "ext_list e0 ext =
     (let xs = (if e0 \<noteq> [] then [e0] else []) @
               (case ext of ExtNone \<Rightarrow> [] | ExtStr e \<Rightarrow> [e] | ExtList es \<Rightarrow> es)
      in if xs = [] then [[]] else xs)"

definition is_ascii :: "string \<Rightarrow> bool" where
  "is_ascii s \<longleftrightarrow> list_all (\<lambda>c. of_char c < (128::nat)) s"

text \<open>\<open>url.split('?', 1)\<close> when the URL has a query.\<close>

definition split_query :: "string \<Rightarrow> string \<times> string option" where
  "split_query url =
     (if CHR ''?'' \<in> set url then (fst (split_once CHR ''?'' url), Some (snd (split_once CHR ''?'' url)))
      else (url, None))"

text \<open>\<open>HttpInfo.__init__\<close> (lines 35--62) for a URL given as a byte string.\<close>

definition http_info ::
  "nat \<Rightarrow> argspec \<Rightarrow> string \<Rightarrow> extarg \<Rightarrow> (string \<times> string) list \<Rightarrow> wstate \<Rightarrow> (hinfo \<times> wstate) result" where
  "http_info f sp url ext params st =
     (if \<not> is_ascii url then Inl (ValueError ''Url string contains non-ascii symbols'')
      else
        (let (path0, query) = split_query url; (path, e0) = splitext path0
         in rbind (parse_path sp path ([], [])) (\<lambda>(pp, st1).
            rbind (parse_query sp query st1) (\<lambda>(pq, st2).
            rbind (check_params sp (fst st2)) (\<lambda>_.
              (let h = \<lparr>hi_id = w_next st, hi_func = f, hi_url = url, hi_ext = ext_list e0 ext,
                        hi_params = params, hi_spec = sp, hi_args = fst st2, hi_keyargs = snd st2,
                        hi_path = pp, hi_query = pq\<rparr>
               in Inr (h, register h (st\<lparr>w_next := Suc (w_next st)\<rparr>))))))))"

text \<open>\<open>str.title()\<close> on ASCII: a letter after a letter is lower case, any other letter upper case.\<close>

fun title_from :: "bool \<Rightarrow> string \<Rightarrow> string" where
  "title_from prev [] = []"
| "title_from prev (c # cs) =
     (let n = (of_char c :: nat)
      in if 65 \<le> n \<and> n \<le> 90 then (if prev then char_of (n + 32) else c) # title_from True cs
         else if 97 \<le> n \<and> n \<le> 122 then (if prev then c else char_of (n - 32)) # title_from True cs
         else c # title_from False cs)"

text \<open>
  The \<open>http\<close> decorator (lines 19--29): the pattern defaults to the function's name, the
  header names are rewritten (\<open>_\<close> to \<open>-\<close>, then title case), and the handler is registered.
\<close>

definition http_decorate ::
  "nat \<Rightarrow> string \<Rightarrow> argspec \<Rightarrow> string option \<Rightarrow> extarg \<Rightarrow> (string \<times> string) list \<Rightarrow> wstate \<Rightarrow>
   (hinfo \<times> wstate) result" where
  "http_decorate f fname sp u ext params st =
     http_info f sp (case u of None \<Rightarrow> fname | Some x \<Rightarrow> x) ext
       (map (\<lambda>(n, v). (title_from False (replace_char CHR ''_'' CHR ''-'' n), v)) params) st"

section \<open>Dispatch (\<open>get_http_handlers\<close>, \<open>invoke\<close>)\<close>

definition reg_child :: "reg \<Rightarrow> string option \<Rightarrow> reg option" where
  "reg_child r k = (case r of Reg d _ \<Rightarrow> map_of d k)"

definition reg_list :: "reg \<Rightarrow> hinfo list" where
  "reg_list r = (case r of Reg _ l \<Rightarrow> l)"

text \<open>One step of the walk (lines 259--267): the child of the component, then the parameter child.\<close>

definition variants_step :: "string \<Rightarrow> reg list \<Rightarrow> reg list" where
  "variants_step c vs =
     concat (map (\<lambda>r. (case reg_child r (Some c) of Some v \<Rightarrow> [v] | None \<Rightarrow> []) @
                     (case reg_child r None of Some v \<Rightarrow> [v] | None \<Rightarrow> [])) vs)"

definition variants :: "string list \<Rightarrow> reg \<Rightarrow> reg list" where
  "variants comps r = foldl (\<lambda>vs c. variants_step c vs) [r] comps"

text \<open>The path parameters of a handler take the components at their positions (lines 275--281).\<close>

fun bind_path ::
  "pcomp list \<Rightarrow> string list \<Rightarrow> (nat \<times> string) list \<Rightarrow> (string \<times> string) list \<Rightarrow>
   (nat \<times> string) list \<times> (string \<times> string) list" where
  "bind_path (Par (Idx x) # ps) (c # cs) a k = bind_path ps cs (assoc_set x c a) k"
| "bind_path (Par (Key x) # ps) (c # cs) a k = bind_path ps cs a (assoc_set x c k)"
| "bind_path (Lit _ # ps) (c # cs) a k = bind_path ps cs a k"
| "bind_path _ _ a k = (a, k)"

text \<open>
  The query loop of lines 284--296; \<open>None\<close> is its \<open>break\<close>: a literal that differs, a
  missing keyword parameter, a missing positional parameter without a default.
\<close>

fun match_query ::
  "int \<Rightarrow> nat \<Rightarrow> (string \<Rightarrow> string option) \<Rightarrow> (string \<times> pcomp) list \<Rightarrow>
   (nat \<times> string) list \<Rightarrow> (string \<times> string) list \<Rightarrow>
   ((nat \<times> string) list \<times> (string \<times> string) list) option" where
  "match_query off n params [] a k = Some (a, k)"
| "match_query off n params ((name, Lit x) # qs) a k =
     (if params name \<noteq> Some x then None else match_query off n params qs a k)"
| "match_query off n params ((name, Par (Idx x)) # qs) a k =
     (case params name of
        None \<Rightarrow> if off \<le> int x \<and> x < n then match_query off n params qs a k else None
      | Some v \<Rightarrow> match_query off n params qs (assoc_set x v a) k)"
| "match_query off n params ((name, Par (Key x)) # qs) a k =
     (case params name of
        None \<Rightarrow> None
      | Some v \<Rightarrow> match_query off n params qs a (assoc_set x v k))"

text \<open>
  \<open>arglist = [None] * len(names); arglist[-len(defaults):] = defaults\<close>: with no
  defaults the slice \<open>[-0:]\<close> is the whole list, which becomes empty.
\<close>

definition initial_arglist :: "argspec \<Rightarrow> string option list" where
  "initial_arglist sp =
     (if as_defaults sp = [] then []
      else replicate (length (as_names sp) - length (as_defaults sp)) None @ as_defaults sp)"

text \<open>Lines 298--304: each bound argument in the order of its index, appended past the end.\<close>

fun fill_args :: "string option list \<Rightarrow> (nat \<times> string) list \<Rightarrow> string option list result" where
  "fill_args al [] = Inr al"
| "fill_args al ((i, v) # rest) =
     (if i < length al then fill_args (al[i := Some v]) rest
      else if i = length al then fill_args (al @ [Some v]) rest
      else Inl AssertionError)"

definition spec_offset :: "argspec \<Rightarrow> int" where
  "spec_offset sp = int (length (as_names sp)) - int (length (as_defaults sp))"

type_synonym handler = "hinfo \<times> string option list \<times> (string \<times> string) list"

text \<open>One handler of a reached list (lines 272--305); \<open>None\<close> when it is skipped.\<close>

definition match_handler ::
  "string list \<Rightarrow> string \<Rightarrow> (string \<Rightarrow> string option) \<Rightarrow> hinfo \<Rightarrow> handler option result" where
  "match_handler comps ext params h =
     (if ext \<notin> set (hi_ext h) then Inr None
      else
        (let (a, k) = bind_path (hi_path h) comps [] []; sp = hi_spec h
         in case match_query (spec_offset sp) (length (as_names sp)) params (hi_query h) a k of
              None \<Rightarrow> Inr None
            | Some (a', k') \<Rightarrow>
                rbind (fill_args (initial_arglist sp) (sort_key fst a')) (\<lambda>al. Inr (Some (h, al, k')))))"

text \<open>\<open>map(urllib.unquote, path.split('/'))\<close> without a leading empty component (lines 254--255).\<close>

definition url_components :: "string \<Rightarrow> string list" where
  "url_components path =
     (let cs = map unquote (split_char CHR ''/'' path) in if hd cs = [] then tl cs else cs)"

text \<open>\<open>get_http_handlers\<close> (lines 245--306).\<close>

definition get_http_handlers :: "wstate \<Rightarrow> string \<Rightarrow> handler list result" where
  "get_http_handlers st url =
     (let (path0, query) = split_query url
      in rbind (case query of None \<Rightarrow> Inr []
                | Some q \<Rightarrow> parse_qsl False False q) (\<lambda>ps.
           (let params = map_of ps; (path, ext) = splitext path0; comps = url_components path;
                infos = concat (map reg_list (variants comps (w_reg st)))
            in rbind (rmap (match_handler comps ext params) infos) (\<lambda>rs. Inr (List.map_filter id rs)))))"

text \<open>\<open>invoke\<close> (lines 308--313) up to the call: the first handler, or \<open>Http404\<close>.\<close>

definition invoke_target :: "wstate \<Rightarrow> string \<Rightarrow> handler result" where
  "invoke_target st url =
     rbind (get_http_handlers st url) (\<lambda>hs. case hs of [] \<Rightarrow> Inl Http404 | h # _ \<Rightarrow> Inr h)"

section \<open>URL construction (\<open>url\<close>, \<open>build_url\<close>)\<close>

text \<open>
  \<open>func.dummy_func(*args, **keyargs)\<close> (lines 163--169): Python's binding of a call to
  the handler's signature. Too many positional arguments, a keyword naming a parameter
  already bound by position, an unknown keyword without \<open>**\<close>, and a parameter left
  unbound without default raise \<open>TypeError\<close>. The result is \<open>indexparams\<close> (the named
  parameters in order, then the extra positional arguments) and \<open>keyparams\<close> (the
  remaining keywords).
\<close>

definition bind_call ::
  "argspec \<Rightarrow> string option list \<Rightarrow> (string \<times> string option) list \<Rightarrow>
   (string option list \<times> (string \<times> string option) list) result" where
  "bind_call sp pos kw =
     (let names = as_names sp; n = length names; req = n - length (as_defaults sp);
          vals = map (\<lambda>i. if i < length pos then Some (pos ! i)
                          else case map_of kw (names ! i) of
                                 Some v \<Rightarrow> Some v
                               | None \<Rightarrow> if req \<le> i then Some (as_defaults sp ! (i - req)) else None)
                     [0..<n]
      in if length pos > n \<and> as_varargs sp = None then Inl (TypeError ''takes at most n arguments'')
         else if list_ex (\<lambda>p. fst p \<in> set (take (length pos) names)) kw
         then Inl (TypeError ''got multiple values for keyword argument'')
         else if as_varkw sp = None \<and> list_ex (\<lambda>p. fst p \<notin> set names) kw
         then Inl (TypeError ''got an unexpected keyword argument'')
         else if None \<in> set vals then Inl (TypeError ''takes at least n arguments'')
         else Inr (map the vals @ drop n pos, filter (\<lambda>p. fst p \<notin> set names) kw))"

definition ascii_opt :: "string option \<Rightarrow> bool" where
  "ascii_opt v = (case v of None \<Rightarrow> True | Some s \<Rightarrow> is_ascii s)"

type_synonym used = "nat list \<times> string list"

text \<open>\<open>build_param\<close> (lines 183--194): the value and whether it is the parameter's default.\<close>

definition build_param ::
  "argspec \<Rightarrow> string option list \<Rightarrow> (string \<times> string option) list \<Rightarrow> pkey \<Rightarrow> used \<Rightarrow>
   ((bool \<times> string option) \<times> used) result" where
  "build_param sp ip kp x u =
     (case x of
        Idx i \<Rightarrow>
          if i < length ip then
            (let v = ip ! i; off = spec_offset sp
             in Inr ((off \<le> int i \<and> i < length (as_names sp) \<and> as_defaults sp ! nat (int i - off) = v, v),
                     (List.insert i (fst u), snd u)))
          else Inl IndexError
      | Key s \<Rightarrow>
          (case map_of kp s of
             None \<Rightarrow> Inl AssertionError
           | Some v \<Rightarrow> Inr ((False, v), (fst u, List.insert s (snd u)))))"

definition path_safe :: "char list" where
  "path_safe = '':@&=+$,''"

text \<open>The path loop (lines 196--202).\<close>

fun build_path ::
  "argspec \<Rightarrow> string option list \<Rightarrow> (string \<times> string option) list \<Rightarrow> pcomp list \<Rightarrow> used \<Rightarrow>
   (string list \<times> used) result" where
  "build_path sp ip kp [] u = Inr ([], u)"
| "build_path sp ip kp (Lit x # ps) u =
     rbind (build_path sp ip kp ps u) (\<lambda>(cs, u1). Inr (quote path_safe x # cs, u1))"
| "build_path sp ip kp (Par x # ps) u =
     rbind (build_param sp ip kp x u) (\<lambda>((_, v), u1).
       case v of
         None \<Rightarrow> Inl (PathError ''Value for parameter is None'')
       | Some c \<Rightarrow> rbind (build_path sp ip kp ps u1) (\<lambda>(cs, u2). Inr (quote path_safe c # cs, u2)))"

text \<open>The query loop (lines 204--211): a parameter at its default is left out.\<close>

fun build_query ::
  "argspec \<Rightarrow> string option list \<Rightarrow> (string \<times> string option) list \<Rightarrow> (string \<times> pcomp) list \<Rightarrow> used \<Rightarrow>
   ((string \<times> string) list \<times> used) result" where
  "build_query sp ip kp [] u = Inr ([], u)"
| "build_query sp ip kp ((name, Lit x) # qs) u =
     rbind (build_query sp ip kp qs u) (\<lambda>(ps, u1). Inr ((name, x) # ps, u1))"
| "build_query sp ip kp ((name, Par x) # qs) u =
     rbind (build_param sp ip kp x u) (\<lambda>((is_default, v), u1).
       if is_default then build_query sp ip kp qs u1
       else case v of
              None \<Rightarrow> Inl (PathError ''Value for parameter is None'')
            | Some c \<Rightarrow> rbind (build_query sp ip kp qs u1) (\<lambda>(ps, u2). Inr ((name, c) # ps, u2)))"

text \<open>
  Lines 216--223: an index parameter the URL does not use must equal its default;
  \<open>defaults[i-offset]\<close> is Python indexing (negative indices wrap, out of range raises).
\<close>

fun check_unused :: "argspec \<Rightarrow> nat list \<Rightarrow> nat \<Rightarrow> string option list \<Rightarrow> unit result" where
  "check_unused sp used i [] = Inr ()"
| "check_unused sp used i (v # vs) =
     (if i \<in> set used then check_unused sp used (Suc i) vs
      else rbind (py_index (as_defaults sp) (int i - spec_offset sp)) (\<lambda>d.
             if v \<noteq> d then Inl (PathError ''Not all parameters were used during path construction'')
             else check_unused sp used (Suc i) vs))"

definition check_used ::
  "argspec \<Rightarrow> string option list \<Rightarrow> (string \<times> string option) list \<Rightarrow> used \<Rightarrow> unit result" where
  "check_used sp ip kp u =
     (if length (snd u) \<noteq> length kp
      then Inl (PathError ''Not all parameters were used during path construction'')
      else if length (fst u) \<noteq> length ip then check_unused sp (fst u) 0 ip
      else Inr ())"

text \<open>\<open>build_url\<close> (lines 162--227).\<close>

definition build_url ::
  "hinfo \<Rightarrow> string option list \<Rightarrow> (string \<times> string option) list \<Rightarrow> string result" where
  "build_url h pos kw =
     (let sp = hi_spec h
      in rbind (bind_call sp pos kw) (\<lambda>(ip, kp).
           if \<not> (list_all ascii_opt ip \<and> list_all (\<lambda>p. ascii_opt (snd p)) kp)
           then Inl (ValueError ''Url parameter value contains non-ascii symbols'')
           else
             rbind (build_path sp ip kp (hi_path h) ([], [])) (\<lambda>(cs, u1).
             rbind (build_query sp ip kp (hi_query h) u1) (\<lambda>(qs, u2).
             rbind (check_used sp ip kp u2) (\<lambda>_.
               (let path = join_char CHR ''/'' cs; ext = hd (hi_ext h @ [[]]);
                    query = join_char CHR ''&'' (map qs_field qs)
                in Inr (if query = [] then CHR ''/'' # path @ ext
                        else CHR ''/'' # path @ ext @ CHR ''?'' # query)))))))"

text \<open>\<open>url\<close> (lines 149--160): the handler's patterns, most recent first, until one builds.\<close>

fun url_try :: "hinfo list \<Rightarrow> string option list \<Rightarrow> (string \<times> string option) list \<Rightarrow> string result" where
  "url_try [] pos kw = Inl (PathError ''Suitable url path not found'')"
| "url_try (h # hs) pos kw =
     (case build_url h pos kw of
        Inl (PathError _) \<Rightarrow> url_try hs pos kw
      | r \<Rightarrow> r)"

definition url :: "wstate \<Rightarrow> nat \<Rightarrow> string option list \<Rightarrow> (string \<times> string option) list \<Rightarrow> string result" where
  "url st f pos kw =
     (case w_http st f of
        None \<Rightarrow> Inl (AttributeError ''http'')
      | Some hs \<Rightarrow> url_try hs pos kw)"

section \<open>Unregistering (\<open>http_remove\<close>, \<open>http_clear\<close>)\<close>

text \<open>\<open>info.list.remove(info)\<close>: the list at the end of the handler's pattern.\<close>

fun reg_remove :: "string option list \<Rightarrow> hinfo \<Rightarrow> reg \<Rightarrow> reg result" where
  "reg_remove [] h (Reg d l) =
     (if h \<in> set l then Inr (Reg d (remove1 h l)) else Inl (ValueError ''list.remove(x): x not in list''))"
| "reg_remove (k # ks) h (Reg d l) =
     (case map_of d k of
        None \<Rightarrow> Inl (ValueError ''list.remove(x): x not in list'')
      | Some r \<Rightarrow> rbind (reg_remove ks h r) (\<lambda>r'. Inr (Reg (assoc_set k r' d) l)))"

text \<open>\<open>info.func.http.remove(info)\<close>.\<close>

definition http_list_remove :: "hinfo \<Rightarrow> wstate \<Rightarrow> wstate result" where
  "http_list_remove h st =
     (case w_http st (hi_func h) of
        None \<Rightarrow> Inl (AttributeError ''http'')
      | Some hs \<Rightarrow>
          if h \<in> set hs then Inr (st\<lparr>w_http := (w_http st)(hi_func h := Some (remove1 h hs))\<rparr>)
          else Inl (ValueError ''list.remove(x): x not in list''))"

fun remove_handlers :: "hinfo list \<Rightarrow> wstate \<Rightarrow> wstate result" where
  "remove_handlers [] st = Inr st"
| "remove_handlers (h # hs) st =
     rbind (reg_remove (map comp_key (hi_path h)) h (w_reg st)) (\<lambda>r.
     rbind (http_list_remove h (st\<lparr>w_reg := r\<rparr>)) (\<lambda>st1. remove_handlers hs st1))"

text \<open>\<open>http_remove(url)\<close> (lines 326--329): every handler of the URL.\<close>

definition http_remove_url :: "string \<Rightarrow> wstate \<Rightarrow> wstate result" where
  "http_remove_url u st = rbind (get_http_handlers st u) (\<lambda>hs. remove_handlers (map fst hs) st)"

text \<open>
  \<open>http_remove(func)\<close> (lines 330--333) as written: \<open>x.http[:] = []\<close> is inside the loop,
  so the loop stops after the first \<open>HttpInfo\<close>; only that one leaves the registry.
\<close>

definition http_remove_func :: "nat \<Rightarrow> wstate \<Rightarrow> wstate result" where
  "http_remove_func f st =
     (case w_http st f of
        None \<Rightarrow> Inl (ValueError ''This object is not bound to url'')
      | Some [] \<Rightarrow> Inr st
      | Some (h # _) \<Rightarrow>
          rbind (reg_remove (map comp_key (hi_path h)) h (w_reg st)) (\<lambda>r.
            Inr (st\<lparr>w_reg := r, w_http := (w_http st)(f := Some [])\<rparr>)))"

text \<open>The handlers of a registry in the order \<open>_http_clear\<close> visits them.\<close>

fun reg_infos :: "reg \<Rightarrow> hinfo list" where
  "reg_infos (Reg d l) = l @ concat (map (\<lambda>p. reg_infos (snd p)) d)"

fun http_lists_remove :: "hinfo list \<Rightarrow> wstate \<Rightarrow> wstate result" where
  "http_lists_remove [] st = Inr st"
| "http_lists_remove (h # hs) st = rbind (http_list_remove h st) (http_lists_remove hs)"

text \<open>\<open>http_clear\<close> (lines 339--348): every handler leaves its function's list, the registry empties.\<close>

definition http_clear :: "wstate \<Rightarrow> wstate result" where
  "http_clear st =
     rbind (http_lists_remove (reg_infos (w_reg st)) st) (\<lambda>st1. Inr (st1\<lparr>w_reg := Reg [] []\<rparr>))"

section \<open>Server address (\<open>parse_address\<close>)\<close>

definition is_ws :: "char \<Rightarrow> bool" where
  "is_ws c \<longleftrightarrow> c \<in> {CHR '' '', CHR 0x09, CHR 0x0A, CHR 0x0B, CHR 0x0C, CHR 0x0D}"

definition strip_ws :: "string \<Rightarrow> string" where
  "strip_ws s = rev (dropWhile is_ws (rev (dropWhile is_ws s)))"

text \<open>Python's \<open>int(s)\<close> on a string: surrounding blanks, an optional sign, decimal digits.\<close>

definition py_int :: "string \<Rightarrow> int result" where
  "py_int s =
     (let t = strip_ws s;
          (sg, ds) = (case t of
                        c # r \<Rightarrow> if c = CHR ''-'' then (-1, r) else if c = CHR ''+'' then (1, r) else (1, t)
                      | [] \<Rightarrow> (1, []))
      in if ds \<noteq> [] \<and> list_all is_digit ds then Inr (sg * int (digits_val ds))
         else Inl (ValueError ''invalid literal for int()''))"

text \<open>\<open>parse_address\<close> (lines 424--430) on a string address.\<close>

definition parse_address :: "string \<Rightarrow> (string \<times> int) result" where
  "parse_address a =
     (if CHR '':'' \<in> set a then
        (case split_char CHR '':'' a of
           [host, port] \<Rightarrow> rbind (py_int port) (\<lambda>p. Inr (host, p))
         | _ \<Rightarrow> Inl (ValueError ''too many values to unpack''))
      else Inr (a, 80))"

section \<open>Abstractions and examples\<close>

text \<open>
  \<open>reg_has ks h r\<close>: the handler \<open>h\<close> is in the list at the end of the key path \<open>ks\<close>
  (the set view of the trie); \<open>registered\<close> asks it at the handler's own pattern.
  \<open>dollar_escape\<close> writes a literal component the way a pattern must (\<open>$\<close> as \<open>$$\<close>).
  \<open>web_empty\<close> is the registry at import time (\<open>http_registry = ({}, [])\<close>, line 32);
  \<open>web_two\<close> registers function 1 under \<open>a/$id\<close> and then \<open>b/$id\<close>.
\<close>

fun reg_lookup :: "string option list \<Rightarrow> reg \<Rightarrow> reg option" where
  "reg_lookup [] r = Some r"
| "reg_lookup (k # ks) r = (case reg_child r k of None \<Rightarrow> None | Some r' \<Rightarrow> reg_lookup ks r')"

definition reg_has :: "string option list \<Rightarrow> hinfo \<Rightarrow> reg \<Rightarrow> bool" where
  "reg_has ks h r \<longleftrightarrow> (case reg_lookup ks r of None \<Rightarrow> False | Some n \<Rightarrow> h \<in> set (reg_list n))"

definition registered :: "wstate \<Rightarrow> hinfo \<Rightarrow> bool" where
  "registered st h \<longleftrightarrow> reg_has (map comp_key (hi_path h)) h (w_reg st)"

definition dollar_escape :: "string \<Rightarrow> string" where
  "dollar_escape x = concat (map (\<lambda>c. if c = CHR ''$'' then ''$$'' else [c]) x)"

definition web_empty :: wstate where
  "web_empty = \<lparr>w_reg = Reg [] [], w_http = (\<lambda>_. None), w_next = 0\<rparr>"

definition spec_id :: argspec where
  "spec_id = \<lparr>as_names = [''id''], as_varargs = None, as_varkw = None, as_defaults = []\<rparr>"

definition spec_none :: argspec where
  "spec_none = \<lparr>as_names = [], as_varargs = None, as_varkw = None, as_defaults = []\<rparr>"

definition web_one :: wstate where
  "web_one = snd (projr (http_info 1 spec_id ''a/$id'' ExtNone [] web_empty))"

definition web_two :: wstate where
  "web_two = snd (projr (http_info 1 spec_id ''b/$id'' ExtNone [] web_one))"

lemma map_of_assoc_set [simp]: "map_of (assoc_set k v d) = (map_of d)(k \<mapsto> v)"
  by (induction d) (auto simp: fun_eq_iff)

lemma reg_has_Nil [simp]: "reg_has [] h (Reg d l) \<longleftrightarrow> h \<in> set l"
  by (simp add: reg_has_def reg_list_def)

lemma reg_has_Cons [simp]:
  "reg_has (k # ks) h (Reg d l) \<longleftrightarrow> (case map_of d k of None \<Rightarrow> False | Some r \<Rightarrow> reg_has ks h r)"
  by (simp add: reg_has_def reg_child_def split: option.splits)

lemma reg_has_empty [simp]: "\<not> reg_has ks h (Reg [] [])"
  by (cases ks) simp_all

lemma reg_has_insert:
  "reg_has ks' h' (reg_insert ks h r) \<longleftrightarrow> reg_has ks' h' r \<or> ks' = ks \<and> h' = h"
proof (induction ks h r arbitrary: ks' rule: reg_insert.induct)
  case (1 h d l)
  then show ?case by (cases ks') auto
next
  case (2 k ks h d l)
  then show ?case by (cases ks') (auto split: option.splits)
qed

lemma reg_has_remove:
  "reg_remove ks h r = Inr r' \<Longrightarrow> reg_has ks' h' r \<Longrightarrow> ks' \<noteq> ks \<or> h' \<noteq> h \<Longrightarrow> reg_has ks' h' r'"
proof (induction ks h r arbitrary: ks' r' rule: reg_remove.induct)
  case (1 h d l)
  then show ?case by (cases ks') (auto split: if_splits simp: in_set_remove1)
next
  case (2 k ks h d l)
  then show ?case by (cases ks') (auto split: option.splits)
qed

section \<open>Registration\<close>

lemma http_info_Inr:
  assumes "http_info f sp u e ps st = Inr (h, st')"
  shows "st' = register h (st\<lparr>w_next := Suc (w_next st)\<rparr>) \<and> hi_func h = f \<and> hi_spec h = sp \<and>
         (\<exists>path q a k a' k'. parse_path sp path ([], []) = Inr (hi_path h, (a, k)) \<and>
            parse_query sp q (a, k) = Inr (hi_query h, (a', k')) \<and> hi_args h = a' \<and>
            check_params sp a' = Inr ())"
  using assms
  by (auto simp: http_info_def Let_def split: prod.splits if_splits; blast)

lemma registered_register:
  "registered (register h st) h' \<longleftrightarrow> registered st h' \<or> h' = h"
  by (auto simp: registered_def register_def reg_has_insert)

lemma registered_next [simp]: "registered (st\<lparr>w_next := n\<rparr>) h = registered st h"
  by (simp add: registered_def)

text \<open>
  C16: registering a handler (\<open>HttpInfo.__init__\<close>) files it in the registry at the end of its own pattern, keeps every handler registered before, and puts it first in its function's \<open>http\<close> list.
\<close>

theorem http_info_registers:
  "http_info f sp u e ps st = Inr (h, st') \<Longrightarrow>
   registered st' h \<and> (\<forall>h'. registered st h' \<longrightarrow> registered st' h') \<and> func_http st' f = h # func_http st f"
proof -
  assume "http_info f sp u e ps st = Inr (h, st')"
  from http_info_Inr [OF this] have st': "st' = register h (st\<lparr>w_next := Suc (w_next st)\<rparr>)"
    and f: "hi_func h = f" by blast+
  then show ?thesis by (simp add: registered_register) (simp add: register_def func_http_def)
qed

section \<open>Parameters bound by a pattern\<close>

lemma adjust_index_args:
  "adjust_index sp x (a, k) = Inr (p, (a', k')) \<Longrightarrow> \<exists>i. p = Idx i \<and> set a' = insert i (set a)"
  by (auto simp: adjust_index_def split: if_splits)

lemma adjust_name_args:
  "adjust_name sp x (a, k) = Inr (p, (a', k')) \<Longrightarrow>
   (\<exists>i. p = Idx i \<and> set a' = insert i (set a)) \<or> (\<exists>s. p = Key s \<and> a' = a)"
  by (auto simp: adjust_name_def Let_def split: if_splits)

lemma parse_component_args:
  "parse_component sp c (a, k) = Inr (p, (a', k')) \<Longrightarrow> set a' = set a \<union> {i. p = Par (Idx i)}"
  by (auto simp: parse_component_def split: option.splits cmatch.splits
           dest!: adjust_index_args adjust_name_args)

lemma parse_components_args:
  "parse_components sp cs (a, k) = Inr (ps, (a', k')) \<Longrightarrow> set a' = set a \<union> {i. Par (Idx i) \<in> set ps}"
proof (induction cs arbitrary: a k ps)
  case (Cons c cs)
  then obtain p a1 k1 ps' where p: "parse_component sp c (a, k) = Inr (p, (a1, k1))"
    and ps': "parse_components sp cs (a1, k1) = Inr (ps', (a', k'))" and ps: "ps = p # ps'"
    by (auto split: prod.splits)
  from parse_component_args [OF p] Cons.IH [OF ps'] ps show ?case by auto
qed simp

lemma parse_query_items_args:
  "parse_query_items sp qs (a, k) = Inr (pq, (a', k')) \<Longrightarrow>
   set a' = set a \<union> {i. Par (Idx i) \<in> snd ` set pq}"
proof (induction qs arbitrary: a k pq)
  case (Cons q qs)
  obtain n v where q: "q = (n, v)" by (cases q)
  with Cons obtain p a1 k1 pq' where p: "parse_component sp v (a, k) = Inr (p, (a1, k1))"
    and pq': "parse_query_items sp qs (a1, k1) = Inr (pq', (a', k'))" and pq: "pq = (n, p) # pq'"
    by (auto split: prod.splits)
  from parse_component_args [OF p] Cons.IH [OF pq'] pq show ?case by auto
qed simp

lemma parse_query_args:
  "parse_query sp q (a, k) = Inr (pq, (a', k')) \<Longrightarrow> set a' = set a \<union> {i. Par (Idx i) \<in> snd ` set pq}"
  by (auto simp: parse_query_def split: option.splits dest!: parse_query_items_args)

lemma check_params_req:
  "check_params sp a = Inr () \<Longrightarrow> i < length (as_names sp) - length (as_defaults sp) \<Longrightarrow> i \<in> set a"
  by (auto simp: check_params_def Let_def list_all_iff split: if_splits)

text \<open>
  C17: a pattern is accepted only if it binds every parameter of the handler that has no default: each such parameter occurs as a path or a query parameter of the registered pattern.
\<close>

theorem http_info_binds_required:
  "http_info f sp u e ps st = Inr (h, st') \<Longrightarrow> i < length (as_names sp) - length (as_defaults sp) \<Longrightarrow>
   Par (Idx i) \<in> set (hi_path h) \<or> Par (Idx i) \<in> snd ` set (hi_query h)"
proof -
  assume hi: "http_info f sp u e ps st = Inr (h, st')" and i: "i < length (as_names sp) - length (as_defaults sp)"
  from http_info_Inr [OF hi] obtain path q a k a' k' where
    pp: "parse_path sp path ([], []) = Inr (hi_path h, (a, k))" and
    pq: "parse_query sp q (a, k) = Inr (hi_query h, (a', k'))" and ch: "check_params sp a' = Inr ()"
    by (elim conjE exE) blast
  have "set a = {i. Par (Idx i) \<in> set (hi_path h)}"
    using parse_components_args pp by (fastforce simp: parse_path_def)
  moreover have "set a' = set a \<union> {i. Par (Idx i) \<in> snd ` set (hi_query h)}"
    by (rule parse_query_args [OF pq])
  moreover have "i \<in> set a'" by (rule check_params_req [OF ch i])
  ultimately show ?thesis by auto
qed

section \<open>Unregistering\<close>

text \<open>
  C18: \<open>http_remove(func)\<close> unregisters only the first pattern of a function: when the function has a second registered pattern, that one stays in the registry (and is still dispatched to) while the function's \<open>http\<close> list is emptied.
\<close>

theorem http_remove_func_leaves_registered:
  assumes f: "w_http st f = Some (h1 # hs)" and h2: "h2 \<in> set hs" "registered st h2" "h2 \<noteq> h1"
    and rm: "http_remove_func f st = Inr st'"
  shows "registered st' h2 \<and> func_http st' f = []"
proof -
  from f rm obtain r where r: "reg_remove (map comp_key (hi_path h1)) h1 (w_reg st) = Inr r"
    and st': "st' = st\<lparr>w_reg := r, w_http := (w_http st)(f := Some [])\<rparr>"
    by (auto simp: http_remove_func_def)
  from reg_has_remove [OF r] h2 have "reg_has (map comp_key (hi_path h2)) h2 r"
    by (auto simp: registered_def)
  with st' show ?thesis by (simp add: registered_def func_http_def)
qed

section \<open>Literal components\<close>

lemma undollar_not [simp]: "c \<noteq> CHR ''$'' \<Longrightarrow> undollar (c # cs) = c # undollar cs"
  by (cases cs) auto

lemma lit_ok_not [simp]: "c \<noteq> CHR ''$'' \<Longrightarrow> lit_ok (c # cs) = lit_ok cs"
  by simp

lemma undollar_dd: "undollar (CHR ''$'' # CHR ''$'' # r) = CHR ''$'' # undollar r"
  by simp

lemma dollar_escape_lit: "lit_ok (dollar_escape x) \<and> undollar (dollar_escape x) = x"
  by (induction x) (auto simp: dollar_escape_def undollar_dd simp del: undollar.simps(2))

lemma re_component_escape: "re_component (dollar_escape x) = Some (MPath (dollar_escape x))"
proof (cases x)
  case (Cons c y)
  show ?thesis
  proof (cases "c = CHR ''$''")
    case True
    let ?r = "strip_nl (CHR ''$'' # dollar_escape y)"
    have "?r \<noteq> [] \<and> hd ?r = CHR ''$''"
      by (cases "dollar_escape y" rule: rev_cases) (auto simp: strip_nl_def)
    then have "\<not> list_all is_digit ?r" "\<not> is_word_start (hd ?r)"
      by (cases ?r; simp add: is_digit_def is_word_start_def)+
    with True Cons dollar_escape_lit [of x] show ?thesis
      by (simp add: re_component_def dollar_escape_def Let_def)
  next
    case False
    with Cons dollar_escape_lit [of x] show ?thesis
      by (simp add: re_component_def dollar_escape_def)
  qed
qed (simp add: re_component_def dollar_escape_def)

text \<open>
  C19: a path component that writes each \<open>$\<close> as \<open>$$\<close> is parsed as the literal it escapes, whatever its characters, and binds no parameter.
\<close>

theorem parse_component_literal: "parse_component sp (dollar_escape x) st = Inr (Lit x, st)"
  by (simp add: parse_component_def re_component_escape dollar_escape_lit)

section \<open>Cleared registry\<close>

lemma variants_empty: "variants comps (Reg [] []) = (if comps = [] then [Reg [] []] else [])"
proof -
  have step: "variants_step c [Reg [] []] = []" "variants_step c [] = []" for c
    by (simp_all add: variants_step_def reg_child_def)
  have "foldl (\<lambda>vs c. variants_step c vs) [] cs = []" for cs
    by (induction cs) (simp_all add: step)
  then show ?thesis by (cases comps) (simp_all add: variants_def step)
qed

lemma parse_qs_fields_lenient: "\<exists>ps. parse_qs_fields keep False fs = Inr ps"
  by (induction fs) (auto split: prod.splits)

lemma get_http_handlers_empty: "w_reg st = Reg [] [] \<Longrightarrow> get_http_handlers st u = Inr []"
proof -
  assume e: "w_reg st = Reg [] []"
  have q: "\<exists>ps. (case snd (split_query u) of None \<Rightarrow> Inr [] | Some q \<Rightarrow> parse_qsl False False q) = Inr ps"
    using parse_qs_fields_lenient by (auto simp: parse_qsl_def split: option.splits)
  then obtain ps where "(case snd (split_query u) of None \<Rightarrow> Inr [] | Some q \<Rightarrow> parse_qsl False False q) = Inr ps" ..
  with e show ?thesis
    by (simp add: get_http_handlers_def variants_empty reg_list_def Let_def case_prod_unfold)
qed

text \<open>
  C20: after \<open>http_clear\<close> no URL has a handler: \<open>invoke\<close> raises \<open>Http404\<close> for every URL.
\<close>

theorem http_clear_no_handlers: "http_clear st = Inr st' \<Longrightarrow> invoke_target st' u = Inl Http404"
  by (auto simp: http_clear_def invoke_target_def get_http_handlers_empty)

section \<open>Witnesses\<close>

theorem http_info_registers_witness:
  "\<exists>h st'. http_info 1 spec_id ''item/$id'' ExtNone [] web_empty = Inr (h, st') \<and>
           registered st' h \<and> func_http st' 1 = [h]"
proof -
  have "case http_info 1 spec_id ''item/$id'' ExtNone [] web_empty of Inl _ \<Rightarrow> False | Inr _ \<Rightarrow> True"
    by code_simp
  then obtain h st' where r: "http_info 1 spec_id ''item/$id'' ExtNone [] web_empty = Inr (h, st')"
    by (blast dest: Inr_pair_exists)
  have "func_http web_empty 1 = []" by (simp add: func_http_def web_empty_def)
  with http_info_registers [OF r] r show ?thesis by auto
qed

theorem http_info_binds_required_witness:
  "\<exists>h st'. http_info 1 spec_id ''item/$id'' ExtNone [] web_empty = Inr (h, st') \<and>
           (Par (Idx 0) \<in> set (hi_path h) \<or> Par (Idx 0) \<in> snd ` set (hi_query h))"
proof -
  have "case http_info 1 spec_id ''item/$id'' ExtNone [] web_empty of Inl _ \<Rightarrow> False | Inr _ \<Rightarrow> True"
    by code_simp
  then obtain h st' where r: "http_info 1 spec_id ''item/$id'' ExtNone [] web_empty = Inr (h, st')"
    by (blast dest: Inr_pair_exists)
  have "0 < length (as_names spec_id) - length (as_defaults spec_id)" by (simp add: spec_id_def)
  with http_info_binds_required [OF r] r show ?thesis by blast
qed

theorem http_remove_func_leaves_registered_witness:
  "w_http web_two 1 = Some (hd (func_http web_two 1) # tl (func_http web_two 1)) \<and>
   registered web_two (last (func_http web_two 1)) \<and>
   (\<exists>st'. http_remove_func 1 web_two = Inr st' \<and>
          registered st' (last (func_http web_two 1)) \<and> func_http st' 1 = [] \<and>
          invoke_target st' ''/a/5'' = Inr (last (func_http web_two 1), [Some ''5''], []) \<and>
          http_remove_url ''/a/5'' st' = Inl (ValueError ''list.remove(x): x not in list''))"
proof -
  have f: "w_http web_two 1 = Some (hd (func_http web_two 1) # tl (func_http web_two 1))" by code_simp
  have m: "last (func_http web_two 1) \<in> set (tl (func_http web_two 1))" by code_simp
  have r: "registered web_two (last (func_http web_two 1))" by code_simp
  have d: "last (func_http web_two 1) \<noteq> hd (func_http web_two 1)" by code_simp
  have "case http_remove_func 1 web_two of Inl _ \<Rightarrow> False | Inr _ \<Rightarrow> True" by code_simp
  then obtain st' where rm: "http_remove_func 1 web_two = Inr st'" by (cases "http_remove_func 1 web_two") auto
  have i0: "invoke_target (projr (http_remove_func 1 web_two)) ''/a/5'' =
      Inr (last (func_http web_two 1), [Some ''5''], [])"
    by code_simp
  have "case http_remove_url ''/a/5'' (projr (http_remove_func 1 web_two)) of
          Inl err \<Rightarrow> err = ValueError ''list.remove(x): x not in list'' | Inr _ \<Rightarrow> False"
    by code_simp
  then have e0: "http_remove_url ''/a/5'' (projr (http_remove_func 1 web_two)) =
      Inl (ValueError ''list.remove(x): x not in list'')"
    by (auto split: sum.splits)
  from i0 e0 rm have i: "invoke_target st' ''/a/5'' = Inr (last (func_http web_two 1), [Some ''5''], [])"
    and e: "http_remove_url ''/a/5'' st' = Inl (ValueError ''list.remove(x): x not in list'')"
    by simp_all
  from http_remove_func_leaves_registered [OF f m r d rm] f r rm i e show ?thesis by blast
qed

theorem http_clear_no_handlers_witness:
  "\<exists>st'. http_clear web_two = Inr st' \<and> invoke_target st' ''/a/5'' = Inl Http404"
proof -
  have "case http_clear web_two of Inl _ \<Rightarrow> False | Inr _ \<Rightarrow> True" by code_simp
  then obtain st' where c: "http_clear web_two = Inr st'" by (cases "http_clear web_two") auto
  with http_clear_no_handlers [OF c] show ?thesis by blast
qed

end
