(* ===== verification/LegacyQuery.thy ===== *)
theory LegacyQuery
  imports Schema
begin

text \<open>
  The \<open>Query\<close> object of the older translator \<open>src/pony/sqltranslator.py\<close> (lines 45--147)
  and the helpers of that module the query reads (lines 149--190). A query keeps its
  translated SQL AST and two settings: an ordering (\<open>orderby\<close>) and a window of rows
  \<open>(start, stop)\<close> (\<open>__getitem__\<close>, \<open>limit\<close>); each call returns a new query with the
  setting replaced, and \<open>__iter__\<close> appends the ORDER BY and LIMIT sections to the SQL.
  The database's reading of \<open>LIMIT\<close> (\<open>sqlite_window\<close>) is the semantics the lemmas
  compare the windows with: slicing a query is slicing the list of its rows.
\<close>

section \<open>The query's settings\<close>

text \<open>\<open>query._order\<close> (\<open>None\<close>, here the empty list, or the pairs of attribute and
  ascending flag) and \<open>query._limit\<close> (\<open>None\<close> or \<open>(start, stop)\<close>).\<close>

record query =
  q_order :: "(attribute \<times> bool) list"
  q_limit :: "(int \<times> int) option"

text \<open>The key of \<open>query[key]\<close>: a slice object with its three optional fields, a value
  with \<open>__index__\<close> or \<open>__int__\<close> (its integer), or another value.\<close>

datatype qkey = QSlice "int option" "int option" "int option" | QIndex int | QNoIndex

section \<open>Query.__getitem__ and Query.limit (lines 113--145)\<close>

text \<open>The tail of \<open>__getitem__\<close>: a window taken from the current one is shifted by its
  start and cut at its stop; an empty window is \<open>(0, 0)\<close>.\<close>

definition compose_limit :: "(int \<times> int) option \<Rightarrow> int \<Rightarrow> int \<Rightarrow> int \<times> int" where
  "compose_limit lim start stop =
     (let (start', stop') = (case lim of
                               None \<Rightarrow> (start, stop)
                             | Some (prev_start, prev_stop) \<Rightarrow> (prev_start + start, min prev_stop (prev_start + stop)))
      in if stop' \<le> start' then (0, 0) else (start', stop'))"

text \<open>
  \<open>Query.__getitem__\<close> on the query's window, returning the new one. After a missing
  start became 0, the code's test \<open>if start is None: return query\<close> can never hold, so
  a missing stop takes the current window's stop or raises \<open>TypeError\<close>.
\<close>

fun query_getitem :: "(int \<times> int) option \<Rightarrow> qkey \<Rightarrow> (int \<times> int) result" where
  "query_getitem lim (QSlice a b c) =
     (if c \<noteq> None \<and> c \<noteq> Some 1 then Inl (TypeError ''Parameter 'step' of slice object is not allowed here'')
      else if (case a of None \<Rightarrow> False | Some s \<Rightarrow> s < 0)
      then Inl (TypeError ''Parameter 'start' of slice object cannot be negative'')
      else
        (let start = (case a of None \<Rightarrow> 0 | Some s \<Rightarrow> s)
         in case b of
              Some stop \<Rightarrow> Inr (compose_limit lim start stop)
            | None \<Rightarrow> (case lim of
                         None \<Rightarrow> Inl (TypeError ''Parameter 'stop' of slice object should be specified'')
                       | Some (_, prev_stop) \<Rightarrow> Inr (compose_limit lim start prev_stop))))"
| "query_getitem lim (QIndex i) = Inr (compose_limit lim i (i + 1))"
| "query_getitem lim QNoIndex = Inl (TypeError ''Incorrect argument type'')"

definition getitem :: "query \<Rightarrow> qkey \<Rightarrow> query result" where
  "getitem q key = rbind (query_getitem (q_limit q) key) (\<lambda>l. Inr (q\<lparr>q_limit := Some l\<rparr>))"

text \<open>\<open>Query.limit(limit, offset=None)\<close>: \<open>query[start:start + limit]\<close> with
  \<open>start = offset or 0\<close>.\<close>

definition query_limit :: "query \<Rightarrow> int \<Rightarrow> int option \<Rightarrow> query result" where
  "query_limit q lim off =
     (let start = (case off of None \<Rightarrow> 0 | Some n \<Rightarrow> n)
      in getitem q (QSlice (Some start) (Some (start + lim)) None))"

section \<open>Query.orderby (lines 98--112)\<close>

text \<open>An argument of \<open>orderby\<close>: an attribute, a \<open>DescWrapper\<close> of one, or anything else.\<close>

datatype oarg = OAttr attribute | ODesc attribute | OOther

fun order_items :: "(string \<Rightarrow> attribute option) \<Rightarrow> string \<Rightarrow> oarg list \<Rightarrow> (attribute \<times> bool) list result" where
  "order_items ad en [] = Inr []"
| "order_items ad en (arg # args) =
     (case arg of
        OOther \<Rightarrow> Inl (TypeError ''query.orderby() arguments must be attributes'')
      | OAttr a \<Rightarrow> (if ad (attr_name a) \<noteq> Some a
                    then Inl (TypeError (''Attribute does not belong to Entity '' @ en))
                    else rbind (order_items ad en args) (\<lambda>os. Inr ((a, True) # os)))
      | ODesc a \<Rightarrow> (if ad (attr_name a) \<noteq> Some a
                    then Inl (TypeError (''Attribute does not belong to Entity '' @ en))
                    else rbind (order_items ad en args) (\<lambda>os. Inr ((a, False) # os))))"

definition orderby :: "(string \<Rightarrow> attribute option) \<Rightarrow> string \<Rightarrow> query \<Rightarrow> oarg list \<Rightarrow> query result" where
  "orderby ad en q args =
     (if args = [] then Inl (TypeError ''query.orderby() requires at least one argument'')
      else rbind (order_items ad en args) (\<lambda>os. Inr (q\<lparr>q_order := os\<rparr>)))"

section \<open>The SQL of Query.__iter__ (lines 67--83)\<close>

definition orderby_section :: "string \<Rightarrow> (attribute \<times> bool) list \<Rightarrow> sql" where
  "orderby_section alias order =
     sqlnode ''ORDER_BY''
       (concat (map (\<lambda>(a, asc). map (\<lambda>c. Node [column alias c, Str (if asc then ''ASC'' else ''DESC'')])
                                   (attr_columns a)) order))"

definition limit_section :: "int \<times> int \<Rightarrow> sql" where
  "limit_section l =
     (let (start, stop) = l; limit = stop - start; offset = start
      in sqlnode ''LIMIT'' ([sql_value (IntV limit)] @ (if offset \<noteq> 0 then [sql_value (IntV offset)] else [])))"

definition iter_sql :: "sql list \<Rightarrow> string \<Rightarrow> query \<Rightarrow> sql list" where
  "iter_sql sql_ast alias q =
     sql_ast @ (if q_order q \<noteq> [] then [orderby_section alias (q_order q)] else [])
             @ (case q_limit q of None \<Rightarrow> [] | Some l \<Rightarrow> [limit_section l])"

section \<open>Helpers of the module (lines 149--190)\<close>

text \<open>The Python types \<open>get_normalized_type\<close> meets: \<open>NoneType\<close>, the primitive types and
  the types \<open>type_normalization_dict\<close> maps to them, an entity (by the name of its root
  entity, which \<open>are_comparable_types\<close> compares), and other types.\<close>

datatype ltype = LNone | LInt | LLong | LStr | LUnicode | LStrHtml | LHtml | LEntity string | LOther string

definition primitive_type :: "ltype \<Rightarrow> bool" where
  "primitive_type t \<longleftrightarrow> t = LInt \<or> t = LUnicode"

definition normalize_type :: "ltype \<Rightarrow> ltype result" where
  "normalize_type t =
     (if t = LNone then Inr t
      else
        (let t' = (case t of LLong \<Rightarrow> LInt | LStr \<Rightarrow> LUnicode | LStrHtml \<Rightarrow> LUnicode | LHtml \<Rightarrow> LUnicode | _ \<Rightarrow> t)
         in if \<not> primitive_type t' \<and> (case t' of LEntity _ \<Rightarrow> False | _ \<Rightarrow> True) then Inl (TypeError ''type'')
            else Inr t'))"

definition are_comparable_ltypes :: "string \<Rightarrow> ltype \<Rightarrow> ltype \<Rightarrow> bool result" where
  "are_comparable_ltypes op t1 t2 =
     (if op \<in> {''is'', ''is not''} then Inr (t1 \<noteq> LNone \<and> t2 = LNone)
      else if op \<in> {''<'', ''<='', ''>'', ''>=''} then Inr (t1 = t2 \<and> primitive_type t1)
      else if op \<in> {''=='', ''<>'', ''!=''} then
        Inr (if t1 = LNone \<and> t2 = LNone then False
             else if t1 = LNone \<or> t2 = LNone then True
             else if primitive_type t1 then t1 = t2
             else (case t1 of
                     LEntity r1 \<Rightarrow> (case t2 of LEntity r2 \<Rightarrow> r1 = r2 | _ \<Rightarrow> False)
                   | _ \<Rightarrow> False))
      else Inl AssertionError)"

definition legacy_sqland :: "sql list \<Rightarrow> sql" where
  "legacy_sqland items = (if length items = 1 then hd items else sqlnode ''AND'' items)"

definition legacy_sqlor :: "sql list \<Rightarrow> sql" where
  "legacy_sqlor items = (if length items = 1 then hd items else sqlnode ''OR'' items)"

definition legacy_join_tables ::
  "sql list \<Rightarrow> string \<Rightarrow> string \<Rightarrow> string list \<Rightarrow> string list \<Rightarrow> sql list result" where
  "legacy_join_tables conditions alias1 alias2 columns1 columns2 =
     (if length columns1 \<noteq> length columns2 then Inl AssertionError
      else Inr (conditions @ map (\<lambda>(c1, c2). sqlnode ''EQ'' [column alias1 c1, column alias2 c2])
                                 (zip columns1 columns2)))"

section \<open>The database's LIMIT\<close>

text \<open>
  Not code of the repository: \<open>LIMIT n OFFSET m\<close> as SQLite reads it (a negative limit
  is no limit, a negative offset is 0), and the rows a query's window selects from the
  rows of its unwindowed SQL.
\<close>

definition sqlite_window :: "int \<Rightarrow> int \<Rightarrow> 'a list \<Rightarrow> 'a list" where
  "sqlite_window l off rows = (let r = drop (nat off) rows in if l < 0 then r else take (nat l) r)"

fun limit_rows :: "sql \<Rightarrow> 'a list \<Rightarrow> 'a list option" where
  "limit_rows (Node [Str t, Node [Str v, IntV l]]) rows =
     (if t = ''LIMIT'' \<and> v = ''VALUE'' then Some (sqlite_window l 0 rows) else None)"
| "limit_rows (Node [Str t, Node [Str v, IntV l], Node [Str w, IntV off]]) rows =
     (if t = ''LIMIT'' \<and> v = ''VALUE'' \<and> w = ''VALUE'' then Some (sqlite_window l off rows) else None)"
| "limit_rows _ rows = None"

definition query_rows :: "(int \<times> int) option \<Rightarrow> 'a list \<Rightarrow> 'a list option" where
  "query_rows lim rows = (case lim of None \<Rightarrow> Some rows | Some l \<Rightarrow> limit_rows (limit_section l) rows)"

text \<open>A window \<open>__getitem__\<close> can produce from a fresh query: \<open>0 \<le> start \<le> stop\<close>.\<close>

definition wf_limit :: "(int \<times> int) option \<Rightarrow> bool" where
  "wf_limit lim \<longleftrightarrow> (case lim of None \<Rightarrow> True | Some (s, t) \<Rightarrow> 0 \<le> s \<and> s \<le> t)"

section \<open>Lemmas\<close>


lemma limit_rows_section [simp]:
  "limit_rows (limit_section (s, t)) rows = Some (sqlite_window (t - s) s rows)"
  by (simp add: limit_section_def)

lemma sqlite_window_nonneg:
  "0 \<le> l \<Longrightarrow> sqlite_window l off rows = take (nat l) (drop (nat off) rows)"
  by (simp add: sqlite_window_def)

lemma query_rows_Some:
  "0 \<le> s \<Longrightarrow> s \<le> t \<Longrightarrow> query_rows (Some (s, t)) rows = Some (take (nat t - nat s) (drop (nat s) rows))"
  by (simp add: query_rows_def sqlite_window_nonneg nat_diff_distrib)

lemma compose_limit_window:
  assumes wf: "wf_limit lim" and a: "0 \<le> a" and b: "0 \<le> b"
  shows "query_rows (Some (compose_limit lim a b)) rows
           = map_option (\<lambda>xs. py_slice xs (Some a) (Some b)) (query_rows lim rows)"
proof (cases lim)
  case None
  show ?thesis
  proof (cases "b \<le> a")
    case True
    with None a b show ?thesis
      by (simp add: compose_limit_def py_slice_nonneg query_rows_def sqlite_window_def)
  next
    case False
    then have "nat (b - a) = nat b - nat a" using a by simp
    with None False a b show ?thesis
      by (simp add: compose_limit_def py_slice_nonneg query_rows_def sqlite_window_def)
  qed
next
  case (Some l)
  obtain s t where l: "l = (s, t)" by (cases l)
  with Some wf have st: "0 \<le> s" "s \<le> t" by (auto simp: wf_limit_def)
  have w: "query_rows lim rows = Some (take (nat t - nat s) (drop (nat s) rows))"
    using Some l st query_rows_Some by simp
  have sl: "py_slice (take (nat t - nat s) (drop (nat s) rows)) (Some a) (Some b)
             = take (min (nat b - nat a) (nat t - nat s - nat a)) (drop (nat s + nat a) rows)"
    using a b by (simp add: py_slice_nonneg drop_take take_take add.commute)
  show ?thesis
  proof (cases "min t (s + b) \<le> s + a")
    case True
    have "nat t \<le> nat s + nat a \<or> nat b \<le> nat a"
    proof (cases "t \<le> s + b")
      case True': True
      with True have "t \<le> s + a" by simp
      then have "nat t \<le> nat (s + a)" by (rule nat_mono)
      with st a show ?thesis by (simp add: nat_add_distrib)
    next
      case False
      with True have "b \<le> a" by simp
      then show ?thesis by (simp add: nat_mono)
    qed
    then have "min (nat b - nat a) (nat t - nat s - nat a) = 0" by auto
    with True Some l w sl show ?thesis
      by (simp add: compose_limit_def query_rows_def sqlite_window_def)
  next
    case False
    then have c: "compose_limit lim a b = (s + a, min t (s + b))" using Some l by (simp add: compose_limit_def)
    obtain S T A B :: nat where i: "s = int S" "t = int T" "a = int A" "b = int B"
      using st a b by (metis nonneg_int_cases order_trans)
    have e1: "nat (min t (s + b)) - nat (s + a) = min (nat b - nat a) (nat t - nat s - nat a)"
      using False unfolding i by (cases "T \<le> S + B") (simp_all add: min_def nat_add_distrib, linarith)
    have e2: "nat (s + a) = nat s + nat a" using st a by (simp add: nat_add_distrib)
    have "query_rows (Some (compose_limit lim a b)) rows
            = Some (take (nat (min t (s + b)) - nat (s + a)) (drop (nat (s + a)) rows))"
      unfolding c using False st a by (intro query_rows_Some) auto
    moreover have "take (nat (min t (s + b)) - nat (s + a)) (drop (nat (s + a)) rows)
                     = py_slice (take (nat t - nat s) (drop (nat s) rows)) (Some a) (Some b)"
      by (simp only: e1 [unfolded e2] e2 sl)
    ultimately show ?thesis by (simp only: w option.map)
  qed
qed

lemma compose_limit_wf:
  assumes "wf_limit lim" "0 \<le> a"
  shows "wf_limit (Some (compose_limit lim a b))"
  using assms by (cases lim) (auto simp: compose_limit_def wf_limit_def Let_def split: if_splits)

lemma getitem_compose:
  "c = None \<or> c = Some 1 \<Longrightarrow> 0 \<le> a \<Longrightarrow>
   getitem q (QSlice (Some a) (Some b) c) = Inr (q\<lparr>q_limit := Some (compose_limit (q_limit q) a b)\<rparr>)"
  by (cases "compose_limit (q_limit q) a b") (auto simp: getitem_def)

text \<open>The older \<open>sqland\<close>/\<open>sqlor\<close> do not splice nested items, and still mean the
  three-valued AND/OR of their items on a non-empty list.\<close>

lemma legacy_sqland_sem:
  assumes "items \<noteq> []"
  shows "eval3 r (legacy_sqland items) = and3_list (map (eval3 r) items)"
proof (cases "length items = 1")
  case True
  then obtain x where "items = [x]" by (cases items) auto
  then show ?thesis by (cases "eval3 r x") (simp_all add: legacy_sqland_def lift2_def)
next
  case False
  with assms show ?thesis by (simp add: legacy_sqland_def)
qed

lemma legacy_sqlor_sem:
  assumes "items \<noteq> []"
  shows "eval3 r (legacy_sqlor items) = or3_list (map (eval3 r) items)"
proof (cases "length items = 1")
  case True
  then obtain x where "items = [x]" by (cases items) auto
  then show ?thesis by (cases "eval3 r x") (simp_all add: legacy_sqlor_def lift2_def)
next
  case False
  with assms show ?thesis by (simp add: legacy_sqlor_def)
qed

lemma normalize_type_idem: "normalize_type t = Inr t' \<Longrightarrow> normalize_type t' = Inr t'"
  by (cases t) (auto simp: normalize_type_def primitive_type_def split: if_splits)

section \<open>Properties\<close>

text \<open>C35: Slicing a query with non-negative bounds (\<open>Query.__getitem__\<close>) and then running it
  (the \<open>LIMIT\<close> section of \<open>__iter__\<close>) gives Python's slice of the rows the query gave before,
  and the new window is again one \<open>__getitem__\<close> can slice: chains of slices compose.\<close>

theorem getitem_slice_rows:
  assumes "wf_limit (q_limit q)" "0 \<le> a" "0 \<le> b" "c = None \<or> c = Some 1"
  shows "\<exists>q'. getitem q (QSlice (Some a) (Some b) c) = Inr q' \<and> q_order q' = q_order q \<and>
              wf_limit (q_limit q') \<and>
              query_rows (q_limit q') rows = map_option (\<lambda>xs. py_slice xs (Some a) (Some b)) (query_rows (q_limit q) rows)"
  using assms getitem_compose [OF assms(4,2)] compose_limit_wf [OF assms(1,2)]
        compose_limit_window [OF assms(1-3)]
  by simp

text \<open>A negative index is not refused as a negative slice start is: \<open>q[-1]\<close> on a fresh
  query becomes the window \<open>(-1, 0)\<close>, \<open>LIMIT 1 OFFSET -1\<close>, which gives the first row,
  where the last row is Python's \<open>[...][-1]\<close>.\<close>

theorem getitem_negative_index:
  "getitem \<lparr>q_order = [], q_limit = None\<rparr> (QIndex (-1)) = Inr \<lparr>q_order = [], q_limit = Some (-1, 0)\<rparr>
   \<and> limit_section (-1, 0) = sqlnode ''LIMIT'' [sql_value (IntV 1), sql_value (IntV (-1))]
   \<and> query_rows (Some (-1, 0)) [1, 2, 3::int] = Some [1] \<and> py_index [1, 2, 3::int] (-1) = Inr 3"
  by (simp add: getitem_def compose_limit_def limit_section_def query_rows_def sqlite_window_def py_index_def)

section \<open>Witnesses\<close>

theorem getitem_slice_rows_witness:
  "wf_limit (Some (2, 10)) \<and> 0 \<le> (1::int) \<and> 0 \<le> (3::int) \<and>
   getitem \<lparr>q_order = [], q_limit = Some (2, 10)\<rparr> (QSlice (Some 1) (Some 3) None)
     = Inr \<lparr>q_order = [], q_limit = Some (3, 5)\<rparr> \<and>
   query_rows (Some (3, 5)) [0..<12] = Some [3, 4]"
proof -
  have "wf_limit (Some (2, 10))" by (simp add: wf_limit_def)
  from getitem_slice_rows [of "\<lparr>q_order = [], q_limit = Some (2, 10)\<rparr>" 1 3 None "[0..<12]", simplified, OF this]
  obtain q' where g: "getitem \<lparr>q_order = [], q_limit = Some (2, 10)\<rparr> (QSlice (Some 1) (Some 3) None) = Inr q'"
    and r: "query_rows (q_limit q') [0..<12] = map_option (\<lambda>xs. py_slice xs (Some 1) (Some 3)) (query_rows (Some (2, 10)) [0..<12])"
    by auto
  have q': "q' = \<lparr>q_order = [], q_limit = Some (3, 5)\<rparr>"
    using g by (simp add: getitem_def compose_limit_def)
  have "query_rows (Some (2, 10)) [0..<12] = Some [2..<10]"
    by (simp add: query_rows_def limit_section_def sqlite_window_def upt_conv_Cons)
  with r q' have "query_rows (Some (3, 5)) [0..<12] = Some [3, 4]"
    by (simp add: py_slice_def py_bound_def upt_conv_Cons)
  with g q' show ?thesis by (simp add: wf_limit_def)
qed

end
