(* ===== verification/Spec2Isabelle.thy ===== *)
theory Spec2Isabelle
  imports Walker Web LegacyQuery
begin

text \<open>
  A verification development of pony's query translator and of its URL router
  (the sources under \<open>src/\<close>). A query \<open>select(s for s in Student if ...)\<close> is
  decompiled to a Python 2 AST (outside the sources); \<open>src/pony/orm/sqltranslation.py\<close>
  walks that AST with a \<open>SQLTranslator\<close>, turning every node into a monad (an
  intermediate value that knows its type and its SQL), keeps the query's subqueries and
  table references, joins a table the first time a column of it is needed, and builds
  SQL as nested lists of tags. \<open>src/pony/sqltranslator.py\<close> is the older translator
  with its \<open>Query\<close> object (ordering and row windows). \<open>src/pony/web.py\<close> is the
  HTTP dispatcher: handlers registered under URL patterns, dispatch of a URL to them,
  and \<open>url()\<close> building the URL of a call.

  \<^bold>\<open>Theories.\<close>
  \<^item> \<open>Prelude\<close>: Python's exceptions as the left side of the result type
    \<open>'a result = py_error + 'a\<close> with its bind \<open>rbind\<close>, list slicing and indexing,
    dicts from pairs; the \<open>py_simps\<close> collection and the generic lemmas.
  \<^item> \<open>SqlAst\<close>: the SQL AST (\<open>sql\<close>), \<open>sqland\<close>, \<open>sqlor\<close>, \<open>join_tables\<close> and the
    negation tables (lines 32--52, 1259--1285), and \<open>eval3\<close>, SQL's three-valued
    semantics of the boolean fragment, which the builders are proved against.
  \<^item> \<open>Schema\<close>: entities and attributes as the translator reads them (from the spec's
    data model; \<open>pony/orm/core.py\<close> is not among the sources) and the example schema of
    \<open>src/old/models/model1.py\<close>.
  \<^item> \<open>Subqueries\<close>: \<open>Subquery\<close> (lines 533--577) over explicit stores: the subqueries by
    number, the table references by (subquery, name path); \<open>get_short_alias\<close>,
    \<open>get_tableref\<close>, \<open>add_tableref\<close>.
  \<^item> \<open>TableRefs\<close>: \<open>TableRef.make_join\<close> and \<open>JoinedTableRef.make_join\<close> (lines 578--665)
    and the reachable states of the translator's operations (an inductive set).
  \<^item> \<open>Monads\<close> and \<open>Operations\<close>: the monad classes as one datatype \<open>monad\<close>, their
    \<open>getsql\<close>, comparisons, boolean connectives and negation, and the operations of the
    numeric, string and date flavours, lists, aggregates and special functions (lines
    685--1485); SQLite's \<open>substr\<close> and SQL's \<open>LIKE\<close> as the semantics of the string
    operations.
  \<^item> \<open>Walker\<close>: \<open>SQLTranslator.dispatch\<close>, \<open>call\<close> and the pre/post handlers (lines
    66--137, 402--531) as one mutually recursive \<open>walk\<close> over the host expression.
  \<^item> \<open>LegacyQuery\<close>: \<open>Query.__getitem__\<close>, \<open>limit\<close>, \<open>orderby\<close> and the SQL sections of
    \<open>__iter__\<close> of \<open>src/pony/sqltranslator.py\<close>, with SQLite's \<open>LIMIT\<close>/\<open>OFFSET\<close>.
  \<^item> \<open>PyStr\<close> and \<open>Web\<close>: the Python 2 library functions the router calls (from the
    spec) and the router of \<open>src/pony/web.py\<close>: \<open>HttpInfo\<close>, the registry tree,
    \<open>get_http_handlers\<close>, \<open>invoke\<close>, \<open>url\<close>/\<open>build_url\<close>, \<open>http_remove\<close>, \<open>http_clear\<close>.

  Python objects with identity (subqueries, table references, handler functions) are
  entries of explicit stores, keyed as the code files them; methods that mutate them
  take and return the state; every \<open>raise\<close>, \<open>assert\<close> and \<open>throw\<close> is an \<open>Inl\<close> of the
  result, so each error path is a branch of the model.

  \<^bold>\<open>What the lemmas show.\<close> The SQL builders mean AND, OR and the join condition (C1--C3);
  generated aliases are distinct and bounded, identifiers are kept (C4, C5, C36); a
  table reference is found after it is added, and a duplicate is refused (C6, C7);
  joins are idempotent, terminate on every reachable state, build the right FROM entry,
  skip the join when the key is in the parent row, only move a reference forward,
  keep parent chains acyclic and only append to FROM lists (C8--C14); negating a
  comparison negates its SQL (C15); the router files handlers and binds every required
  parameter (C16, C17), \<open>http_remove(func)\<close> leaves the function's other patterns
  registered (C18), a \<open>$$\<close>-escaped component is a literal (C19), and after
  \<open>http_clear\<close> no URL has a handler (C20); string
  slicing, indexing, \<open>startswith\<close>, \<open>endswith\<close> and \<open>in\<close> build SQL whose database value
  is Python's, with the exceptions the code has (C21--C28); result types of arithmetic
  and \<open>min\<close>/\<open>max\<close> (C29, C30); aggregates are marked and never nested, also through the
  whole walk (C31, C33, C34); \<open>in\<close>/\<open>not in\<close> over a list (C32); slicing a query is
  slicing its rows (C35). Each claim with a hypothesis has a witness at a concrete
  input.

  \<^bold>\<open>Fuel.\<close> \<open>make_join\<close> follows the chain of parent table references; it is written
  with fuel, one unit per step to a parent, and \<open>OutOfFuel\<close> when it runs out.
  \<open>make_join_enough_fuel\<close> shows that fuel one more than the length of the chain
  never runs out, and \<open>make_join_fuel_mono\<close> that more fuel gives the same result, so
  on every reachable state (where chains are acyclic, C13) the fuelled function is the
  code's recursion (C9). The operations above \<open>make_join\<close> pass the fuel through.

  \<^bold>\<open>Not modelled.\<close> The translator's driver (\<open>SQLTranslator.__init__\<close>, the qualifier
  and selector passes and \<open>construct_sql_ast\<close>, lines 138--400): it consumes the output
  of \<open>pony.decompiling\<close> and builds extractors with Python's \<open>eval\<close>, neither among
  the sources. The set and query-set monads (\<open>AttrSetMonad\<close>, \<open>QuerySetMonad\<close>,
  generator subqueries) and the special functions that take them, which need the driver.
  Date and datetime constants, \<open>Decimal\<close> and \<open>buffer\<close> (no such values in the
  model). The older translator's own \<open>SQLTranslator\<close> and monads, a copy of the modelled
  one, and \<open>Query.__iter__\<close>'s execution and fetching (database I/O). The router's
  \<open>link\<close> (HTML templating, not among the sources), the WSGI application, the server
  threads and unicode URLs. \<open>src/pony/layout\<close> (lxml rewriting of HTML layouts),
  outside the spec's scope.
\<close>

end
